(* ===== verification/Errors.thy ===== *)
theory Errors
  imports "HOL-Library.Word"
begin

text \<open>
  Errors.  The error values of the program: the variants of \<open>PoolError\<close>
  (\<open>error.rs\<close>) in the order of the source, and the ways in which an instruction
  of the program can fail.  Returning \<open>Err(PoolError::X)\<close> is \<open>Pool X\<close>.  A panic
  of the Rust code (an arithmetic overflow of a native operator, which the
  release profile checks, a failed \<open>unwrap\<close> or \<open>assert!\<close>, an index out of
  bounds) aborts the transaction; it is the value \<open>Panicked\<close>, kept apart from
  the errors the program returns on purpose.
\<close>

datatype (plugins only: code size) pool_error =
    MathOverflow
  | InvalidFee
  | ExceededSlippage
  | ExceedMaxFeeBps
  | InvalidAdmin
  | AmountIsZero
  | TypeCastFailed
  | InvalidActivationType
  | InvalidQuoteMint
  | InvalidCollectFeeMode
  | InvalidMigrationFeeOption
  | InvalidInput
  | NotEnoughLiquidity
  | PoolIsCompleted
  | PoolIsIncompleted
  | InvalidMigrationOption
  | InvalidTokenDecimals
  | InvalidTokenType
  | InvalidFeePercentage
  | InvalidQuoteThreshold
  | InvalidTokenSupply
  | InvalidCurve
  | NotPermitToDoThisAction
  | InvalidOwnerAccount
  | InvalidConfigAccount
  | SurplusHasBeenWithdraw
  | LeftoverHasBeenWithdraw
  | TotalBaseTokenExceedMaxSupply
  | UnsupportNativeMintToken2022
  | InsufficientLiquidityForMigration
  | MissingPoolConfigInRemainingAccount
  | InvalidVestingParameters
  | InvalidLeftoverAddress
  | InsufficientLiquidity
  | InvalidFeeScheduler
  | InvalidCreatorTradingFeePercentage
  | InvalidNewCreator
  | InvalidTokenAuthorityOption
  | InvalidAccount
  | InvalidMigratorFeePercentage
  | MigrationFeeHasBeenWithdraw
  | InvalidBaseFeeMode
  | InvalidFeeRateLimiter
  | FailToValidateSingleSwapInstruction
  | InvalidMigratedPoolFee
  | UndeterminedError
  | RateLimiterNotSupported
  | AmountLeftIsNotZero
  | NextSqrtPriceIsSmallerThanStartSqrtPrice
  | InvalidMinBaseFee
  | AccountInvariantViolation
  | InvalidPoolCreationFee
  | PoolCreationFeeHasBeenClaimed
  | Unauthorized
  | ZeroPoolCreationFee
  | InvalidMigrationLockedLiquidity
  | InvalidFeeMarketCapScheduler
  | FirstSwapValidationFailed
  | IncorrectATA
  | InsufficientPoolLamports
  | InvalidPermission
  | InvalidWithdrawProtocolFeeZapAccounts
  | MintRestrictedFromZap
  | InvalidZapOutParameters
  | CpiDisabled
  | MissingZapOutInstruction
  | InvalidZapAccounts
  | InvalidCompoundingParameters
  | InvalidClaimProtocolFeeAccounts
  | InvalidInstructionsSysvar
  | InvalidRemainingAccountsLength
  | MissingRemainingAccountForTransferHook
  | NoTransferHookProgram
  | DuplicatedRemainingAccountTypes
  | InvalidTransferHookProgram
  | InvalidPoolAccount
  | PoolTypeMismatch
  | InvalidRemainingAccountSliceType
  | SellDisabled
  | InvalidDeadlineTimestamp

text \<open>
  An instruction fails with a \<open>PoolError\<close>, by a constraint of the account
  framework that the handler's account list declares, by the failure of a call to
  another program or of the runtime, or by a panic.
\<close>

datatype prog_error =
    Pool pool_error
  | ConstraintViolated
  | CallFailed
  | Panicked

end
