(* ===== verification/Prelude.thy ===== *)
theory Prelude
  imports Errors "HOL-Library.Word"
begin

text \<open>
  Prelude.  What every component shares: the machine integers of the program,
  the result type of fallible code with its sequencing operator, and the
  generic facts about words, sums and integer division that the proofs of the
  components apply by simplification.
\<close>

section \<open>Machine integers\<close>

type_synonym u8 = "8 word"
type_synonym u16 = "16 word"
type_synonym u32 = "32 word"
type_synonym u64 = "64 word"
type_synonym u128 = "128 word"
type_synonym u256 = "256 word"
type_synonym u512 = "512 word"
type_synonym pubkey = "256 word"

text \<open>The facts that turn a goal about words into one about naturals.\<close>

named_theorems word_nat
named_theorems guard

declare word_less_nat_alt [word_nat]
declare word_le_nat_alt [word_nat]
declare word_unat_eq_iff [word_nat]

lemma unat_upcast [simp]:
  fixes x :: "'a::len word"
  assumes "LENGTH('a) \<le> LENGTH('b)"
  shows "unat (ucast x :: 'b::len word) = unat x"
proof -
  have "unat x < 2 ^ LENGTH('a)" by simp
  also have "\<dots> \<le> 2 ^ LENGTH('b)" using assms by simp
  finally show ?thesis by (simp add: unsigned_ucast_eq take_bit_nat_eq_self)
qed

lemma unat_ucast_small:
  fixes x :: "'a::len word"
  assumes "unat x < 2 ^ LENGTH('b)"
  shows "unat (ucast x :: 'b::len word) = unat x"
  using assms by (simp add: unsigned_ucast_eq take_bit_nat_eq_self)

lemma unat_add_small:
  fixes a b :: "'w::len word"
  assumes "unat a + unat b < 2 ^ LENGTH('w)"
  shows "unat (a + b) = unat a + unat b"
  using assms by (simp add: unat_word_ariths)

lemma unat_mul_small:
  fixes a b :: "'w::len word"
  assumes "unat a * unat b < 2 ^ LENGTH('w)"
  shows "unat (a * b) = unat a * unat b"
  using assms by (simp add: unat_word_ariths)

lemma unat_sub_le:
  fixes a b :: "'w::len word"
  assumes "unat b \<le> unat a"
  shows "unat (a - b) = unat a - unat b"
  using assms by (simp add: unat_sub word_le_nat_alt)

lemma unat_of_nat_small:
  assumes "n < 2 ^ LENGTH('w)"
  shows "unat (of_nat n :: 'w::len word) = n"
  using assms by (simp add: unat_of_nat take_bit_nat_eq_self)

lemma unat_lt_2p: "unat (x :: 'w::len word) < 2 ^ LENGTH('w)"
  by simp

lemma unat_le_max: "unat (x :: 'w::len word) \<le> 2 ^ LENGTH('w) - 1"
proof -
  have "unat x < 2 ^ LENGTH('w)" by simp
  then show ?thesis by linarith
qed

text \<open>The range of each machine integer, with the power evaluated.\<close>

lemma unat_range [simp]:
  "unat (w8 :: u8) < 256"
  "unat (w16 :: u16) < 65536"
  "unat (w32 :: u32) < 4294967296"
  "unat (w64 :: u64) < 18446744073709551616"
  "unat (w128 :: u128) < 340282366920938463463374607431768211456"
  "unat (w256 :: u256) < 115792089237316195423570985008687907853269984665640564039457584007913129639936"
  "unat (w512 :: u512) < 13407807929942597099574024998205846127479365820592393377723561443721764030073546976801874298166903427690031858186486050853753882811946569946433649006084096"
  using unat_lt_2p [of w8] unat_lt_2p [of w16] unat_lt_2p [of w32] unat_lt_2p [of w64]
    unat_lt_2p [of w128] unat_lt_2p [of w256] unat_lt_2p [of w512]
  by simp_all

lemma unat_drop_bit: "unat (drop_bit n (x :: 'w::len word)) = unat x div 2 ^ n"
  by (simp add: unsigned_drop_bit_eq take_bit_nat_eq_self flip: drop_bit_eq_div)

lemma unat_minus_one [simp]: "unat (- 1 :: 'w::len word) = 2 ^ LENGTH('w) - 1"
  by (simp add: unsigned_minus_1_eq_mask mask_eq_exp_minus_1)

section \<open>Results\<close>

type_synonym 'a result = "prog_error + 'a"

abbreviation Ok :: "'a \<Rightarrow> 'a result" where
  "Ok \<equiv> Inr"

abbreviation err :: "pool_error \<Rightarrow> 'a result" where
  "err e \<equiv> Inl (Pool e)"

abbreviation panic :: "'a result" where
  "panic \<equiv> Inl Panicked"

text \<open>The question mark operator: an error ends the computation.\<close>

definition and_then :: "'a result \<Rightarrow> ('a \<Rightarrow> 'b result) \<Rightarrow> 'b result" where
  "and_then m f = (case m of Inl e \<Rightarrow> Inl e | Inr x \<Rightarrow> f x)"

definition require :: "bool \<Rightarrow> pool_error \<Rightarrow> unit result" where
  "require c e = (if c then Ok () else err e)"

definition has_one :: "bool \<Rightarrow> unit result" where
  "has_one c = (if c then Ok () else Inl ConstraintViolated)"

definition assert_that :: "bool \<Rightarrow> unit result" where
  "assert_that c = (if c then Ok () else panic)"

definition ok_or :: "'a option \<Rightarrow> pool_error \<Rightarrow> 'a result" where
  "ok_or m e = (case m of None \<Rightarrow> err e | Some x \<Rightarrow> Ok x)"

definition unwrap :: "'a result \<Rightarrow> 'a result" where
  "unwrap m = (case m of Inl e \<Rightarrow> panic | Inr x \<Rightarrow> Ok x)"

definition is_ok :: "'a result \<Rightarrow> bool" where
  "is_ok m = (case m of Inl _ \<Rightarrow> False | Inr _ \<Rightarrow> True)"

lemma and_then_simps [simp]:
  "and_then (Inl e) f = Inl e"
  "and_then (Inr x) f = f x"
  by (simp_all add: and_then_def)

lemma and_then_Ok_iff [simp]:
  "and_then m f = Inr y \<longleftrightarrow> (\<exists>x. m = Inr x \<and> f x = Inr y)"
  by (cases m) auto

lemma and_then_err_iff:
  "and_then m f = Inl e \<longleftrightarrow> m = Inl e \<or> (\<exists>x. m = Inr x \<and> f x = Inl e)"
  by (cases m) auto

lemma and_then_assoc:
  "and_then (and_then m f) g = and_then m (\<lambda>x. and_then (f x) g)"
  by (cases m) auto

lemma and_then_cong [fundef_cong]:
  assumes "m = m'" and "\<And>x. m' = Inr x \<Longrightarrow> f x = f' x"
  shows "and_then m f = and_then m' f'"
  using assms by (cases m') auto

lemma require_Ok_iff [simp]: "require c e = Inr u \<longleftrightarrow> c"
  by (simp add: require_def)

lemma require_err_iff: "require c e = Inl x \<longleftrightarrow> \<not> c \<and> x = Pool e"
  by (auto simp: require_def)

lemma require_eval [simp]:
  "c \<Longrightarrow> require c e = Inr ()"
  "\<not> c \<Longrightarrow> require c e = Inl (Pool e)"
  by (simp_all add: require_def)

lemma has_one_Ok_iff [simp]: "has_one c = Inr u \<longleftrightarrow> c"
  by (simp add: has_one_def)

lemma assert_that_Ok_iff [simp]: "assert_that c = Inr u \<longleftrightarrow> c"
  by (simp add: assert_that_def)

lemma assert_that_eval [simp]: "c \<Longrightarrow> assert_that c = Inr ()"
  by (simp add: assert_that_def)

lemma ok_or_Ok_iff [simp]: "ok_or m e = Inr x \<longleftrightarrow> m = Some x"
  by (cases m) (auto simp: ok_or_def)

lemma ok_or_simps [simp]:
  "ok_or None e = Inl (Pool e)"
  "ok_or (Some x) e = Inr x"
  by (simp_all add: ok_or_def)

lemma unwrap_Ok_iff [simp]: "unwrap m = Inr x \<longleftrightarrow> m = Inr x"
  by (cases m) (auto simp: unwrap_def)

lemma is_ok_iff: "is_ok m \<longleftrightarrow> (\<exists>x. m = Inr x)"
  by (cases m) (auto simp: is_ok_def)

lemma is_ok_simps [simp]: "is_ok (Inr x)" "\<not> is_ok (Inl e)"
  by (simp_all add: is_ok_def)

lemma if_err_Ok_iff [simp]:
  "(if c then Inl e else m) = Inr y \<longleftrightarrow> \<not> c \<and> m = Inr y"
  "(if c then m else Inl e) = Inr y \<longleftrightarrow> c \<and> m = Inr y"
  by auto

text \<open>Code that returns or fails on purpose, but never aborts.\<close>

definition no_panic :: "'a result \<Rightarrow> bool" where
  "no_panic m \<longleftrightarrow> m \<noteq> panic"

lemma no_panic_Ok [simp]: "no_panic (Inr x)"
  by (simp add: no_panic_def)

lemma no_panic_err [simp]: "no_panic (Inl e) \<longleftrightarrow> e \<noteq> Panicked"
  by (simp add: no_panic_def)

lemma no_panic_and_then:
  "no_panic m \<Longrightarrow> (\<And>x. m = Inr x \<Longrightarrow> no_panic (f x)) \<Longrightarrow> no_panic (and_then m f)"
  by (cases m) (auto simp: no_panic_def)

lemma no_panic_require [simp]: "no_panic (require c e)"
  by (simp add: require_def)

lemma no_panic_ok_or [simp]: "no_panic (ok_or m e)"
  by (cases m) simp_all

lemma no_panic_assert [simp]: "no_panic (assert_that c) \<longleftrightarrow> c"
  by (simp add: assert_that_def)

lemma no_panic_if: "(c \<Longrightarrow> no_panic m) \<Longrightarrow> (\<not> c \<Longrightarrow> no_panic n) \<Longrightarrow> no_panic (if c then m else n)"
  by simp

section \<open>Division with rounding\<close>

definition ceil_div :: "nat \<Rightarrow> nat \<Rightarrow> nat" where
  "ceil_div a b = (a + b - 1) div b"

lemma ceil_div_ge: "0 < b \<Longrightarrow> a \<le> b * ceil_div a b"
proof -
  assume b: "0 < b"
  have "(a + b - 1) mod b < b" using b by simp
  moreover have "b * ((a + b - 1) div b) + (a + b - 1) mod b = a + b - 1"
    by (rule mult_div_mod_eq)
  ultimately show ?thesis using b unfolding ceil_div_def by linarith
qed

lemma ceil_div_le: "0 < b \<Longrightarrow> a \<le> b * c \<Longrightarrow> ceil_div a b \<le> c"
proof -
  assume b: "0 < b" and le: "a \<le> b * c"
  have "(a + b - 1) div b \<le> (b * c + (b - 1)) div b"
    using b le by (intro div_le_mono) linarith
  also have "\<dots> = c" using b by (subst div_mult_self4) simp_all
  finally show ?thesis by (simp add: ceil_div_def)
qed

lemma ceil_div_lt: "0 < b \<Longrightarrow> b * ceil_div a b < a + b"
proof -
  assume b: "0 < b"
  have "b * ((a + b - 1) div b) \<le> a + b - 1" by (rule times_div_less_eq_dividend)
  then show ?thesis using b unfolding ceil_div_def by linarith
qed

lemma ceil_div_mono: "a \<le> a' \<Longrightarrow> ceil_div a b \<le> ceil_div a' b"
  unfolding ceil_div_def by (intro div_le_mono) linarith

lemma div_le_ceil_div: "a div b \<le> ceil_div a b"
  unfolding ceil_div_def by (cases "b = 0") (auto intro!: div_le_mono)

lemma ceil_div_0 [simp]: "0 < b \<Longrightarrow> ceil_div 0 b = 0"
  by (simp add: ceil_div_def)

lemma ceil_div_pos: "0 < b \<Longrightarrow> 0 < a \<Longrightarrow> 0 < ceil_div a b"
  using ceil_div_ge [of b a] by (cases "ceil_div a b = 0") auto

lemma div_le_of_le_mult: "0 < b \<Longrightarrow> (a::nat) \<le> b * c \<Longrightarrow> a div b \<le> c"
  using div_le_mono [of a "b * c" b] by simp

lemma le_div_of_mult_le: "0 < b \<Longrightarrow> b * c \<le> (a::nat) \<Longrightarrow> c \<le> a div b"
  using div_le_mono [of "b * c" a b] by simp

lemma mult_div_le: "b * ((a::nat) div b) \<le> a"
  by simp

lemma lt_mult_Suc_div: "0 < b \<Longrightarrow> (a::nat) < b * (a div b + 1)"
  using mod_less_divisor [of b a] mult_div_mod_eq [of b a] unfolding distrib_left mult_1_right by linarith

lemma ceil_div_div: "0 < b \<Longrightarrow> 0 < c \<Longrightarrow> ceil_div (ceil_div a b) c = ceil_div a (b * c)"
proof (rule antisym)
  assume b: "0 < b" and c: "0 < c"
  have "a \<le> b * (c * ceil_div a (b * c))"
    using ceil_div_ge [of "b * c" a] b c by (simp add: ac_simps)
  then have "ceil_div a b \<le> c * ceil_div a (b * c)" using b by (rule ceil_div_le [rotated])
  then show "ceil_div (ceil_div a b) c \<le> ceil_div a (b * c)" using c by (rule ceil_div_le [rotated])
  have "a \<le> b * ceil_div a b" using b by (rule ceil_div_ge)
  also have "\<dots> \<le> b * (c * ceil_div (ceil_div a b) c)"
    using ceil_div_ge [OF c, of "ceil_div a b"] by simp
  finally show "ceil_div a (b * c) \<le> ceil_div (ceil_div a b) c"
    using b c by (intro ceil_div_le) (simp_all add: ac_simps)
qed

end
