(* ===== verification/Safe_Math.thy ===== *)
theory Safe_Math
  imports Prelude
begin

text \<open>
  Checked arithmetic (\<open>math/safe_math.rs\<close>).  The macro \<open>checked_impl\<close> gives
  every integer type the same operations; they are one polymorphic definition
  each here.  The shift of the native types only checks the shift amount, the
  shift of the big integers (the \<open>ruint\<close> types \<open>U256\<close> and \<open>U512\<close>) also fails
  when bits are lost.  Every operation has a characterisation of its
  successful results through \<open>unat\<close>; the components reason with these alone.
\<close>

section \<open>The operations of \<open>checked_impl\<close>\<close>

definition safe_add :: "'w::len word \<Rightarrow> 'w word \<Rightarrow> 'w word result" where
  "safe_add a v = (if unat a + unat v < 2 ^ LENGTH('w) then Ok (a + v) else err MathOverflow)"

definition safe_sub :: "'w::len word \<Rightarrow> 'w word \<Rightarrow> 'w word result" where
  "safe_sub a v = (if v \<le> a then Ok (a - v) else err MathOverflow)"

definition safe_mul :: "'w::len word \<Rightarrow> 'w word \<Rightarrow> 'w word result" where
  "safe_mul a v = (if unat a * unat v < 2 ^ LENGTH('w) then Ok (a * v) else err MathOverflow)"

definition safe_div :: "'w::len word \<Rightarrow> 'w word \<Rightarrow> 'w word result" where
  "safe_div a v = (if v = 0 then err MathOverflow else Ok (a div v))"

definition safe_rem :: "'w::len word \<Rightarrow> 'w word \<Rightarrow> 'w word result" where
  "safe_rem a v = (if v = 0 then err MathOverflow else Ok (a mod v))"

definition safe_shl :: "'w::len word \<Rightarrow> nat \<Rightarrow> 'w word result" where
  "safe_shl a n = (if n < LENGTH('w) then Ok (push_bit n a) else err MathOverflow)"

definition safe_shr :: "'w::len word \<Rightarrow> nat \<Rightarrow> 'w word result" where
  "safe_shr a n = (if n < LENGTH('w) then Ok (drop_bit n a) else err MathOverflow)"

definition safe_shl_big :: "'w::len word \<Rightarrow> nat \<Rightarrow> 'w word result" where
  "safe_shl_big a n = (if unat a * 2 ^ n < 2 ^ LENGTH('w) then Ok (push_bit n a) else err MathOverflow)"

section \<open>Conversions between integer types\<close>

definition try_cast :: "'a::len word \<Rightarrow> 'b::len word option" where
  "try_cast x = (if unat x < 2 ^ LENGTH('b) then Some (ucast x) else None)"

definition safe_cast :: "'a::len word \<Rightarrow> 'b::len word result" where
  "safe_cast x = ok_or (try_cast x) TypeCastFailed"

section \<open>Native operators under overflow checks\<close>

definition native_add :: "'w::len word \<Rightarrow> 'w word \<Rightarrow> 'w word result" where
  "native_add a v = (if unat a + unat v < 2 ^ LENGTH('w) then Ok (a + v) else panic)"

definition native_sub :: "'w::len word \<Rightarrow> 'w word \<Rightarrow> 'w word result" where
  "native_sub a v = (if v \<le> a then Ok (a - v) else panic)"

definition native_mul :: "'w::len word \<Rightarrow> 'w word \<Rightarrow> 'w word result" where
  "native_mul a v = (if unat a * unat v < 2 ^ LENGTH('w) then Ok (a * v) else panic)"

definition saturating_sub :: "'w::len word \<Rightarrow> 'w word \<Rightarrow> 'w word" where
  "saturating_sub a v = (if v \<le> a then a - v else 0)"

definition saturating_add :: "'w::len word \<Rightarrow> 'w word \<Rightarrow> 'w word" where
  "saturating_add a v = (if unat a + unat v < 2 ^ LENGTH('w) then a + v else - 1)"

section \<open>Successful results\<close>

lemma safe_add_Ok [simp]:
  "safe_add a v = Inr c \<longleftrightarrow> unat c = unat a + unat (v :: 'w::len word)"
proof
  assume "safe_add a v = Inr c"
  then show "unat c = unat a + unat v"
    by (auto simp: safe_add_def unat_add_small)
next
  assume c: "unat c = unat a + unat v"
  then have lt: "unat a + unat v < 2 ^ LENGTH('w)" using unat_lt_2p [of c] by simp
  with c have "c = a + v" by (simp add: word_unat_eq_iff unat_add_small)
  with lt show "safe_add a v = Inr c" by (simp add: safe_add_def)
qed

lemma native_add_Ok [simp]:
  "native_add a v = Inr c \<longleftrightarrow> unat c = unat a + unat (v :: 'w::len word)"
  using safe_add_Ok [of a v c] by (auto simp: native_add_def safe_add_def)

lemma safe_sub_Ok [simp]:
  "safe_sub a v = Inr c \<longleftrightarrow> unat v \<le> unat a \<and> unat c = unat a - unat v"
  by (auto simp: safe_sub_def word_le_nat_alt word_unat_eq_iff unat_sub_le)

lemma native_sub_Ok [simp]:
  "native_sub a v = Inr c \<longleftrightarrow> unat v \<le> unat a \<and> unat c = unat a - unat v"
  by (auto simp: native_sub_def word_le_nat_alt word_unat_eq_iff unat_sub_le)

lemma safe_mul_Ok [simp]:
  "safe_mul a v = Inr c \<longleftrightarrow> unat c = unat a * unat (v :: 'w::len word)"
proof
  assume "safe_mul a v = Inr c"
  then show "unat c = unat a * unat v"
    by (auto simp: safe_mul_def unat_mul_small)
next
  assume c: "unat c = unat a * unat v"
  then have lt: "unat a * unat v < 2 ^ LENGTH('w)" using unat_lt_2p [of c] by simp
  with c have "c = a * v" by (simp add: word_unat_eq_iff unat_mul_small)
  with lt show "safe_mul a v = Inr c" by (simp add: safe_mul_def)
qed

lemma native_mul_Ok [simp]:
  "native_mul a v = Inr c \<longleftrightarrow> unat c = unat a * unat (v :: 'w::len word)"
  using safe_mul_Ok [of a v c] by (auto simp: native_mul_def safe_mul_def)

lemma safe_div_Ok [simp]:
  "safe_div a v = Inr c \<longleftrightarrow> unat v \<noteq> 0 \<and> unat c = unat a div unat v"
  by (auto simp: safe_div_def unat_div word_unat_eq_iff)

lemma safe_rem_Ok [simp]:
  "safe_rem a v = Inr c \<longleftrightarrow> unat v \<noteq> 0 \<and> unat c = unat a mod unat v"
  by (auto simp: safe_rem_def unat_mod word_unat_eq_iff)

lemma safe_shr_Ok [simp]:
  "safe_shr a n = Inr c \<longleftrightarrow> n < LENGTH('w) \<and> unat c = unat (a :: 'w::len word) div 2 ^ n"
  by (auto simp: safe_shr_def unat_drop_bit word_unat_eq_iff)

lemma unat_push_bit_small:
  "unat a * 2 ^ n < 2 ^ LENGTH('w) \<Longrightarrow> unat (push_bit n (a :: 'w::len word)) = unat a * 2 ^ n"
  by (simp add: unsigned_push_bit_eq, simp add: push_bit_eq_mult take_bit_nat_eq_self)

lemma safe_shl_big_Ok [simp]:
  "safe_shl_big a n = Inr c \<longleftrightarrow> unat c = unat (a :: 'w::len word) * 2 ^ n"
proof
  assume "safe_shl_big a n = Inr c"
  then show "unat c = unat a * 2 ^ n"
    by (auto simp: safe_shl_big_def unat_push_bit_small split: if_splits)
next
  assume c: "unat c = unat a * 2 ^ n"
  then have lt: "unat a * 2 ^ n < 2 ^ LENGTH('w)" using unat_lt_2p [of c] by simp
  with c have "c = push_bit n a" by (simp add: word_unat_eq_iff unat_push_bit_small)
  with lt show "safe_shl_big a n = Inr c" by (simp add: safe_shl_big_def)
qed

lemma safe_shl_Ok_small:
  assumes "unat a * 2 ^ n < 2 ^ LENGTH('w)" "n < LENGTH('w)"
  shows "safe_shl (a :: 'w::len word) n = Inr c \<longleftrightarrow> unat c = unat a * 2 ^ n"
  using assms by (auto simp: safe_shl_def word_unat_eq_iff unat_push_bit_small)

lemma try_cast_Some [simp]:
  "try_cast (x :: 'a::len word) = Some (y :: 'b::len word) \<longleftrightarrow> unat y = unat x"
proof
  assume "try_cast x = Some y"
  then show "unat y = unat x"
    by (auto simp: try_cast_def unat_ucast_small split: if_splits)
next
  assume y: "unat y = unat x"
  then have lt: "unat x < 2 ^ LENGTH('b)" using unat_lt_2p [of y] by simp
  with y have "y = ucast x" by (simp add: word_unat_eq_iff unat_ucast_small)
  with lt show "try_cast x = Some y" by (simp add: try_cast_def)
qed

lemma try_cast_None [simp]:
  "try_cast (x :: 'a::len word) = (None :: 'b::len word option) \<longleftrightarrow> 2 ^ LENGTH('b) \<le> unat x"
  by (auto simp: try_cast_def not_less)

lemma safe_cast_Ok [simp]:
  "safe_cast (x :: 'a::len word) = Inr (y :: 'b::len word) \<longleftrightarrow> unat y = unat x"
  by (simp add: safe_cast_def)

lemma unat_saturating_sub [simp]: "unat (saturating_sub a v) = unat a - unat v"
  by (auto simp: saturating_sub_def word_le_nat_alt unat_sub_le)

lemma unat_saturating_add:
  "unat (saturating_add a v) = min (unat a + unat v) (2 ^ LENGTH('w) - 1)"
  for a v :: "'w::len word"
  by (auto simp: saturating_add_def unat_word_ariths unsigned_minus_1_eq_mask mask_eq_exp_minus_1)

section \<open>When the operations succeed\<close>

text \<open>Existence forms: the value exists exactly when the exact result fits the type.\<close>

lemma ex_word_unat [simp]:
  "(\<exists>c :: 'w::len word. unat c = n) \<longleftrightarrow> n < 2 ^ LENGTH('w)"
proof
  assume "\<exists>c :: 'w word. unat c = n"
  then show "n < 2 ^ LENGTH('w)" using unat_lt_2p by metis
next
  assume "n < 2 ^ LENGTH('w)"
  then have "unat (of_nat n :: 'w word) = n" by (rule unat_of_nat_small)
  then show "\<exists>c :: 'w word. unat c = n" by blast
qed

lemma ex_word_unat_eq [simp]:
  "(\<exists>c :: 'w::len word. unat c = n \<and> m = unat c) \<longleftrightarrow> n < 2 ^ LENGTH('w) \<and> m = n"
  by (metis ex_word_unat)

lemma ex_unat_conj:
  "(\<exists>c :: 'w::len word. unat c = n \<and> P (unat c)) \<longleftrightarrow> n < 2 ^ LENGTH('w) \<and> P n"
  by (metis ex_word_unat)

lemma ex_unatI:
  assumes "n < 2 ^ LENGTH('w)" and "\<And>c :: 'w::len word. unat c = n \<Longrightarrow> P c"
  shows "\<exists>c :: 'w word. unat c = n \<and> P c"
  using assms by (metis ex_word_unat)

lemma word_witness:
  assumes "n < 2 ^ LENGTH('w)"
  obtains p :: "'w::len word" where "unat p = n"
  using unat_of_nat_small [OF assms] by blast

lemma is_ok_safe_add: "is_ok (safe_add (a :: 'w::len word) v) \<longleftrightarrow> unat a + unat v < 2 ^ LENGTH('w)"
  by (simp add: is_ok_iff)

lemma is_ok_safe_mul: "is_ok (safe_mul (a :: 'w::len word) v) \<longleftrightarrow> unat a * unat v < 2 ^ LENGTH('w)"
  by (simp add: is_ok_iff)

lemma is_ok_safe_sub: "is_ok (safe_sub (a :: 'w::len word) v) \<longleftrightarrow> unat v \<le> unat a"
  by (auto simp: is_ok_def safe_sub_def word_le_nat_alt)

lemma safe_err:
  "safe_add a v = Inl e \<Longrightarrow> e = Pool MathOverflow"
  "safe_sub a v = Inl e \<Longrightarrow> e = Pool MathOverflow"
  "safe_mul a v = Inl e \<Longrightarrow> e = Pool MathOverflow"
  "safe_div a v = Inl e \<Longrightarrow> e = Pool MathOverflow"
  by (simp_all add: safe_add_def safe_sub_def safe_mul_def safe_div_def split: if_splits)

lemma no_panic_safe [simp]:
  "no_panic (safe_add a v)" "no_panic (safe_sub a v)" "no_panic (safe_mul a v)"
  "no_panic (safe_div a v)" "no_panic (safe_rem a v)" "no_panic (safe_shl a n)"
  "no_panic (safe_shr a n)" "no_panic (safe_shl_big a n)"
  by (simp_all add: safe_add_def safe_sub_def safe_mul_def safe_div_def safe_rem_def safe_shl_def
    safe_shr_def safe_shl_big_def)

lemma no_panic_safe_cast [simp]: "no_panic (safe_cast x)"
  by (simp add: safe_cast_def)

text \<open>Evaluation on concrete words.\<close>

named_theorems eval

lemmas [eval] = safe_add_def safe_sub_def safe_mul_def safe_div_def safe_rem_def
  safe_shl_def safe_shr_def safe_shl_big_def try_cast_def safe_cast_def
  native_add_def native_sub_def native_mul_def saturating_sub_def saturating_add_def

end
