(* ===== verification/Constants.thy ===== *)
theory Constants
  imports Safe_Math
begin

text \<open>
  Constants (\<open>constants.rs\<close>), at the type the source declares them with.  Each
  has its value as a natural number as a simplification rule.
\<close>

definition MIN_SQRT_PRICE :: u128 where "MIN_SQRT_PRICE = 4295048016"
definition MAX_SQRT_PRICE :: u128 where "MAX_SQRT_PRICE = 79226673521066979257578248091"
definition BASIS_POINT_MAX :: u64 where "BASIS_POINT_MAX = 10000"
definition U24_MAX :: u32 where "U24_MAX = 0xffffff"
definition ONE_Q64 :: u128 where "ONE_Q64 = 18446744073709551616"
definition FLASH_RENT_FUND :: u64 where "FLASH_RENT_FUND = 1000000000"

definition BIN_STEP_BPS_DEFAULT :: u16 where "BIN_STEP_BPS_DEFAULT = 1"
definition BIN_STEP_BPS_U128_DEFAULT :: u128 where "BIN_STEP_BPS_U128_DEFAULT = 1844674407370955"
definition FILTER_PERIOD_DEFAULT :: u16 where "FILTER_PERIOD_DEFAULT = 10"
definition DECAY_PERIOD_DEFAULT :: u16 where "DECAY_PERIOD_DEFAULT = 120"
definition REDUCTION_FACTOR_DEFAULT :: u16 where "REDUCTION_FACTOR_DEFAULT = 5000"
definition MAX_DYNAMIC_FEE_PERCENT :: u8 where "MAX_DYNAMIC_FEE_PERCENT = 20"
definition MAX_VOLATILITY_ACCUMULATOR :: u32 where "MAX_VOLATILITY_ACCUMULATOR = 14460000"
definition SQUARE_VFA_BIN :: u64 where "SQUARE_VFA_BIN = 209091600000000"

definition MIN_MIGRATED_POOL_FEE_BPS :: u16 where "MIN_MIGRATED_POOL_FEE_BPS = 10"
definition MAX_MIGRATED_POOL_FEE_BPS :: u16 where "MAX_MIGRATED_POOL_FEE_BPS = 1000"
definition MAX_CURVE_POINT :: nat where "MAX_CURVE_POINT = 16"
definition MAX_CURVE_POINT_CONFIG :: nat where "MAX_CURVE_POINT_CONFIG = 20"
definition SWAP_BUFFER_PERCENTAGE :: u8 where "SWAP_BUFFER_PERCENTAGE = 25"
definition PARTNER_AND_CREATOR_SURPLUS_SHARE :: u8 where "PARTNER_AND_CREATOR_SURPLUS_SHARE = 100"
definition MAX_RATE_LIMITER_DURATION_IN_SECONDS :: u64 where
  "MAX_RATE_LIMITER_DURATION_IN_SECONDS = 43200"
definition MAX_RATE_LIMITER_DURATION_IN_SLOTS :: u64 where
  "MAX_RATE_LIMITER_DURATION_IN_SLOTS = 108000"
definition MAX_MIGRATION_FEE_PERCENTAGE :: u8 where "MAX_MIGRATION_FEE_PERCENTAGE = 99"
definition MIN_LOCKED_LIQUIDITY_BPS :: u16 where "MIN_LOCKED_LIQUIDITY_BPS = 1000"
definition MAX_LOCK_DURATION_IN_SECONDS :: u64 where "MAX_LOCK_DURATION_IN_SECONDS = 63072000"

definition FEE_DENOMINATOR :: u64 where "FEE_DENOMINATOR = 1000000000"
definition MAX_FEE_BPS :: u64 where "MAX_FEE_BPS = 9900"
definition MAX_FEE_NUMERATOR :: u64 where "MAX_FEE_NUMERATOR = 990000000"
definition MAX_BASIS_POINT :: u64 where "MAX_BASIS_POINT = 10000"
definition MIN_FEE_BPS :: u64 where "MIN_FEE_BPS = 0"
definition MIN_FEE_NUMERATOR :: u64 where "MIN_FEE_NUMERATOR = 0"
definition PROTOCOL_FEE_PERCENT :: u8 where "PROTOCOL_FEE_PERCENT = 20"
definition HOST_FEE_PERCENT :: u8 where "HOST_FEE_PERCENT = 20"
definition PROTOCOL_POOL_CREATION_FEE_PERCENT :: u8 where "PROTOCOL_POOL_CREATION_FEE_PERCENT = 10"
definition MIN_POOL_CREATION_FEE :: u64 where "MIN_POOL_CREATION_FEE = 1000000"
definition MAX_POOL_CREATION_FEE :: u64 where "MAX_POOL_CREATION_FEE = 100000000000"
definition PROTOCOL_LIQUIDITY_MIGRATION_FEE_BPS :: u16 where "PROTOCOL_LIQUIDITY_MIGRATION_FEE_BPS = 0"
definition MAX_OPERATION :: u8 where "MAX_OPERATION = 2"
definition RESOLUTION :: nat where "RESOLUTION = 64"

lemmas constant_defs [eval] =
  MIN_SQRT_PRICE_def MAX_SQRT_PRICE_def BASIS_POINT_MAX_def U24_MAX_def ONE_Q64_def
  FLASH_RENT_FUND_def BIN_STEP_BPS_DEFAULT_def BIN_STEP_BPS_U128_DEFAULT_def
  FILTER_PERIOD_DEFAULT_def DECAY_PERIOD_DEFAULT_def REDUCTION_FACTOR_DEFAULT_def
  MAX_DYNAMIC_FEE_PERCENT_def MAX_VOLATILITY_ACCUMULATOR_def SQUARE_VFA_BIN_def
  MIN_MIGRATED_POOL_FEE_BPS_def MAX_MIGRATED_POOL_FEE_BPS_def MAX_CURVE_POINT_def
  MAX_CURVE_POINT_CONFIG_def SWAP_BUFFER_PERCENTAGE_def PARTNER_AND_CREATOR_SURPLUS_SHARE_def
  MAX_RATE_LIMITER_DURATION_IN_SECONDS_def MAX_RATE_LIMITER_DURATION_IN_SLOTS_def
  MAX_MIGRATION_FEE_PERCENTAGE_def MIN_LOCKED_LIQUIDITY_BPS_def MAX_LOCK_DURATION_IN_SECONDS_def
  FEE_DENOMINATOR_def MAX_FEE_BPS_def MAX_FEE_NUMERATOR_def MAX_BASIS_POINT_def MIN_FEE_BPS_def
  MIN_FEE_NUMERATOR_def PROTOCOL_FEE_PERCENT_def HOST_FEE_PERCENT_def
  PROTOCOL_POOL_CREATION_FEE_PERCENT_def MIN_POOL_CREATION_FEE_def MAX_POOL_CREATION_FEE_def
  PROTOCOL_LIQUIDITY_MIGRATION_FEE_BPS_def MAX_OPERATION_def RESOLUTION_def

text \<open>The values the proofs compute with.\<close>

lemma unat_constants [simp]:
  "unat MIN_SQRT_PRICE = 4295048016"
  "unat MAX_SQRT_PRICE = 79226673521066979257578248091"
  "unat BASIS_POINT_MAX = 10000"
  "unat ONE_Q64 = 2 ^ 64"
  "unat MAX_VOLATILITY_ACCUMULATOR = 14460000"
  "unat FEE_DENOMINATOR = 1000000000"
  "unat MAX_FEE_NUMERATOR = 990000000"
  "unat MIN_FEE_NUMERATOR = 0"
  "unat MAX_BASIS_POINT = 10000"
  "unat PROTOCOL_FEE_PERCENT = 20"
  "unat HOST_FEE_PERCENT = 20"
  "unat PROTOCOL_POOL_CREATION_FEE_PERCENT = 10"
  "unat SWAP_BUFFER_PERCENTAGE = 25"
  "unat PARTNER_AND_CREATOR_SURPLUS_SHARE = 100"
  by (simp_all add: constant_defs)

end
