(* ===== verification/Modes.thy ===== *)
theory Modes
  imports Constants
begin

text \<open>
  The enumerations of the program.  Each is stored in an account as one byte and
  read back through \<open>try_from\<close>, which fails on any other byte; the lemmas show
  that reading back what was written gives the value again, and that a byte that
  is read is the one that would be written.
\<close>

datatype trade_direction = BaseToQuote | QuoteToBase

datatype collect_fee_mode = QuoteToken | OutputToken

datatype pool_type = PoolSplToken | PoolToken2022

datatype migration_progress = PreBondingCurve | PostBondingCurve | LockedVesting | CreatedPool

datatype activation_type = Slot | Timestamp

datatype base_fee_mode = FeeSchedulerLinear | FeeSchedulerExponential | RateLimiter

datatype fee_scheduler_mode = Linear | Exponential

datatype token_authority_option =
    CreatorUpdateAuthority
  | Immutable
  | PartnerUpdateAuthority
  | CreatorUpdateAndMintAuthority
  | PartnerUpdateAndMintAuthority

datatype migration_option = MeteoraDamm | DammV2

datatype token_type = SplToken | Token2022

datatype migration_fee_option =
    FixedBps25
  | FixedBps30
  | FixedBps100
  | FixedBps200
  | FixedBps400
  | FixedBps600
  | Customizable

datatype migrated_collect_fee_mode = MigratedQuoteToken | MigratedOutputToken | Compounding

datatype token_program_flags = TokenProgram | TokenProgram2022

datatype operator_permission = ClaimProtocolFee | ZapProtocolFee

text \<open>A byte read as the position of a variant.\<close>

definition try_from_u8 :: "'a list \<Rightarrow> u8 \<Rightarrow> 'a option" where
  "try_from_u8 variants b = (if unat b < length variants then Some (variants ! unat b) else None)"

definition collect_fee_mode_of :: "u8 \<Rightarrow> collect_fee_mode option" where
  "collect_fee_mode_of = try_from_u8 [QuoteToken, OutputToken]"

definition pool_type_of :: "u8 \<Rightarrow> pool_type option" where
  "pool_type_of = try_from_u8 [PoolSplToken, PoolToken2022]"

definition migration_progress_of :: "u8 \<Rightarrow> migration_progress option" where
  "migration_progress_of = try_from_u8 [PreBondingCurve, PostBondingCurve, LockedVesting, CreatedPool]"

fun migration_progress_code :: "migration_progress \<Rightarrow> u8" where
  "migration_progress_code PreBondingCurve = 0"
| "migration_progress_code PostBondingCurve = 1"
| "migration_progress_code LockedVesting = 2"
| "migration_progress_code CreatedPool = 3"

definition activation_type_of :: "u8 \<Rightarrow> activation_type option" where
  "activation_type_of = try_from_u8 [Slot, Timestamp]"

definition base_fee_mode_of :: "u8 \<Rightarrow> base_fee_mode option" where
  "base_fee_mode_of = try_from_u8 [FeeSchedulerLinear, FeeSchedulerExponential, RateLimiter]"

fun base_fee_mode_code :: "base_fee_mode \<Rightarrow> u8" where
  "base_fee_mode_code FeeSchedulerLinear = 0"
| "base_fee_mode_code FeeSchedulerExponential = 1"
| "base_fee_mode_code RateLimiter = 2"

definition fee_scheduler_mode_of :: "u8 \<Rightarrow> fee_scheduler_mode option" where
  "fee_scheduler_mode_of = try_from_u8 [Linear, Exponential]"

definition token_authority_option_of :: "u8 \<Rightarrow> token_authority_option option" where
  "token_authority_option_of = try_from_u8
     [CreatorUpdateAuthority, Immutable, PartnerUpdateAuthority,
      CreatorUpdateAndMintAuthority, PartnerUpdateAndMintAuthority]"

definition migration_option_of :: "u8 \<Rightarrow> migration_option option" where
  "migration_option_of = try_from_u8 [MeteoraDamm, DammV2]"

definition token_type_of :: "u8 \<Rightarrow> token_type option" where
  "token_type_of = try_from_u8 [SplToken, Token2022]"

definition migration_fee_option_of :: "u8 \<Rightarrow> migration_fee_option option" where
  "migration_fee_option_of = try_from_u8
     [FixedBps25, FixedBps30, FixedBps100, FixedBps200, FixedBps400, FixedBps600, Customizable]"

definition migrated_collect_fee_mode_of :: "u8 \<Rightarrow> migrated_collect_fee_mode option" where
  "migrated_collect_fee_mode_of = try_from_u8 [MigratedQuoteToken, MigratedOutputToken, Compounding]"

fun operator_permission_code :: "operator_permission \<Rightarrow> u8" where
  "operator_permission_code ClaimProtocolFee = 0"
| "operator_permission_code ZapProtocolFee = 1"

lemmas mode_of_defs [eval] = try_from_u8_def collect_fee_mode_of_def pool_type_of_def
  migration_progress_of_def activation_type_of_def base_fee_mode_of_def fee_scheduler_mode_of_def
  token_authority_option_of_def migration_option_of_def token_type_of_def
  migration_fee_option_of_def migrated_collect_fee_mode_of_def

lemma migration_progress_roundtrip [simp]:
  "migration_progress_of (migration_progress_code p) = Some p"
  by (cases p) (simp_all add: mode_of_defs)

lemma migration_progress_of_code:
  "migration_progress_of b = Some p \<longleftrightarrow> b = migration_progress_code p"
proof
  assume p: "migration_progress_of b = Some p"
  then have "unat b < 4" by (simp add: mode_of_defs split: if_splits)
  then consider "unat b = 0" | "unat b = 1" | "unat b = 2" | "unat b = 3" by linarith
  then show "b = migration_progress_code p"
    using p by cases (auto simp: mode_of_defs word_unat_eq_iff)
qed simp

lemma base_fee_mode_roundtrip [simp]: "base_fee_mode_of (base_fee_mode_code m) = Some m"
  by (cases m) (simp_all add: mode_of_defs)

lemma fee_scheduler_mode_code [simp]:
  "fee_scheduler_mode_of (base_fee_mode_code FeeSchedulerLinear) = Some Linear"
  "fee_scheduler_mode_of (base_fee_mode_code FeeSchedulerExponential) = Some Exponential"
  by (simp_all add: mode_of_defs)

lemma migration_progress_code_inj [simp]:
  "migration_progress_code p = migration_progress_code q \<longleftrightarrow> p = q"
  by (cases p; cases q) simp_all

section \<open>The order of the life cycle\<close>

instantiation migration_progress :: linorder
begin

definition less_eq_migration_progress :: "migration_progress \<Rightarrow> migration_progress \<Rightarrow> bool" where
  "less_eq_migration_progress p q = (unat (migration_progress_code p) \<le> unat (migration_progress_code q))"

definition less_migration_progress :: "migration_progress \<Rightarrow> migration_progress \<Rightarrow> bool" where
  "less_migration_progress p q = (unat (migration_progress_code p) < unat (migration_progress_code q))"

instance
proof
  fix p q :: migration_progress
  show "p \<le> q \<Longrightarrow> q \<le> p \<Longrightarrow> p = q"
    by (simp add: less_eq_migration_progress_def flip: word_unat_eq_iff)
qed (auto simp: less_eq_migration_progress_def less_migration_progress_def)

end

lemma migration_progress_less [simp]:
  "PreBondingCurve < PostBondingCurve" "PostBondingCurve < LockedVesting" "LockedVesting < CreatedPool"
  "PreBondingCurve < LockedVesting" "PreBondingCurve < CreatedPool" "PostBondingCurve < CreatedPool"
  by (simp_all add: less_migration_progress_def)

end
