(* ===== verification/Utils_Math.thy ===== *)
theory Utils_Math
  imports Constants
begin

text \<open>
  Wide arithmetic (\<open>math/u128x128_math.rs\<close> and \<open>math/utils_math.rs\<close>):
  multiplication and shift followed by a rounded division in a wider type, and
  the integer square root.  Each operation is characterised by the exact
  quotient of naturals, rounded as asked, together with the condition under
  which it exists.
\<close>

datatype rounding = Up | Down

definition div_round :: "rounding \<Rightarrow> nat \<Rightarrow> nat \<Rightarrow> nat" where
  "div_round r a b = (case r of Up \<Rightarrow> ceil_div a b | Down \<Rightarrow> a div b)"

lemma div_round_simps [simp]:
  "div_round Up a b = ceil_div a b"
  "div_round Down a b = a div b"
  by (simp_all add: div_round_def)

section \<open>The big integers' rounded division\<close>

definition word_div_ceil :: "'w::len word \<Rightarrow> 'w word \<Rightarrow> 'w word" where
  "word_div_ceil a b = (if a mod b = 0 then a div b else a div b + 1)"

definition big_div_ceil :: "'w::len word \<Rightarrow> 'w word \<Rightarrow> 'w word result" where
  "big_div_ceil a b = (if b = 0 then panic else Ok (word_div_ceil a b))"

lemma ceil_div_alt: "0 < b \<Longrightarrow> ceil_div a b = (if a mod b = 0 then a div b else a div b + 1)"
proof -
  assume b: "0 < b"
  have a: "a = b * (a div b) + a mod b" by simp
  show ?thesis
  proof (cases "a mod b = 0")
    case True
    then have "a = b * (a div b)" using a by simp
    then have "ceil_div a b \<le> a div b" using b by (intro ceil_div_le) simp_all
    with True show ?thesis using div_le_ceil_div [of a b] by simp
  next
    case False
    have "a mod b < b" using b by simp
    then have "a \<le> b * (a div b + 1)" using a unfolding distrib_left mult_1_right by linarith
    then have "ceil_div a b \<le> a div b + 1" using b by (intro ceil_div_le)
    moreover have "\<not> ceil_div a b \<le> a div b"
    proof
      assume "ceil_div a b \<le> a div b"
      then have "b * ceil_div a b \<le> b * (a div b)" by simp
      with ceil_div_ge [OF b, of a] False a show False by linarith
    qed
    ultimately show ?thesis using False by simp
  qed
qed

lemma ceil_div_le_self: "0 < b \<Longrightarrow> ceil_div a b \<le> a"
  by (rule ceil_div_le) (cases b, auto)

lemma div_round_le_self: "0 < b \<Longrightarrow> div_round r a b \<le> a"
  by (cases r) (auto intro: ceil_div_le_self)

lemma unat_word_div_ceil:
  assumes "b \<noteq> (0 :: 'w::len word)"
  shows "unat (word_div_ceil a b) = ceil_div (unat a) (unat b)"
proof -
  have b: "0 < unat b" using assms by (simp add: word_unat_eq_iff)
  have z: "a mod b = 0 \<longleftrightarrow> unat a mod unat b = 0"
    by (simp add: word_unat_eq_iff unat_mod)
  have "ceil_div (unat a) (unat b) \<le> unat a" using b by (rule ceil_div_le_self)
  then have lt: "ceil_div (unat a) (unat b) < 2 ^ LENGTH('w)"
    using unat_lt_2p [of a] by linarith
  show ?thesis
  proof (cases "a mod b = 0")
    case True
    with z b show ?thesis by (simp add: word_div_ceil_def ceil_div_alt unat_div)
  next
    case False
    with z b lt have s: "unat a div unat b + 1 < 2 ^ LENGTH('w)" by (simp add: ceil_div_alt)
    have one: "unat (1 :: 'w word) = 1" by simp
    have "unat (a div b + 1) = unat a div unat b + 1"
      using s by (subst unat_add_small) (simp_all only: unat_div one)
    with False z b show ?thesis by (simp add: word_div_ceil_def ceil_div_alt)
  qed
qed

lemma big_div_ceil_Ok [simp]:
  "big_div_ceil a b = Inr c \<longleftrightarrow> unat b \<noteq> 0 \<and> unat c = ceil_div (unat a) (unat b)"
  by (auto simp: big_div_ceil_def word_unat_eq_iff unat_word_div_ceil)

definition word_div_round :: "rounding \<Rightarrow> 'w::len word \<Rightarrow> 'w word \<Rightarrow> 'w word" where
  "word_div_round r a b = (case r of Up \<Rightarrow> word_div_ceil a b | Down \<Rightarrow> a div b)"

lemma unat_word_div_round:
  "b \<noteq> 0 \<Longrightarrow> unat (word_div_round r a b) = div_round r (unat a) (unat b)"
  by (cases r) (simp_all add: word_div_round_def unat_word_div_ceil unat_div)

section \<open>\<open>u128x128_math.rs\<close>\<close>

definition checked_mul :: "'w::len word \<Rightarrow> 'w word \<Rightarrow> 'w word option" where
  "checked_mul x y = (if unat x * unat y < 2 ^ LENGTH('w) then Some (x * y) else None)"

definition big_checked_shl :: "'w::len word \<Rightarrow> nat \<Rightarrow> 'w word option" where
  "big_checked_shl x n = (if unat x * 2 ^ n < 2 ^ LENGTH('w) then Some (push_bit n x) else None)"

lemma checked_mul_Some [simp]: "checked_mul x y = Some z \<longleftrightarrow> unat z = unat x * unat y"
  using safe_mul_Ok [of x y z] by (auto simp: checked_mul_def safe_mul_def)

lemma checked_mul_None: "checked_mul (x :: 'w::len word) y = None \<longleftrightarrow> 2 ^ LENGTH('w) \<le> unat x * unat y"
  by (auto simp: checked_mul_def not_less)

lemma big_checked_shl_Some [simp]: "big_checked_shl x n = Some z \<longleftrightarrow> unat z = unat x * 2 ^ n"
  using safe_shl_big_Ok [of x n z] by (auto simp: big_checked_shl_def safe_shl_big_def)

definition mul_shr :: "u128 \<Rightarrow> u128 \<Rightarrow> nat \<Rightarrow> u128 option" where
  "mul_shr x y offset =
     Option.bind (checked_mul (ucast x :: u256) (ucast y)) (\<lambda>prod.
       let quotient = drop_bit offset prod in try_cast quotient)"

definition shl_div :: "u128 \<Rightarrow> u128 \<Rightarrow> nat \<Rightarrow> rounding \<Rightarrow> u128 option" where
  "shl_div x y offset rounding =
     (if y = 0 then None
      else let denominator = (ucast y :: u256) in
        Option.bind (big_checked_shl (ucast x :: u256) offset) (\<lambda>prod.
          case rounding of
            Up \<Rightarrow> try_cast (word_div_ceil prod denominator)
          | Down \<Rightarrow> try_cast (prod div denominator)))"

definition shl_div_256 :: "u128 \<Rightarrow> u128 \<Rightarrow> nat \<Rightarrow> u256 option" where
  "shl_div_256 x y offset =
     (if y = 0 then None
      else let denominator = (ucast y :: u256) in
        Option.bind (big_checked_shl (ucast x :: u256) offset) (\<lambda>prod.
          Some (prod div denominator)))"

definition mul_div_u256 :: "u256 \<Rightarrow> u256 \<Rightarrow> u256 \<Rightarrow> rounding \<Rightarrow> u256 option" where
  "mul_div_u256 x y denominator rounding =
     (if denominator = 0 then None
      else
        let x = (ucast x :: u512); y = (ucast y :: u512);
            denominator = (ucast denominator :: u512) in
        Option.bind (checked_mul x y) (\<lambda>prod.
          let result = (case rounding of
                Up \<Rightarrow> word_div_ceil prod denominator
              | Down \<Rightarrow> prod div denominator)
          in if result > ucast (- 1 :: u256) then None else Some (ucast result)))"

lemma ucast_max [eval]:
  "(ucast (- 1 :: u64) :: u256) = 18446744073709551615"
  "(ucast (- 1 :: u256) :: u512)
    = 115792089237316195423570985008687907853269984665640564039457584007913129639935"
  by (simp_all add: word_unat_eq_iff unsigned_minus_1_eq_mask mask_eq_exp_minus_1)

declare unwrap_def [eval]

lemmas [eval] = word_div_ceil_def big_div_ceil_def checked_mul_def big_checked_shl_def
  mul_shr_def shl_div_def shl_div_256_def mul_div_u256_def

lemma bind_Some_iff: "Option.bind m f = Some y \<longleftrightarrow> (\<exists>x. m = Some x \<and> f x = Some y)"
  by (cases m) auto

lemma ucast_eq_0_iff [simp]:
  fixes x :: "'a::len word"
  assumes "LENGTH('a) \<le> LENGTH('b)"
  shows "(ucast x :: 'b::len word) = 0 \<longleftrightarrow> x = 0"
  using assms by (simp add: word_unat_eq_iff)

lemma prod_lt_2p:
  "(a::nat) < 2 ^ m \<Longrightarrow> b < 2 ^ n \<Longrightarrow> m + n \<le> k \<Longrightarrow> a * b < 2 ^ k"
proof -
  assume a: "a < 2 ^ m" and b: "b < 2 ^ n" and k: "m + n \<le> k"
  have "a * b < 2 ^ m * 2 ^ n" using a b by (intro mult_strict_mono) auto
  also have "\<dots> = 2 ^ (m + n)" by (simp add: power_add)
  also have "\<dots> \<le> (2::nat) ^ k" using k by (rule power_increasing) simp
  finally show ?thesis .
qed

lemma mul_shr_Some [simp]:
  "mul_shr x y offset = Some z \<longleftrightarrow> unat z = unat x * unat y div 2 ^ offset"
proof -
  have lt: "unat x * unat y < 2 ^ LENGTH(256)" by (rule prod_lt_2p [where m = 128 and n = 128]) simp_all
  obtain p :: u256 where p: "unat p = unat x * unat y"
    using lt by (rule word_witness)
  then have s: "checked_mul (ucast x :: u256) (ucast y) = Some p" by simp
  show ?thesis by (simp add: mul_shr_def unat_drop_bit p s del: checked_mul_Some)
qed

lemma shl_div_Some:
  assumes "offset \<le> 128"
  shows "shl_div x y offset r = Some z
    \<longleftrightarrow> unat y \<noteq> 0 \<and> unat z = div_round r (unat x * 2 ^ offset) (unat y)"
proof -
  have lt: "unat x * 2 ^ offset < 2 ^ LENGTH(256)"
  proof -
    have o: "(2::nat) ^ offset \<le> 2 ^ 128" using assms by (rule power_increasing) simp
    have "unat x * 2 ^ offset \<le> (2 ^ 128 - 1) * 2 ^ 128"
      using unat_le_max [of x] o by (intro mult_mono) simp_all
    also have "\<dots> < 2 ^ LENGTH(256)" by simp
    finally show ?thesis .
  qed
  then obtain p :: u256 where p: "unat p = unat x * 2 ^ offset"
    by (rule word_witness)
  then have s: "big_checked_shl (ucast x :: u256) offset = Some p" by simp
  show ?thesis
  proof (cases "y = 0")
    case False
    then have y: "unat y \<noteq> 0" and y': "(ucast y :: u256) \<noteq> 0"
      by (simp_all add: word_unat_eq_iff)
    have "shl_div x y offset r = try_cast (word_div_round r p (ucast y))"
      using False by (cases r) (simp_all add: shl_div_def word_div_round_def s del: big_checked_shl_Some)
    then show ?thesis using y unat_word_div_round [OF y', of r p] by (simp add: p)
  qed (simp add: shl_div_def)
qed

lemma mul_div_u256_Some [simp]:
  "mul_div_u256 x y d r = Some z
    \<longleftrightarrow> unat d \<noteq> 0 \<and> unat z = div_round r (unat x * unat y) (unat d)"
proof (cases "d = 0")
  case True
  then show ?thesis by (simp add: mul_div_u256_def)
next
  case False
  have lt: "unat x * unat y < 2 ^ LENGTH(512)" by (rule prod_lt_2p [where m = 256 and n = 256]) simp_all
  obtain p :: u512 where p: "unat p = unat x * unat y"
    using lt by (rule word_witness)
  then have s: "checked_mul (ucast x :: u512) (ucast y) = Some p" by simp
  have d: "unat d \<noteq> 0" and d': "(ucast d :: u512) \<noteq> 0" using False by (simp_all add: word_unat_eq_iff)
  let ?q = "word_div_round r p (ucast d)"
  have "mul_div_u256 x y d r = (if ?q > ucast (- 1 :: u256) then None else Some (ucast ?q))"
    using False by (cases r) (simp_all add: mul_div_u256_def word_div_round_def Let_def s del: checked_mul_Some)
  also have "\<dots> = try_cast ?q"
    by (auto simp: try_cast_def word_less_nat_alt)
  finally show ?thesis using d unat_word_div_round [OF d', of r p] by (simp add: p)
qed

section \<open>\<open>utils_math.rs\<close>\<close>

definition safe_mul_shr_cast :: "u128 \<Rightarrow> u128 \<Rightarrow> nat \<Rightarrow> 'b::len word result" where
  "safe_mul_shr_cast x y offset =
     and_then (ok_or (mul_shr x y offset) MathOverflow) (\<lambda>q.
     ok_or (try_cast q) TypeCastFailed)"

definition safe_mul_div_cast_u64 :: "u64 \<Rightarrow> u64 \<Rightarrow> u64 \<Rightarrow> rounding \<Rightarrow> 'b::len word result" where
  "safe_mul_div_cast_u64 x y denominator rounding =
     and_then (safe_mul (ucast x :: u128) (ucast y)) (\<lambda>prod.
     let denominator = (ucast denominator :: u128) in
     and_then
       (case rounding of
          Up \<Rightarrow> and_then (safe_add prod denominator) (\<lambda>a.
                and_then (safe_sub a 1) (\<lambda>b.
                safe_div b denominator))
        | Down \<Rightarrow> safe_div prod denominator) (\<lambda>res.
     ok_or (try_cast res) TypeCastFailed))"

definition safe_mul_div_cast_u128 :: "u128 \<Rightarrow> u128 \<Rightarrow> u128 \<Rightarrow> rounding \<Rightarrow> u128 result" where
  "safe_mul_div_cast_u128 x y denominator rounding =
     and_then (safe_mul (ucast x :: u256) (ucast y)) (\<lambda>prod.
     let denominator = (ucast denominator :: u256) in
     and_then
       (case rounding of
          Up \<Rightarrow> and_then (safe_add prod denominator) (\<lambda>a.
                and_then (safe_sub a 1) (\<lambda>b.
                safe_div b denominator))
        | Down \<Rightarrow> safe_div prod denominator) (\<lambda>res.
     ok_or (try_cast res) TypeCastFailed))"

definition safe_shl_div_cast :: "u128 \<Rightarrow> u128 \<Rightarrow> nat \<Rightarrow> rounding \<Rightarrow> 'b::len word result" where
  "safe_shl_div_cast x y offset rounding =
     and_then (ok_or (shl_div x y offset rounding) MathOverflow) (\<lambda>q.
     ok_or (try_cast q) TypeCastFailed)"

lemmas [eval] = safe_mul_shr_cast_def safe_mul_div_cast_u64_def safe_mul_div_cast_u128_def
  safe_shl_div_cast_def

lemma safe_mul_shr_cast_Ok [simp]:
  "safe_mul_shr_cast x y offset = Inr (z :: 'b::len word)
    \<longleftrightarrow> unat x * unat y div 2 ^ offset < 2 ^ 128 \<and> unat z = unat x * unat y div 2 ^ offset"
  by (simp add: safe_mul_shr_cast_def)

text \<open>
  Rounding up through \<open>(prod + d - 1) / d\<close>: with both operands in the narrow
  type the intermediate sum never overflows the wide one, so the quotient is
  the exact one; the one failure left is a zero denominator.
\<close>

lemma mul_div_exact:
  fixes x y d :: "'n::len word"
  assumes len: "2 * LENGTH('n) \<le> LENGTH('w::len)"
  shows "and_then (safe_mul (ucast x :: 'w word) (ucast y)) (\<lambda>prod.
      case r of
          Up \<Rightarrow> and_then (safe_add prod (ucast d)) (\<lambda>a.
                and_then (safe_sub a 1) (\<lambda>b. safe_div b (ucast d)))
        | Down \<Rightarrow> safe_div prod (ucast d)) = Inr z
    \<longleftrightarrow> unat d \<noteq> 0 \<and> unat z = div_round r (unat x * unat y) (unat d)"
proof -
  let ?B = "2 ^ LENGTH('n) :: nat"
  have up: "LENGTH('n) \<le> LENGTH('w)" using len by simp
  have B: "?B * ?B \<le> 2 ^ LENGTH('w)"
    using len by (simp add: power_increasing flip: power_add mult_2)
  have le: "unat x \<le> ?B - 1" "unat y \<le> ?B - 1" "unat d \<le> ?B - 1" by (rule unat_le_max)+
  have m: "unat x * unat y \<le> (?B - 1) * (?B - 1)" using le by (intro mult_mono) simp_all
  have sq: "(?B - 1) * (?B - 1) + ?B \<le> ?B * ?B"
    by (cases ?B) (simp_all add: algebra_simps)
  have "1 \<le> ?B" by simp
  then have p1: "unat x * unat y + unat d < 2 ^ LENGTH('w)" using m sq B le by linarith
  have p: "unat x * unat y < 2 ^ LENGTH('w)" using p1 by linarith
  have pd: "unat x * unat y + unat d - 1 < 2 ^ LENGTH('w)" using p1 by linarith
  obtain P :: "'w word" where P: "unat P = unat x * unat y" using p by (rule word_witness)
  obtain A :: "'w word" where A: "unat A = unat x * unat y + unat d" using p1 by (rule word_witness)
  have m1: "safe_mul (ucast x :: 'w word) (ucast y) = Inr P" using up by (simp add: P)
  show ?thesis
  proof (cases r)
    case Down
    then show ?thesis using up by (simp add: m1 P del: safe_mul_Ok)
  next
    case Up
    have a1: "safe_add P (ucast d) = Inr A" using up by (simp add: P A)
    show ?thesis
    proof (cases "unat d = 0")
      case True
      then show ?thesis using Up up by (simp add: m1 a1 del: safe_mul_Ok safe_add_Ok)
    next
      case False
      obtain S :: "'w word" where S: "unat S = unat x * unat y + unat d - 1"
        using pd by (rule word_witness)
      have s1: "safe_sub A 1 = Inr S" using False by (simp add: A S)
      show ?thesis using Up up False
        by (simp add: m1 a1 s1 S ceil_div_def del: safe_mul_Ok safe_add_Ok safe_sub_Ok)
    qed
  qed
qed

lemma safe_mul_div_cast_u64_Ok [simp]:
  "safe_mul_div_cast_u64 x y d r = Inr (z :: 'b::len word)
    \<longleftrightarrow> unat d \<noteq> 0 \<and> unat z = div_round r (unat x * unat y) (unat d)"
proof -
  have "safe_mul_div_cast_u64 x y d r = Inr z \<longleftrightarrow>
    (\<exists>q :: u128. and_then (safe_mul (ucast x :: u128) (ucast y)) (\<lambda>prod.
      case r of
          Up \<Rightarrow> and_then (safe_add prod (ucast d)) (\<lambda>a.
                and_then (safe_sub a 1) (\<lambda>b. safe_div b (ucast d)))
        | Down \<Rightarrow> safe_div prod (ucast d)) = Inr q \<and> unat z = unat q)"
    unfolding safe_mul_div_cast_u64_def by (auto simp: Let_def)
  also have "\<dots> \<longleftrightarrow> (\<exists>q :: u128. unat d \<noteq> 0 \<and>
      unat q = div_round r (unat x * unat y) (unat d) \<and> unat z = unat q)"
    by (subst mul_div_exact) simp_all
  also have "\<dots> \<longleftrightarrow> unat d \<noteq> 0 \<and> unat z = div_round r (unat x * unat y) (unat d)"
  proof -
    have "unat x * unat y < 2 ^ LENGTH(128)" by (rule prod_lt_2p [where m = 64 and n = 64]) simp_all
    then have "unat d \<noteq> 0 \<Longrightarrow> div_round r (unat x * unat y) (unat d) < 2 ^ LENGTH(128)"
      using div_round_le_self [of "unat d" r "unat x * unat y"] by linarith
    then show ?thesis by (cases "unat d = 0") simp_all
  qed
  finally show ?thesis .
qed

lemma safe_mul_div_cast_u128_Ok [simp]:
  "safe_mul_div_cast_u128 x y d r = Inr z
    \<longleftrightarrow> unat d \<noteq> 0 \<and> unat z = div_round r (unat x * unat y) (unat d)"
proof -
  have "safe_mul_div_cast_u128 x y d r = Inr z \<longleftrightarrow>
    (\<exists>q :: u256. and_then (safe_mul (ucast x :: u256) (ucast y)) (\<lambda>prod.
      case r of
          Up \<Rightarrow> and_then (safe_add prod (ucast d)) (\<lambda>a.
                and_then (safe_sub a 1) (\<lambda>b. safe_div b (ucast d)))
        | Down \<Rightarrow> safe_div prod (ucast d)) = Inr q \<and> unat z = unat q)"
    unfolding safe_mul_div_cast_u128_def by (auto simp: Let_def)
  also have "\<dots> \<longleftrightarrow> (\<exists>q :: u256. unat d \<noteq> 0 \<and>
      unat q = div_round r (unat x * unat y) (unat d) \<and> unat z = unat q)"
    by (subst mul_div_exact) simp_all
  also have "\<dots> \<longleftrightarrow> unat d \<noteq> 0 \<and> unat z = div_round r (unat x * unat y) (unat d)"
  proof -
    have "unat x * unat y < 2 ^ LENGTH(256)" by (rule prod_lt_2p [where m = 128 and n = 128]) simp_all
    then have "unat d \<noteq> 0 \<Longrightarrow> div_round r (unat x * unat y) (unat d) < 2 ^ LENGTH(256)"
      using div_round_le_self [of "unat d" r "unat x * unat y"] by linarith
    then show ?thesis by (cases "unat d = 0") simp_all
  qed
  finally show ?thesis .
qed

lemma safe_shl_div_cast_Ok:
  assumes "offset \<le> 128"
  shows "safe_shl_div_cast x y offset r = Inr (z :: 'b::len word)
    \<longleftrightarrow> unat y \<noteq> 0 \<and> div_round r (unat x * 2 ^ offset) (unat y) < 2 ^ 128
      \<and> unat z = div_round r (unat x * 2 ^ offset) (unat y)"
  by (cases "unat y = 0") (simp_all add: safe_shl_div_cast_def shl_div_Some [OF assms])

lemma no_panic_mul_div [simp]:
  "no_panic (safe_mul_div_cast_u64 x y d r :: 'b::len word result)"
  "no_panic (safe_mul_div_cast_u128 x' y' d' r)"
  by (cases r; auto simp: safe_mul_div_cast_u64_def safe_mul_div_cast_u128_def Let_def
    intro!: no_panic_and_then)+

end
