(* ===== verification/Fee_Amount.thy ===== *)
theory Fee_Amount
  imports Modes Utils_Math
begin

text \<open>
  Fees on an amount (the fee functions of \<open>PoolFeesConfig\<close> in
  \<open>state/config.rs\<close>, the conversions of \<open>params/fee_parameters.rs\<close>).  A fee is a
  numerator over \<open>FEE_DENOMINATOR\<close>.  \<open>net\<close> and \<open>gross\<close> are the exact functions
  behind \<open>get_excluded_fee_amount\<close> and \<open>get_included_fee_amount\<close>; they form a
  Galois connection, from which the round trip and the minimality of the
  included amount follow.
\<close>

record fee_on_amount_result =
  amount :: u64
  trading_fee :: u64
  protocol_fee :: u64
  referral_fee :: u64

definition calculate_fee :: "u128 \<Rightarrow> u128 \<Rightarrow> u128 \<Rightarrow> u128 option" where
  "calculate_fee token_amount fee_numerator fee_denominator =
     (if fee_numerator = 0 \<or> token_amount = 0 then Some 0
      else Option.bind (checked_mul token_amount fee_numerator) (\<lambda>m.
        Option.bind (if fee_denominator = 0 then None else Some (m div fee_denominator)) (\<lambda>fee.
        if fee = 0 then Some 1 else Some fee)))"

definition validate_fee_fraction :: "u64 \<Rightarrow> u64 \<Rightarrow> unit result" where
  "validate_fee_fraction numerator denominator =
     (if denominator = 0 \<or> numerator \<ge> denominator then err InvalidFee else Ok ())"

definition to_bps :: "u128 \<Rightarrow> u128 \<Rightarrow> u64 result" where
  "to_bps numerator denominator =
     and_then (safe_mul numerator (ucast MAX_BASIS_POINT)) (\<lambda>m.
     and_then (safe_div m denominator) (\<lambda>bps.
     ok_or (try_cast bps) TypeCastFailed))"

definition to_numerator :: "u128 \<Rightarrow> u128 \<Rightarrow> u64 result" where
  "to_numerator bps denominator =
     and_then (safe_mul bps denominator) (\<lambda>m.
     and_then (safe_div m (ucast MAX_BASIS_POINT)) (\<lambda>numerator.
     ok_or (try_cast numerator) TypeCastFailed))"

definition get_excluded_fee_amount :: "u64 \<Rightarrow> u64 \<Rightarrow> (u64 \<times> u64) result" where
  "get_excluded_fee_amount trade_fee_numerator included_fee_amount =
     and_then (safe_mul_div_cast_u64 included_fee_amount trade_fee_numerator FEE_DENOMINATOR Up)
       (\<lambda>trading_fee :: u64.
     and_then (safe_sub included_fee_amount trading_fee) (\<lambda>excluded_fee_amount.
     Ok (excluded_fee_amount, trading_fee)))"

definition get_included_fee_amount :: "u64 \<Rightarrow> u64 \<Rightarrow> (u64 \<times> u64) result" where
  "get_included_fee_amount trade_fee_numerator excluded_fee_amount =
     and_then (safe_sub FEE_DENOMINATOR trade_fee_numerator) (\<lambda>denominator.
     and_then (safe_mul_div_cast_u64 excluded_fee_amount FEE_DENOMINATOR denominator Up)
       (\<lambda>included_fee_amount :: u64.
     and_then (safe_sub included_fee_amount excluded_fee_amount) (\<lambda>fee_amount.
     Ok (included_fee_amount, fee_amount))))"

definition split_fees :: "u64 \<Rightarrow> bool \<Rightarrow> (u64 \<times> u64 \<times> u64) result" where
  "split_fees fee_amount has_referral =
     and_then (safe_mul_div_cast_u64 fee_amount (ucast PROTOCOL_FEE_PERCENT) 100 Down)
       (\<lambda>protocol_fee :: u64.
     and_then (safe_sub fee_amount protocol_fee) (\<lambda>trading_fee.
     and_then (if has_referral
        then safe_mul_div_cast_u64 protocol_fee (ucast HOST_FEE_PERCENT) 100 Down else Ok 0)
       (\<lambda>referral_fee.
     and_then (safe_sub protocol_fee referral_fee) (\<lambda>protocol_fee.
     Ok (trading_fee, protocol_fee, referral_fee)))))"

definition get_fee_on_amount :: "u64 \<Rightarrow> u64 \<Rightarrow> bool \<Rightarrow> fee_on_amount_result result" where
  "get_fee_on_amount trade_fee_numerator amt has_referral =
     and_then (get_excluded_fee_amount trade_fee_numerator amt) (\<lambda>(amt, trading).
     and_then (safe_mul_div_cast_u64 trading (ucast PROTOCOL_FEE_PERCENT) 100 Down)
       (\<lambda>protocol :: u64.
     and_then (safe_sub trading protocol) (\<lambda>trading.
     and_then (if has_referral
        then safe_mul_div_cast_u64 protocol (ucast HOST_FEE_PERCENT) 100 Down else Ok 0)
       (\<lambda>referral.
     and_then (safe_sub protocol referral) (\<lambda>protocol.
     Ok \<lparr>amount = amt, trading_fee = trading, protocol_fee = protocol, referral_fee = referral\<rparr>)))))"

lemmas [eval] = calculate_fee_def validate_fee_fraction_def to_bps_def to_numerator_def
  get_excluded_fee_amount_def get_included_fee_amount_def split_fees_def get_fee_on_amount_def

lemma no_panic_fee_amount [simp]:
  "no_panic (to_numerator b d)" "no_panic (to_bps b d)"
  "no_panic (get_excluded_fee_amount n x)" "no_panic (get_included_fee_amount n x)"
  by (auto simp: to_numerator_def to_bps_def get_excluded_fee_amount_def get_included_fee_amount_def
    intro!: no_panic_and_then)

section \<open>The exact functions\<close>

definition net :: "nat \<Rightarrow> nat \<Rightarrow> nat" where
  "net n x = x * (1000000000 - n) div 1000000000"

definition gross :: "nat \<Rightarrow> nat \<Rightarrow> nat" where
  "gross n x = ceil_div (x * 1000000000) (1000000000 - n)"

lemma le_div_iff: "0 < b \<Longrightarrow> c \<le> a div b \<longleftrightarrow> b * c \<le> (a::nat)"
  by (metis le_div_of_mult_le mult_div_le mult_le_mono2 order_trans)

lemma ceil_div_le_iff: "0 < b \<Longrightarrow> ceil_div a b \<le> c \<longleftrightarrow> a \<le> b * c"
  by (meson ceil_div_ge ceil_div_le mult_le_mono2 order_trans)

lemma gross_net_galois:
  assumes "n < 1000000000"
  shows "gross n e \<le> x \<longleftrightarrow> e \<le> net n x"
  using assms unfolding gross_def net_def
  by (simp add: ceil_div_le_iff le_div_iff mult.commute)

lemma sub_ceil_div:
  assumes "n \<le> d" "0 < d"
  shows "x - ceil_div (x * n) d = x * (d - n) div d" "ceil_div (x * n) d \<le> x"
proof -
  show le: "ceil_div (x * n) d \<le> x" using assms by (intro ceil_div_le) (simp_all add: mult.commute)
  have eq: "c \<le> x - ceil_div (x * n) d \<longleftrightarrow> c \<le> x * (d - n) div d" for c
  proof -
    have "c \<le> x - ceil_div (x * n) d \<longleftrightarrow> c \<le> x \<and> ceil_div (x * n) d \<le> x - c" using le by linarith
    also have "\<dots> \<longleftrightarrow> c \<le> x \<and> x * n + d * c \<le> d * x"
      using assms(2) by (auto simp: ceil_div_le_iff diff_mult_distrib2)
        (metis Nat.le_diff_conv2 mult_le_mono2)+
    also have "\<dots> \<longleftrightarrow> d * c \<le> x * (d - n)"
    proof
      assume "d * c \<le> x * (d - n)"
      then have 1: "d * c + x * n \<le> d * x"
        using mult_le_mono2 [OF assms(1), of x] unfolding diff_mult_distrib2 mult.commute [of d x]
        by linarith
      then have "d * c \<le> d * x" by linarith
      with 1 assms(2) show "c \<le> x \<and> x * n + d * c \<le> d * x" by simp
    next
      assume "c \<le> x \<and> x * n + d * c \<le> d * x"
      then show "d * c \<le> x * (d - n)" unfolding diff_mult_distrib2 mult.commute [of d x] by linarith
    qed
    also have "\<dots> \<longleftrightarrow> c \<le> x * (d - n) div d" using assms(2) by (simp add: le_div_iff)
    finally show ?thesis .
  qed
  show "x - ceil_div (x * n) d = x * (d - n) div d"
    by (rule antisym) (use eq in blast)+
qed

lemma net_le: "net n x \<le> x"
  unfolding net_def by (intro div_le_of_le_mult) simp_all

lemma net_mono: "x \<le> y \<Longrightarrow> net n x \<le> net n y"
  unfolding net_def by (intro div_le_mono mult_right_mono) simp_all

lemma net_antimono: "m \<le> n \<Longrightarrow> net n x \<le> net m x"
  unfolding net_def by (intro div_le_mono mult_left_mono) simp_all

lemma gross_ge: "n < 1000000000 \<Longrightarrow> x \<le> gross n x"
  using gross_net_galois [of n x "gross n x"] net_le [of n "gross n x"] by simp

lemma net_gross: "n < 1000000000 \<Longrightarrow> net n (gross n e) = e"
proof (rule antisym)
  assume n: "n < 1000000000"
  show "e \<le> net n (gross n e)" using gross_net_galois [OF n, of e "gross n e"] by simp
  have "(1000000000 - n) * gross n e < e * 1000000000 + (1000000000 - n)"
    unfolding gross_def using n by (intro ceil_div_lt) simp
  then have "gross n e * (1000000000 - n) < 1000000000 * (e + 1)" using n by (simp add: mult.commute)
  then have "net n (gross n e) < e + 1"
    unfolding net_def by (simp add: less_mult_imp_div_less mult.commute)
  then show "net n (gross n e) \<le> e" by simp
qed

section \<open>The program's functions\<close>

lemma get_excluded_fee_amount_Ok:
  assumes "unat n \<le> 1000000000"
  shows "get_excluded_fee_amount n x = Inr (ex, fee) \<longleftrightarrow>
    unat ex = net (unat n) (unat x) \<and> unat fee = unat x - net (unat n) (unat x)"
proof -
  note s = sub_ceil_div [OF assms, of "unat x", simplified]
  have "unat x - net (unat n) (unat x) = ceil_div (unat x * unat n) 1000000000"
    using s by (simp add: net_def)
  moreover have "net (unat n) (unat x) = unat x - ceil_div (unat x * unat n) 1000000000"
    using s by (simp add: net_def)
  ultimately show ?thesis using s(2) by (auto simp: get_excluded_fee_amount_def)
qed

lemma get_excluded_fee_amount_total:
  assumes "unat n \<le> 1000000000"
  shows "\<exists>ex fee. get_excluded_fee_amount n x = Inr (ex, fee)"
proof -
  have "net (unat n) (unat x) < 2 ^ LENGTH(64)" "unat x - net (unat n) (unat x) < 2 ^ LENGTH(64)"
    using net_le [of "unat n" "unat x"] unat_lt_2p [of x] by linarith+
  then obtain ex fee :: u64 where "unat ex = net (unat n) (unat x)"
    "unat fee = unat x - net (unat n) (unat x)" by (metis word_witness)
  then show ?thesis using get_excluded_fee_amount_Ok [OF assms] by blast
qed

lemma get_included_fee_amount_Ok:
  assumes "unat n < 1000000000"
  shows "get_included_fee_amount n e = Inr (inc, fee) \<longleftrightarrow>
    unat inc = gross (unat n) (unat e) \<and> unat fee = gross (unat n) (unat e) - unat e"
proof -
  have "1000000000 - unat n < 2 ^ LENGTH(64)" by simp
  then obtain d :: u64 where d: "unat d = 1000000000 - unat n" by (rule word_witness)
  have "safe_sub FEE_DENOMINATOR n = Inr d" using assms d by simp
  moreover have "unat e \<le> gross (unat n) (unat e)" using assms by (rule gross_ge)
  ultimately show ?thesis using assms
    by (auto simp: get_included_fee_amount_def gross_def d simp del: safe_sub_Ok)
      (auto simp: d gross_def)
qed

lemma percent_Ok:
  assumes "unat p \<le> 100"
  shows "safe_mul_div_cast_u64 x (ucast (p :: u8)) 100 Down = Inr (z :: u64)
    \<longleftrightarrow> unat z = unat x * unat p div 100"
  by simp

lemma split_fees_Ok:
  "split_fees fee has_referral = Inr (t, p, r) \<longleftrightarrow>
    unat t = unat fee - unat fee * 20 div 100 \<and>
    unat r = (if has_referral then unat fee * 20 div 100 * 20 div 100 else 0) \<and>
    unat p = unat fee * 20 div 100 - unat r"
proof -
  have lt: "unat fee * 20 div 100 \<le> unat fee" by simp
  have "unat fee * 20 div 100 < 2 ^ LENGTH(64)" using lt unat_lt_2p [of fee] by linarith
  then obtain q :: u64 where q: "unat q = unat fee * 20 div 100" by (rule word_witness)
  have lt2: "unat q * 20 div 100 \<le> unat q" by simp
  have "unat q * 20 div 100 < 2 ^ LENGTH(64)" using lt2 unat_lt_2p [of q] by linarith
  then obtain h :: u64 where h: "unat h = unat q * 20 div 100" by (rule word_witness)
  have e1: "safe_mul_div_cast_u64 fee (ucast PROTOCOL_FEE_PERCENT) 100 Down = Inr q" by (simp add: q)
  have e2: "safe_mul_div_cast_u64 q (ucast HOST_FEE_PERCENT) 100 Down = Inr h" by (simp add: h)
  show ?thesis
    using lt lt2 unfolding split_fees_def e1 and_then_simps e2
    by (cases has_referral; auto simp: q h word_unat_eq_iff; metis)
qed

lemma split_fees_total: "\<exists>t p r. split_fees fee has_referral = Inr (t, p, r)"
proof -
  let ?q = "unat fee * 20 div 100"
  have b: "k < 2 ^ LENGTH(64)" if "k \<le> unat fee" for k
    using that unat_lt_2p [of fee] by (rule le_less_trans)
  have "unat fee - ?q < 2 ^ LENGTH(64)" by (rule b) simp
  then obtain t :: u64 where t: "unat t = unat fee - ?q" by (rule word_witness)
  have "?q * 20 div 100 \<le> unat fee" by linarith
  then have "(if has_referral then ?q * 20 div 100 else 0) < 2 ^ LENGTH(64)" by (intro b) simp
  then obtain r :: u64 where r: "unat r = (if has_referral then ?q * 20 div 100 else 0)"
    by (rule word_witness)
  have "?q - unat r < 2 ^ LENGTH(64)" by (rule b) (simp add: le_diff_conv trans_le_add1)
  then obtain p :: u64 where p: "unat p = ?q - unat r" by (rule word_witness)
  show ?thesis using split_fees_Ok [of fee has_referral t p r] t r p by blast
qed

lemma split_fees_sum:
  "split_fees fee has_referral = Inr (t, p, r) \<Longrightarrow> unat t + unat p + unat r = unat fee"
  by (auto simp: split_fees_Ok split: if_splits)

lemma get_fee_on_amount_split:
  "get_fee_on_amount n x has_referral =
    and_then (get_excluded_fee_amount n x) (\<lambda>(ex, fee).
    and_then (split_fees fee has_referral) (\<lambda>(t, p, r).
    Ok \<lparr>amount = ex, trading_fee = t, protocol_fee = p, referral_fee = r\<rparr>))"
  by (simp add: get_fee_on_amount_def split_fees_def and_then_assoc case_prod_unfold)

lemma to_numerator_Ok:
  assumes "unat bps * unat d < 2 ^ LENGTH(128)"
  shows "to_numerator bps d = Inr z \<longleftrightarrow> unat z = unat bps * unat d div 10000"
proof -
  obtain m :: u128 where m: "unat m = unat bps * unat d" using assms by (rule word_witness)
  have e: "safe_mul bps d = Inr m" by (simp add: m)
  have "unat m div 10000 < 2 ^ LENGTH(128)" using unat_lt_2p [of m] by linarith
  then obtain k :: u128 where k: "unat k = unat m div 10000" by (rule word_witness)
  have e2: "safe_div m (ucast MAX_BASIS_POINT) = Inr k" by (simp add: k)
  show ?thesis unfolding to_numerator_def e and_then_simps e2 by (simp add: k m)
qed

lemma to_numerator_bps:
  "to_numerator (ucast (b :: u16)) (ucast FEE_DENOMINATOR) = Inr z \<longleftrightarrow> unat z = unat b * 100000"
proof -
  have "unat b * 1000000000 < 2 ^ 128" using unat_range(2) [of b] by (simp del: unat_range)
  then show ?thesis by (subst to_numerator_Ok) (simp_all add: mult.commute)
qed

section \<open>Properties\<close>

text \<open>
  C32: charging the fee on an amount is total and conserves it: for every fee
  numerator up to the denominator no error occurs, and the amount left, the
  trading fee, the protocol fee and the referral fee add up to the amount that
  was charged; without a referral the referral fee is zero.
\<close>

theorem get_fee_on_amount_conserves:
  assumes "n \<le> FEE_DENOMINATOR"
  shows "\<exists>r. get_fee_on_amount n x has_referral = Inr r \<and>
    unat (amount r) + unat (trading_fee r) + unat (protocol_fee r) + unat (referral_fee r) = unat x \<and>
    (\<not> has_referral \<longrightarrow> referral_fee r = 0)"
proof -
  have n: "unat n \<le> 1000000000" using assms by (simp add: word_le_nat_alt)
  obtain ex fee where e: "get_excluded_fee_amount n x = Inr (ex, fee)"
    using get_excluded_fee_amount_total [OF n] by blast
  obtain t p r where s: "split_fees fee has_referral = Inr (t, p, r)"
    using split_fees_total by blast
  have "unat ex + unat fee = unat x"
    using e n net_le [of "unat n" "unat x"] by (simp add: get_excluded_fee_amount_Ok)
  moreover have "get_fee_on_amount n x has_referral =
      Inr \<lparr>amount = ex, trading_fee = t, protocol_fee = p, referral_fee = r\<rparr>"
    by (simp add: get_fee_on_amount_split e s)
  moreover have "\<not> has_referral \<longrightarrow> r = 0" using s by (simp add: split_fees_Ok word_unat_eq_iff)
  ultimately show ?thesis using split_fees_sum [OF s] by simp
qed

theorem get_fee_on_amount_conserves_witness:
  "\<exists>r. get_fee_on_amount 10000000 12345 True = Inr r \<and>
    unat (amount r) + unat (trading_fee r) + unat (protocol_fee r) + unat (referral_fee r) = 12345"
  using get_fee_on_amount_conserves [of 10000000 12345 True]
  by (auto simp: FEE_DENOMINATOR_def)

text \<open>
  C33: adding the fee to an amount and taking it off again gives the amount
  back, and the included amount is the least one with that property: no smaller
  payment leaves the required amount after the fee.
\<close>

theorem included_fee_amount_roundtrip:
  assumes "n < FEE_DENOMINATOR" "get_included_fee_amount n e = Inr (inc, fee)"
  shows "get_excluded_fee_amount n inc = Inr (e, fee) \<and>
    (\<forall>x ex f. get_excluded_fee_amount n x = Inr (ex, f) \<longrightarrow> (inc \<le> x \<longleftrightarrow> e \<le> ex))"
proof -
  have n: "unat n < 1000000000" using assms(1) by (simp add: word_less_nat_alt)
  have i: "unat inc = gross (unat n) (unat e)" "unat fee = gross (unat n) (unat e) - unat e"
    using assms(2) n by (simp_all add: get_included_fee_amount_Ok)
  show ?thesis using n gross_net_galois [OF n]
    by (auto simp: get_excluded_fee_amount_Ok i net_gross word_le_nat_alt)
qed

theorem included_fee_amount_roundtrip_witness:
  "get_included_fee_amount 10000000 9900 = Inr (10000, 100) \<and>
    get_excluded_fee_amount 10000000 10000 = Inr (9900, 100)"
proof -
  have i: "get_included_fee_amount 10000000 9900 = Inr (10000, 100)"
    by (simp add: get_included_fee_amount_Ok gross_def ceil_div_def)
  show ?thesis using included_fee_amount_roundtrip [OF _ i] i
    by (simp add: FEE_DENOMINATOR_def)
qed

end
