(* ===== verification/Fee_Math.thy ===== *)
theory Fee_Math
  imports Utils_Math
begin

text \<open>
  Exponentiation in Q64.64 and the exponential fee decay (\<open>math/fee_math.rs\<close>).
  The unrolled ladder of \<open>pow\<close> is \<open>pow_ladder\<close> over the masks of the source; it
  is shown to be the square-and-multiply loop that the comment of the source
  gives as its meaning, which then has a simple upper and lower (Bernoulli)
  bound.  A signed 32-bit exponent is a word read by \<open>sint\<close>.
\<close>

unbundle bit_operations_syntax

type_synonym i32 = "32 word"

definition MAX_EXPONENTIAL :: u32 where "MAX_EXPONENTIAL = 0x80000"
definition SCALE_OFFSET :: nat where "SCALE_OFFSET = 64"

definition mul_q64 :: "u128 \<Rightarrow> u128 \<Rightarrow> u128 option" where
  "mul_q64 a b = Option.bind (checked_mul a b) (\<lambda>p. Some (drop_bit SCALE_OFFSET p))"

definition pow_bit :: "u32 \<Rightarrow> u32 \<Rightarrow> u128 \<Rightarrow> u128 \<Rightarrow> u128 option" where
  "pow_bit exp msk squared_base res =
     (if exp AND msk > 0 then mul_q64 res squared_base else Some res)"

fun pow_ladder :: "u32 \<Rightarrow> u32 list \<Rightarrow> u128 \<Rightarrow> u128 \<Rightarrow> u128 option" where
  "pow_ladder exp [] squared_base res = Some res"
| "pow_ladder exp (msk # msks) squared_base res =
     Option.bind (mul_q64 squared_base squared_base) (\<lambda>squared_base.
     Option.bind (pow_bit exp msk squared_base res) (\<lambda>res.
     pow_ladder exp msks squared_base res))"

definition pow_masks :: "u32 list" where
  "pow_masks = [0x2, 0x4, 0x8, 0x10, 0x20, 0x40, 0x80, 0x100, 0x200, 0x400, 0x800, 0x1000,
     0x2000, 0x4000, 0x8000, 0x10000, 0x20000, 0x40000]"

definition checked_div :: "'w::len word \<Rightarrow> 'w word \<Rightarrow> 'w word option" where
  "checked_div x y = (if y = 0 then None else Some (x div y))"

definition pow_finish :: "bool \<Rightarrow> u128 \<Rightarrow> u128 option" where
  "pow_finish invert res =
     (if res = 0 then None
      else if invert then checked_div (- 1) res else Some res)"

definition pow :: "u128 \<Rightarrow> i32 \<Rightarrow> u128 option" where
  "pow base exp =
     (if exp = 0x80000000 then None
      else let invert = sint exp < 0 in
      if exp = 0 then Some (push_bit 64 1)
      else let exp = (if invert then - exp else exp) in
      if exp \<ge> MAX_EXPONENTIAL then None
      else Option.bind (if base \<ge> ONE_Q64 then checked_div (- 1) base else Some base) (\<lambda>squared_base.
        let invert = (if base \<ge> ONE_Q64 then \<not> invert else invert) in
        Option.bind (pow_bit exp 0x1 squared_base ONE_Q64) (\<lambda>res.
        Option.bind (pow_ladder exp pow_masks squared_base res) (\<lambda>res.
        pow_finish invert res))))"

definition get_fee_in_period :: "u64 \<Rightarrow> u64 \<Rightarrow> u16 \<Rightarrow> u64 result" where
  "get_fee_in_period cliff_fee_numerator reduction_factor passed_period =
     and_then (safe_shl (ucast reduction_factor :: u128) SCALE_OFFSET) (\<lambda>s.
     and_then (safe_div s (ucast BASIS_POINT_MAX)) (\<lambda>bps.
     and_then (safe_sub ONE_Q64 bps) (\<lambda>base.
     and_then (ok_or (pow base (ucast passed_period)) MathOverflow) (\<lambda>res.
     and_then (safe_mul res (ucast cliff_fee_numerator)) (\<lambda>m.
     let fee = drop_bit SCALE_OFFSET m in
     ok_or (try_cast fee) TypeCastFailed)))))"

lemmas [eval] = mul_q64_def pow_bit_def pow_masks_def checked_div_def pow_finish_def pow_def get_fee_in_period_def
  MAX_EXPONENTIAL_def SCALE_OFFSET_def

section \<open>The loop of the comment\<close>

fun pow_ref :: "nat \<Rightarrow> nat \<Rightarrow> nat \<Rightarrow> nat" where
  "pow_ref e b r =
     (if e = 0 then r
      else pow_ref (e div 2) (b * b div 2 ^ 64) (if odd e then r * b div 2 ^ 64 else r))"

declare pow_ref.simps [simp del]

lemma pow_ref_0 [simp]: "pow_ref 0 b r = r"
  by (simp add: pow_ref.simps)

lemma mul_q64_total:
  assumes "unat a \<le> 2 ^ 64" "unat b < 2 ^ 64"
  shows "\<exists>c. mul_q64 a b = Some c \<and> unat c = unat a * unat b div 2 ^ 64 \<and> unat c \<le> unat a
    \<and> (unat a < 2 ^ 64 \<longrightarrow> unat c < 2 ^ 64)"
proof -
  have "unat a * unat b \<le> 2 ^ 64 * (2 ^ 64 - 1)" using assms by (intro mult_mono) auto
  also have "\<dots> < (2::nat) ^ LENGTH(128)" by simp
  finally have lt: "unat a * unat b < 2 ^ LENGTH(128)" .
  then obtain p :: u128 where p: "unat p = unat a * unat b" by (rule word_witness)
  have c: "checked_mul a b = Some p" by (simp add: p)
  have d: "unat (drop_bit SCALE_OFFSET p) = unat a * unat b div 2 ^ 64"
    by (simp add: unat_drop_bit p SCALE_OFFSET_def)
  have le: "unat a * unat b div 2 ^ 64 \<le> unat a"
    using assms(2) by (intro div_le_of_le_mult) simp_all
  show ?thesis using le by (simp add: mul_q64_def c d del: checked_mul_Some)
qed

lemma bit_word_odd: "bit (w :: 'w::len word) i \<longleftrightarrow> odd (unat w div 2 ^ i)"
  by (simp add: bit_unsigned_iff flip: bit_iff_odd)

lemma and_mask_pos: "w AND 2 ^ i > (0 :: 'w::len word) \<longleftrightarrow> odd (unat w div 2 ^ i)"
  by (simp add: and_exp_eq_0_iff_not_bit bit_word_odd flip: word_neq_0_conv)

lemma pow_bit_total:
  assumes "unat res \<le> 2 ^ 64" "unat sq < 2 ^ 64"
  shows "\<exists>c. pow_bit e (2 ^ i) sq res = Some c \<and> unat c \<le> 2 ^ 64
    \<and> unat c = (if odd (unat e div 2 ^ i) then unat res * unat sq div 2 ^ 64 else unat res)"
proof -
  have b: "e AND 2 ^ i > 0 \<longleftrightarrow> odd (unat e div 2 ^ i)" by (rule and_mask_pos)
  show ?thesis
  proof (cases "odd (unat e div 2 ^ i)")
    case True
    then have "pow_bit e (2 ^ i) sq res = mul_q64 res sq" using b by (simp add: pow_bit_def)
    with True mul_q64_total [OF assms(1,2)] assms(1) show ?thesis by auto
  next
    case False
    then have "pow_bit e (2 ^ i) sq res = Some res" using b by (simp add: pow_bit_def)
    with False assms(1) show ?thesis by auto
  qed
qed

lemma pow_ladder_ref:
  assumes "unat e < 2 ^ n" "n \<le> 32" "i \<le> n" "unat sq < 2 ^ 64" "unat res \<le> 2 ^ 64"
  shows "\<exists>c. pow_ladder e (map (\<lambda>j. 2 ^ j) [i..<n]) sq res = Some c \<and> unat c \<le> 2 ^ 64
    \<and> unat c = pow_ref (unat e div 2 ^ i) (unat sq * unat sq div 2 ^ 64) (unat res)"
  using assms
proof (induction "n - i" arbitrary: i sq res)
  case 0
  then show ?case by simp
next
  case (Suc k)
  then have i: "i < n" "k = n - Suc i" by simp_all
  obtain sq' where sq': "mul_q64 sq sq = Some sq'" "unat sq' = unat sq * unat sq div 2 ^ 64"
    "unat sq' < 2 ^ 64" using mul_q64_total [of sq sq] Suc.prems by auto
  obtain res' where res': "pow_bit e (2 ^ i) sq' res = Some res'" "unat res' \<le> 2 ^ 64"
    "unat res' = (if odd (unat e div 2 ^ i) then unat res * unat sq' div 2 ^ 64 else unat res)"
    using pow_bit_total [of res sq' e i] Suc.prems sq'(3) i by auto
  have l: "map (\<lambda>j. 2 ^ j :: u32) [i..<n] = 2 ^ i # map (\<lambda>j. 2 ^ j) [Suc i..<n]"
    using i by (simp add: upt_conv_Cons)
  have d: "unat e div 2 ^ i div 2 = unat e div 2 ^ Suc i" by (metis div_mult2_eq power_Suc2)
  have pr: "pow_ref (unat e div 2 ^ i) (unat sq') (unat res) = pow_ref (unat e div 2 ^ Suc i)
      (unat sq' * unat sq' div 2 ^ 64) (unat res')"
    unfolding pow_ref.simps [of "unat e div 2 ^ i"] d res'(3) by (cases "unat e div 2 ^ i = 0")
      (simp_all only: if_True if_False flip: d, simp)
  have "pow_ladder e (map (\<lambda>j. 2 ^ j) [i..<n]) sq res
      = pow_ladder e (map (\<lambda>j. 2 ^ j) [Suc i..<n]) sq' res'"
    unfolding l by (simp add: sq'(1) res'(1))
  moreover have "\<exists>c. pow_ladder e (map (\<lambda>j. 2 ^ j) [Suc i..<n]) sq' res' = Some c \<and> unat c \<le> 2 ^ 64
    \<and> unat c = pow_ref (unat e div 2 ^ Suc i) (unat sq' * unat sq' div 2 ^ 64) (unat res')"
    using i Suc.prems sq'(3) res'(2) by (intro Suc.hyps(1)) simp_all
  ultimately show ?case using pr sq'(2) by simp
qed

lemma pow_masks_eq: "pow_masks = map (\<lambda>j. 2 ^ j) [1..<19]"
  by (simp add: pow_masks_def upt_rec)

section \<open>Bounds of the loop\<close>

lemma sq_deficit:
  fixes a b M :: nat
  assumes "a \<le> M" "b \<le> M" "0 < M"
  shows "a + b \<le> a * b div M + M"
proof -
  have "M * (a + b) \<le> a * b + M * M"
  proof -
    have "int (a * b + M * M) - int (M * (a + b)) = (int M - int a) * (int M - int b)"
      by (simp add: algebra_simps)
    also have "\<dots> \<ge> 0" using assms by (intro mult_nonneg_nonneg) simp_all
    finally have "int (M * (a + b)) \<le> int (a * b + M * M)" by simp
    then show ?thesis by (simp only: of_nat_le_iff)
  qed
  then have "(a + b) \<le> (a * b + M * M) div M" using assms(3) by (intro le_div_of_mult_le)
  also have "\<dots> = a * b div M + M" using assms(3) by simp
  finally show ?thesis .
qed

lemma pow_ref_lower:
  assumes "b \<le> 2 ^ 64" "r \<le> 2 ^ 64"
  shows "r \<le> pow_ref e b r + e * (2 ^ 64 - b)"
  using assms
proof (induction e b r rule: pow_ref.induct)
  case (1 e b r)
  show ?case
  proof (cases "e = 0")
    case False
    let ?M = "2 ^ 64 :: nat"
    let ?b = "b * b div ?M" and ?r = "if odd e then r * b div ?M else r"
    have b': "?b \<le> ?M" using 1(2) by (intro div_le_of_le_mult mult_mono) simp_all
    have "r * b div ?M \<le> r" using 1(2) by (intro div_le_of_le_mult) simp_all
    then have r': "?r \<le> ?M" using 1(3) by simp
    have IH: "?r \<le> pow_ref (e div 2) ?b ?r + e div 2 * (?M - ?b)"
      using False b' r' by (rule 1(1))
    have d: "?M - ?b \<le> 2 * (?M - b)" using sq_deficit [of b ?M b] 1(2) by linarith
    have "r \<le> r * b div ?M + (?M - b)" using sq_deficit [of r ?M b] 1(2,3) by linarith
    then have "r \<le> ?r + (e mod 2) * (?M - b)" by (cases "odd e") (simp_all add: odd_iff_mod_2_eq_one)
    also have "\<dots> \<le> pow_ref (e div 2) ?b ?r + e div 2 * (2 * (?M - b)) + (e mod 2) * (?M - b)"
      using IH mult_le_mono2 [OF d, of "e div 2"] by linarith
    also have "\<dots> = pow_ref (e div 2) ?b ?r + (e div 2 * 2 + e mod 2) * (?M - b)"
      by (simp only: distrib_right mult.assoc add.assoc)
    also have "\<dots> = pow_ref e b r + e * (?M - b)"
      using False by (simp only: div_mult_mod_eq pow_ref.simps [of e] if_False)
    finally show ?thesis .
  qed simp
qed

lemma pow_ref_upper: "pow_ref e b r * (2 ^ 64) ^ e \<le> r * b ^ e"
proof (induction e b r rule: pow_ref.induct)
  case (1 e b r)
  show ?case
  proof (cases "e = 0")
    case False
    let ?M = "2 ^ 64 :: nat"
    let ?b = "b * b div ?M" and ?r = "if odd e then r * b div ?M else r"
    define k where "k = e div 2"
    define j where "j = e mod 2"
    have e: "e = 2 * k + j" by (simp add: k_def j_def)
    have pe: "x ^ e = x ^ k * x ^ k * x ^ j" for x :: nat by (simp only: e power_add mult_2)
    have IH: "pow_ref k ?b ?r * ?M ^ k \<le> ?r * ?b ^ k" unfolding k_def using False by (rule 1)
    have "?b * ?M \<le> b * b" by (simp add: mult.commute)
    then have bk: "(?b * ?M) ^ k \<le> (b * b) ^ k" by (rule power_mono) simp
    have "r * b div ?M * ?M \<le> r * b" by (simp add: mult.commute)
    then have rj: "?r * ?M ^ j \<le> r * b ^ j"
      by (cases "odd e") (auto simp: j_def odd_iff_mod_2_eq_one even_iff_mod_2_eq_zero)
    have "pow_ref e b r * ?M ^ e = pow_ref k ?b ?r * ?M ^ k * (?M ^ k * ?M ^ j)"
      using False unfolding pow_ref.simps [of e b r] k_def [symmetric] pe
      by (simp only: if_False ac_simps)
    also have "\<dots> \<le> ?r * ?b ^ k * (?M ^ k * ?M ^ j)" using IH by (rule mult_right_mono) simp
    also have "\<dots> = (?r * ?M ^ j) * (?b * ?M) ^ k" by (simp only: power_mult_distrib ac_simps)
    also have "\<dots> \<le> (r * b ^ j) * (b * b) ^ k" using rj bk by (rule mult_mono) simp_all
    also have "\<dots> = r * b ^ e" by (simp only: pe power_mult_distrib ac_simps)
    finally show ?thesis .
  qed simp
qed

lemma pow_ref_le: "b \<le> 2 ^ 64 \<Longrightarrow> pow_ref e b r \<le> r"
proof -
  assume b: "b \<le> 2 ^ 64"
  have "pow_ref e b r * (2 ^ 64) ^ e \<le> r * b ^ e" by (rule pow_ref_upper)
  also have "\<dots> \<le> r * (2 ^ 64) ^ e" using b by (intro mult_left_mono power_mono) simp_all
  finally show ?thesis by (simp del: power_mult)
qed

section \<open>Exponentiation\<close>

lemma sint_u32:
  "sint (x :: i32) = (if unat x < 2 ^ 31 then int (unat x) else int (unat x) - 2 ^ 32)"
proof -
  have "sint x = (uint x + 2 ^ 31) mod 2 ^ 32 - 2 ^ 31"
    by (simp add: sint_uint signed_take_bit_eq_take_bit_shift take_bit_eq_mod)
  then have s: "sint x = (int (unat x) + 2147483648) mod 4294967296 - 2147483648" by simp
  have "unat x < 4294967296" by simp
  then obtain u where u: "int (unat x) = u" "0 \<le> u" "u < 4294967296" "unat x < 2147483648 \<longleftrightarrow> u < 2147483648"
    by (metis of_nat_0_le_iff of_nat_less_numeral_iff)
  have "(u + 2147483648) mod 4294967296 - 2147483648 = (if u < 2147483648 then u else u - 4294967296)"
  proof (cases "u < 2147483648")
    case False
    have "(u + 2147483648) mod 4294967296 = (u + 2147483648 - 4294967296) mod 4294967296"
      by (rule minus_mod_self2 [symmetric])
    then show ?thesis using False u by simp
  qed (use u in simp)
  then show ?thesis using u(4) unfolding s u(1) by simp
qed

definition pow_base :: "u128 \<Rightarrow> nat" where
  "pow_base base = (if ONE_Q64 \<le> base then (2 ^ 128 - 1) div unat base else unat base)"

lemma pow_base_lt: "pow_base base < 2 ^ 64"
proof (cases "ONE_Q64 \<le> base")
  case True
  then have "2 ^ 64 \<le> unat base" by (simp add: word_le_nat_alt)
  then have "(2 ^ 128 - 1) div unat base \<le> (2 ^ 128 - 1) div 2 ^ 64" by (rule div_le_mono2 [rotated]) simp
  also have "\<dots> < 2 ^ 64" by simp
  finally show ?thesis using True by (simp add: pow_base_def)
qed (simp add: pow_base_def word_le_nat_alt not_le)

lemma pow_Suc_exp:
  assumes e: "0 < e" "e < 2 ^ 19" and x: "unat exp = e \<and> \<not> neg \<or> unat exp = 2 ^ 32 - e \<and> neg"
  shows "\<exists>r. unat r = pow_ref e (pow_base base) (2 ^ 64) \<and> unat r \<le> 2 ^ 64
    \<and> pow base exp = pow_finish (neg \<noteq> (ONE_Q64 \<le> base)) r"
proof -
  have neg: "sint exp < 0 \<longleftrightarrow> neg"
    using assms unat_lt_2p [of exp] unfolding sint_u32 by (auto simp del: of_nat_unat uint_nat)
  have x0: "exp \<noteq> 0x80000000" "exp \<noteq> 0" using e x by (auto simp: word_unat_eq_iff)
  define ex where "ex = (if neg then - exp else exp)"
  have ue: "unat ex = e"
  proof (cases neg)
    case True
    then have "unat exp = 2 ^ 32 - e" using x by simp
    then have "of_nat (unat exp + e) = (of_nat (2 ^ 32) :: i32)" using e by simp
    then have "exp + of_nat e = 0" by simp
    then have "- exp = of_nat e" by (simp add: eq_neg_iff_add_eq_0 add.commute neg_eq_iff_add_eq_0)
    then have "unat (- exp) = e" using e by (simp add: unat_of_nat_small)
    then show ?thesis using True by (simp add: ex_def)
  qed (use x in \<open>simp add: ex_def\<close>)
  have lim: "\<not> MAX_EXPONENTIAL \<le> ex"
    using e by (simp add: MAX_EXPONENTIAL_def word_le_nat_alt ue)
  obtain sq where sq: "unat sq = pow_base base"
    "(if base \<ge> ONE_Q64 then checked_div (- 1) base else Some base) = Some sq"
  proof (cases "ONE_Q64 \<le> base")
    case True
    then have "base \<noteq> 0" by (auto simp: word_le_nat_alt)
    then show ?thesis using True that [of "- 1 div base"]
      by (simp add: pow_base_def checked_div_def unat_div)
  qed (use that [of base] in \<open>simp add: pow_base_def\<close>)
  have sq64: "unat sq < 2 ^ 64" using sq(1) pow_base_lt [of base] by simp
  obtain r1 where r1: "pow_bit ex 0x1 sq ONE_Q64 = Some r1" "unat r1 \<le> 2 ^ 64"
    "unat r1 = (if odd e then 2 ^ 64 * unat sq div 2 ^ 64 else 2 ^ 64)"
    using pow_bit_total [of ONE_Q64 sq ex 0] sq64 ue by auto
  obtain r2 where r2: "pow_ladder ex pow_masks sq r1 = Some r2" "unat r2 \<le> 2 ^ 64"
    "unat r2 = pow_ref (e div 2) (unat sq * unat sq div 2 ^ 64) (unat r1)"
    using pow_ladder_ref [of ex 19 1 sq r1] sq64 ue e r1(2) unfolding pow_masks_eq by auto
  have "unat r2 = pow_ref e (pow_base base) (2 ^ 64)"
    using e(1) r2(3) r1(3) sq(1) by (simp add: pow_ref.simps [of e])
  moreover have "pow base exp = pow_finish (neg \<noteq> (ONE_Q64 \<le> base)) r2"
    unfolding pow_def using x0 lim sq(2) r1(1) r2(1) unfolding neg ex_def [symmetric]
    by (simp add: Let_def neg flip: ex_def)
  ultimately show ?thesis using r2(2) by blast
qed

section \<open>The fee after some periods\<close>

definition decay_base :: "nat \<Rightarrow> nat" where
  "decay_base reduction_factor = 2 ^ 64 - reduction_factor * 2 ^ 64 div 10000"

text \<open>The fee decay as naturals: one multiplication of the power by the cliff fee.\<close>

lemma pow_0 [simp]: "pow base 0 = Some (2 ^ 64)"
  by (simp add: pow_def push_bit_eq_mult)

lemma get_fee_in_period_Ok:
  "get_fee_in_period c rf n = Inr f \<longleftrightarrow>
    (\<exists>p. unat rf \<le> 10000 \<and> pow (of_nat (decay_base (unat rf))) (ucast n) = Some p
      \<and> unat p * unat c < 2 ^ 128 \<and> unat f = unat p * unat c div 2 ^ 64)"
proof -
  have lt: "unat rf * 2 ^ 64 < 2 ^ LENGTH(128)"
    using mult_le_mono1 [OF unat_le_max [of rf], of "2 ^ 64"] by simp
  then obtain s :: u128 where s: "unat s = unat rf * 2 ^ 64" by (rule word_witness)
  have s64: "unat (ucast rf :: u128) * 2 ^ SCALE_OFFSET < 2 ^ LENGTH(128)"
    using lt by (simp add: SCALE_OFFSET_def)
  have e1: "safe_shl (ucast rf :: u128) SCALE_OFFSET = Inr s"
    by (subst safe_shl_Ok_small [OF s64]) (simp_all add: SCALE_OFFSET_def s)
  have "unat rf * 2 ^ 64 div 10000 < 2 ^ LENGTH(128)"
    using lt div_le_dividend [of "unat rf * 2 ^ 64" 10000] by linarith
  then obtain b :: u128 where b: "unat b = unat rf * 2 ^ 64 div 10000" by (rule word_witness)
  have e2: "safe_div s (ucast BASIS_POINT_MAX) = Inr b" by (simp add: s b)
  have le: "unat b \<le> 2 ^ 64 \<longleftrightarrow> unat rf \<le> 10000"
  proof
    assume "unat b \<le> 2 ^ 64"
    then show "unat rf \<le> 10000"
      using div_le_mono [of "10001 * 2 ^ 64" "unat rf * 2 ^ 64" 10000] by (simp add: b)
  next
    assume "unat rf \<le> 10000"
    then show "unat b \<le> 2 ^ 64" unfolding b by (intro div_le_of_le_mult) simp_all
  qed
  show ?thesis
  proof (cases "unat rf \<le> 10000")
    case False
    then have "safe_sub ONE_Q64 b = Inl (Pool MathOverflow)"
      using le by (simp add: safe_sub_def word_le_nat_alt)
    then show ?thesis using False by (simp add: get_fee_in_period_def e1 e2)
  next
    case True
    have "decay_base (unat rf) < 2 ^ LENGTH(128)" by (simp add: decay_base_def)
    then have "unat (of_nat (decay_base (unat rf)) :: u128) = decay_base (unat rf)"
      by (rule unat_of_nat_small)
    then have e3: "safe_sub ONE_Q64 b = Inr (of_nat (decay_base (unat rf)))"
      using True le by (simp add: decay_base_def b)
    have ex: "(\<exists>m :: u128. unat m = k \<and> unat f = unat m div 2 ^ 64)
        \<longleftrightarrow> k < 2 ^ 128 \<and> unat f = k div 2 ^ 64" for k
      using ex_unat_conj [where 'w = 128, of k "\<lambda>m. unat f = m div 2 ^ 64"] by simp
    show ?thesis using True
      unfolding get_fee_in_period_def e1 and_then_simps e2 e3
      by (simp add: Let_def unat_drop_bit SCALE_OFFSET_def ex [simplified] del: ex_word_unat_eq)
  qed
qed

lemma unat_ucast_u16 [simp]: "unat (ucast (n :: u16) :: i32) = unat n"
  by simp

lemma unat_decay_base [simp]: "unat (of_nat (decay_base rf) :: u128) = decay_base rf"
  by (rule unat_of_nat_small) (simp add: decay_base_def)

text \<open>With a positive reduction the base is below one and the power is the loop's.\<close>

lemma decay_base_lt: "0 < rf \<Longrightarrow> decay_base rf < 2 ^ 64"
  unfolding decay_base_def using div_le_mono [of "1 * 2 ^ 64" "rf * 2 ^ 64" 10000] by simp

lemma decay_base_ge: "rf \<le> 10000 \<Longrightarrow> (10000 - rf) * 2 ^ 64 \<le> decay_base rf * 10000"
proof -
  assume rf: "rf \<le> 10000"
  have "rf * 2 ^ 64 div 10000 * 10000 \<le> rf * 2 ^ 64" by (simp add: mult.commute)
  then show ?thesis unfolding decay_base_def diff_mult_distrib by simp
qed

lemma pow_decay:
  assumes "0 < rf" "0 < unat (n :: u16)"
  shows "\<exists>r. unat r = pow_ref (unat n) (decay_base rf) (2 ^ 64)
    \<and> pow (of_nat (decay_base rf)) (ucast n) = (if r = 0 then None else Some r)"
proof -
  let ?b = "of_nat (decay_base rf) :: u128"
  have lt: "\<not> ONE_Q64 \<le> ?b" using decay_base_lt [OF assms(1)] by (simp add: word_le_nat_alt)
  have e: "unat n < 2 ^ 19" using less_trans [OF unat_range(2) [of n], of "2 ^ 19"] by simp
  have b: "pow_base ?b = decay_base rf" using lt by (simp add: pow_base_def)
  obtain r where "unat r = pow_ref (unat n) (decay_base rf) (2 ^ 64)"
    "pow ?b (ucast n) = pow_finish (False \<noteq> (ONE_Q64 \<le> ?b)) r"
    using pow_Suc_exp [OF assms(2) e, of "ucast n" False ?b] b by auto
  then show ?thesis using lt by (auto simp: pow_finish_def)
qed

lemma fee_in_period_reduced:
  assumes "get_fee_in_period c rf n = Inr f" "0 < unat rf" "0 < unat n"
  shows "unat f = pow_ref (unat n) (decay_base (unat rf)) (2 ^ 64) * unat c div 2 ^ 64"
  using assms pow_decay [OF assms(2,3)] by (auto simp: get_fee_in_period_Ok split: if_splits)

text \<open>With no reduction the power is inverted twice; it stays within the rounding of one.\<close>

lemma pow_one_bound:
  assumes "0 < unat (n :: u16)" "pow (of_nat (decay_base 0)) (ucast n) = Some p"
  shows "2 ^ 64 \<le> unat p \<and> unat p \<le> 2 ^ 64 + 2 ^ 16"
proof -
  let ?b = "of_nat (decay_base 0) :: u128"
  have one: "ONE_Q64 \<le> ?b" by (simp add: word_le_nat_alt decay_base_def)
  have b: "pow_base ?b = 2 ^ 64 - 1" using one by (simp add: pow_base_def) (simp add: decay_base_def)
  have e: "unat n < 2 ^ 19" using less_trans [OF unat_range(2) [of n], of "2 ^ 19"] by simp
  obtain r where r: "unat r = pow_ref (unat n) (2 ^ 64 - 1) (2 ^ 64)"
    "unat r \<le> 2 ^ 64" "pow ?b (ucast n) = pow_finish (False \<noteq> (ONE_Q64 \<le> ?b)) r"
    using pow_Suc_exp [OF assms(1) e, of "ucast n" False ?b] b by auto
  have p: "unat p = (2 ^ 128 - 1) div unat r" "r \<noteq> 0"
    using r(3) assms(2) one by (auto simp: pow_finish_def checked_div_def unat_div split: if_splits)
  have "2 ^ 64 \<le> unat r + unat n" using pow_ref_lower [of "2 ^ 64 - 1" "2 ^ 64" "unat n"] r(1) by simp
  then have lo: "2 ^ 64 - 2 ^ 16 + 1 \<le> unat r" using unat_range(2) [of n] by (simp del: unat_range)
  have "unat p \<le> (2 ^ 128 - 1) div (2 ^ 64 - 2 ^ 16 + 1)"
    unfolding p(1) using lo by (intro div_le_mono2) simp_all
  also have "\<dots> \<le> 2 ^ 64 + 2 ^ 16" by simp
  finally have hi: "unat p \<le> 2 ^ 64 + 2 ^ 16" .
  have "unat r * (2 ^ 64) ^ unat n \<le> 2 ^ 64 * (2 ^ 64 - 1) ^ unat n"
    using pow_ref_upper [of "unat n" "2 ^ 64 - 1" "2 ^ 64"] r(1) by simp
  also have "\<dots> < 2 ^ 64 * (2 ^ 64) ^ unat n"
    using assms(1) by (intro mult_strict_left_mono power_strict_mono) simp_all
  finally have "unat r < 2 ^ 64" by (simp only: mult_less_cancel2)
  then have "unat r \<le> 2 ^ 64 - 1" by simp
  then have "(2 ^ 128 - 1) div (2 ^ 64 - 1) \<le> unat p"
    unfolding p(1) using lo by (intro div_le_mono2) simp_all
  then show ?thesis using hi by simp
qed

lemma fee_in_period_le:
  assumes "get_fee_in_period c rf n = Inr f" "unat c < 2 ^ 47"
  shows "unat f \<le> unat c"
proof -
  obtain p where p: "pow (of_nat (decay_base (unat rf))) (ucast n) = Some p"
    "unat f = unat p * unat c div 2 ^ 64" using assms(1) by (auto simp: get_fee_in_period_Ok)
  have "unat p \<le> 2 ^ 64 + 2 ^ 16"
  proof (cases "unat n = 0")
    case True
    then have "n = 0" by (simp add: word_unat_eq_iff)
    then show ?thesis using p(1) by auto
  next
    case False
    then show ?thesis using p(1) pow_one_bound [of n p] pow_decay [of "unat rf" n]
        pow_ref_le [of "decay_base (unat rf)" "unat n" "2 ^ 64"]
      by (cases "unat rf = 0") (auto simp: decay_base_def split: if_splits)
  qed
  then have "unat p * unat c \<le> (2 ^ 64 + 2 ^ 16) * unat c" by (rule mult_right_mono) simp
  also have "\<dots> < 2 ^ 64 * (unat c + 1)" using assms(2) by (simp add: algebra_simps)
  finally have "unat p * unat c div 2 ^ 64 < unat c + 1"
    by (simp add: less_mult_imp_div_less mult.commute)
  then show ?thesis using p(2) by simp
qed

lemma fee_in_period_bernoulli:
  assumes f: "get_fee_in_period c rf n = Inr f"
  shows "unat c * (10000 - unat n * unat rf) \<le> (unat f + 1) * 10000"
proof -
  obtain p where p: "pow (of_nat (decay_base (unat rf))) (ucast n) = Some p" "unat rf \<le> 10000"
    "unat f = unat p * unat c div 2 ^ 64" using f by (auto simp: get_fee_in_period_Ok)
  have lo: "(10000 - unat n * unat rf) * 2 ^ 64 \<le> 10000 * unat p"
  proof (cases "unat n = 0 \<or> unat rf = 0")
    case True
    then have "2 ^ 64 \<le> unat p"
    proof
      assume "unat n = 0"
      then have "n = 0" by (simp add: word_unat_eq_iff)
      then show ?thesis using p(1) by auto
    next
      assume z: "unat rf = 0"
      show ?thesis
      proof (cases "n = 0")
        case False
        then have "0 < unat n" by (simp add: word_unat_eq_iff)
        then show ?thesis using pow_one_bound [of n p] p(1) z by simp
      qed (use p(1) in auto)
    qed
    then show ?thesis using True by auto
  next
    case False
    let ?B = "decay_base (unat rf)"
    have r: "unat p = pow_ref (unat n) ?B (2 ^ 64)"
      using pow_decay [of "unat rf" n] False p(1) by (auto split: if_splits)
    have B: "?B \<le> 2 ^ 64" by (simp add: decay_base_def)
    have "2 ^ 64 \<le> unat p + unat n * (2 ^ 64 - ?B)" using pow_ref_lower [OF B, of "2 ^ 64"] r by simp
    moreover have "10000 * (2 ^ 64 - ?B) \<le> unat rf * 2 ^ 64"
      using decay_base_ge [OF p(2)] p(2) by (simp add: algebra_simps diff_mult_distrib)
    then have "unat n * (10000 * (2 ^ 64 - ?B)) \<le> unat n * (unat rf * 2 ^ 64)" by (rule mult_le_mono2)
    ultimately have "10000 * 2 ^ 64 \<le> 10000 * unat p + unat n * unat rf * 2 ^ 64"
      by (simp add: algebra_simps)
    then show ?thesis unfolding diff_mult_distrib by linarith
  qed
  have "unat p * unat c < 2 ^ 64 * (unat f + 1)"
    unfolding p(3) by (rule lt_mult_Suc_div) simp
  then have hi: "10000 * unat p * unat c \<le> (unat f + 1) * 10000 * 2 ^ 64" by simp
  have "unat c * (10000 - unat n * unat rf) * 2 ^ 64 = (10000 - unat n * unat rf) * 2 ^ 64 * unat c"
    by (simp only: ac_simps)
  also have "\<dots> \<le> 10000 * unat p * unat c" using lo by (rule mult_right_mono) simp
  also note hi
  finally show ?thesis by (simp only: mult_le_cancel2) simp
qed

text \<open>
  C40: the unrolled ladder of \<open>pow\<close> computes what the comment above it says: for
  every exponent of magnitude below \<open>MAX_EXPONENTIAL\<close> no checked operation
  overflows and the result is the square-and-multiply loop on the (possibly
  inverted) base, inverted at the end when the sign and the inversion ask for it.
\<close>

theorem pow_is_square_and_multiply:
  assumes "exp \<noteq> 0" "abs (sint exp) < 2 ^ 19"
  shows "\<exists>r. unat r = pow_ref (nat (abs (sint exp))) (pow_base base) (2 ^ 64)
    \<and> pow base exp = pow_finish ((sint exp < 0) \<noteq> (ONE_Q64 \<le> base)) r"
proof -
  define e where "e = nat (abs (sint exp))"
  have e: "int e = abs (sint exp)" by (simp add: e_def)
  have u: "unat exp \<noteq> 0" using assms(1) by (simp add: word_unat_eq_iff)
  have lt: "unat exp < 2 ^ 32" by simp
  have d: "unat exp = e \<and> \<not> (sint exp < 0) \<or> unat exp = 2 ^ 32 - e \<and> sint exp < 0"
  proof (cases "unat exp < 2 ^ 31")
    case True
    then have "sint exp = int (unat exp)" by (simp add: sint_u32)
    then show ?thesis using e by linarith
  next
    case False
    then have "sint exp = int (unat exp) - 4294967296" by (simp add: sint_u32)
    moreover have "int (unat exp) < int 4294967296" using lt by (subst of_nat_less_iff) simp
    ultimately have n: "sint exp < 0" and "int (unat exp) + int e = int 4294967296" using e by linarith+
    then have "unat exp + e = 4294967296" by (simp only: of_nat_add [symmetric] of_nat_eq_iff)
    then have "unat exp = 2 ^ 32 - e" by simp
    with n show ?thesis by blast
  qed
  have pos: "0 < e" using d u lt by (cases "e = 0") auto
  have "e < 2 ^ 19" using e assms(2) by simp
  with d pos have "0 < nat (abs (sint exp))" "nat (abs (sint exp)) < 2 ^ 19"
    "unat exp = nat (abs (sint exp)) \<and> \<not> (sint exp < 0)
      \<or> unat exp = 2 ^ 32 - nat (abs (sint exp)) \<and> sint exp < 0"
    unfolding e_def by simp_all
  from pow_Suc_exp [OF this] show ?thesis by blast
qed

theorem pow_is_square_and_multiply_witness:
  "\<exists>r. unat r = pow_ref 3 (2 ^ 63) (2 ^ 64) \<and> pow (2 ^ 63) 3 = pow_finish False r"
  using pow_is_square_and_multiply [of 3 "2 ^ 63"]
  by (simp add: pow_base_def ONE_Q64_def)

text \<open>
  The exponential fee decay never raises the fee above its cliff, and it
  decays no faster than the linear scheduler with the same parameters: the fee
  after \<open>n\<close> periods is at least \<open>cliff * (1 - n * reduction / 10000)\<close>, up to one
  unit of rounding.
\<close>

lemma get_fee_in_period_bounds:
  assumes "get_fee_in_period cliff reduction n = Inr fee" "unat cliff < 2 ^ 47"
  shows "unat fee \<le> unat cliff
    \<and> unat cliff * (10000 - unat n * unat reduction) \<le> (unat fee + 1) * 10000"
  using fee_in_period_le [OF assms] fee_in_period_bernoulli [OF assms(1)] by blast

end
