(* ===== verification/Sqrt.thy ===== *)
theory Sqrt
  imports Utils_Math
begin

text \<open>
  The integer square root \<open>sqrt_u256\<close> (\<open>math/utils_math.rs\<close>).  The loop of the
  source is \<open>sqrt_loop\<close>, on the same three variables, with the checked
  operations of the big integers; \<open>checked_shr\<close> also fails when a bit is lost.
  The lemmas show that no checked operation of the loop ever fails and that the
  result is the integer square root.
\<close>

definition leading_zeros :: "'w::len word \<Rightarrow> nat" where
  "leading_zeros x = length (takeWhile (\<lambda>i. \<not> bit x i) (rev [0..<LENGTH('w)]))"

definition checked_add :: "'w::len word \<Rightarrow> 'w word \<Rightarrow> 'w word option" where
  "checked_add x y = (if unat x + unat y < 2 ^ LENGTH('w) then Some (x + y) else None)"

definition checked_sub :: "'w::len word \<Rightarrow> 'w word \<Rightarrow> 'w word option" where
  "checked_sub x y = (if y \<le> x then Some (x - y) else None)"

definition big_checked_shr :: "'w::len word \<Rightarrow> nat \<Rightarrow> 'w word option" where
  "big_checked_shr x n = (if unat x mod 2 ^ n = 0 then Some (drop_bit n x) else None)"

function sqrt_loop :: "u256 \<Rightarrow> u256 \<Rightarrow> u256 \<Rightarrow> u256 option" where
  "sqrt_loop b n res =
     (if b = 0 then Some res
      else Option.bind (checked_add res b) (\<lambda>result_with_bit.
        if n \<ge> result_with_bit
        then Option.bind (checked_sub n result_with_bit) (\<lambda>n'.
             Option.bind (big_checked_shr res 1) (\<lambda>r.
             Option.bind (checked_add r b) (\<lambda>r'.
             sqrt_loop (drop_bit 2 b) n' r')))
        else Option.bind (big_checked_shr res 1) (\<lambda>r.
             sqrt_loop (drop_bit 2 b) n r)))"
  by pat_completeness auto

termination
  by (relation "measure (\<lambda>(b, n, res). unat b)")
    (simp_all add: unat_drop_bit word_unat_eq_iff)

declare sqrt_loop.simps [simp del]

definition sqrt_u256 :: "u256 \<Rightarrow> u256 option" where
  "sqrt_u256 radicand =
     (if radicand = 0 then Some 0
      else
        let max_shift = leading_zeros (0 :: u256) - 1;
            shift = (max_shift - leading_zeros radicand) div 2 * 2
        in Option.bind (big_checked_shl (1 :: u256) shift) (\<lambda>b. sqrt_loop b radicand 0))"

lemma checked_add_Some [simp]: "checked_add x y = Some z \<longleftrightarrow> unat z = unat x + unat y"
  using safe_add_Ok [of x y z] by (auto simp: checked_add_def safe_add_def)

lemma checked_sub_Some [simp]: "checked_sub x y = Some z \<longleftrightarrow> unat y \<le> unat x \<and> unat z = unat x - unat y"
  using safe_sub_Ok [of x y z] by (auto simp: checked_sub_def safe_sub_def)

lemma checked_sub_None: "checked_sub x y = None \<longleftrightarrow> x < y"
  by (auto simp: checked_sub_def)

lemma big_checked_shr_Some [simp]:
  "big_checked_shr x n = Some z \<longleftrightarrow> unat x mod 2 ^ n = 0 \<and> unat z = unat x div 2 ^ n"
  by (auto simp: big_checked_shr_def unat_drop_bit word_unat_eq_iff)

section \<open>The highest bit\<close>

lemma takeWhile_bits:
  assumes "\<exists>i < n. bit (x :: 'w::len word) i"
  shows "\<exists>m < n. length (takeWhile (\<lambda>i. \<not> bit x i) (rev [0..<n])) = n - 1 - m
    \<and> bit x m \<and> (\<forall>i. m < i \<and> i < n \<longrightarrow> \<not> bit x i)"
  using assms
proof (induction n)
  case (Suc n)
  show ?case
  proof (cases "bit x n")
    case True
    then show ?thesis by (intro exI [of _ n]) auto
  next
    case False
    then have "\<exists>i < n. bit x i" using Suc.prems less_Suc_eq by auto
    from Suc.IH [OF this] obtain m where m: "m < n"
      "length (takeWhile (\<lambda>i. \<not> bit x i) (rev [0..<n])) = n - 1 - m" "bit x m"
      "\<forall>i. m < i \<and> i < n \<longrightarrow> \<not> bit x i" by blast
    then show ?thesis using False less_Suc_eq by (intro exI [of _ m]) auto
  qed
qed simp

lemma leading_zeros_bound:
  fixes x :: "'w::len word"
  assumes "x \<noteq> 0"
  shows "\<exists>m < LENGTH('w). leading_zeros x = LENGTH('w) - 1 - m \<and> 2 ^ m \<le> unat x \<and> unat x < 2 ^ (m + 1)"
proof -
  have "\<exists>i < LENGTH('w). bit x i"
  proof (rule ccontr)
    assume "\<not> ?thesis"
    then have "x = 0" by (intro bit_word_eqI) simp
    with assms show False by simp
  qed
  from takeWhile_bits [OF this] obtain m where m: "m < LENGTH('w)"
    "leading_zeros x = LENGTH('w) - 1 - m" "bit x m" "\<forall>i. m < i \<and> i < LENGTH('w) \<longrightarrow> \<not> bit x i"
    unfolding leading_zeros_def by blast
  have "drop_bit (m + 1) x = 0"
    using m(4) bit_imp_le_length by (intro bit_word_eqI) (fastforce simp: bit_drop_bit_eq)
  then have "unat x div 2 ^ (m + 1) = 0"
    using unat_drop_bit [of "m + 1" x] by simp
  then have up: "unat x < 2 ^ (m + 1)" by (simp only: div_eq_0_iff) simp
  have "odd (unat x div 2 ^ m)"
    using m(3) by (simp add: bit_unsigned_iff flip: bit_iff_odd)
  then have "1 \<le> unat x div 2 ^ m" by (cases "unat x div 2 ^ m") auto
  then have "2 ^ m * 1 \<le> 2 ^ m * (unat x div 2 ^ m)" by (intro mult_left_mono) simp_all
  also have "\<dots> \<le> unat x" by (rule mult_div_le)
  finally show ?thesis using m up by auto
qed

lemma leading_zeros_0 [simp]: "leading_zeros (0 :: 'w::len word) = LENGTH('w)"
  unfolding leading_zeros_def by (subst takeWhile_eq_all_conv [THEN iffD2]) simp_all

section \<open>The loop\<close>

lemma sqrt_loop_step_hi:
  assumes "b \<noteq> 0" "unat (rb :: u256) = unat res + unat b" "unat rb \<le> unat n"
    "unat n' = unat n - unat rb" "unat res mod 2 = 0" "unat r' = unat res div 2 + unat b"
  shows "sqrt_loop b n res = sqrt_loop (drop_bit 2 b) n' r'"
proof -
  have r: "unat (drop_bit 1 res) = unat res div 2" by (simp add: unat_drop_bit)
  have "checked_add res b = Some rb" "checked_sub n rb = Some n'"
    "big_checked_shr res 1 = Some (drop_bit 1 res)" "checked_add (drop_bit 1 res) b = Some r'"
    using assms r by simp_all
  then show ?thesis using assms(1,3)
    by (subst sqrt_loop.simps) (simp add: word_le_nat_alt
      del: checked_add_Some checked_sub_Some big_checked_shr_Some)
qed

lemma sqrt_loop_step_lo:
  assumes "b \<noteq> 0" "unat (rb :: u256) = unat res + unat b" "unat n < unat rb"
    "unat res mod 2 = 0" "unat r = unat res div 2"
  shows "sqrt_loop b n res = sqrt_loop (drop_bit 2 b) n r"
proof -
  have "checked_add res b = Some rb" "big_checked_shr res 1 = Some r" using assms by simp_all
  then show ?thesis using assms(1,3)
    by (subst sqrt_loop.simps) (simp add: word_le_nat_alt
      del: checked_add_Some big_checked_shr_Some)
qed

text \<open>
  The invariant with \<open>R\<close> the root found so far and \<open>b = 4 ^ k\<close> the bit under
  test: \<open>n\<close> is what is left of the radicand and \<open>res\<close> is \<open>R\<close> shifted.
\<close>

definition sqrt_inv :: "nat \<Rightarrow> nat \<Rightarrow> nat \<Rightarrow> u256 \<Rightarrow> u256 \<Rightarrow> bool" where
  "sqrt_inv N R p n res \<longleftrightarrow> R * R \<le> N \<and> N < (R + p) * (R + p) \<and> p dvd R
     \<and> unat n = N - R * R \<and> unat res = R * p"

lemma multiple_gap:
  fixes p q R :: nat
  assumes "p dvd R" "p dvd q" "R < q"
  shows "R + p \<le> q"
proof -
  obtain a b where a: "R = p * a" and b: "q = p * b" using assms by (auto elim!: dvdE)
  have "a < b" using assms(3) a b by (simp add: mult_less_cancel1)
  then have "p * (a + 1) \<le> p * b" by (intro mult_left_mono) simp_all
  then show ?thesis using a b by simp
qed

lemma sqrt_res_bound:
  assumes "2 * p dvd R" "R * R < 2 ^ 256" "2 * p dvd 2 ^ 128" "0 < (p::nat)"
  shows "R * (2 * p) + p * p < 2 ^ 256"
proof -
  have R: "R < 2 ^ 128"
  proof (rule ccontr)
    assume "\<not> R < 2 ^ 128"
    then have "2 ^ 128 * 2 ^ 128 \<le> R * R" by (intro mult_mono) simp_all
    then show False using assms(2) by simp
  qed
  then have gap: "R + 2 * p \<le> 2 ^ 128" by (rule multiple_gap [OF assms(1,3)])
  then have p: "2 * p \<le> 2 ^ 128" by linarith
  have "R * (2 * p) + p * p < R * (2 * p) + (2 * p) * (2 * p)" using assms(4) by simp
  also have "\<dots> = (R + 2 * p) * (2 * p)" by (simp add: algebra_simps)
  also have "\<dots> \<le> 2 ^ 128 * 2 ^ 128" using gap p by (intro mult_mono) simp_all
  finally show ?thesis by simp
qed

lemma sqrt_loop_step:
  assumes inv: "sqrt_inv N R (2 * p) n res" and b: "unat b = p * p" "0 < p"
    and lim: "N < 2 ^ 256" "2 * p dvd 2 ^ 128"
  shows "\<exists>R' n' res'. sqrt_loop b n res = sqrt_loop (drop_bit 2 b) n' res' \<and> sqrt_inv N R' p n' res'"
proof -
  have R: "R * R \<le> N" "N < (R + 2 * p) * (R + 2 * p)" "2 * p dvd R"
    "unat n = N - R * R" "unat res = R * (2 * p)" using inv by (simp_all add: sqrt_inv_def)
  have b0: "b \<noteq> 0" using b by (auto simp: word_unat_eq_iff)
  have pR: "p dvd R" using R(3) by (rule dvd_mult_right)
  have lt: "R * (2 * p) + p * p < 2 ^ LENGTH(256)"
    using sqrt_res_bound [OF R(3) _ lim(2) b(2)] R(1) lim(1) by simp
  then obtain rb :: u256 where rb: "unat rb = R * (2 * p) + p * p" by (rule word_witness)
  have rb': "unat rb = unat res + unat b" by (simp add: rb R b)
  have ev: "unat res mod 2 = 0" "unat res div 2 = R * p" by (simp_all add: R)
  have sq: "(R + p) * (R + p) = R * R + (R * (2 * p) + p * p)" by (simp add: algebra_simps)
  show ?thesis
  proof (cases "unat rb \<le> unat n")
    case True
    have "R * p + p * p < 2 ^ LENGTH(256)" using lt by simp
    then obtain r' :: u256 where r': "unat r' = R * p + p * p" by (rule word_witness)
    have "unat n - unat rb < 2 ^ LENGTH(256)" using unat_lt_2p [of n] by linarith
    then obtain n' :: u256 where n': "unat n' = unat n - unat rb" by (rule word_witness)
    have "sqrt_loop b n res = sqrt_loop (drop_bit 2 b) n' r'"
      using b0 rb' True n' ev(1) by (rule sqrt_loop_step_hi) (simp add: r' ev b)
    moreover have "sqrt_inv N (R + p) p n' r'"
      unfolding sqrt_inv_def
    proof (intro conjI)
      show "(R + p) * (R + p) \<le> N" using True R(1,4) unfolding sq rb by linarith
      show "N < (R + p + p) * (R + p + p)" using R(2) by (simp add: mult_2 add.assoc)
      show "p dvd R + p" using pR by simp
      show "unat n' = N - (R + p) * (R + p)" unfolding sq n' R(4) rb by simp
      show "unat r' = (R + p) * p" by (simp add: r' distrib_right)
    qed
    ultimately show ?thesis by blast
  next
    case False
    have "R * p < 2 ^ LENGTH(256)" using lt by simp
    then obtain r' :: u256 where r': "unat r' = R * p" by (rule word_witness)
    have "sqrt_loop b n res = sqrt_loop (drop_bit 2 b) n r'"
      using b0 rb' _ ev(1) by (rule sqrt_loop_step_lo) (use False in \<open>simp_all add: r' ev\<close>)
    moreover have "sqrt_inv N R p n r'"
      unfolding sqrt_inv_def
    proof (intro conjI)
      show "N < (R + p) * (R + p)" using False R(1,4) unfolding sq rb by linarith
    qed (simp_all add: R(1) pR R(4) r')
    ultimately show ?thesis by blast
  qed
qed

lemma sqrt_loop_correct:
  assumes "unat b = 2 ^ k * 2 ^ k" "sqrt_inv N R (2 ^ (k + 1)) n res" "N < 2 ^ 256" "k \<le> 127"
  shows "\<exists>z. sqrt_loop b n res = Some z \<and> unat z * unat z \<le> N \<and> N < (unat z + 1) * (unat z + 1)"
  using assms
proof (induction k arbitrary: b n res R)
  case (0 b n res R)
  then obtain R' n' res' where s: "sqrt_loop b n res = sqrt_loop (drop_bit 2 b) n' res'"
    "sqrt_inv N R' 1 n' res'"
    using sqrt_loop_step [of N R 1 n res b] by auto
  have "drop_bit 2 b = 0" using 0 by (simp add: word_unat_eq_iff unat_drop_bit)
  then have "sqrt_loop b n res = Some res'" using s(1) by (simp add: sqrt_loop.simps)
  moreover have "unat res' = R'" "R' * R' \<le> N" "N < (R' + 1) * (R' + 1)"
    using s(2) by (simp_all add: sqrt_inv_def)
  ultimately show ?case by simp
next
  case (Suc k)
  have "2 * 2 ^ Suc k dvd (2 ^ 128 :: nat)"
    using le_imp_power_dvd [of "k + 2" 128 "2::nat"] Suc.prems(4) by simp
  then obtain R' n' res' where s: "sqrt_loop b n res = sqrt_loop (drop_bit 2 b) n' res'"
    "sqrt_inv N R' (2 ^ Suc k) n' res'"
    using sqrt_loop_step [of N R "2 ^ Suc k" n res b] Suc.prems by auto
  have "unat (drop_bit 2 b) = 2 ^ k * 2 ^ k" using Suc.prems(1) by (simp add: unat_drop_bit)
  with Suc.IH [of "drop_bit 2 b" R' n' res'] s Suc.prems show ?case by simp
qed

lemma sqrt_u256_spec:
  "\<exists>z. sqrt_u256 x = Some z \<and> unat z * unat z \<le> unat x \<and> unat x < (unat z + 1) * (unat z + 1)"
proof (cases "x = 0")
  case True
  then show ?thesis by (simp add: sqrt_u256_def)
next
  case False
  from leading_zeros_bound [OF False] obtain m where m: "m < 256" "leading_zeros x = 255 - m"
    "2 ^ m \<le> unat x" "unat x < 2 ^ (m + 1)" by auto
  define k where "k = m div 2"
  have k: "k \<le> 127" "m div 2 * 2 = k + k" using m(1) by (simp_all add: k_def)
  have "(2::nat) ^ (k + k) \<le> 2 ^ 255" using k by (intro power_increasing) simp_all
  then have "(2::nat) ^ (k + k) < 2 ^ LENGTH(256)" by simp
  then obtain b :: u256 where b: "unat b = 2 ^ (k + k)" by (rule word_witness)
  have "big_checked_shl (1 :: u256) (k + k) = Some b" using b by simp
  then have s: "sqrt_u256 x = sqrt_loop b x 0"
    using False m(1,2) k(2) by (simp add: sqrt_u256_def Let_def del: big_checked_shl_Some)
  have "(2::nat) ^ (m + 1) \<le> 2 ^ (2 * k + 2)" by (rule power_increasing) (simp_all add: k_def)
  then have "sqrt_inv (unat x) 0 (2 ^ (k + 1)) x 0"
    using m(4) unfolding sqrt_inv_def by (simp flip: power_add mult_2)
  then show ?thesis unfolding s using k(1) b
    by (intro sqrt_loop_correct) (simp_all add: power_add)
qed

text \<open>
  C39: the integer square root of the program is total and exact: for every
  256-bit radicand no checked operation of the loop fails, and the result is the
  largest number whose square does not exceed the radicand.
\<close>

theorem sqrt_u256_total_and_exact:
  "\<exists>z. sqrt_u256 x = Some z \<and> unat z * unat z \<le> unat x \<and> unat x < (unat z + 1) * (unat z + 1)"
  by (rule sqrt_u256_spec)

end
