(* ===== verification/Base_Fee.thy ===== *)
theory Base_Fee
  imports Fee_Amount Fee_Math Sqrt
begin

text \<open>
  Base fees (\<open>base_fee/\<close>).  A pool has one of two handlers: the fee scheduler,
  whose fee decays with time, and the rate limiter, whose fee grows with the
  size of a buy.  The trait object \<open>Box<dyn BaseFeeHandler>\<close> is the sum
  \<open>base_fee_handler\<close> with one dispatching definition per method.  The
  arithmetic the rate limiter does with the plain operators of \<open>U256\<close> is done
  here on 256-bit words, where it wraps; a division by zero panics.
\<close>

record fee_scheduler =
  fs_cliff_fee_numerator :: u64
  fs_number_of_period :: u16
  fs_period_frequency :: u64
  fs_reduction_factor :: u64
  fs_fee_scheduler_mode :: u8

record fee_rate_limiter =
  rl_cliff_fee_numerator :: u64
  rl_fee_increment_bps :: u16
  rl_max_limiter_duration :: u64
  rl_reference_amount :: u64

section \<open>The fee scheduler\<close>

definition get_base_fee_numerator_by_period :: "fee_scheduler \<Rightarrow> u64 \<Rightarrow> u64 result" where
  "get_base_fee_numerator_by_period s period =
     (let period = min period (ucast (fs_number_of_period s)) in
     and_then (ok_or (fee_scheduler_mode_of (fs_fee_scheduler_mode s)) TypeCastFailed) (\<lambda>mode.
     case mode of
       Linear \<Rightarrow>
         and_then (safe_mul (fs_reduction_factor s) period) (\<lambda>reduction.
         safe_sub (fs_cliff_fee_numerator s) reduction)
     | Exponential \<Rightarrow>
         and_then (ok_or (try_cast period) MathOverflow) (\<lambda>period :: u16.
         get_fee_in_period (fs_cliff_fee_numerator s) (fs_reduction_factor s) period)))"

definition scheduler_min_base_fee_numerator :: "fee_scheduler \<Rightarrow> u64 result" where
  "scheduler_min_base_fee_numerator s =
     get_base_fee_numerator_by_period s (ucast (fs_number_of_period s))"

definition scheduler_max_base_fee_numerator :: "fee_scheduler \<Rightarrow> u64" where
  "scheduler_max_base_fee_numerator s = fs_cliff_fee_numerator s"

definition scheduler_base_fee_numerator :: "fee_scheduler \<Rightarrow> u64 \<Rightarrow> u64 \<Rightarrow> u64 result" where
  "scheduler_base_fee_numerator s current_point activation_point =
     (if fs_period_frequency s = 0 then Ok (fs_cliff_fee_numerator s)
      else
        and_then (safe_sub current_point activation_point) (\<lambda>elapsed.
        and_then (safe_div elapsed (fs_period_frequency s)) (\<lambda>period.
        get_base_fee_numerator_by_period s period)))"

definition scheduler_validate :: "fee_scheduler \<Rightarrow> u8 \<Rightarrow> activation_type \<Rightarrow> unit result" where
  "scheduler_validate s collect_fee_mode activation_type =
     and_then
       (if fs_period_frequency s \<noteq> 0 \<or> fs_number_of_period s \<noteq> 0 \<or> fs_reduction_factor s \<noteq> 0
        then require (fs_number_of_period s \<noteq> 0 \<and> fs_period_frequency s \<noteq> 0
               \<and> fs_reduction_factor s \<noteq> 0) InvalidFeeScheduler
        else Ok ()) (\<lambda>_.
     and_then (scheduler_min_base_fee_numerator s) (\<lambda>min_fee_numerator.
     let max_fee_numerator = scheduler_max_base_fee_numerator s in
     and_then (validate_fee_fraction min_fee_numerator FEE_DENOMINATOR) (\<lambda>_.
     and_then (validate_fee_fraction max_fee_numerator FEE_DENOMINATOR) (\<lambda>_.
     require (min_fee_numerator \<ge> MIN_FEE_NUMERATOR \<and> max_fee_numerator \<le> MAX_FEE_NUMERATOR)
       ExceedMaxFeeBps))))"

definition scheduler_from_included ::
  "fee_scheduler \<Rightarrow> u64 \<Rightarrow> u64 \<Rightarrow> trade_direction \<Rightarrow> u64 \<Rightarrow> u64 result" where
  "scheduler_from_included s current_point activation_point trade_direction included_fee_amount =
     scheduler_base_fee_numerator s current_point activation_point"

definition scheduler_from_excluded ::
  "fee_scheduler \<Rightarrow> u64 \<Rightarrow> u64 \<Rightarrow> trade_direction \<Rightarrow> u64 \<Rightarrow> u64 result" where
  "scheduler_from_excluded s current_point activation_point trade_direction excluded_fee_amount =
     scheduler_base_fee_numerator s current_point activation_point"

definition scheduler_validate_min_base_fee :: "fee_scheduler \<Rightarrow> unit result" where
  "scheduler_validate_min_base_fee s =
     and_then (scheduler_min_base_fee_numerator s) (\<lambda>min_base_fee_numerator.
     require (min_base_fee_numerator \<ge> MIN_FEE_NUMERATOR) InvalidMinBaseFee)"

section \<open>The rate limiter\<close>

definition is_zero_rate_limiter :: "fee_rate_limiter \<Rightarrow> bool" where
  "is_zero_rate_limiter r \<longleftrightarrow>
     rl_reference_amount r = 0 \<and> rl_max_limiter_duration r = 0 \<and> rl_fee_increment_bps r = 0"

definition is_non_zero_rate_limiter :: "fee_rate_limiter \<Rightarrow> bool" where
  "is_non_zero_rate_limiter r \<longleftrightarrow>
     rl_reference_amount r \<noteq> 0 \<and> rl_max_limiter_duration r \<noteq> 0 \<and> rl_fee_increment_bps r \<noteq> 0"

definition is_rate_limiter_applied ::
  "fee_rate_limiter \<Rightarrow> u64 \<Rightarrow> u64 \<Rightarrow> trade_direction \<Rightarrow> bool result" where
  "is_rate_limiter_applied r current_point activation_point trade_direction =
     (if is_zero_rate_limiter r then Ok False
      else if trade_direction = BaseToQuote then Ok False
      else
        and_then (safe_add (ucast activation_point :: u128) (ucast (rl_max_limiter_duration r)))
          (\<lambda>last_effective_rate_limiter_point.
        if (ucast current_point :: u128) > last_effective_rate_limiter_point then Ok False
        else Ok True))"

definition increment_numerator :: "fee_rate_limiter \<Rightarrow> u64 result" where
  "increment_numerator r = to_numerator (ucast (rl_fee_increment_bps r)) (ucast FEE_DENOMINATOR)"

definition get_max_index :: "fee_rate_limiter \<Rightarrow> u64 result" where
  "get_max_index r =
     and_then (safe_sub MAX_FEE_NUMERATOR (rl_cliff_fee_numerator r)) (\<lambda>delta_numerator.
     and_then (increment_numerator r) (\<lambda>fee_increment_numerator.
     safe_div delta_numerator fee_increment_numerator))"

text \<open>The plain division of the big integers.\<close>

definition big_div :: "'w::len word \<Rightarrow> 'w word \<Rightarrow> 'w word result" where
  "big_div a b = (if b = 0 then panic else Ok (a div b))"

definition limiter_trading_fee_numerator ::
  "u256 \<Rightarrow> u256 \<Rightarrow> u256 \<Rightarrow> u256 \<Rightarrow> u256 \<Rightarrow> u256 \<Rightarrow> u256" where
  "limiter_trading_fee_numerator c i x0 max_index a b =
     (let one = (1 :: u256); two = (2 :: u256) in
      if a < max_index then
        let numerator_1 = c + c * a + i * a * (a + one) div two;
            numerator_2 = c + i * (a + one);
            first_fee = x0 * numerator_1;
            second_fee = b * numerator_2
        in first_fee + second_fee
      else
        let numerator_1 = c + c * max_index + i * max_index * (max_index + one) div two;
            numerator_2 = (ucast MAX_FEE_NUMERATOR :: u256);
            first_fee = x0 * numerator_1;
            d = a - max_index;
            left_amount = d * x0 + b;
            second_fee = left_amount * numerator_2
        in first_fee + second_fee)"

definition limiter_numerator_from_included :: "fee_rate_limiter \<Rightarrow> u64 \<Rightarrow> u64 result" where
  "limiter_numerator_from_included r input_amount =
     (if input_amount \<le> rl_reference_amount r then Ok (rl_cliff_fee_numerator r)
      else
        let c = (ucast (rl_cliff_fee_numerator r) :: u256) in
        and_then (safe_sub input_amount (rl_reference_amount r)) (\<lambda>left.
        and_then (assert_that (rl_reference_amount r \<noteq> 0)) (\<lambda>_.
        let a = (ucast (left div rl_reference_amount r) :: u256);
            b = (ucast (left mod rl_reference_amount r) :: u256) in
        and_then (get_max_index r) (\<lambda>max_index.
        and_then (increment_numerator r) (\<lambda>i.
        let x0 = (ucast (rl_reference_amount r) :: u256);
            trading_fee_numerator =
              limiter_trading_fee_numerator c (ucast i) x0 (ucast max_index) a b;
            denominator = (ucast FEE_DENOMINATOR :: u256);
            trading_fee = (trading_fee_numerator + denominator - 1) div denominator in
        and_then (ok_or (try_cast trading_fee) TypeCastFailed) (\<lambda>trading_fee.
        safe_mul_div_cast_u64 trading_fee FEE_DENOMINATOR input_amount Up))))))"

definition limiter_excluded_fee_amount :: "fee_rate_limiter \<Rightarrow> u64 \<Rightarrow> u64 result" where
  "limiter_excluded_fee_amount r included_fee_amount =
     and_then (limiter_numerator_from_included r included_fee_amount) (\<lambda>fee_numerator.
     and_then (get_excluded_fee_amount fee_numerator included_fee_amount) (\<lambda>(excluded_fee_amount, _).
     Ok excluded_fee_amount))"

definition get_max_out_amount_with_min_base_fee :: "fee_rate_limiter \<Rightarrow> u64 result" where
  "get_max_out_amount_with_min_base_fee r = limiter_excluded_fee_amount r (rl_reference_amount r)"

definition get_checked_amounts :: "fee_rate_limiter \<Rightarrow> (u64 \<times> u64 \<times> bool) result" where
  "get_checked_amounts r =
     and_then (get_max_index r) (\<lambda>max_index.
     let x0 = (ucast (rl_reference_amount r) :: u256);
         max_index_input_amount = (ucast max_index + 1) * x0 in
     if max_index_input_amount \<le> ucast (- 1 :: u64)
     then and_then (ok_or (try_cast max_index_input_amount) TypeCastFailed)
            (\<lambda>checked_included_fee_amount.
          and_then (limiter_excluded_fee_amount r checked_included_fee_amount)
            (\<lambda>checked_output_amount.
          Ok (checked_output_amount, checked_included_fee_amount, False)))
     else and_then (limiter_excluded_fee_amount r (- 1)) (\<lambda>checked_excluded_fee_amount.
          Ok (checked_excluded_fee_amount, - 1, True)))"

text \<open>The included amount below the checked amounts: the root of a quadratic equation.\<close>

definition limiter_included_by_root :: "fee_rate_limiter \<Rightarrow> u64 \<Rightarrow> u64 result" where
  "limiter_included_by_root r excluded_fee_amount =
     (let two = (2 :: u256); four = (4 :: u256) in
     and_then (increment_numerator r) (\<lambda>i.
     let i = (ucast i :: u256);
         x0 = (ucast (rl_reference_amount r) :: u256);
         d = (ucast FEE_DENOMINATOR :: u256);
         c = (ucast (rl_cliff_fee_numerator r) :: u256);
         ex = (ucast excluded_fee_amount :: u256);
         x = i;
         y = two * d * x0 + i * x0 - two * c * x0;
         z = two * ex * d * x0 in
     and_then (ok_or (sqrt_u256 (y * y - four * x * z)) MathOverflow) (\<lambda>root.
     and_then (big_div (y - root) (two * x)) (\<lambda>included_fee_amount.
     and_then (safe_div included_fee_amount x0) (\<lambda>a_plus_one.
     and_then (ok_or (try_cast included_fee_amount) TypeCastFailed) (\<lambda>included_64.
     and_then (limiter_excluded_fee_amount r included_64) (\<lambda>first_excluded_fee_amount.
     and_then (safe_sub excluded_fee_amount first_excluded_fee_amount)
       (\<lambda>excluded_fee_remaining_amount.
     let remaining_amount_fee_numerator = c + i * a_plus_one in
     and_then (ok_or (try_cast remaining_amount_fee_numerator) TypeCastFailed) (\<lambda>remaining_numerator.
     and_then (get_included_fee_amount remaining_numerator excluded_fee_remaining_amount)
       (\<lambda>(included_fee_remaining_amount, _).
     and_then (safe_add included_fee_amount (ucast included_fee_remaining_amount)) (\<lambda>total_in_amount.
     ok_or (try_cast total_in_amount) TypeCastFailed)))))))))))"

definition limiter_numerator_from_excluded :: "fee_rate_limiter \<Rightarrow> u64 \<Rightarrow> u64 result" where
  "limiter_numerator_from_excluded r excluded_fee_amount =
     and_then (limiter_excluded_fee_amount r (rl_reference_amount r)) (\<lambda>excluded_fee_reference_amount.
     if excluded_fee_amount \<le> excluded_fee_reference_amount then Ok (rl_cliff_fee_numerator r)
     else
       and_then (get_checked_amounts r)
         (\<lambda>(checked_excluded_fee_amount, checked_included_fee_amount, is_overflow).
       if excluded_fee_amount = checked_excluded_fee_amount
       then limiter_numerator_from_included r checked_included_fee_amount
       else
         and_then
           (if excluded_fee_amount < checked_excluded_fee_amount
            then limiter_included_by_root r excluded_fee_amount
            else if is_overflow then err MathOverflow
            else
              and_then (safe_sub excluded_fee_amount checked_excluded_fee_amount)
                (\<lambda>excluded_fee_remaining_amount.
              and_then (get_included_fee_amount MAX_FEE_NUMERATOR excluded_fee_remaining_amount)
                (\<lambda>(included_fee_remaining_amount, _).
              safe_add included_fee_remaining_amount checked_included_fee_amount)))
           (\<lambda>included_fee_amount.
         and_then (safe_sub included_fee_amount excluded_fee_amount) (\<lambda>trading_fee.
         and_then (safe_mul_div_cast_u64 trading_fee FEE_DENOMINATOR included_fee_amount Up)
           (\<lambda>fee_numerator.
         and_then (require (fee_numerator \<ge> rl_cliff_fee_numerator r) UndeterminedError) (\<lambda>_.
         Ok fee_numerator))))))"

definition limiter_validate :: "fee_rate_limiter \<Rightarrow> u8 \<Rightarrow> activation_type \<Rightarrow> unit result" where
  "limiter_validate r collect_fee_mode activation_type =
     and_then (ok_or (collect_fee_mode_of collect_fee_mode) InvalidCollectFeeMode)
       (\<lambda>collect_fee_mode.
     and_then (require (collect_fee_mode = QuoteToken) InvalidFeeRateLimiter) (\<lambda>_.
     and_then (require (rl_cliff_fee_numerator r \<ge> MIN_FEE_NUMERATOR
         \<and> rl_cliff_fee_numerator r \<le> MAX_FEE_NUMERATOR) InvalidFeeRateLimiter) (\<lambda>_.
     if is_zero_rate_limiter r then Ok ()
     else
       and_then (require (is_non_zero_rate_limiter r) InvalidFeeRateLimiter) (\<lambda>_.
       let max_limiter_duration = (case activation_type of
             Slot \<Rightarrow> MAX_RATE_LIMITER_DURATION_IN_SLOTS
           | Timestamp \<Rightarrow> MAX_RATE_LIMITER_DURATION_IN_SECONDS) in
       and_then (require (rl_max_limiter_duration r \<le> max_limiter_duration) InvalidFeeRateLimiter)
         (\<lambda>_.
       and_then (increment_numerator r) (\<lambda>fee_increment_numerator.
       and_then (require (fee_increment_numerator < FEE_DENOMINATOR) InvalidFeeRateLimiter) (\<lambda>_.
       and_then (limiter_numerator_from_included r 0) (\<lambda>min_fee_numerator.
       and_then (limiter_numerator_from_included r (- 1)) (\<lambda>max_fee_numerator.
       require (min_fee_numerator \<ge> MIN_FEE_NUMERATOR \<and> max_fee_numerator \<le> MAX_FEE_NUMERATOR)
         InvalidFeeRateLimiter))))))))) "

definition limiter_from_included ::
  "fee_rate_limiter \<Rightarrow> u64 \<Rightarrow> u64 \<Rightarrow> trade_direction \<Rightarrow> u64 \<Rightarrow> u64 result" where
  "limiter_from_included r current_point activation_point trade_direction included_fee_amount =
     and_then (is_rate_limiter_applied r current_point activation_point trade_direction) (\<lambda>applied.
     if applied then limiter_numerator_from_included r included_fee_amount
     else Ok (rl_cliff_fee_numerator r))"

definition limiter_from_excluded ::
  "fee_rate_limiter \<Rightarrow> u64 \<Rightarrow> u64 \<Rightarrow> trade_direction \<Rightarrow> u64 \<Rightarrow> u64 result" where
  "limiter_from_excluded r current_point activation_point trade_direction excluded_fee_amount =
     and_then (is_rate_limiter_applied r current_point activation_point trade_direction) (\<lambda>applied.
     if applied then limiter_numerator_from_excluded r excluded_fee_amount
     else Ok (rl_cliff_fee_numerator r))"

definition limiter_validate_min_base_fee :: "fee_rate_limiter \<Rightarrow> unit result" where
  "limiter_validate_min_base_fee r =
     require (rl_cliff_fee_numerator r \<ge> MIN_FEE_NUMERATOR) InvalidMinBaseFee"

definition limiter_min_base_fee_numerator :: "fee_rate_limiter \<Rightarrow> u64 result" where
  "limiter_min_base_fee_numerator r = Ok (rl_cliff_fee_numerator r)"

section \<open>The handler\<close>

datatype base_fee_handler = FeeScheduler fee_scheduler | FeeRateLimiter fee_rate_limiter

definition get_base_fee_handler :: "u64 \<Rightarrow> u16 \<Rightarrow> u64 \<Rightarrow> u64 \<Rightarrow> u8 \<Rightarrow> base_fee_handler result" where
  "get_base_fee_handler cliff_fee_numerator first_factor second_factor third_factor base_fee_mode =
     and_then (ok_or (base_fee_mode_of base_fee_mode) InvalidBaseFeeMode) (\<lambda>mode.
     if mode = RateLimiter
     then Ok (FeeRateLimiter \<lparr>rl_cliff_fee_numerator = cliff_fee_numerator,
            rl_fee_increment_bps = first_factor, rl_max_limiter_duration = second_factor,
            rl_reference_amount = third_factor\<rparr>)
     else Ok (FeeScheduler \<lparr>fs_cliff_fee_numerator = cliff_fee_numerator,
            fs_number_of_period = first_factor, fs_period_frequency = second_factor,
            fs_reduction_factor = third_factor, fs_fee_scheduler_mode = base_fee_mode_code mode\<rparr>))"

fun handler_validate :: "base_fee_handler \<Rightarrow> u8 \<Rightarrow> activation_type \<Rightarrow> unit result" where
  "handler_validate (FeeScheduler s) = scheduler_validate s"
| "handler_validate (FeeRateLimiter r) = limiter_validate r"

fun handler_from_included ::
  "base_fee_handler \<Rightarrow> u64 \<Rightarrow> u64 \<Rightarrow> trade_direction \<Rightarrow> u64 \<Rightarrow> u64 result" where
  "handler_from_included (FeeScheduler s) = scheduler_from_included s"
| "handler_from_included (FeeRateLimiter r) = limiter_from_included r"

fun handler_from_excluded ::
  "base_fee_handler \<Rightarrow> u64 \<Rightarrow> u64 \<Rightarrow> trade_direction \<Rightarrow> u64 \<Rightarrow> u64 result" where
  "handler_from_excluded (FeeScheduler s) = scheduler_from_excluded s"
| "handler_from_excluded (FeeRateLimiter r) = limiter_from_excluded r"

fun handler_validate_min_base_fee :: "base_fee_handler \<Rightarrow> unit result" where
  "handler_validate_min_base_fee (FeeScheduler s) = scheduler_validate_min_base_fee s"
| "handler_validate_min_base_fee (FeeRateLimiter r) = limiter_validate_min_base_fee r"

fun handler_min_base_fee_numerator :: "base_fee_handler \<Rightarrow> u64 result" where
  "handler_min_base_fee_numerator (FeeScheduler s) = scheduler_min_base_fee_numerator s"
| "handler_min_base_fee_numerator (FeeRateLimiter r) = limiter_min_base_fee_numerator r"

lemmas [eval] = get_base_fee_numerator_by_period_def scheduler_min_base_fee_numerator_def
  scheduler_max_base_fee_numerator_def scheduler_base_fee_numerator_def scheduler_validate_def
  scheduler_from_included_def scheduler_from_excluded_def scheduler_validate_min_base_fee_def
  is_zero_rate_limiter_def is_non_zero_rate_limiter_def is_rate_limiter_applied_def
  increment_numerator_def get_max_index_def big_div_def limiter_trading_fee_numerator_def
  limiter_numerator_from_included_def limiter_excluded_fee_amount_def
  get_max_out_amount_with_min_base_fee_def get_checked_amounts_def limiter_included_by_root_def
  limiter_numerator_from_excluded_def limiter_validate_def limiter_from_included_def
  limiter_from_excluded_def limiter_validate_min_base_fee_def limiter_min_base_fee_numerator_def
  get_base_fee_handler_def

end
