(* ===== verification/Rate_Limiter.thy ===== *)
theory Rate_Limiter
  imports Base_Fee
begin

text \<open>
  The meaning of the rate limiter's fee.  The closed formula that
  \<open>get_fee_numerator_from_included_fee_amount\<close> evaluates on 256-bit words never
  wraps and is a progressive tariff: the \<open>k\<close>-th unit of the input pays
  \<open>c + i * (k div x0)\<close>, capped at the maximal numerator.
\<close>

section \<open>The tariff\<close>

definition unit_rate :: "nat \<Rightarrow> nat \<Rightarrow> nat \<Rightarrow> nat" where
  "unit_rate c i j = min (c + i * j) 990000000"

definition progressive_fee :: "nat \<Rightarrow> nat \<Rightarrow> nat \<Rightarrow> nat \<Rightarrow> nat" where
  "progressive_fee c i x0 x = (\<Sum>k<x. unit_rate c i (k div x0))"

definition limiter_formula :: "nat \<Rightarrow> nat \<Rightarrow> nat \<Rightarrow> nat \<Rightarrow> nat \<Rightarrow> nat \<Rightarrow> nat" where
  "limiter_formula c i x0 m a b =
     (if a < m then x0 * (c + c * a + i * a * (a + 1) div 2) + b * (c + i * (a + 1))
      else x0 * (c + c * m + i * m * (m + 1) div 2) + ((a - m) * x0 + b) * 990000000)"

lemma sum_blocks:
  assumes "b \<le> x0" "0 < x0"
  shows "(\<Sum>k<n * x0 + b. f (k div x0)) = x0 * (\<Sum>j<n. f j) + b * (f n :: nat)"
proof -
  have block: "(\<Sum>k = m * x0..<m * x0 + t. f (k div x0)) = t * f m" if "t \<le> x0" for m t
  proof -
    have "k div x0 = m" if "k \<in> {m * x0..<m * x0 + t}" for k
      using that \<open>t \<le> x0\<close> assms(2) by (intro div_nat_eqI) (auto simp: mult.commute)
    then show ?thesis by simp
  qed
  have "(\<Sum>k<n * x0. f (k div x0)) = (\<Sum>m<n. \<Sum>k = m * x0..<m * x0 + x0. f (k div x0))"
    by (rule sum.nat_group [symmetric])
  also have "\<dots> = (\<Sum>m<n. x0 * f m)" by (intro sum.cong refl block) simp
  also have "\<dots> = x0 * (\<Sum>j<n. f j)" by (simp add: sum_distrib_left)
  finally have full: "(\<Sum>k<n * x0. f (k div x0)) = x0 * (\<Sum>j<n. f j)" .
  have u: "{..<n * x0 + b} = {..<n * x0} \<union> {n * x0..<n * x0 + b}" by auto
  have "(\<Sum>k<n * x0 + b. f (k div x0))
      = (\<Sum>k<n * x0. f (k div x0)) + (\<Sum>k = n * x0..<n * x0 + b. f (k div x0))"
    unfolding u by (rule sum.union_disjoint) auto
  then show ?thesis by (simp add: full block assms(1))
qed

lemma sum_linear: "(\<Sum>j<Suc n. c + i * j) = c + c * n + i * n * (n + 1) div (2::nat)"
proof -
  have "2 * (\<Sum>j<Suc n. j) = n * (n + 1)" by (induction n) simp_all
  then have g: "i * n * (n + 1) = 2 * (i * (\<Sum>j<Suc n. j))" by (metis mult.assoc mult.left_commute)
  have "(\<Sum>j<Suc n. c + i * j) = c * Suc n + i * (\<Sum>j<Suc n. j)"
    by (simp add: sum.distrib sum_distrib_left del: sum.lessThan_Suc)
  then show ?thesis unfolding g by simp
qed

lemma limiter_formula_progressive:
  assumes "c \<le> 990000000" "0 < i" "m = (990000000 - c) div i" "b < x0"
  shows "limiter_formula c i x0 m a b = progressive_fee c i x0 ((a + 1) * x0 + b)"
proof -
  have low: "unit_rate c i j = c + i * j" if "j \<le> m" for j
  proof -
    have "i * j \<le> i * m" using that by simp
    also have "\<dots> \<le> 990000000 - c" unfolding assms(3) by (rule mult_div_le)
    finally show ?thesis using assms(1) by (simp add: unit_rate_def)
  qed
  have high: "unit_rate c i j = 990000000" if "m < j" for j
  proof -
    have "990000000 - c < i * (m + 1)" unfolding assms(3) using assms(2) by (rule lt_mult_Suc_div)
    also have "\<dots> \<le> i * j" using that by (intro mult_le_mono2) simp
    finally show ?thesis using assms(1) by (simp add: unit_rate_def)
  qed
  have "progressive_fee c i x0 ((a + 1) * x0 + b)
      = x0 * (\<Sum>j<Suc a. unit_rate c i j) + b * unit_rate c i (a + 1)"
    unfolding progressive_fee_def using assms(4) by (subst sum_blocks) simp_all
  also have "\<dots> = limiter_formula c i x0 m a b"
  proof (cases "a < m")
    case True
    have "(\<Sum>j<Suc a. unit_rate c i j) = (\<Sum>j<Suc a. c + i * j)"
      by (intro sum.cong refl low) (use True in simp)
    then show ?thesis using True low [of "a + 1"] unfolding limiter_formula_def sum_linear by simp
  next
    case False
    have u: "{..<Suc a} = {..<Suc m} \<union> {Suc m..<Suc a}" using False by auto
    have "(\<Sum>j<Suc a. unit_rate c i j)
        = (\<Sum>j<Suc m. unit_rate c i j) + (\<Sum>j = Suc m..<Suc a. unit_rate c i j)"
      unfolding u by (rule sum.union_disjoint) auto
    also have "(\<Sum>j<Suc m. unit_rate c i j) = (\<Sum>j<Suc m. c + i * j)"
      by (intro sum.cong refl low) simp
    also have "(\<Sum>j = Suc m..<Suc a. unit_rate c i j) = (a - m) * 990000000"
      using high by (simp add: Suc_le_eq)
    finally have s: "(\<Sum>j<Suc a. unit_rate c i j)
        = c + c * m + i * m * (m + 1) div 2 + (a - m) * 990000000" unfolding sum_linear .
    have h: "unit_rate c i (a + 1) = 990000000" by (rule high) (use False in simp)
    show ?thesis using False unfolding limiter_formula_def s h
      by (simp only: if_False distrib_left distrib_right ac_simps)
  qed
  finally show ?thesis ..
qed

lemma progressive_fee_bounds:
  assumes "c \<le> 990000000"
  shows "c * x \<le> progressive_fee c i x0 x" "progressive_fee c i x0 x \<le> 990000000 * x"
proof -
  have "(\<Sum>k<x. c) \<le> progressive_fee c i x0 x"
    unfolding progressive_fee_def using assms by (intro sum_mono) (simp add: unit_rate_def)
  then show "c * x \<le> progressive_fee c i x0 x" by (simp add: mult.commute)
  have "progressive_fee c i x0 x \<le> (\<Sum>k<x. 990000000)"
    unfolding progressive_fee_def by (intro sum_mono) (simp add: unit_rate_def)
  then show "progressive_fee c i x0 x \<le> 990000000 * x" by simp
qed

lemma progressive_fee_mono: "x \<le> y \<Longrightarrow> progressive_fee c i x0 x \<le> progressive_fee c i x0 y"
  unfolding progressive_fee_def by (intro sum_mono2) auto

section \<open>The 256-bit evaluation\<close>

lemma of_nat_div_word:
  assumes "m < 2 ^ LENGTH('w)" "n < 2 ^ LENGTH('w)"
  shows "(of_nat m :: 'w::len word) div of_nat n = of_nat (m div n)"
proof -
  have "m div n < 2 ^ LENGTH('w)" using assms(1) div_le_dividend [of m n] by linarith
  then show ?thesis using assms by (simp add: word_unat_eq_iff unat_div unat_of_nat_small)
qed

lemma prod3_lt: "x < 2 ^ p \<Longrightarrow> y < 2 ^ q \<Longrightarrow> z < 2 ^ r \<Longrightarrow> p + q + r \<le> k \<Longrightarrow> x * y * z < (2::nat) ^ k"
  by (rule prod_lt_2p [where m = "p + q" and n = r]) (simp_all add: prod_lt_2p)

lemma limiter_formula_bound:
  assumes "c < 2 ^ 30" "i < 2 ^ 33" "x0 < 2 ^ 64" "a < 2 ^ 64" "m < 2 ^ 64" "b < 2 ^ 64"
  shows "limiter_formula c i x0 m a b < 2 ^ 240"
proof -
  have half: "c + c * n + i * n * (n + 1) div 2 < 2 ^ 165" if "n < 2 ^ 64" for n
  proof -
    have "c * n < 2 ^ 94" by (rule prod_lt_2p [where m = 30 and n = 64]) (use assms that in simp_all)
    moreover have "i * n * (n + 1) < 2 ^ 163"
      by (rule prod3_lt [where p = 33 and q = 64 and r = 65]) (use assms that in simp_all)
    ultimately show ?thesis using assms(1) by simp
  qed
  have 1: "x0 * (c + c * n + i * n * (n + 1) div 2) < 2 ^ 229" if "n < 2 ^ 64" for n
    by (rule prod_lt_2p [where m = 64 and n = 165]) (use assms half that in simp_all)
  have "i * (a + 1) < 2 ^ 98" by (rule prod_lt_2p [where m = 33 and n = 65]) (use assms in simp_all)
  then have "c + i * (a + 1) < 2 ^ 99" using assms(1) by simp
  then have 2: "b * (c + i * (a + 1)) < 2 ^ 163"
    by (intro prod_lt_2p [where m = 64 and n = 99]) (use assms in simp_all)
  have "(a - m) * x0 < 2 ^ 128"
    by (rule prod_lt_2p [where m = 64 and n = 64]) (use assms in \<open>simp_all add: less_imp_diff_less\<close>)
  then have 3: "((a - m) * x0 + b) * 990000000 < 2 ^ 160"
    using assms(6) by simp
  show ?thesis using 1 [OF assms(4)] 1 [OF assms(5)] 2 3 unfolding limiter_formula_def by simp
qed

lemma limiter_word_exact:
  assumes "unat c < 2 ^ 30" "unat i < 2 ^ 33" "unat x0 < 2 ^ 64" "unat a < 2 ^ 64"
    "unat m < 2 ^ 64" "unat b < 2 ^ 64"
  shows "unat (limiter_trading_fee_numerator c i x0 m a b)
    = limiter_formula (unat c) (unat i) (unat x0) (unat m) (unat a) (unat b)"
proof -
  have w: "x = of_nat (unat x)" for x :: u256 by simp
  have half: "i * n * (n + 1) div 2 = (of_nat (unat i * unat n * (unat n + 1) div 2) :: u256)"
    if "unat n < 2 ^ 64" for n :: u256
  proof -
    have "unat i * unat n * (unat n + 1) < 2 ^ 163"
      by (rule prod3_lt [where p = 33 and q = 64 and r = 65]) (use assms that in simp_all)
    then have "unat i * unat n * (unat n + 1) < 2 ^ LENGTH(256)" by simp
    then have "(of_nat (unat i * unat n * (unat n + 1)) :: u256) div of_nat 2
        = of_nat (unat i * unat n * (unat n + 1) div 2)" by (rule of_nat_div_word) simp
    moreover have "(of_nat (unat i * unat n * (unat n + 1)) :: u256) = i * n * (n + 1)"
      by (simp add: algebra_simps)
    ultimately show ?thesis by simp
  qed
  have lt: "a < m \<longleftrightarrow> unat a < unat m" by (simp add: word_less_nat_alt)
  have sub: "a - m = of_nat (unat a - unat m)" if "\<not> a < m"
    using that by (simp add: word_less_nat_alt of_nat_diff)
  have max: "(ucast MAX_FEE_NUMERATOR :: u256) = of_nat 990000000"
    by (simp add: word_unat_eq_iff)
  have "limiter_trading_fee_numerator c i x0 m a b
      = of_nat (limiter_formula (unat c) (unat i) (unat x0) (unat m) (unat a) (unat b))"
    unfolding limiter_trading_fee_numerator_def limiter_formula_def Let_def half [OF assms(4)]
      half [OF assms(5)] lt [symmetric] max
    by (cases "a < m") (simp_all add: sub distrib_left)
  moreover have "limiter_formula (unat c) (unat i) (unat x0) (unat m) (unat a) (unat b) < 2 ^ LENGTH(256)"
    using limiter_formula_bound [OF assms] by simp
  ultimately show ?thesis by (simp add: unat_of_nat_small)
qed

section \<open>The fee numerator of an input\<close>

definition limiter_ok :: "fee_rate_limiter \<Rightarrow> bool" where
  "limiter_ok r \<longleftrightarrow> unat (rl_cliff_fee_numerator r) \<le> 990000000
     \<and> unat (rl_reference_amount r) \<noteq> 0 \<and> unat (rl_fee_increment_bps r) \<noteq> 0"

definition tariff :: "fee_rate_limiter \<Rightarrow> nat \<Rightarrow> nat" where
  "tariff r x = progressive_fee (unat (rl_cliff_fee_numerator r))
     (unat (rl_fee_increment_bps r) * 100000) (unat (rl_reference_amount r)) x"

lemma increment_numerator_Ok:
  "\<exists>i. increment_numerator r = Inr i \<and> unat i = unat (rl_fee_increment_bps r) * 100000"
proof -
  have "unat (rl_fee_increment_bps r) * 100000 < 2 ^ LENGTH(64)"
    using unat_range(2) [of "rl_fee_increment_bps r"] by (simp del: unat_range)
  then obtain i :: u64 where "unat i = unat (rl_fee_increment_bps r) * 100000" by (rule word_witness)
  then show ?thesis unfolding increment_numerator_def by (intro exI [of _ i]) (simp add: to_numerator_bps)
qed

lemma get_max_index_Ok:
  assumes "limiter_ok r" "increment_numerator r = Inr i"
  shows "\<exists>m. get_max_index r = Inr m
    \<and> unat m = (990000000 - unat (rl_cliff_fee_numerator r)) div unat i"
proof -
  have i: "unat i \<noteq> 0" using assms increment_numerator_Ok [of r] by (auto simp: limiter_ok_def)
  have "990000000 - unat (rl_cliff_fee_numerator r) < 2 ^ LENGTH(64)" by simp
  then obtain d :: u64 where d: "unat d = 990000000 - unat (rl_cliff_fee_numerator r)"
    by (rule word_witness)
  have e: "safe_sub MAX_FEE_NUMERATOR (rl_cliff_fee_numerator r) = Inr d"
    using assms(1) d by (simp add: limiter_ok_def)
  have "safe_div d i = Inr (d div i)" using i by (simp add: safe_div_def word_unat_eq_iff)
  then show ?thesis unfolding get_max_index_def e and_then_simps assms(2)
    by (intro exI [of _ "d div i"]) (simp add: unat_div d)
qed

lemma limiter_numerator_above:
  assumes ok: "limiter_ok r" and x: "rl_reference_amount r < x"
  shows "\<exists>n. limiter_numerator_from_included r x = Inr n
    \<and> unat n = ceil_div (ceil_div (tariff r (unat x)) 1000000000 * 1000000000) (unat x)"
proof -
  let ?c = "rl_cliff_fee_numerator r" and ?x0 = "rl_reference_amount r"
  obtain i where i: "increment_numerator r = Inr i" "unat i = unat (rl_fee_increment_bps r) * 100000"
    using increment_numerator_Ok by blast
  obtain m where m: "get_max_index r = Inr m" "unat m = (990000000 - unat ?c) div unat i"
    using get_max_index_Ok [OF ok i(1)] by blast
  have x': "unat ?x0 < unat x" using x by (simp add: word_less_nat_alt)
  have x0: "0 < unat ?x0" "?x0 \<noteq> 0" using ok by (auto simp: limiter_ok_def)
  have c: "unat ?c \<le> 990000000" using ok by (simp add: limiter_ok_def)
  define left where "left = x - ?x0"
  have left: "unat left = unat x - unat ?x0" using x' by (simp add: left_def unat_sub_le)
  define a where "a = left div ?x0"
  define b where "b = left mod ?x0"
  have ab: "unat a = (unat x - unat ?x0) div unat ?x0" "unat b = (unat x - unat ?x0) mod unat ?x0"
    by (simp_all add: a_def b_def unat_div unat_mod left)
  have whole: "(unat a + 1) * unat ?x0 + unat b = unat x"
    using x' by (simp add: ab)
  have bps: "unat i < 2 ^ 33" "0 < unat i"
    using unat_range(2) [of "rl_fee_increment_bps r"] ok i(2) by (simp_all add: limiter_ok_def del: unat_range)
  let ?F = "tariff r (unat x)"
  define t where "t = limiter_trading_fee_numerator (ucast ?c) (ucast i) (ucast ?x0) (ucast m) (ucast a) (ucast b)"
  have "unat t = limiter_formula (unat ?c) (unat i) (unat ?x0) (unat m) (unat a) (unat b)"
    unfolding t_def by (subst limiter_word_exact) (use c bps in simp_all)
  also have "\<dots> = progressive_fee (unat ?c) (unat i) (unat ?x0) (unat x)"
    using c bps(2) m(2) x0(1) whole by (subst limiter_formula_progressive) (simp_all add: ab)
  finally have t: "unat t = ?F" by (simp add: tariff_def i(2))
  have F: "?F \<le> 990000000 * unat x" unfolding tariff_def using c by (rule progressive_fee_bounds)
  have Fl: "?F < 2 ^ 100" using F unat_range(4) [of x] by (simp del: unat_range)
  have fee_x: "ceil_div ?F 1000000000 \<le> unat x" using F by (intro ceil_div_le) simp_all
  have "ceil_div ?F 1000000000 < 2 ^ LENGTH(64)" using fee_x unat_lt_2p [of x] by linarith
  then obtain fee :: u64 where fee: "unat fee = ceil_div ?F 1000000000" by (rule word_witness)
  have s1: "unat (t + 1000000000) = ?F + 1000000000"
    using t Fl by (subst unat_add_small) simp_all
  have s2: "unat (t + 1000000000 - 1) = ?F + 1000000000 - 1"
    using s1 by (subst unat_sub_le) simp_all
  have q: "unat ((t + ucast FEE_DENOMINATOR - 1) div ucast FEE_DENOMINATOR) = unat fee"
    using s2 by (simp add: unat_div FEE_DENOMINATOR_def fee ceil_div_def)
  have "ceil_div (ceil_div ?F 1000000000 * 1000000000) (unat x) \<le> 1000000000"
    using fee_x x' by (intro ceil_div_le) simp_all
  then have "ceil_div (ceil_div ?F 1000000000 * 1000000000) (unat x) < 2 ^ LENGTH(64)" by simp
  then obtain n :: u64 where n: "unat n = ceil_div (ceil_div ?F 1000000000 * 1000000000) (unat x)"
    by (rule word_witness)
  have sub: "safe_sub x ?x0 = Inr left" using x' left by simp
  have cast: "try_cast ((t + ucast FEE_DENOMINATOR - 1) div ucast FEE_DENOMINATOR) = Some fee"
    using q by simp
  have last: "safe_mul_div_cast_u64 fee FEE_DENOMINATOR x Up = Inr n"
    using x' n fee by simp
  have "\<not> x \<le> ?x0" using x by simp
  then have "limiter_numerator_from_included r x = Inr n"
    using x0(2) cast last unfolding limiter_numerator_from_included_def sub
    by (simp add: Let_def m(1) i(1) a_def [symmetric] b_def [symmetric] t_def [symmetric]
      del: try_cast_Some safe_mul_div_cast_u64_Ok)
  with n show ?thesis by blast
qed

definition effective_numerator :: "fee_rate_limiter \<Rightarrow> nat \<Rightarrow> nat" where
  "effective_numerator r x =
     (if x \<le> unat (rl_reference_amount r) then unat (rl_cliff_fee_numerator r)
      else ceil_div (ceil_div (tariff r x) 1000000000 * 1000000000) x)"

lemma limiter_numerator_spec:
  assumes "limiter_ok r"
  shows "limiter_numerator_from_included r x = Inr n \<longleftrightarrow> unat n = effective_numerator r (unat x)"
proof (cases "x \<le> rl_reference_amount r")
  case True
  then have e: "limiter_numerator_from_included r x = Inr (rl_cliff_fee_numerator r)"
    by (simp add: limiter_numerator_from_included_def)
  show ?thesis using True unfolding e
    by (auto simp: effective_numerator_def word_le_nat_alt word_unat_eq_iff)
next
  case False
  then obtain k where k: "limiter_numerator_from_included r x = Inr k"
    "unat k = ceil_div (ceil_div (tariff r (unat x)) 1000000000 * 1000000000) (unat x)"
    using limiter_numerator_above [OF assms, of x] by (auto simp: not_le)
  show ?thesis using False k(2) unfolding k(1)
    by (auto simp: effective_numerator_def word_le_nat_alt word_unat_eq_iff)
qed

lemma effective_numerator_bounds:
  assumes "limiter_ok r"
  shows "unat (rl_cliff_fee_numerator r) \<le> effective_numerator r x" "effective_numerator r x \<le> 1000000000"
proof -
  let ?c = "unat (rl_cliff_fee_numerator r)"
  have c: "?c \<le> 990000000" using assms by (simp add: limiter_ok_def)
  have lo: "?c * x \<le> tariff r x" and hi: "tariff r x \<le> 990000000 * x"
    unfolding tariff_def using progressive_fee_bounds [OF c] by blast+
  let ?f = "ceil_div (tariff r x) 1000000000"
  show "?c \<le> effective_numerator r x"
  proof (cases "x \<le> unat (rl_reference_amount r)")
    case False
    then have x: "0 < x" by simp
    have "?c * x \<le> 1000000000 * ?f"
      using lo ceil_div_ge [of 1000000000 "tariff r x"] by simp
    then have "x * ?c \<le> x * ceil_div (?f * 1000000000) x"
      using ceil_div_ge [OF x, of "?f * 1000000000"] unfolding mult.commute [of x ?c]
      by linarith
    then show ?thesis using False x by (simp add: effective_numerator_def)
  qed (simp add: effective_numerator_def)
  have "?f \<le> x" using hi by (intro ceil_div_le) simp_all
  then show "effective_numerator r x \<le> 1000000000"
    unfolding effective_numerator_def using c by (auto intro!: ceil_div_le)
qed

text \<open>
  C34: the rate limiter charges a progressive tariff.  For a non-zero limiter the
  256-bit formula never wraps or fails: an input up to the reference amount pays
  the cliff fee, a larger one pays the numerator whose fee is
  \<open>sum over k < x of min (c + i * (k div x0)) MAX_FEE_NUMERATOR\<close>, rounded up.
\<close>

theorem rate_limiter_is_progressive:
  assumes "rl_cliff_fee_numerator r \<le> MAX_FEE_NUMERATOR"
    "rl_reference_amount r \<noteq> 0" "rl_fee_increment_bps r \<noteq> 0"
  shows "\<exists>n. limiter_numerator_from_included r x = Inr n \<and>
    (if x \<le> rl_reference_amount r then n = rl_cliff_fee_numerator r
     else unat n = ceil_div (ceil_div (\<Sum>k<unat x. min (unat (rl_cliff_fee_numerator r)
         + unat (rl_fee_increment_bps r) * 100000 * (k div unat (rl_reference_amount r))) 990000000)
       1000000000 * 1000000000) (unat x))"
proof -
  have ok: "limiter_ok r" using assms by (simp add: limiter_ok_def word_le_nat_alt word_unat_eq_iff)
  show ?thesis
  proof (cases "x \<le> rl_reference_amount r")
    case True
    then show ?thesis by (simp add: limiter_numerator_from_included_def)
  next
    case False
    then show ?thesis using limiter_numerator_above [OF ok, of x]
      by (auto simp: tariff_def progressive_fee_def unit_rate_def)
  qed
qed

theorem rate_limiter_is_progressive_witness:
  "\<exists>n. limiter_numerator_from_included
      \<lparr>rl_cliff_fee_numerator = 10000000, rl_fee_increment_bps = 10, rl_max_limiter_duration = 100,
       rl_reference_amount = 2\<rparr> 4 = Inr n \<and> unat n = 250000000"
  using rate_limiter_is_progressive [of "\<lparr>rl_cliff_fee_numerator = 10000000, rl_fee_increment_bps = 10,
      rl_max_limiter_duration = 100, rl_reference_amount = 2\<rparr>" 4]
  by (simp add: MAX_FEE_NUMERATOR_def lessThan_nat_numeral ceil_div_def)

end
