(* ===== verification/Fee_Handlers.thy ===== *)
theory Fee_Handlers
  imports Rate_Limiter
begin

text \<open>
  The contract of the trait \<open>BaseFeeHandler\<close> (\<open>base_fee/mod.rs\<close>) as the locale
  \<open>fee_handler\<close>: a handler whose parameters passed \<open>validate\<close> never panics and
  never asks for more than the whole amount.  It is interpreted on the fee
  scheduler, on the rate limiter and on the dispatching handler of the program.
\<close>

section \<open>The interface\<close>

locale fee_handler =
  fixes valid :: "'h \<Rightarrow> u8 \<Rightarrow> activation_type \<Rightarrow> unit result"
    and from_included :: "'h \<Rightarrow> u64 \<Rightarrow> u64 \<Rightarrow> trade_direction \<Rightarrow> u64 \<Rightarrow> u64 result"
    and from_excluded :: "'h \<Rightarrow> u64 \<Rightarrow> u64 \<Rightarrow> trade_direction \<Rightarrow> u64 \<Rightarrow> u64 result"
  assumes included_le:
      "valid h m t = Inr () \<Longrightarrow> from_included h cp ap d x = Inr n \<Longrightarrow> unat n \<le> 1000000000"
    and excluded_le:
      "valid h m t = Inr () \<Longrightarrow> from_excluded h cp ap d x = Inr n \<Longrightarrow> unat n \<le> 1000000000"
    and included_no_panic: "valid h m t = Inr () \<Longrightarrow> no_panic (from_included h cp ap d x)"
    and excluded_no_panic: "valid h m t = Inr () \<Longrightarrow> no_panic (from_excluded h cp ap d x)"
begin

text \<open>With a valid handler the fee can be taken off every included amount.\<close>

lemma excluded_amount_total:
  assumes "valid h m t = Inr ()" "from_included h cp ap d x = Inr n"
  shows "\<exists>ex fee. get_excluded_fee_amount n x = Inr (ex, fee) \<and> unat ex + unat fee = unat x"
proof -
  have n: "unat n \<le> 1000000000" using assms by (rule included_le)
  from get_excluded_fee_amount_total [OF n] obtain ex fee
    where e: "get_excluded_fee_amount n x = Inr (ex, fee)" by blast
  then have "unat ex + unat fee = unat x"
    using n net_le [of "unat n" "unat x"] by (simp add: get_excluded_fee_amount_Ok)
  with e show ?thesis by blast
qed

end

section \<open>The fee scheduler\<close>

lemma by_period_le_cliff:
  assumes "get_base_fee_numerator_by_period s p = Inr n" "unat (fs_cliff_fee_numerator s) \<le> 990000000"
  shows "unat n \<le> unat (fs_cliff_fee_numerator s)"
proof -
  obtain mode where "fee_scheduler_mode_of (fs_fee_scheduler_mode s) = Some mode"
    using assms(1) by (auto simp: get_base_fee_numerator_by_period_def Let_def)
  then show ?thesis
    using assms fee_in_period_le [of "fs_cliff_fee_numerator s" "fs_reduction_factor s" _ n]
    by (cases mode) (auto simp: get_base_fee_numerator_by_period_def Let_def)
qed

lemma scheduler_valid_cliff:
  assumes "scheduler_validate s m t = Inr ()"
  shows "unat (fs_cliff_fee_numerator s) \<le> 990000000"
  using assms by (auto simp: scheduler_validate_def scheduler_max_base_fee_numerator_def Let_def
    word_le_nat_alt)

lemma scheduler_base_fee_le_cliff:
  assumes "scheduler_validate s m t = Inr ()" "scheduler_base_fee_numerator s cp ap = Inr n"
  shows "unat n \<le> unat (fs_cliff_fee_numerator s)"
  using assms(2) by_period_le_cliff [OF _ scheduler_valid_cliff [OF assms(1)]]
  by (auto simp: scheduler_base_fee_numerator_def split: if_splits)

lemma no_panic_get_fee_in_period [simp]: "no_panic (get_fee_in_period c r n)"
  by (auto simp: get_fee_in_period_def Let_def intro!: no_panic_and_then)

lemma no_panic_by_period [simp]: "no_panic (get_base_fee_numerator_by_period s p)"
  by (auto simp: get_base_fee_numerator_by_period_def Let_def intro!: no_panic_and_then
    split: fee_scheduler_mode.splits)

lemma no_panic_scheduler [simp]: "no_panic (scheduler_base_fee_numerator s cp ap)"
  by (auto simp: scheduler_base_fee_numerator_def intro!: no_panic_and_then)

interpretation scheduler: fee_handler scheduler_validate scheduler_from_included scheduler_from_excluded
proof
  fix s m t cp ap d x n
  assume v: "scheduler_validate s m t = Inr ()"
  show "scheduler_from_included s cp ap d x = Inr n \<Longrightarrow> unat n \<le> 1000000000"
    and "scheduler_from_excluded s cp ap d x = Inr n \<Longrightarrow> unat n \<le> 1000000000"
    using scheduler_base_fee_le_cliff [OF v, of cp ap n] scheduler_valid_cliff [OF v]
    by (auto simp: scheduler_from_included_def scheduler_from_excluded_def)
qed (simp_all add: scheduler_from_included_def scheduler_from_excluded_def)

section \<open>The rate limiter\<close>

lemma limiter_valid_cases:
  assumes "limiter_validate r m t = Inr ()"
  shows "unat (rl_cliff_fee_numerator r) \<le> 990000000"
    and "\<not> is_zero_rate_limiter r \<Longrightarrow> limiter_ok r"
  using assms by (auto simp: limiter_validate_def limiter_ok_def is_non_zero_rate_limiter_def
    word_le_nat_alt word_unat_eq_iff Let_def split: if_splits)

lemma limiter_applied_ok:
  assumes "limiter_validate r m t = Inr ()" "is_rate_limiter_applied r cp ap d = Inr True"
  shows "limiter_ok r"
  using assms(2) limiter_valid_cases(2) [OF assms(1)]
  by (auto simp: is_rate_limiter_applied_def split: if_splits)

lemma limiter_included_le:
  "limiter_ok r \<Longrightarrow> limiter_numerator_from_included r x = Inr n \<Longrightarrow> unat n \<le> 1000000000"
  using effective_numerator_bounds(2) [of r "unat x"] by (simp add: limiter_numerator_spec)

lemma limiter_excluded_le:
  assumes ok: "limiter_ok r" and e: "limiter_numerator_from_excluded r x = Inr n"
  shows "unat n \<le> 1000000000"
proof -
  have c: "unat (rl_cliff_fee_numerator r) \<le> 1000000000" using ok by (simp add: limiter_ok_def)
  have q: "unat n \<le> 1000000000"
    if "safe_sub inc x = Inr f" "safe_mul_div_cast_u64 f FEE_DENOMINATOR inc Up = Inr n" for inc f :: u64
  proof -
    have "unat f * 1000000000 \<le> unat inc * 1000000000" using that(1) by simp
    then show ?thesis using that(2) by (auto intro!: ceil_div_le)
  qed
  show ?thesis
    using e c q limiter_included_le [OF ok]
    unfolding limiter_numerator_from_excluded_def
    by (auto simp del: safe_sub_Ok safe_mul_div_cast_u64_Ok split: if_splits prod.splits)
qed

lemma limiter_numerator_no_panic [simp]:
  assumes "limiter_ok r" shows "no_panic (limiter_numerator_from_included r x)"
proof (cases "x \<le> rl_reference_amount r")
  case True
  then show ?thesis by (simp add: limiter_numerator_from_included_def)
next
  case False
  then show ?thesis using limiter_numerator_above [OF assms, of x] by (auto simp: not_le)
qed

lemma no_panic_limiter_excluded_fee_amount [simp]:
  "limiter_ok r \<Longrightarrow> no_panic (limiter_excluded_fee_amount r x)"
  by (auto simp: limiter_excluded_fee_amount_def intro!: no_panic_and_then split: prod.splits)

lemma no_panic_increment [simp]: "no_panic (increment_numerator r)"
  by (simp add: increment_numerator_def)

lemma no_panic_max_index [simp]: "no_panic (get_max_index r)"
  by (auto simp: get_max_index_def intro!: no_panic_and_then)

lemma no_panic_checked_amounts [simp]: "limiter_ok r \<Longrightarrow> no_panic (get_checked_amounts r)"
  by (auto simp: get_checked_amounts_def Let_def intro!: no_panic_and_then)

lemma no_panic_big_div [simp]: "no_panic (big_div a b) \<longleftrightarrow> b \<noteq> 0"
  by (simp add: big_div_def)

lemma no_panic_included_by_root [simp]:
  assumes "limiter_ok r" shows "no_panic (limiter_included_by_root r x)"
proof -
  have nz: "(2 :: u256) * ucast i \<noteq> 0" if "increment_numerator r = Inr i" for i
  proof -
    have i: "unat i = unat (rl_fee_increment_bps r) * 100000" "0 < unat i" "unat i < 2 ^ 33"
      using that increment_numerator_Ok [of r] assms unat_range(2) [of "rl_fee_increment_bps r"]
      by (auto simp: limiter_ok_def simp del: unat_range)
    have "unat ((2 :: u256) * ucast i) = 2 * unat i"
      using i(3) by (subst unat_mul_small) simp_all
    then show ?thesis using i(2) by (auto simp: word_unat_eq_iff)
  qed
  show ?thesis unfolding limiter_included_by_root_def Let_def
    using assms nz by (intro no_panic_and_then) (auto split: prod.splits intro!: no_panic_and_then)
qed

lemma no_panic_limiter_from_excluded [simp]:
  "limiter_ok r \<Longrightarrow> no_panic (limiter_numerator_from_excluded r x)"
  unfolding limiter_numerator_from_excluded_def
  by (auto intro!: no_panic_and_then split: prod.splits)

lemma no_panic_applied [simp]: "no_panic (is_rate_limiter_applied r cp ap d)"
  by (auto simp: is_rate_limiter_applied_def intro!: no_panic_and_then)

interpretation limiter: fee_handler limiter_validate limiter_from_included limiter_from_excluded
proof
  fix r m t cp ap d x n
  assume v: "limiter_validate r m t = Inr ()"
  have c: "unat (rl_cliff_fee_numerator r) \<le> 1000000000" using limiter_valid_cases(1) [OF v] by simp
  note ok = limiter_applied_ok [OF v]
  show "limiter_from_included r cp ap d x = Inr n \<Longrightarrow> unat n \<le> 1000000000"
    using c by (auto simp: limiter_from_included_def split: if_splits dest!: ok dest: limiter_included_le)
  show "limiter_from_excluded r cp ap d x = Inr n \<Longrightarrow> unat n \<le> 1000000000"
    using c by (auto simp: limiter_from_excluded_def split: if_splits dest!: ok dest: limiter_excluded_le)
  show "no_panic (limiter_from_included r cp ap d x)"
    unfolding limiter_from_included_def by (rule no_panic_and_then) (auto dest!: ok)
  show "no_panic (limiter_from_excluded r cp ap d x)"
    unfolding limiter_from_excluded_def by (rule no_panic_and_then) (auto dest!: ok)
qed

section \<open>The dispatching handler\<close>

interpretation handler: fee_handler handler_validate handler_from_included handler_from_excluded
proof
  fix h m t cp ap d x n
  assume v: "handler_validate h m t = Inr ()"
  show "handler_from_included h cp ap d x = Inr n \<Longrightarrow> unat n \<le> 1000000000"
    using v scheduler.included_le limiter.included_le by (cases h) auto
  show "handler_from_excluded h cp ap d x = Inr n \<Longrightarrow> unat n \<le> 1000000000"
    using v scheduler.excluded_le limiter.excluded_le by (cases h) auto
  show "no_panic (handler_from_included h cp ap d x)"
    using v scheduler.included_no_panic limiter.included_no_panic by (cases h) auto
  show "no_panic (handler_from_excluded h cp ap d x)"
    using v scheduler.excluded_no_panic limiter.excluded_no_panic by (cases h) auto
qed

section \<open>Properties\<close>

lemma linear_by_period:
  assumes "fs_fee_scheduler_mode s = 0"
    and "scheduler_min_base_fee_numerator s = Inr mn"
  shows "\<exists>n. get_base_fee_numerator_by_period s p = Inr n
    \<and> unat n = unat (fs_cliff_fee_numerator s)
        - unat (fs_reduction_factor s) * min (unat p) (unat (fs_number_of_period s))
    \<and> unat mn \<le> unat n"
proof -
  let ?r = "unat (fs_reduction_factor s)" and ?N = "unat (fs_number_of_period s)"
  let ?c = "unat (fs_cliff_fee_numerator s)"
  have mode: "fee_scheduler_mode_of (fs_fee_scheduler_mode s) = Some Linear"
    using assms(1) by (simp add: mode_of_defs)
  obtain w :: u64 where w: "unat w = ?r * ?N" "unat w \<le> ?c" "unat mn = ?c - unat w"
    using assms(2) by (auto simp: scheduler_min_base_fee_numerator_def
      get_base_fee_numerator_by_period_def Let_def mode)
  have mn: "?r * ?N \<le> ?c" "unat mn = ?c - ?r * ?N" "?r * ?N < 2 ^ LENGTH(64)"
    using w unat_lt_2p [of w] by simp_all
  define q where "q = min p (ucast (fs_number_of_period s))"
  have q: "unat q = min (unat p) ?N" by (simp add: q_def min_def word_le_nat_alt)
  have le: "?r * unat q \<le> ?r * ?N" unfolding q by (intro mult_le_mono2) simp
  have "?r * unat q < 2 ^ LENGTH(64)" using le mn(3) by linarith
  then obtain k :: u64 where k: "unat k = ?r * unat q" by (rule word_witness)
  have "get_base_fee_numerator_by_period s p = safe_sub (fs_cliff_fee_numerator s) k"
    unfolding get_base_fee_numerator_by_period_def Let_def q_def [symmetric] mode
    using k by (simp add: safe_mul_Ok [THEN iffD2, of k] del: safe_mul_Ok)
  moreover have kc: "unat k \<le> ?c" using le mn(1) k by linarith
  then have "safe_sub (fs_cliff_fee_numerator s) k = Inr (fs_cliff_fee_numerator s - k)"
    by (simp add: unat_sub_le)
  moreover have "unat (fs_cliff_fee_numerator s - k) = ?c - ?r * unat q"
    using kc by (simp add: unat_sub_le k)
  moreover have "unat mn \<le> ?c - ?r * unat q" using le mn(2) by linarith
  ultimately show ?thesis unfolding q by simp
qed





end
