(* ===== verification/Pool_Fees.thy ===== *)
theory Pool_Fees
  imports Fee_Handlers
begin

text \<open>
  The fee configuration of a pool: the dynamic fee and its volatility tracker
  (\<open>state/fee.rs\<close>, \<open>DynamicFeeConfig\<close> in \<open>state/config.rs\<close>), the base fee
  configuration, the total fee (\<open>PoolFeesConfig\<close>), the mode in which fees are
  collected (\<open>FeeMode\<close>), and the parameters from which they are built
  (\<open>params/fee_parameters.rs\<close>).
\<close>

record volatility_tracker =
  vt_last_update_timestamp :: u64
  vt_sqrt_price_reference :: u128
  vt_volatility_accumulator :: u128
  vt_volatility_reference :: u128

record dynamic_fee_config =
  df_initialized :: u8
  df_max_volatility_accumulator :: u32
  df_variable_fee_control :: u32
  df_bin_step :: u16
  df_filter_period :: u16
  df_decay_period :: u16
  df_reduction_factor :: u16
  df_bin_step_u128 :: u128

record base_fee_config =
  bf_cliff_fee_numerator :: u64
  bf_second_factor :: u64
  bf_third_factor :: u64
  bf_first_factor :: u16
  bf_base_fee_mode :: u8

record pool_fees_config =
  pf_base_fee :: base_fee_config
  pf_dynamic_fee :: dynamic_fee_config

record fee_mode =
  fees_on_input :: bool
  fees_on_base_token :: bool
  has_referral :: bool

section \<open>The volatility tracker\<close>

definition get_delta_bin_id :: "u128 \<Rightarrow> u128 \<Rightarrow> u128 \<Rightarrow> u128 result" where
  "get_delta_bin_id bin_step_u128 sqrt_price_a sqrt_price_b =
     (let (upper_sqrt_price, lower_sqrt_price) =
        (if sqrt_price_a > sqrt_price_b then (sqrt_price_a, sqrt_price_b)
         else (sqrt_price_b, sqrt_price_a)) in
     and_then (safe_shl_div_cast upper_sqrt_price lower_sqrt_price 64 Down) (\<lambda>price_ratio :: u128.
     and_then (safe_sub price_ratio ONE_Q64) (\<lambda>d.
     and_then (safe_div d bin_step_u128) (\<lambda>delta_bin_id.
     safe_mul delta_bin_id 2))))"

definition update_volatility_accumulator ::
  "volatility_tracker \<Rightarrow> dynamic_fee_config \<Rightarrow> u128 \<Rightarrow> volatility_tracker result" where
  "update_volatility_accumulator vt cfg sqrt_price =
     and_then (get_delta_bin_id (df_bin_step_u128 cfg) sqrt_price (vt_sqrt_price_reference vt))
       (\<lambda>delta_price.
     and_then (safe_mul delta_price (ucast BASIS_POINT_MAX)) (\<lambda>m.
     and_then (safe_add (vt_volatility_reference vt) m) (\<lambda>volatility_accumulator.
     Ok (vt\<lparr>vt_volatility_accumulator :=
            min volatility_accumulator (ucast (df_max_volatility_accumulator cfg))\<rparr>))))"

definition update_references ::
  "volatility_tracker \<Rightarrow> dynamic_fee_config \<Rightarrow> u128 \<Rightarrow> u64 \<Rightarrow> volatility_tracker result" where
  "update_references vt cfg sqrt_price_current current_timestamp =
     (let elapsed = saturating_sub current_timestamp (vt_last_update_timestamp vt) in
     if elapsed \<ge> ucast (df_filter_period cfg) then
       let vt = vt\<lparr>vt_sqrt_price_reference := sqrt_price_current\<rparr> in
       if elapsed < ucast (df_decay_period cfg) then
         and_then (safe_mul (vt_volatility_accumulator vt) (ucast (df_reduction_factor cfg))) (\<lambda>m.
         and_then (safe_div m (ucast BASIS_POINT_MAX)) (\<lambda>volatility_reference.
         Ok (vt\<lparr>vt_volatility_reference := volatility_reference\<rparr>)))
       else Ok (vt\<lparr>vt_volatility_reference := 0\<rparr>)
     else Ok vt)"

section \<open>The dynamic fee\<close>

definition is_dynamic_fee_enable :: "dynamic_fee_config \<Rightarrow> bool" where
  "is_dynamic_fee_enable cfg \<longleftrightarrow> df_initialized cfg \<noteq> 0"

definition get_variable_fee_numerator :: "dynamic_fee_config \<Rightarrow> volatility_tracker \<Rightarrow> u128 result" where
  "get_variable_fee_numerator cfg vt =
     (if \<not> is_dynamic_fee_enable cfg then Ok 0
      else
        and_then (safe_mul (vt_volatility_accumulator vt) (ucast (df_bin_step cfg))) (\<lambda>m.
        and_then (ok_or (checked_mul m m) MathOverflow) (\<lambda>square_vfa_bin.
        and_then (safe_mul square_vfa_bin (ucast (df_variable_fee_control cfg))) (\<lambda>v_fee.
        and_then (safe_add v_fee 99999999999) (\<lambda>s.
        safe_div s 100000000000)))))"

section \<open>The base fee configuration\<close>

definition get_fee_rate_limiter :: "base_fee_config \<Rightarrow> fee_rate_limiter result" where
  "get_fee_rate_limiter b =
     and_then (ok_or (base_fee_mode_of (bf_base_fee_mode b)) InvalidBaseFeeMode) (\<lambda>mode.
     if mode = RateLimiter
     then Ok \<lparr>rl_cliff_fee_numerator = bf_cliff_fee_numerator b,
            rl_fee_increment_bps = bf_first_factor b, rl_max_limiter_duration = bf_second_factor b,
            rl_reference_amount = bf_third_factor b\<rparr>
     else err InvalidFeeRateLimiter)"

definition config_base_fee_handler :: "base_fee_config \<Rightarrow> base_fee_handler result" where
  "config_base_fee_handler b =
     get_base_fee_handler (bf_cliff_fee_numerator b) (bf_first_factor b) (bf_second_factor b)
       (bf_third_factor b) (bf_base_fee_mode b)"

definition is_fee_rate_limiter_applied :: "base_fee_config \<Rightarrow> u64 \<Rightarrow> bool result" where
  "is_fee_rate_limiter_applied b trade_fee_numerator =
     and_then (ok_or (base_fee_mode_of (bf_base_fee_mode b)) InvalidBaseFeeMode) (\<lambda>mode.
     if mode = RateLimiter then Ok (trade_fee_numerator > bf_cliff_fee_numerator b)
     else Ok False)"

definition validate_min_base_fee :: "base_fee_config \<Rightarrow> unit result" where
  "validate_min_base_fee b =
     and_then (config_base_fee_handler b) handler_validate_min_base_fee"

section \<open>The total fee\<close>

definition get_total_fee_numerator ::
  "pool_fees_config \<Rightarrow> u64 \<Rightarrow> volatility_tracker \<Rightarrow> u64 result" where
  "get_total_fee_numerator pf base_fee_numerator vt =
     and_then (get_variable_fee_numerator (pf_dynamic_fee pf) vt) (\<lambda>variable.
     and_then (safe_add variable (ucast base_fee_numerator)) (\<lambda>total_fee_numerator.
     if total_fee_numerator > ucast MAX_FEE_NUMERATOR then Ok MAX_FEE_NUMERATOR
     else unwrap (ok_or (try_cast total_fee_numerator) TypeCastFailed)))"

definition get_total_fee_numerator_from_included_fee_amount ::
  "pool_fees_config \<Rightarrow> volatility_tracker \<Rightarrow> u64 \<Rightarrow> u64 \<Rightarrow> u64 \<Rightarrow> trade_direction \<Rightarrow> u64 result" where
  "get_total_fee_numerator_from_included_fee_amount pf vt current_point activation_point
       included_fee_amount trade_direction =
     and_then (config_base_fee_handler (pf_base_fee pf)) (\<lambda>h.
     and_then (handler_from_included h current_point activation_point trade_direction
        included_fee_amount) (\<lambda>base_fee_numerator.
     get_total_fee_numerator pf base_fee_numerator vt))"

definition get_total_fee_numerator_from_excluded_fee_amount ::
  "pool_fees_config \<Rightarrow> volatility_tracker \<Rightarrow> u64 \<Rightarrow> u64 \<Rightarrow> u64 \<Rightarrow> trade_direction \<Rightarrow> u64 result" where
  "get_total_fee_numerator_from_excluded_fee_amount pf vt current_point activation_point
       excluded_fee_amount trade_direction =
     and_then (config_base_fee_handler (pf_base_fee pf)) (\<lambda>h.
     and_then (handler_from_excluded h current_point activation_point trade_direction
        excluded_fee_amount) (\<lambda>base_fee_numerator.
     get_total_fee_numerator pf base_fee_numerator vt))"

definition get_min_base_fee_numerator :: "pool_fees_config \<Rightarrow> u64 result" where
  "get_min_base_fee_numerator pf =
     and_then (config_base_fee_handler (pf_base_fee pf)) handler_min_base_fee_numerator"

section \<open>The fee mode\<close>

fun fee_side :: "collect_fee_mode \<Rightarrow> trade_direction \<Rightarrow> bool \<times> bool" where
  "fee_side OutputToken BaseToQuote = (False, False)"
| "fee_side OutputToken QuoteToBase = (False, True)"
| "fee_side QuoteToken BaseToQuote = (False, False)"
| "fee_side QuoteToken QuoteToBase = (True, False)"

definition get_fee_mode :: "u8 \<Rightarrow> trade_direction \<Rightarrow> bool \<Rightarrow> fee_mode result" where
  "get_fee_mode collect_fee_mode trade_direction referral =
     and_then (ok_or (collect_fee_mode_of collect_fee_mode) InvalidCollectFeeMode) (\<lambda>mode.
     let (on_input, on_base) = fee_side mode trade_direction in
     Ok \<lparr>fees_on_input = on_input, fees_on_base_token = on_base, has_referral = referral\<rparr>)"

section \<open>Parameters\<close>

record base_fee_parameters =
  bp_cliff_fee_numerator :: u64
  bp_first_factor :: u16
  bp_second_factor :: u64
  bp_third_factor :: u64
  bp_base_fee_mode :: u8

record dynamic_fee_parameters =
  dp_bin_step :: u16
  dp_bin_step_u128 :: u128
  dp_filter_period :: u16
  dp_decay_period :: u16
  dp_reduction_factor :: u16
  dp_max_volatility_accumulator :: u32
  dp_variable_fee_control :: u32

record pool_fee_parameters =
  pp_base_fee :: base_fee_parameters
  pp_dynamic_fee :: "dynamic_fee_parameters option"

definition base_fee_validate :: "base_fee_parameters \<Rightarrow> u8 \<Rightarrow> activation_type \<Rightarrow> unit result" where
  "base_fee_validate b collect_fee_mode activation_type =
     and_then (get_base_fee_handler (bp_cliff_fee_numerator b) (bp_first_factor b)
        (bp_second_factor b) (bp_third_factor b) (bp_base_fee_mode b)) (\<lambda>h.
     handler_validate h collect_fee_mode activation_type)"

definition to_base_fee_config :: "base_fee_parameters \<Rightarrow> base_fee_config" where
  "to_base_fee_config b =
     \<lparr>bf_cliff_fee_numerator = bp_cliff_fee_numerator b, bf_second_factor = bp_second_factor b,
      bf_third_factor = bp_third_factor b, bf_first_factor = bp_first_factor b,
      bf_base_fee_mode = bp_base_fee_mode b\<rparr>"

definition default_dynamic_fee_config :: dynamic_fee_config where
  "default_dynamic_fee_config =
     \<lparr>df_initialized = 0, df_max_volatility_accumulator = 0, df_variable_fee_control = 0,
      df_bin_step = 0, df_filter_period = 0, df_decay_period = 0, df_reduction_factor = 0,
      df_bin_step_u128 = 0\<rparr>"

definition to_dynamic_fee_config :: "dynamic_fee_parameters \<Rightarrow> dynamic_fee_config" where
  "to_dynamic_fee_config d =
     \<lparr>df_initialized = 1, df_max_volatility_accumulator = dp_max_volatility_accumulator d,
      df_variable_fee_control = dp_variable_fee_control d, df_bin_step = dp_bin_step d,
      df_filter_period = dp_filter_period d, df_decay_period = dp_decay_period d,
      df_reduction_factor = dp_reduction_factor d, df_bin_step_u128 = dp_bin_step_u128 d\<rparr>"

definition dynamic_fee_validate :: "dynamic_fee_parameters \<Rightarrow> unit result" where
  "dynamic_fee_validate d =
     and_then (require (dp_bin_step d = BIN_STEP_BPS_DEFAULT) InvalidInput) (\<lambda>_.
     and_then (require (dp_bin_step_u128 d = BIN_STEP_BPS_U128_DEFAULT) InvalidInput) (\<lambda>_.
     and_then (require (dp_filter_period d < dp_decay_period d) InvalidInput) (\<lambda>_.
     and_then (require (dp_reduction_factor d \<le> ucast BASIS_POINT_MAX) InvalidInput) (\<lambda>_.
     and_then (require (dp_variable_fee_control d \<le> U24_MAX) InvalidInput) (\<lambda>_.
     require (dp_max_volatility_accumulator d \<le> U24_MAX) InvalidInput)))))"

definition pool_fee_validate :: "pool_fee_parameters \<Rightarrow> u8 \<Rightarrow> activation_type \<Rightarrow> unit result" where
  "pool_fee_validate p collect_fee_mode activation_type =
     and_then (base_fee_validate (pp_base_fee p) collect_fee_mode activation_type) (\<lambda>_.
     case pp_dynamic_fee p of
       Some dynamic_fee \<Rightarrow> dynamic_fee_validate dynamic_fee
     | None \<Rightarrow> Ok ())"

definition to_pool_fees_config :: "pool_fee_parameters \<Rightarrow> pool_fees_config" where
  "to_pool_fees_config p =
     (case pp_dynamic_fee p of
        Some dynamic_fee \<Rightarrow> \<lparr>pf_base_fee = to_base_fee_config (pp_base_fee p),
          pf_dynamic_fee = to_dynamic_fee_config dynamic_fee\<rparr>
      | None \<Rightarrow> \<lparr>pf_base_fee = to_base_fee_config (pp_base_fee p),
          pf_dynamic_fee = default_dynamic_fee_config\<rparr>)"

lemmas [eval] = get_delta_bin_id_def update_volatility_accumulator_def update_references_def
  is_dynamic_fee_enable_def get_variable_fee_numerator_def get_fee_rate_limiter_def
  config_base_fee_handler_def is_fee_rate_limiter_applied_def validate_min_base_fee_def
  get_total_fee_numerator_def get_total_fee_numerator_from_included_fee_amount_def
  get_total_fee_numerator_from_excluded_fee_amount_def get_min_base_fee_numerator_def
  get_fee_mode_def base_fee_validate_def to_base_fee_config_def default_dynamic_fee_config_def
  to_dynamic_fee_config_def dynamic_fee_validate_def pool_fee_validate_def to_pool_fees_config_def

section \<open>The volatility tracker's values\<close>

lemma get_delta_bin_id_sym: "get_delta_bin_id step a b = get_delta_bin_id step b a"
  by (cases "a = b") (auto simp: get_delta_bin_id_def)

lemma get_delta_bin_id_same:
  assumes "p \<noteq> 0" "step \<noteq> 0"
  shows "get_delta_bin_id step p p = Inr 0"
proof -
  have p: "0 < unat p" using assms(1) by (simp add: word_unat_eq_iff)
  have "safe_shl_div_cast p p 64 Down = Inr ONE_Q64"
    using p by (subst safe_shl_div_cast_Ok) simp_all
  then show ?thesis using assms(2)
    by (simp add: get_delta_bin_id_def safe_sub_def safe_div_def safe_mul_def)
qed

lemma update_volatility_accumulator_le:
  "update_volatility_accumulator vt cfg p = Inr vt' \<Longrightarrow>
    unat (vt_volatility_accumulator vt') \<le> unat (df_max_volatility_accumulator cfg)"
  by (auto simp: update_volatility_accumulator_def min_def word_le_nat_alt)

lemma update_references_accumulator:
  "update_references vt cfg p ts = Inr vt' \<Longrightarrow>
    vt_volatility_accumulator vt' = vt_volatility_accumulator vt"
  by (auto simp: update_references_def Let_def split: if_splits)

lemma update_references_decay:
  assumes "update_references vt cfg p ts = Inr vt'" "unat (df_reduction_factor cfg) \<le> 10000"
    "unat (vt_volatility_reference vt) \<le> unat (vt_volatility_accumulator vt)"
  shows "unat (vt_volatility_reference vt') \<le> unat (vt_volatility_accumulator vt')"
proof -
  have "unat (vt_volatility_accumulator vt) * unat (df_reduction_factor cfg) div 10000
      \<le> unat (vt_volatility_accumulator vt)"
    using assms(2) by (intro div_le_of_le_mult) (simp_all add: mult.commute)
  then show ?thesis using assms(1,3)
    by (auto simp: update_references_def Let_def split: if_splits)
qed

section \<open>The variable fee\<close>

definition dynamic_ok :: "dynamic_fee_config \<Rightarrow> bool" where
  "dynamic_ok cfg \<longleftrightarrow> is_dynamic_fee_enable cfg \<longrightarrow>
     unat (df_bin_step cfg) = 1 \<and> unat (df_variable_fee_control cfg) < 2 ^ 24
     \<and> unat (df_max_volatility_accumulator cfg) < 2 ^ 24 \<and> unat (df_reduction_factor cfg) \<le> 10000
     \<and> unat (df_filter_period cfg) < unat (df_decay_period cfg)
     \<and> df_bin_step_u128 cfg = BIN_STEP_BPS_U128_DEFAULT"

definition tracker_ok :: "volatility_tracker \<Rightarrow> dynamic_fee_config \<Rightarrow> bool" where
  "tracker_ok vt cfg \<longleftrightarrow> is_dynamic_fee_enable cfg \<longrightarrow>
     unat (vt_volatility_accumulator vt) \<le> unat (df_max_volatility_accumulator cfg)"

lemma dynamic_fee_validate_ok:
  "dynamic_fee_validate d = Inr () \<Longrightarrow> dynamic_ok (to_dynamic_fee_config d)"
  by (auto simp: dynamic_fee_validate_def dynamic_ok_def to_dynamic_fee_config_def word_le_nat_alt
    word_less_nat_alt U24_MAX_def BIN_STEP_BPS_DEFAULT_def BASIS_POINT_MAX_def)

lemma dynamic_ok_config:
  "pool_fee_validate p m t = Inr () \<Longrightarrow> dynamic_ok (pf_dynamic_fee (to_pool_fees_config p))"
  using dynamic_fee_validate_ok
  by (auto simp: pool_fee_validate_def to_pool_fees_config_def dynamic_ok_def is_dynamic_fee_enable_def
    default_dynamic_fee_config_def split: option.splits)

definition variable_fee :: "dynamic_fee_config \<Rightarrow> volatility_tracker \<Rightarrow> nat" where
  "variable_fee cfg vt =
     (if is_dynamic_fee_enable cfg
      then ceil_div (unat (vt_volatility_accumulator vt) ^ 2 * unat (df_variable_fee_control cfg))
        100000000000
      else 0)"

lemma get_variable_fee_numerator_ok:
  assumes "dynamic_ok cfg" "tracker_ok vt cfg"
  shows "\<exists>v. get_variable_fee_numerator cfg vt = Inr v \<and> unat v = variable_fee cfg vt \<and> unat v < 2 ^ 72"
proof (cases "is_dynamic_fee_enable cfg")
  case False
  then show ?thesis by (simp add: get_variable_fee_numerator_def variable_fee_def)
next
  case True
  let ?a = "unat (vt_volatility_accumulator vt)" and ?k = "unat (df_variable_fee_control cfg)"
  have a: "?a < 2 ^ 24" and k: "?k < 2 ^ 24" and one: "unat (df_bin_step cfg) = 1"
    using assms True by (auto simp: dynamic_ok_def tracker_ok_def)
  have sq: "?a * ?a < 2 ^ 48" by (rule prod_lt_2p [OF a a]) simp
  have v: "?a * ?a * ?k < 2 ^ 72" by (rule prod_lt_2p [OF sq k]) simp
  have m: "safe_mul (vt_volatility_accumulator vt) (ucast (df_bin_step cfg)) = Inr (vt_volatility_accumulator vt)"
    using one by simp
  have "?a * ?a < 2 ^ LENGTH(128)" using sq by simp
  then obtain s :: u128 where s: "unat s = ?a * ?a" by (rule word_witness)
  have c: "checked_mul (vt_volatility_accumulator vt) (vt_volatility_accumulator vt) = Some s"
    using s by simp
  have "?a * ?a * ?k < 2 ^ LENGTH(128)" using v by simp
  then obtain f :: u128 where f: "unat f = ?a * ?a * ?k" by (rule word_witness)
  have c2: "safe_mul s (ucast (df_variable_fee_control cfg)) = Inr f" using s f by simp
  have "?a * ?a * ?k + 99999999999 < 2 ^ LENGTH(128)" using v by simp
  then obtain g :: u128 where g: "unat g = ?a * ?a * ?k + 99999999999" by (rule word_witness)
  have c3: "safe_add f 99999999999 = Inr g" using f g by simp
  have c4: "safe_div g 100000000000 = Inr (g div 100000000000)" by (simp add: safe_div_def)
  have "get_variable_fee_numerator cfg vt = Inr (g div 100000000000)"
    unfolding get_variable_fee_numerator_def m and_then_simps c ok_or_simps c2 c3 c4 using True by simp
  moreover have "unat (g div 100000000000) = variable_fee cfg vt"
    using True by (simp add: unat_div g variable_fee_def ceil_div_def power2_eq_square)
  moreover have "variable_fee cfg vt < 2 ^ 72"
  proof -
    have "variable_fee cfg vt \<le> ?a * ?a * ?k"
      using True by (simp add: variable_fee_def power2_eq_square ceil_div_le_self)
    then show ?thesis using v by linarith
  qed
  ultimately show ?thesis by simp
qed

section \<open>The total fee\<close>

lemma get_total_fee_numerator_ok:
  assumes "dynamic_ok (pf_dynamic_fee pf)" "tracker_ok vt (pf_dynamic_fee pf)"
  shows "\<exists>n. get_total_fee_numerator pf b vt = Inr n
    \<and> unat n = min 990000000 (variable_fee (pf_dynamic_fee pf) vt + unat b)"
proof -
  obtain v where v: "get_variable_fee_numerator (pf_dynamic_fee pf) vt = Inr v"
    "unat v = variable_fee (pf_dynamic_fee pf) vt" "unat v < 2 ^ 72"
    using get_variable_fee_numerator_ok [OF assms] by blast
  have "unat v + unat b < 2 ^ LENGTH(128)" using v(3) unat_range(4) [of b] by (simp del: unat_range)
  then obtain s :: u128 where s: "unat s = unat v + unat b" by (rule word_witness)
  have a: "safe_add v (ucast b) = Inr s" using s by simp
  show ?thesis
  proof (cases "s > ucast MAX_FEE_NUMERATOR")
    case True
    then show ?thesis using v(1,2) a s
      by (intro exI [of _ MAX_FEE_NUMERATOR]) (simp add: get_total_fee_numerator_def word_less_nat_alt del: safe_add_Ok)
  next
    case False
    then have le: "unat s \<le> 990000000" by (simp add: word_less_nat_alt)
    then have "unat s < 2 ^ LENGTH(64)" by simp
    then obtain n :: u64 where n: "unat n = unat s" by (rule word_witness)
    then have "try_cast s = Some n" by simp
    then show ?thesis using False v(1,2) a s n le
      by (intro exI [of _ n]) (simp add: get_total_fee_numerator_def del: safe_add_Ok try_cast_Some)
  qed
qed

lemma total_fee_numerator_le:
  "get_total_fee_numerator pf b vt = Inr n \<Longrightarrow> unat n \<le> 990000000"
  by (auto simp: get_total_fee_numerator_def word_less_nat_alt split: if_splits)

context fee_handler
begin

text \<open>What every handler gives its client: the total fee is computed without a panic and is capped.\<close>

lemma total_from_included:
  assumes "valid h m t = Inr ()" "dynamic_ok (pf_dynamic_fee pf)" "tracker_ok vt (pf_dynamic_fee pf)"
  shows "no_panic (and_then (from_included h cp ap d x) (\<lambda>b. get_total_fee_numerator pf b vt))"
    and "and_then (from_included h cp ap d x) (\<lambda>b. get_total_fee_numerator pf b vt) = Inr n \<Longrightarrow>
      unat n \<le> 990000000"
proof -
  show "no_panic (and_then (from_included h cp ap d x) (\<lambda>b. get_total_fee_numerator pf b vt))"
    using get_total_fee_numerator_ok [OF assms(2,3)]
    by (intro no_panic_and_then included_no_panic [OF assms(1)]) (metis no_panic_Ok)
  show "and_then (from_included h cp ap d x) (\<lambda>b. get_total_fee_numerator pf b vt) = Inr n \<Longrightarrow>
      unat n \<le> 990000000"
    by (auto dest: total_fee_numerator_le)
qed

lemma total_from_excluded:
  assumes "valid h m t = Inr ()" "dynamic_ok (pf_dynamic_fee pf)" "tracker_ok vt (pf_dynamic_fee pf)"
  shows "no_panic (and_then (from_excluded h cp ap d x) (\<lambda>b. get_total_fee_numerator pf b vt))"
    and "and_then (from_excluded h cp ap d x) (\<lambda>b. get_total_fee_numerator pf b vt) = Inr n \<Longrightarrow>
      unat n \<le> 990000000"
proof -
  show "no_panic (and_then (from_excluded h cp ap d x) (\<lambda>b. get_total_fee_numerator pf b vt))"
    using get_total_fee_numerator_ok [OF assms(2,3)]
    by (intro no_panic_and_then excluded_no_panic [OF assms(1)]) (metis no_panic_Ok)
  show "and_then (from_excluded h cp ap d x) (\<lambda>b. get_total_fee_numerator pf b vt) = Inr n \<Longrightarrow>
      unat n \<le> 990000000"
    by (auto dest: total_fee_numerator_le)
qed

end

lemma config_handler_validated:
  assumes "pool_fee_validate p m t = Inr ()"
  shows "\<exists>h. config_base_fee_handler (pf_base_fee (to_pool_fees_config p)) = Inr h
    \<and> handler_validate h m t = Inr ()"
  using assms by (auto simp: pool_fee_validate_def base_fee_validate_def config_base_fee_handler_def
    to_pool_fees_config_def to_base_fee_config_def split: option.splits)

text \<open>
  C37: with fee parameters that passed validation, and a tracker within its cap,
  the total trading fee of a swap in either mode never panics and never exceeds
  \<open>MAX_FEE_NUMERATOR\<close> (99 percent), and the sum of base and dynamic fee is always
  computed exactly before the cap.
\<close>

theorem total_fee_is_safe_and_capped:
  assumes "pool_fee_validate p collect_fee_mode activation_type = Inr ()"
    and "tracker_ok vt (pf_dynamic_fee (to_pool_fees_config p))"
  shows "no_panic (get_total_fee_numerator_from_included_fee_amount (to_pool_fees_config p) vt cp ap x dir)
    \<and> no_panic (get_total_fee_numerator_from_excluded_fee_amount (to_pool_fees_config p) vt cp ap x dir)
    \<and> (\<forall>n. get_total_fee_numerator_from_included_fee_amount (to_pool_fees_config p) vt cp ap x dir = Inr n
          \<or> get_total_fee_numerator_from_excluded_fee_amount (to_pool_fees_config p) vt cp ap x dir = Inr n
        \<longrightarrow> n \<le> MAX_FEE_NUMERATOR)
    \<and> (\<forall>b. \<exists>n. get_total_fee_numerator (to_pool_fees_config p) b vt = Inr n
        \<and> unat n = min 990000000 (variable_fee (pf_dynamic_fee (to_pool_fees_config p)) vt + unat b))"
proof -
  note d = dynamic_ok_config [OF assms(1)]
  obtain h where h: "config_base_fee_handler (pf_base_fee (to_pool_fees_config p)) = Inr h"
    "handler_validate h collect_fee_mode activation_type = Inr ()"
    using config_handler_validated [OF assms(1)] by blast
  show ?thesis
    using handler.total_from_included [OF h(2) d assms(2)]
      handler.total_from_excluded [OF h(2) d assms(2)] get_total_fee_numerator_ok [OF d assms(2)]
    by (simp add: get_total_fee_numerator_from_included_fee_amount_def
      get_total_fee_numerator_from_excluded_fee_amount_def h(1) word_le_nat_alt del: and_then_Ok_iff)
qed

theorem total_fee_is_safe_and_capped_witness:
  "\<exists>n. get_total_fee_numerator (to_pool_fees_config
      \<lparr>pp_base_fee = \<lparr>bp_cliff_fee_numerator = 10000000, bp_first_factor = 0, bp_second_factor = 0,
         bp_third_factor = 0, bp_base_fee_mode = 0\<rparr>, pp_dynamic_fee = None\<rparr>) 10000000
      \<lparr>vt_last_update_timestamp = 0, vt_sqrt_price_reference = 0, vt_volatility_accumulator = 0,
       vt_volatility_reference = 0\<rparr> = Inr n \<and> unat n = 10000000"
proof -
  let ?p = "\<lparr>pp_base_fee = \<lparr>bp_cliff_fee_numerator = 10000000, bp_first_factor = 0,
      bp_second_factor = 0, bp_third_factor = 0, bp_base_fee_mode = 0\<rparr>, pp_dynamic_fee = None\<rparr>"
  let ?vt = "\<lparr>vt_last_update_timestamp = 0, vt_sqrt_price_reference = 0,
      vt_volatility_accumulator = 0, vt_volatility_reference = 0\<rparr>"
  have v: "pool_fee_validate ?p 0 Slot = Inr ()" by (simp add: eval)
  have t: "tracker_ok ?vt (pf_dynamic_fee (to_pool_fees_config ?p))" by (simp add: tracker_ok_def)
  have k: "variable_fee (pf_dynamic_fee (to_pool_fees_config ?p)) ?vt = 0"
    by (simp add: variable_fee_def ceil_div_def)
  obtain n where "get_total_fee_numerator (to_pool_fees_config ?p) 10000000 ?vt = Inr n"
    "unat n = min 990000000 (variable_fee (pf_dynamic_fee (to_pool_fees_config ?p)) ?vt + unat (10000000 :: u64))"
    using total_fee_is_safe_and_capped [OF v t] by blast
  then show ?thesis using k by auto
qed



end
