(* ===== verification/Vesting.thy ===== *)
theory Vesting
  imports Utils_Math Constants
begin

text \<open>
  Vesting of migrated liquidity: the vesting parameters of the DAMM v2 program
  and what they unlock at a point in time (\<open>utils/damm_v2_utils.rs\<close>), and the
  vesting information of a config (\<open>LiquidityVestingInfo\<close> in
  \<open>state/config.rs\<close>).
\<close>

record vesting_parameters =
  vp_cliff_point :: "u64 option"
  vp_period_frequency :: u64
  vp_cliff_unlock_liquidity :: u128
  vp_liquidity_per_period :: u128
  vp_number_of_period :: u16

record liquidity_vesting_info =
  vi_is_initialized :: u8
  vi_vesting_percentage :: u8
  vi_bps_per_period :: u16
  vi_number_of_periods :: u16
  vi_frequency :: u32
  vi_cliff_duration_from_migration_time :: u32

definition get_vesting_cliff_point :: "vesting_parameters \<Rightarrow> u64 \<Rightarrow> u64" where
  "get_vesting_cliff_point v current_point =
     (case vp_cliff_point v of Some c \<Rightarrow> c | None \<Rightarrow> current_point)"

definition get_max_unlocked_liquidity_at_current_point :: "vesting_parameters \<Rightarrow> u64 \<Rightarrow> u128 result" where
  "get_max_unlocked_liquidity_at_current_point v current_point =
     (let cliff_point = get_vesting_cliff_point v current_point in
     if current_point < cliff_point then Ok 0
     else if vp_period_frequency v = 0 then Ok (vp_cliff_unlock_liquidity v)
     else
       and_then (safe_sub current_point cliff_point) (\<lambda>elapsed.
       and_then (safe_div elapsed (vp_period_frequency v)) (\<lambda>period.
       let period = (ucast (min period (ucast (vp_number_of_period v))) :: u128) in
       and_then (safe_mul period (vp_liquidity_per_period v)) (\<lambda>m.
       safe_add (vp_cliff_unlock_liquidity v) m))))"

definition get_vesting_total_lock_amount :: "vesting_parameters \<Rightarrow> u128 result" where
  "get_vesting_total_lock_amount v =
     and_then (safe_mul (vp_liquidity_per_period v) (ucast (vp_number_of_period v))) (\<lambda>m.
     safe_add (vp_cliff_unlock_liquidity v) m)"

definition validate_vesting_parameters :: "vesting_parameters \<Rightarrow> u64 \<Rightarrow> u64 \<Rightarrow> unit result" where
  "validate_vesting_parameters v current_point max_vesting_duration =
     (let cliff_point = get_vesting_cliff_point v current_point in
     and_then (require (cliff_point \<ge> current_point) InvalidVestingParameters) (\<lambda>_.
     and_then (if cliff_point = current_point
        then require (vp_number_of_period v > 0) InvalidVestingParameters else Ok ()) (\<lambda>_.
     and_then (if vp_number_of_period v > 0
        then require (vp_period_frequency v > 0 \<and> vp_liquidity_per_period v > 0)
          InvalidVestingParameters else Ok ()) (\<lambda>_.
     and_then (safe_sub cliff_point current_point) (\<lambda>to_cliff.
     and_then (safe_mul (vp_period_frequency v) (ucast (vp_number_of_period v))) (\<lambda>m.
     and_then (safe_add to_cliff m) (\<lambda>vesting_duration.
     and_then (require (vesting_duration \<le> max_vesting_duration) InvalidVestingParameters) (\<lambda>_.
     and_then (get_vesting_total_lock_amount v) (\<lambda>total.
     require (total > 0) InvalidVestingParameters)))))))))"

definition get_damm_v2_vesting_parameters ::
  "liquidity_vesting_info \<Rightarrow> u128 \<Rightarrow> u64 \<Rightarrow> vesting_parameters result" where
  "get_damm_v2_vesting_parameters vi total_vested_liquidity current_timestamp =
     and_then (safe_mul (vi_bps_per_period vi) (vi_number_of_periods vi)) (\<lambda>total_bps_after_cliff.
     and_then (safe_mul_div_cast_u128 total_vested_liquidity (ucast total_bps_after_cliff)
        (ucast MAX_BASIS_POINT) Down) (\<lambda>total_vesting_liquidity_after_cliff.
     and_then (if vi_number_of_periods vi > 0
        then safe_div total_vesting_liquidity_after_cliff (ucast (vi_number_of_periods vi))
        else Ok 0) (\<lambda>liquidity_per_period.
     let (number_of_period, frequency, cliff_duration) =
       (if liquidity_per_period = 0
        then (0, 0, max (vi_cliff_duration_from_migration_time vi) 1)
        else (vi_number_of_periods vi, vi_frequency vi, vi_cliff_duration_from_migration_time vi)) in
     and_then (safe_mul liquidity_per_period (ucast number_of_period)) (\<lambda>m.
     and_then (safe_sub total_vested_liquidity m) (\<lambda>cliff_unlock_liquidity.
     and_then (safe_add current_timestamp (ucast cliff_duration)) (\<lambda>cliff_point.
     Ok \<lparr>vp_cliff_point = Some cliff_point, vp_period_frequency = ucast frequency,
         vp_cliff_unlock_liquidity = cliff_unlock_liquidity,
         vp_liquidity_per_period = liquidity_per_period,
         vp_number_of_period = number_of_period\<rparr>))))))"

definition get_liquidity_locked_bps_at_n_seconds :: "liquidity_vesting_info \<Rightarrow> u64 \<Rightarrow> u16 result" where
  "get_liquidity_locked_bps_at_n_seconds vi n_seconds =
     (if vi_is_initialized vi = 0 then Ok 0
      else
        let total_liquidity = (- 1 :: u128); current_time = (0 :: u64) in
        and_then (safe_mul_div_cast_u128 total_liquidity (ucast (vi_vesting_percentage vi)) 100 Down)
          (\<lambda>total_vested_liquidity.
        and_then (get_damm_v2_vesting_parameters vi total_vested_liquidity current_time)
          (\<lambda>vesting_parameters.
        and_then (get_max_unlocked_liquidity_at_current_point vesting_parameters n_seconds)
          (\<lambda>unlocked_liquidity.
        and_then (safe_sub total_vested_liquidity unlocked_liquidity) (\<lambda>locked_liquidity.
        and_then (safe_mul_div_cast_u128 locked_liquidity (ucast MAX_BASIS_POINT) total_liquidity Down)
          (\<lambda>liquidity_locked_bps.
        ok_or (try_cast liquidity_locked_bps) TypeCastFailed))))))"

lemmas [eval] = get_vesting_cliff_point_def get_max_unlocked_liquidity_at_current_point_def
  get_vesting_total_lock_amount_def validate_vesting_parameters_def
  get_damm_v2_vesting_parameters_def get_liquidity_locked_bps_at_n_seconds_def

section \<open>What is unlocked\<close>

definition unlocked_at :: "vesting_parameters \<Rightarrow> nat \<Rightarrow> nat" where
  "unlocked_at v t =
     (let cliff = (case vp_cliff_point v of Some c \<Rightarrow> unat c | None \<Rightarrow> t) in
      if t < cliff then 0
      else if unat (vp_period_frequency v) = 0 then unat (vp_cliff_unlock_liquidity v)
      else unat (vp_cliff_unlock_liquidity v)
        + min ((t - cliff) div unat (vp_period_frequency v)) (unat (vp_number_of_period v))
          * unat (vp_liquidity_per_period v))"

definition total_lock :: "vesting_parameters \<Rightarrow> nat" where
  "total_lock v = unat (vp_cliff_unlock_liquidity v)
     + unat (vp_liquidity_per_period v) * unat (vp_number_of_period v)"

lemma unlocked_at_le: "unlocked_at v t \<le> total_lock v"
proof -
  have "min k (unat (vp_number_of_period v)) * unat (vp_liquidity_per_period v)
      \<le> unat (vp_liquidity_per_period v) * unat (vp_number_of_period v)" for k
    unfolding mult.commute [of _ "unat (vp_liquidity_per_period v)"] by (intro mult_le_mono2) simp
  then show ?thesis by (simp add: unlocked_at_def total_lock_def Let_def)
qed

lemma unlocked_at_mono:
  assumes "vp_cliff_point v = Some c" "t \<le> t'"
  shows "unlocked_at v t \<le> unlocked_at v t'"
proof (cases "t < unat c")
  case True
  then show ?thesis by (simp add: unlocked_at_def assms(1))
next
  case False
  have "(t - unat c) div unat (vp_period_frequency v) \<le> (t' - unat c) div unat (vp_period_frequency v)"
    using assms(2) by (intro div_le_mono) simp
  then have "min ((t - unat c) div unat (vp_period_frequency v)) (unat (vp_number_of_period v))
        * unat (vp_liquidity_per_period v)
      \<le> min ((t' - unat c) div unat (vp_period_frequency v)) (unat (vp_number_of_period v))
        * unat (vp_liquidity_per_period v)" by (intro mult_le_mono1) simp
  then show ?thesis using False assms by (simp add: unlocked_at_def)
qed

lemma get_max_unlocked_Ok:
  assumes "total_lock v < 2 ^ LENGTH(128)"
  shows "get_max_unlocked_liquidity_at_current_point v t = Inr z \<longleftrightarrow> unat z = unlocked_at v (unat t)"
proof -
  let ?c = "get_vesting_cliff_point v t"
  have c: "unat ?c = (case vp_cliff_point v of Some c \<Rightarrow> unat c | None \<Rightarrow> unat t)"
    by (simp add: get_vesting_cliff_point_def split: option.splits)
  show ?thesis
  proof (cases "t < ?c \<or> vp_period_frequency v = 0")
    case True
    then show ?thesis
      by (auto simp: get_max_unlocked_liquidity_at_current_point_def unlocked_at_def c [symmetric]
        word_less_nat_alt word_unat_eq_iff Let_def)
  next
    case False
    then have t: "\<not> t < ?c" "\<not> unat t < unat ?c" and f: "vp_period_frequency v \<noteq> 0"
      "unat (vp_period_frequency v) \<noteq> 0" by (simp_all add: word_less_nat_alt word_unat_eq_iff)
    define k where "k = min ((t - ?c) div vp_period_frequency v) (ucast (vp_number_of_period v))"
    have k: "unat k = min ((unat t - unat ?c) div unat (vp_period_frequency v)) (unat (vp_number_of_period v))"
      using t by (simp add: k_def min_def word_le_nat_alt unat_div unat_sub_le)
    have u: "unlocked_at v (unat t) = unat (vp_cliff_unlock_liquidity v) + unat k * unat (vp_liquidity_per_period v)"
      using t f by (simp add: unlocked_at_def c [symmetric] k Let_def)
    have "unlocked_at v (unat t) < 2 ^ LENGTH(128)" using unlocked_at_le [of v "unat t"] assms by linarith
    then have "unat k * unat (vp_liquidity_per_period v) < 2 ^ LENGTH(128)" using u by linarith
    then obtain m :: u128 where m: "unat m = unat k * unat (vp_liquidity_per_period v)"
      by (rule word_witness)
    have "safe_mul (ucast k) (vp_liquidity_per_period v) = Inr m" using m by simp
    moreover have "safe_sub t ?c = Inr (t - ?c)" using t(1) by (simp add: safe_sub_def)
    moreover have "safe_div (t - ?c) (vp_period_frequency v) = Inr ((t - ?c) div vp_period_frequency v)"
      using f(1) by (simp add: safe_div_def)
    ultimately show ?thesis using t(1) f(1) u m
      by (simp add: get_max_unlocked_liquidity_at_current_point_def Let_def k_def [symmetric]
        del: safe_mul_Ok safe_sub_Ok safe_div_Ok)
  qed
qed

lemma vesting_parameters_total:
  assumes "get_damm_v2_vesting_parameters vi L now = Inr v"
  shows "total_lock v = unat L" "\<exists>c. vp_cliff_point v = Some c \<and> unat now \<le> unat c"
  using assms by (auto simp: get_damm_v2_vesting_parameters_def total_lock_def Let_def split: if_splits)

lemma get_max_unlocked_total:
  assumes "total_lock v = unat (vested :: u128)"
  shows "\<exists>u. get_max_unlocked_liquidity_at_current_point v s = Inr u \<and> unat u = unlocked_at v (unat s)"
proof -
  have lt: "total_lock v < 2 ^ LENGTH(128)" using assms unat_lt_2p [of vested] by simp
  then have "unlocked_at v (unat s) < 2 ^ LENGTH(128)" using unlocked_at_le [of v "unat s"] by linarith
  then obtain u :: u128 where "unat u = unlocked_at v (unat s)" by (rule word_witness)
  then show ?thesis using get_max_unlocked_Ok [OF lt] by blast
qed

lemma get_vesting_total_lock_amount_total:
  assumes "total_lock v = unat vested"
  shows "get_vesting_total_lock_amount v = Inr vested"
proof -
  have "unat (vp_liquidity_per_period v) * unat (vp_number_of_period v) < 2 ^ LENGTH(128)"
    using assms unat_lt_2p [of vested] unfolding total_lock_def by linarith
  then obtain k :: u128 where k: "unat k = unat (vp_liquidity_per_period v) * unat (vp_number_of_period v)"
    by (rule word_witness)
  have "safe_mul (vp_liquidity_per_period v) (ucast (vp_number_of_period v)) = Inr k" using k by simp
  moreover have "safe_add (vp_cliff_unlock_liquidity v) k = Inr vested"
    using k assms by (simp add: total_lock_def)
  ultimately show ?thesis unfolding get_vesting_total_lock_amount_def by (simp only: and_then_simps)
qed

text \<open>Once every period has passed everything is unlocked.\<close>

lemma unlocked_at_end:
  assumes "unat (get_vesting_cliff_point v t) + unat (vp_period_frequency v) * unat (vp_number_of_period v) \<le> unat t"
    and "vp_period_frequency v = 0 \<longrightarrow> vp_number_of_period v = 0" "vp_cliff_point v = Some c"
  shows "unlocked_at v (unat t) = total_lock v"
proof (cases "unat (vp_period_frequency v) = 0")
  case True
  then show ?thesis using assms
    by (simp add: unlocked_at_def total_lock_def get_vesting_cliff_point_def word_unat_eq_iff)
next
  case False
  have "unat (vp_number_of_period v) \<le> (unat t - unat c) div unat (vp_period_frequency v)"
    using assms(1,3) False by (intro le_div_of_mult_le) (simp_all add: get_vesting_cliff_point_def)
  then show ?thesis using assms(1,3) False
    by (simp add: unlocked_at_def total_lock_def get_vesting_cliff_point_def min_absorb2 mult.commute)
qed

text \<open>
  C31: vesting neither creates nor loses liquidity: the parameters built from a
  vesting information lock exactly the vested liquidity, what they unlock is
  defined at every later point, never decreases with time, never exceeds the
  vested liquidity, and reaches it once every period has passed.
\<close>

theorem vesting_unlocks_exactly:
  assumes "get_damm_v2_vesting_parameters vi vested now = Inr v" and "t \<le> t'"
  shows "get_vesting_total_lock_amount v = Inr vested \<and>
    (\<exists>u u'. get_max_unlocked_liquidity_at_current_point v t = Inr u
      \<and> get_max_unlocked_liquidity_at_current_point v t' = Inr u' \<and> u \<le> u' \<and> u' \<le> vested
      \<and> (unat (get_vesting_cliff_point v t')
            + unat (vp_period_frequency v) * unat (vp_number_of_period v) \<le> unat t'
          \<and> (vp_period_frequency v = 0 \<longrightarrow> vp_number_of_period v = 0)
          \<longrightarrow> u' = vested))"
proof -
  note tot = vesting_parameters_total [OF assms(1)]
  obtain c where c: "vp_cliff_point v = Some c" using tot(2) by blast
  obtain u u' where u: "get_max_unlocked_liquidity_at_current_point v t = Inr u" "unat u = unlocked_at v (unat t)"
    and u': "get_max_unlocked_liquidity_at_current_point v t' = Inr u'" "unat u' = unlocked_at v (unat t')"
    using get_max_unlocked_total [OF tot(1)] by meson
  have "unat t \<le> unat t'" using assms(2) by (simp add: word_le_nat_alt)
  then have "unat u \<le> unat u'" unfolding u u' using c by (intro unlocked_at_mono)
  moreover have "unat u' \<le> unat vested" using unlocked_at_le [of v "unat t'"] tot(1) u'(2) by simp
  ultimately have "u \<le> u'" "u' \<le> vested" by (simp_all add: word_le_nat_alt)
  moreover have "u' = vested"
    if "unat (get_vesting_cliff_point v t') + unat (vp_period_frequency v) * unat (vp_number_of_period v) \<le> unat t'"
      "vp_period_frequency v = 0 \<longrightarrow> vp_number_of_period v = 0"
    using unlocked_at_end [OF that c] u'(2) tot(1) by (simp add: word_unat_eq_iff)
  ultimately show ?thesis using u(1) u'(1) get_vesting_total_lock_amount_total [OF tot(1)] by blast
qed

theorem vesting_unlocks_exactly_witness:
  "\<exists>v. get_damm_v2_vesting_parameters \<lparr>vi_is_initialized = 1, vi_vesting_percentage = 50,
      vi_bps_per_period = 1000, vi_number_of_periods = 5, vi_frequency = 10,
      vi_cliff_duration_from_migration_time = 100\<rparr> 1000000 7 = Inr v
    \<and> get_vesting_total_lock_amount v = Inr 1000000"
proof -
  have e: "get_damm_v2_vesting_parameters \<lparr>vi_is_initialized = 1, vi_vesting_percentage = 50,
      vi_bps_per_period = 1000, vi_number_of_periods = 5, vi_frequency = 10,
      vi_cliff_duration_from_migration_time = 100\<rparr> 1000000 7
    = Inr \<lparr>vp_cliff_point = Some 107, vp_period_frequency = 10, vp_cliff_unlock_liquidity = 500000,
        vp_liquidity_per_period = 100000, vp_number_of_period = 5\<rparr>"
    by (simp add: eval)
  show ?thesis using vesting_unlocks_exactly [OF e, of 0 0] e by blast
qed

end
