(* ===== verification/Curve.thy ===== *)
theory Curve
  imports Complex_Main Utils_Math
begin

text \<open>
  The price curve (\<open>curve.rs\<close>).  Prices are square roots in Q64.64 and liquidity
  is \<open>L = L' * 2^64\<close>, so on one segment of constant liquidity moving the price
  from \<open>p\<close> to \<open>q\<close> moves \<open>L * (q - p) / 2^128\<close> of the quote token and
  \<open>L * (1/p - 1/q)\<close> of the base token.  Every operation is a definition of the
  source's name; the lemmas give its exact rounded value and its place relative
  to those two real numbers, which is what a rounding direction promises.
\<close>

declare of_nat_unat [simp del]

section \<open>Amounts between two prices\<close>

definition get_delta_amount_base_unsigned_unchecked ::
  "u128 \<Rightarrow> u128 \<Rightarrow> u128 \<Rightarrow> rounding \<Rightarrow> u256 result" where
  "get_delta_amount_base_unsigned_unchecked lower_sqrt_price upper_sqrt_price liquidity rnd =
     (let numerator_1 = (ucast liquidity :: u256) in
     and_then (native_sub upper_sqrt_price lower_sqrt_price) (\<lambda>d.
     let numerator_2 = (ucast d :: u256) in
     and_then (safe_mul (ucast lower_sqrt_price :: u256) (ucast upper_sqrt_price)) (\<lambda>denominator.
     and_then (assert_that (denominator > 0)) (\<lambda>_.
     ok_or (mul_div_u256 numerator_1 numerator_2 denominator rnd) MathOverflow))))"

definition get_delta_amount_base_unsigned_256 ::
  "u128 \<Rightarrow> u128 \<Rightarrow> u128 \<Rightarrow> rounding \<Rightarrow> u256 result" where
  "get_delta_amount_base_unsigned_256 lower_sqrt_price upper_sqrt_price liquidity rnd =
     get_delta_amount_base_unsigned_unchecked lower_sqrt_price upper_sqrt_price liquidity rnd"

definition u64_of_256 :: "u256 \<Rightarrow> u64 result" where
  "u64_of_256 res =
     and_then (require (res \<le> ucast (- 1 :: u64)) MathOverflow) (\<lambda>_.
     ok_or (try_cast res) TypeCastFailed)"

definition get_delta_amount_base_unsigned :: "u128 \<Rightarrow> u128 \<Rightarrow> u128 \<Rightarrow> rounding \<Rightarrow> u64 result" where
  "get_delta_amount_base_unsigned lower_sqrt_price upper_sqrt_price liquidity rnd =
     and_then (get_delta_amount_base_unsigned_256 lower_sqrt_price upper_sqrt_price liquidity rnd)
       u64_of_256"

definition get_delta_amount_quote_unsigned_unchecked ::
  "u128 \<Rightarrow> u128 \<Rightarrow> u128 \<Rightarrow> rounding \<Rightarrow> u256 result" where
  "get_delta_amount_quote_unsigned_unchecked lower_sqrt_price upper_sqrt_price liquidity rnd =
     (let liquidity = (ucast liquidity :: u256) in
     and_then (native_sub upper_sqrt_price lower_sqrt_price) (\<lambda>d.
     let delta_sqrt_price = (ucast d :: u256) in
     and_then (safe_mul liquidity delta_sqrt_price) (\<lambda>prod.
     case rnd of
       Up \<Rightarrow> and_then (safe_shl_big (1 :: u256) (RESOLUTION * 2)) (\<lambda>denominator.
             big_div_ceil prod denominator)
     | Down \<Rightarrow> Ok (drop_bit (RESOLUTION * 2) prod))))"

definition get_delta_amount_quote_unsigned_256 ::
  "u128 \<Rightarrow> u128 \<Rightarrow> u128 \<Rightarrow> rounding \<Rightarrow> u256 result" where
  "get_delta_amount_quote_unsigned_256 lower_sqrt_price upper_sqrt_price liquidity rnd =
     get_delta_amount_quote_unsigned_unchecked lower_sqrt_price upper_sqrt_price liquidity rnd"

definition get_delta_amount_quote_unsigned :: "u128 \<Rightarrow> u128 \<Rightarrow> u128 \<Rightarrow> rounding \<Rightarrow> u64 result" where
  "get_delta_amount_quote_unsigned lower_sqrt_price upper_sqrt_price liquidity rnd =
     and_then (get_delta_amount_quote_unsigned_256 lower_sqrt_price upper_sqrt_price liquidity rnd)
       u64_of_256"

definition get_initialize_amounts :: "u128 \<Rightarrow> u128 \<Rightarrow> u128 \<Rightarrow> u128 \<Rightarrow> (u64 \<times> u64) result" where
  "get_initialize_amounts sqrt_min_price sqrt_max_price sqrt_price liquidity =
     and_then (get_delta_amount_base_unsigned sqrt_price sqrt_max_price liquidity Up) (\<lambda>amount_base.
     and_then (get_delta_amount_quote_unsigned sqrt_min_price sqrt_price liquidity Up) (\<lambda>amount_quote.
     Ok (amount_base, amount_quote)))"

section \<open>The next price\<close>

definition get_next_sqrt_price_from_quote_amount_out_rounding_down ::
  "u128 \<Rightarrow> u128 \<Rightarrow> u64 \<Rightarrow> u128 result" where
  "get_next_sqrt_price_from_quote_amount_out_rounding_down sqrt_price liquidity amount =
     (let liquidity = (ucast liquidity :: u256) in
     and_then (safe_shl_big (ucast amount :: u256) 128) (\<lambda>q_amount.
     and_then (big_div_ceil q_amount liquidity) (\<lambda>quotient.
     and_then (safe_sub (ucast sqrt_price :: u256) quotient) (\<lambda>r.
     ok_or (try_cast r) TypeCastFailed))))"

definition get_next_sqrt_price_from_base_amount_out_rounding_up ::
  "u128 \<Rightarrow> u128 \<Rightarrow> u64 \<Rightarrow> u128 result" where
  "get_next_sqrt_price_from_base_amount_out_rounding_up sqrt_price liquidity amount =
     (if amount = 0 then Ok sqrt_price
      else
        let sqrt_price = (ucast sqrt_price :: u256); liquidity = (ucast liquidity :: u256) in
        and_then (safe_mul (ucast amount :: u256) sqrt_price) (\<lambda>product.
        and_then (safe_sub liquidity product) (\<lambda>denominator.
        and_then (ok_or (mul_div_u256 liquidity sqrt_price denominator Up) TypeCastFailed) (\<lambda>r.
        ok_or (try_cast r) TypeCastFailed))))"

definition get_next_sqrt_price_from_base_amount_in_rounding_up ::
  "u128 \<Rightarrow> u128 \<Rightarrow> u64 \<Rightarrow> u128 result" where
  "get_next_sqrt_price_from_base_amount_in_rounding_up sqrt_price liquidity amount =
     (if amount = 0 then Ok sqrt_price
      else
        let sqrt_price = (ucast sqrt_price :: u256); liquidity = (ucast liquidity :: u256) in
        and_then (safe_mul (ucast amount :: u256) sqrt_price) (\<lambda>product.
        and_then (safe_add liquidity product) (\<lambda>denominator.
        and_then (ok_or (mul_div_u256 liquidity sqrt_price denominator Up) MathOverflow) (\<lambda>r.
        ok_or (try_cast r) TypeCastFailed))))"

definition get_next_sqrt_price_from_quote_amount_in_rounding_down ::
  "u128 \<Rightarrow> u128 \<Rightarrow> u64 \<Rightarrow> u128 result" where
  "get_next_sqrt_price_from_quote_amount_in_rounding_down sqrt_price liquidity amount =
     and_then (safe_shl_big (ucast amount :: u256) (RESOLUTION * 2)) (\<lambda>s.
     and_then (safe_div s (ucast liquidity)) (\<lambda>quotient.
     and_then (safe_add (ucast sqrt_price :: u256) quotient) (\<lambda>r.
     ok_or (try_cast r) TypeCastFailed)))"

definition get_next_sqrt_price_from_input :: "u128 \<Rightarrow> u128 \<Rightarrow> u64 \<Rightarrow> bool \<Rightarrow> u128 result" where
  "get_next_sqrt_price_from_input sqrt_price liquidity amount_in base_for_quote =
     and_then (assert_that (sqrt_price > 0)) (\<lambda>_.
     and_then (assert_that (liquidity > 0)) (\<lambda>_.
     if base_for_quote
     then get_next_sqrt_price_from_base_amount_in_rounding_up sqrt_price liquidity amount_in
     else get_next_sqrt_price_from_quote_amount_in_rounding_down sqrt_price liquidity amount_in))"

definition get_next_sqrt_price_from_output :: "u128 \<Rightarrow> u128 \<Rightarrow> u64 \<Rightarrow> bool \<Rightarrow> u128 result" where
  "get_next_sqrt_price_from_output sqrt_price liquidity amount_out base_for_quote =
     and_then (assert_that (sqrt_price > 0)) (\<lambda>_.
     and_then (assert_that (liquidity > 0)) (\<lambda>_.
     if base_for_quote
     then get_next_sqrt_price_from_quote_amount_out_rounding_down sqrt_price liquidity amount_out
     else get_next_sqrt_price_from_base_amount_out_rounding_up sqrt_price liquidity amount_out))"

lemmas [eval] = get_delta_amount_base_unsigned_unchecked_def get_delta_amount_base_unsigned_256_def
  u64_of_256_def get_delta_amount_base_unsigned_def get_delta_amount_quote_unsigned_unchecked_def
  get_delta_amount_quote_unsigned_256_def get_delta_amount_quote_unsigned_def
  get_initialize_amounts_def get_next_sqrt_price_from_quote_amount_out_rounding_down_def
  get_next_sqrt_price_from_base_amount_out_rounding_up_def
  get_next_sqrt_price_from_base_amount_in_rounding_up_def
  get_next_sqrt_price_from_quote_amount_in_rounding_down_def
  get_next_sqrt_price_from_input_def get_next_sqrt_price_from_output_def

section \<open>Exact values\<close>

lemma word_gt_0_unat: "(0 < (x :: 'w::len word)) \<longleftrightarrow> 0 < unat x"
  by (simp add: word_less_nat_alt)

lemma base_256_Ok:
  "get_delta_amount_base_unsigned_256 l u L r = Inr z \<longleftrightarrow>
    unat l \<le> unat u \<and> 0 < unat l \<and>
    unat z = div_round r (unat L * (unat u - unat l)) (unat l * unat u)"
proof -
  have lt: "unat l * unat u < 2 ^ LENGTH(256)" by (rule prod_lt_2p [where m = 128 and n = 128]) simp_all
  then obtain d :: u256 where d: "unat d = unat l * unat u" by (rule word_witness)
  have m: "safe_mul (ucast l :: u256) (ucast u) = Inr d" by (simp add: d)
  show ?thesis
  proof (cases "unat l \<le> unat u")
    case False
    then show ?thesis
      by (simp add: get_delta_amount_base_unsigned_256_def get_delta_amount_base_unsigned_unchecked_def
        Let_def)
  next
    case True
    have "native_sub u l = Inr (u - l)" using True by (simp add: unat_sub_le)
    then show ?thesis using True
      unfolding get_delta_amount_base_unsigned_256_def get_delta_amount_base_unsigned_unchecked_def
        Let_def
      by (auto simp: m unat_sub_le word_gt_0_unat d simp del: safe_mul_Ok native_sub_Ok)
  qed
qed

lemma u64_of_256_Ok [simp]: "u64_of_256 x = Inr z \<longleftrightarrow> unat z = unat x"
  using unat_range(4) [of z] by (auto simp: u64_of_256_def word_le_nat_alt simp del: unat_range)

lemma quote_256_Ok:
  "get_delta_amount_quote_unsigned_256 l u L r = Inr z \<longleftrightarrow>
    unat l \<le> unat u \<and> unat z = div_round r (unat L * (unat u - unat l)) (2 ^ 128)"
proof (cases "unat l \<le> unat u")
  case False
  then show ?thesis
    by (simp add: get_delta_amount_quote_unsigned_256_def get_delta_amount_quote_unsigned_unchecked_def
      Let_def)
next
  case True
  have d: "unat (u - l) = unat u - unat l" using True by (simp add: unat_sub_le)
  have lt: "unat L * unat (u - l) < 2 ^ LENGTH(256)"
    by (rule prod_lt_2p [where m = 128 and n = 128]) simp_all
  then obtain p :: u256 where p: "unat p = unat L * unat (u - l)" by (rule word_witness)
  have m: "safe_mul (ucast L :: u256) (ucast (u - l)) = Inr p" by (simp add: p)
  have "(2::nat) ^ 128 < 2 ^ LENGTH(256)" by simp
  then obtain D :: u256 where D: "unat D = 2 ^ 128" by (rule word_witness)
  have sh: "safe_shl_big (1 :: u256) (RESOLUTION * 2) = Inr D" by (simp add: D RESOLUTION_def)
  have ns: "native_sub u l = Inr (u - l)" using True d by simp
  show ?thesis
    unfolding get_delta_amount_quote_unsigned_256_def get_delta_amount_quote_unsigned_unchecked_def
      Let_def ns and_then_simps m
  proof (cases r)
    case Up
    then show "(case r of Up \<Rightarrow> and_then (safe_shl_big 1 (RESOLUTION * 2)) (big_div_ceil p)
        | Down \<Rightarrow> Inr (drop_bit (RESOLUTION * 2) p)) = Inr z \<longleftrightarrow>
      unat l \<le> unat u \<and> unat z = div_round r (unat L * (unat u - unat l)) (2 ^ 128)"
      using True by (simp add: sh p D d del: safe_shl_big_Ok)
  next
    case Down
    then show "(case r of Up \<Rightarrow> and_then (safe_shl_big 1 (RESOLUTION * 2)) (big_div_ceil p)
        | Down \<Rightarrow> Inr (drop_bit (RESOLUTION * 2) p)) = Inr z \<longleftrightarrow>
      unat l \<le> unat u \<and> unat z = div_round r (unat L * (unat u - unat l)) (2 ^ 128)"
      using True by (auto simp: p d RESOLUTION_def unat_drop_bit word_unat_eq_iff)
  qed
qed

lemma base_unsigned_Ok:
  "get_delta_amount_base_unsigned l u L r = Inr z \<longleftrightarrow>
    unat l \<le> unat u \<and> 0 < unat l \<and>
    unat z = div_round r (unat L * (unat u - unat l)) (unat l * unat u)"
proof -
  have "div_round r (unat L * (unat u - unat l)) (unat l * unat u) < 2 ^ 256"
    if "unat l \<le> unat u" "0 < unat l"
  proof -
    have "unat L * (unat u - unat l) < 2 ^ 256"
      by (rule prod_lt_2p [where m = 128 and n = 128]) (simp_all add: less_imp_diff_less)
    then show ?thesis using that
        div_round_le_self [of "unat l * unat u" r "unat L * (unat u - unat l)"] by simp
  qed
  then show ?thesis unfolding get_delta_amount_base_unsigned_def
    by (auto simp: base_256_Ok)
qed

lemma quote_unsigned_Ok:
  "get_delta_amount_quote_unsigned l u L r = Inr z \<longleftrightarrow>
    unat l \<le> unat u \<and> unat z = div_round r (unat L * (unat u - unat l)) (2 ^ 128)"
proof -
  have "unat L * (unat u - unat l) < 2 ^ 256"
    by (rule prod_lt_2p [where m = 128 and n = 128]) (simp_all add: less_imp_diff_less)
  then have "div_round r (unat L * (unat u - unat l)) (2 ^ 128) < 2 ^ 256"
    using div_round_le_self [of "2 ^ 128" r "unat L * (unat u - unat l)"] by simp
  then show ?thesis unfolding get_delta_amount_quote_unsigned_def
    by (auto simp: quote_256_Ok)
qed

text \<open>Products and shifts that cannot overflow the wide type.\<close>

lemma shl_amount_128:
  "\<exists>s :: u256. safe_shl_big (ucast (a :: u64)) 128 = Inr s \<and> unat s = unat a * 2 ^ 128"
proof -
  have "unat a * 2 ^ 128 < 2 ^ LENGTH(256)"
    by (rule prod_lt_2p [where m = 64 and n = 129]) simp_all
  then obtain s :: u256 where "unat s = unat a * 2 ^ 128" by (rule word_witness)
  then show ?thesis by (intro exI [of _ s]) simp
qed

lemma mul_amount_price:
  "\<exists>s :: u256. safe_mul (ucast (a :: u64)) (ucast (p :: u128)) = Inr s \<and> unat s = unat a * unat p
    \<and> unat s < 2 ^ 192"
proof -
  have l: "unat a * unat p < 2 ^ 192" by (rule prod_lt_2p [where m = 64 and n = 128]) simp_all
  then have "unat a * unat p < 2 ^ LENGTH(256)" by simp
  then obtain s :: u256 where "unat s = unat a * unat p" by (rule word_witness)
  then show ?thesis using l by (intro exI [of _ s]) simp
qed

lemma next_quote_in_Ok:
  "get_next_sqrt_price_from_quote_amount_in_rounding_down p L a = Inr z \<longleftrightarrow>
    unat L \<noteq> 0 \<and> unat z = unat p + unat a * 2 ^ 128 div unat L"
proof -
  obtain s :: u256 where s: "safe_shl_big (ucast a) 128 = Inr s" "unat s = unat a * 2 ^ 128"
    using shl_amount_128 by blast
  have b: "unat p + unat a * 2 ^ 128 div unat L < 2 ^ 256"
  proof -
    have "unat a * 2 ^ 128 \<le> (2 ^ 64 - 1) * 2 ^ 128" using unat_le_max [of a] by simp
    then have "unat a * 2 ^ 128 div unat L \<le> (2 ^ 64 - 1) * 2 ^ 128"
      using div_le_dividend [of "unat a * 2 ^ 128" "unat L"] by linarith
    then show ?thesis using unat_range(5) [of p] by (simp del: unat_range)
  qed
  have "unat a * 2 ^ 128 div unat L < 2 ^ 256" using b by linarith
  then show ?thesis using b
    unfolding get_next_sqrt_price_from_quote_amount_in_rounding_down_def
    by (auto simp: RESOLUTION_def s simp del: safe_shl_big_Ok intro!: ex_unatI)
qed

lemma next_quote_out_Ok:
  "get_next_sqrt_price_from_quote_amount_out_rounding_down p L a = Inr z \<longleftrightarrow>
    unat L \<noteq> 0 \<and> ceil_div (unat a * 2 ^ 128) (unat L) \<le> unat p
    \<and> unat z = unat p - ceil_div (unat a * 2 ^ 128) (unat L)"
proof -
  obtain s :: u256 where s: "safe_shl_big (ucast a) 128 = Inr s" "unat s = unat a * 2 ^ 128"
    using shl_amount_128 by blast
  have "unat L \<noteq> 0 \<Longrightarrow> ceil_div (unat a * 2 ^ 128) (unat L) < 2 ^ 256"
    using ceil_div_le_self [of "unat L" "unat s"] unat_range(6) [of s] s(2) by (simp del: unat_range)
  moreover have "unat p - k < 2 ^ 256" for k
    using less_imp_diff_less [OF less_trans [OF unat_range(5) [of p], of "2 ^ 256"], of k] by simp
  ultimately show ?thesis
    unfolding get_next_sqrt_price_from_quote_amount_out_rounding_down_def
    by (auto simp: Let_def s simp del: safe_shl_big_Ok intro!: ex_unatI)
qed

lemma next_base_in_Ok:
  "get_next_sqrt_price_from_base_amount_in_rounding_up p L a = Inr z \<longleftrightarrow>
    (if unat a = 0 then z = p
     else unat L + unat a * unat p \<noteq> 0
       \<and> unat z = ceil_div (unat L * unat p) (unat L + unat a * unat p))"
proof (cases "unat a = 0")
  case True
  then have "a = 0" by (simp add: word_unat_eq_iff)
  then show ?thesis by (auto simp: get_next_sqrt_price_from_base_amount_in_rounding_up_def)
next
  case False
  then have a: "a \<noteq> 0" by auto
  obtain s :: u256 where s: "safe_mul (ucast a) (ucast p) = Inr s" "unat s = unat a * unat p"
    "unat s < 2 ^ 192" using mul_amount_price by blast
  have "unat L + unat s < 2 ^ LENGTH(256)"
    using s(3) unat_range(5) [of L] by (simp del: unat_range)
  then obtain d :: u256 where d: "unat d = unat L + unat s" by (rule word_witness)
  have ad: "safe_add (ucast L :: u256) s = Inr d" by (simp add: d)
  have lt: "unat L * unat p < 2 ^ 256" by (rule prod_lt_2p [where m = 128 and n = 128]) simp_all
  have q: "unat L + unat a * unat p \<noteq> 0 \<Longrightarrow>
      ceil_div (unat L * unat p) (unat L + unat a * unat p) < 2 ^ 256"
    using lt ceil_div_le_self [of "unat L + unat a * unat p" "unat L * unat p"] by linarith
  show ?thesis
    unfolding get_next_sqrt_price_from_base_amount_in_rounding_up_def Let_def
    using a False q
    by (auto simp: s(1) ad simp del: safe_mul_Ok safe_add_Ok) (auto simp: d s(2) intro!: ex_unatI)
qed

lemma next_base_out_Ok:
  "get_next_sqrt_price_from_base_amount_out_rounding_up p L a = Inr z \<longleftrightarrow>
    (if unat a = 0 then z = p
     else unat a * unat p < unat L
       \<and> unat z = ceil_div (unat L * unat p) (unat L - unat a * unat p))"
proof (cases "unat a = 0")
  case True
  then have "a = 0" by (simp add: word_unat_eq_iff)
  then show ?thesis by (auto simp: get_next_sqrt_price_from_base_amount_out_rounding_up_def)
next
  case False
  then have a: "a \<noteq> 0" by auto
  obtain s :: u256 where s: "safe_mul (ucast a) (ucast p) = Inr s" "unat s = unat a * unat p"
    "unat s < 2 ^ 192" using mul_amount_price by blast
  have lt: "unat L * unat p < 2 ^ 256" by (rule prod_lt_2p [where m = 128 and n = 128]) simp_all
  have q: "unat a * unat p < unat L \<Longrightarrow>
      ceil_div (unat L * unat p) (unat L - unat a * unat p) < 2 ^ 256"
    using lt ceil_div_le_self [of "unat L - unat a * unat p" "unat L * unat p"] by linarith
  have dl: "unat L - unat a * unat p < 2 ^ 256"
    using less_imp_diff_less [OF less_trans [OF unat_range(5) [of L], of "2 ^ 256"]] by simp
  show ?thesis
    unfolding get_next_sqrt_price_from_base_amount_out_rounding_up_def Let_def
    using a False q dl
    by (auto simp: s(1) simp del: safe_mul_Ok) (auto simp: s(2) intro!: ex_unatI)
qed

section \<open>The real amounts of a segment\<close>

definition quote_between :: "nat \<Rightarrow> nat \<Rightarrow> nat \<Rightarrow> real" where
  "quote_between L p q = real L * (real q - real p) / 2 ^ 128"

definition base_between :: "nat \<Rightarrow> nat \<Rightarrow> nat \<Rightarrow> real" where
  "base_between L p q = real L * (1 / real p - 1 / real q)"

lemma quote_between_mono: "q \<le> q' \<Longrightarrow> quote_between L p q \<le> quote_between L p q'"
  by (simp add: quote_between_def divide_right_mono mult_left_mono)

lemma base_between_mono:
  "0 < q \<Longrightarrow> q \<le> q' \<Longrightarrow> base_between L p q \<le> base_between L p q'"
  unfolding base_between_def by (intro mult_left_mono diff_left_mono divide_left_mono) simp_all

lemma quote_between_add: "quote_between L p q + quote_between L q r = quote_between L p r"
  unfolding quote_between_def add_divide_distrib [symmetric] by (simp add: algebra_simps)

lemma base_between_add: "base_between L p q + base_between L q r = base_between L p r"
  unfolding base_between_def by (simp add: algebra_simps)

lemma between_same [simp]: "quote_between L p p = 0" "base_between L p p = 0"
  by (simp_all add: quote_between_def base_between_def)

lemma between_nonneg:
  "p \<le> q \<Longrightarrow> 0 \<le> quote_between L p q"
  "0 < p \<Longrightarrow> p \<le> q \<Longrightarrow> 0 \<le> base_between L p q"
  using quote_between_mono [of p q L p] base_between_mono [of p q L p] by simp_all

lemma real_div_le: "real (a div b) \<le> real a / real b"
proof (cases "b = 0")
  case False
  have "real b * real (a div b) \<le> real a"
    using mult_div_le [of b a] by (simp flip: of_nat_mult)
  then show ?thesis using False by (simp add: le_divide_eq mult.commute)
qed simp

lemma real_le_ceil_div: "0 < b \<Longrightarrow> real a / real b \<le> real (ceil_div a b)"
proof -
  assume b: "0 < b"
  have "real a \<le> real b * real (ceil_div a b)"
    using ceil_div_ge [OF b, of a] by (simp flip: of_nat_mult)
  then show ?thesis using b by (simp add: divide_le_eq mult.commute)
qed

lemma div_round_real:
  "0 < b \<Longrightarrow> real (div_round Down a b) \<le> real a / real b"
  "0 < b \<Longrightarrow> real a / real b \<le> real (div_round Up a b)"
  by (simp_all add: real_div_le real_le_ceil_div)

lemma base_between_frac:
  assumes "l \<le> u" "0 < l"
  shows "base_between L l u = real (L * (u - l)) / real (l * u)"
  using assms unfolding base_between_def by (simp add: of_nat_diff field_simps)

lemma quote_between_frac:
  assumes "l \<le> u"
  shows "quote_between L l u = real (L * (u - l)) / real (2 ^ 128)"
  using assms unfolding quote_between_def by (simp add: of_nat_diff)

text \<open>Rounding directions of the amounts.\<close>

lemma base_down_le:
  "get_delta_amount_base_unsigned l u L Down = Inr z \<Longrightarrow>
    real (unat z) \<le> base_between (unat L) (unat l) (unat u)"
  using div_round_real(1) [of "unat l * unat u" "unat L * (unat u - unat l)"]
  by (auto simp: base_unsigned_Ok base_between_frac simp del: of_nat_mult)

lemma base_up_ge:
  "get_delta_amount_base_unsigned_256 l u L Up = Inr z \<Longrightarrow>
    base_between (unat L) (unat l) (unat u) \<le> real (unat z)"
  using div_round_real(2) [of "unat l * unat u" "unat L * (unat u - unat l)"]
  by (auto simp: base_256_Ok base_between_frac simp del: of_nat_mult)

lemma quote_down_le:
  "get_delta_amount_quote_unsigned l u L Down = Inr z \<Longrightarrow>
    real (unat z) \<le> quote_between (unat L) (unat l) (unat u)"
  using div_round_real(1) [of "2 ^ 128" "unat L * (unat u - unat l)"]
  by (auto simp: quote_unsigned_Ok quote_between_frac simp del: of_nat_mult)

lemma quote_up_ge:
  "get_delta_amount_quote_unsigned_256 l u L Up = Inr z \<Longrightarrow>
    quote_between (unat L) (unat l) (unat u) \<le> real (unat z)"
  using div_round_real(2) [of "2 ^ 128" "unat L * (unat u - unat l)"]
  by (auto simp: quote_256_Ok quote_between_frac simp del: of_nat_mult)

text \<open>Rounding directions of the prices: an input never moves the price further than it pays for.\<close>

lemma next_quote_in_bound:
  assumes "get_next_sqrt_price_from_quote_amount_in_rounding_down p L a = Inr z"
  shows "unat p \<le> unat z \<and> quote_between (unat L) (unat p) (unat z) \<le> real (unat a)"
proof -
  have z: "unat L \<noteq> 0" "unat z = unat p + unat a * 2 ^ 128 div unat L"
    using assms by (simp_all add: next_quote_in_Ok)
  have "unat L * (unat a * 2 ^ 128 div unat L) \<le> unat a * 2 ^ 128" by (rule mult_div_le)
  then have "real (unat L) * real (unat a * 2 ^ 128 div unat L) \<le> real (unat a) * 2 ^ 128"
    by (metis of_nat_le_iff of_nat_mult of_nat_numeral of_nat_power)
  then show ?thesis using z by (simp add: quote_between_def divide_le_eq)
qed

lemma next_base_in_bound:
  assumes "get_next_sqrt_price_from_base_amount_in_rounding_up p L a = Inr z"
    and "0 < unat p" "0 < unat L"
  shows "0 < unat z \<and> unat z \<le> unat p \<and> base_between (unat L) (unat z) (unat p) \<le> real (unat a)"
proof (cases "unat a = 0")
  case True
  then show ?thesis using assms by (simp add: next_base_in_Ok)
next
  case False
  let ?d = "unat L + unat a * unat p"
  have z: "unat z = ceil_div (unat L * unat p) ?d" using assms(1) False by (simp add: next_base_in_Ok)
  have d: "0 < ?d" using assms(3) by simp
  have le: "unat z \<le> unat p" unfolding z using d by (intro ceil_div_le) (simp_all add: algebra_simps)
  have pos: "0 < unat z" unfolding z using d assms(2,3) by (intro ceil_div_pos) simp_all
  have "unat L * unat p \<le> ?d * unat z" unfolding z using d by (rule ceil_div_ge)
  then have "real (unat L * unat p) \<le> real (?d * unat z)" by (rule of_nat_mono)
  then have "base_between (unat L) (unat z) (unat p) \<le> real (unat a)"
    using pos assms(2,3) unfolding base_between_def by (simp add: field_simps)
  with le pos show ?thesis by blast
qed

text \<open>\<dots> and an output is always paid for by the price that is reached.\<close>

lemma next_quote_out_bound:
  assumes "get_next_sqrt_price_from_quote_amount_out_rounding_down p L a = Inr z"
  shows "unat z \<le> unat p \<and> real (unat a) \<le> quote_between (unat L) (unat z) (unat p)"
proof -
  have z: "0 < unat L" "ceil_div (unat a * 2 ^ 128) (unat L) \<le> unat p"
    "unat z = unat p - ceil_div (unat a * 2 ^ 128) (unat L)"
    using assms by (simp_all add: next_quote_out_Ok)
  have "unat a * 2 ^ 128 \<le> unat L * ceil_div (unat a * 2 ^ 128) (unat L)"
    using z(1) by (rule ceil_div_ge)
  then have "real (unat a) * 2 ^ 128 \<le> real (unat L) * real (ceil_div (unat a * 2 ^ 128) (unat L))"
    by (metis of_nat_le_iff of_nat_mult of_nat_numeral of_nat_power)
  then show ?thesis using z by (simp add: quote_between_def le_divide_eq of_nat_diff)
qed

lemma next_base_out_bound:
  assumes "get_next_sqrt_price_from_base_amount_out_rounding_up p L a = Inr z" and "0 < unat p"
  shows "unat p \<le> unat z \<and> real (unat a) \<le> base_between (unat L) (unat p) (unat z)"
proof (cases "unat a = 0")
  case True
  then show ?thesis using assms by (simp add: next_base_out_Ok)
next
  case False
  let ?d = "unat L - unat a * unat p"
  have lt: "unat a * unat p < unat L" and z: "unat z = ceil_div (unat L * unat p) ?d"
    using assms(1) False by (simp_all add: next_base_out_Ok)
  have d: "0 < ?d" "0 < unat L" using lt by linarith+
  have Lp: "unat L * unat p \<le> ?d * unat z" unfolding z using d(1) by (rule ceil_div_ge)
  also have "\<dots> \<le> unat L * unat z" by (intro mult_right_mono) simp_all
  finally have le: "unat p \<le> unat z" using d(2) by simp
  have "real (unat L * unat p) \<le> real (?d * unat z)" using Lp by (rule of_nat_mono)
  then have "real (unat L) * real (unat p) \<le> (real (unat L) - real (unat a) * real (unat p)) * real (unat z)"
    using lt by (simp add: of_nat_diff)
  then have "real (unat a) \<le> base_between (unat L) (unat p) (unat z)"
    using le assms(2) unfolding base_between_def by (simp add: field_simps)
  with le show ?thesis by blast
qed

section \<open>The target price is never passed\<close>

lemma lt_ceil_div: "0 < b \<Longrightarrow> a < ceil_div n b \<Longrightarrow> b * a < n"
  using ceil_div_le [of b n a] by (meson leD leI)

lemma next_quote_in_target:
  assumes "get_delta_amount_quote_unsigned_256 p t L Up = Inr m" "unat a < unat m"
    and "get_next_sqrt_price_from_quote_amount_in_rounding_down p L a = Inr z"
  shows "unat z \<le> unat t"
proof -
  have m: "unat p \<le> unat t" "unat m = ceil_div (unat L * (unat t - unat p)) (2 ^ 128)"
    using assms(1) by (simp_all add: quote_256_Ok)
  have z: "0 < unat L" "unat z = unat p + unat a * 2 ^ 128 div unat L"
    using assms(3) by (simp_all add: next_quote_in_Ok)
  have "2 ^ 128 * unat a < unat L * (unat t - unat p)"
    using assms(2) unfolding m(2) by (intro lt_ceil_div) simp_all
  then have "unat a * 2 ^ 128 div unat L \<le> unat t - unat p"
    using z(1) by (intro div_le_of_le_mult) (simp_all add: mult.commute)
  then show ?thesis using z m(1) by linarith
qed

lemma next_base_in_target:
  assumes "get_delta_amount_base_unsigned_256 t p L Up = Inr m" "unat a < unat m"
    and "get_next_sqrt_price_from_base_amount_in_rounding_up p L a = Inr z"
  shows "unat t \<le> unat z"
proof (cases "unat a = 0")
  case True
  then show ?thesis using assms(1,3) by (simp add: next_base_in_Ok base_256_Ok)
next
  case False
  have m: "unat t \<le> unat p" "0 < unat t" "unat m = ceil_div (unat L * (unat p - unat t)) (unat t * unat p)"
    using assms(1) by (simp_all add: base_256_Ok)
  let ?d = "unat L + unat a * unat p"
  have z: "0 < ?d" "unat z = ceil_div (unat L * unat p) ?d"
    using assms(3) False by (simp_all add: next_base_in_Ok)
  have "unat t * unat p * unat a < unat L * (unat p - unat t)"
    using assms(2) m(1,2) unfolding m(3) by (intro lt_ceil_div) simp_all
  also have "\<dots> = unat L * unat p - unat L * unat t" by (simp add: diff_mult_distrib2)
  finally have "?d * unat t < unat L * unat p" by (simp add: algebra_simps)
  also have "\<dots> \<le> ?d * unat z" unfolding z(2) using z(1) by (rule ceil_div_ge)
  finally show ?thesis by simp
qed

lemma next_quote_out_target:
  assumes "get_delta_amount_quote_unsigned_256 t p L Down = Inr m" "unat a < unat m"
    and "get_next_sqrt_price_from_quote_amount_out_rounding_down p L a = Inr z"
  shows "unat t \<le> unat z"
proof -
  have m: "unat t \<le> unat p" "unat m = unat L * (unat p - unat t) div 2 ^ 128"
    using assms(1) by (simp_all add: quote_256_Ok)
  have z: "0 < unat L" "unat z = unat p - ceil_div (unat a * 2 ^ 128) (unat L)"
    using assms(3) by (simp_all add: next_quote_out_Ok)
  have "2 ^ 128 * unat a \<le> 2 ^ 128 * unat m" using assms(2) by simp
  also have "\<dots> \<le> unat L * (unat p - unat t)" unfolding m(2) by (rule mult_div_le)
  finally have "ceil_div (unat a * 2 ^ 128) (unat L) \<le> unat p - unat t"
    using z(1) by (intro ceil_div_le) (simp_all add: mult.commute)
  then show ?thesis using z m(1) by linarith
qed

lemma next_base_out_target:
  assumes "get_delta_amount_base_unsigned_256 p t L Down = Inr m" "unat a < unat m"
    and "get_next_sqrt_price_from_base_amount_out_rounding_up p L a = Inr z"
  shows "unat z \<le> unat t"
proof (cases "unat a = 0")
  case True
  then show ?thesis using assms(1,3) by (simp add: next_base_out_Ok base_256_Ok)
next
  case False
  have m: "unat p \<le> unat t" "0 < unat p" "unat m = unat L * (unat t - unat p) div (unat p * unat t)"
    using assms(1) by (simp_all add: base_256_Ok)
  let ?d = "unat L - unat a * unat p"
  have z: "unat a * unat p < unat L" "unat z = ceil_div (unat L * unat p) ?d"
    using assms(3) False by (simp_all add: next_base_out_Ok)
  have "unat p * unat t * unat a \<le> unat p * unat t * unat m" using assms(2) by simp
  also have "\<dots> \<le> unat L * (unat t - unat p)" unfolding m(3) by (rule mult_div_le)
  also have "\<dots> = unat L * unat t - unat L * unat p" by (simp add: diff_mult_distrib2)
  finally have "unat p * unat t * unat a \<le> unat L * unat t - unat L * unat p" .
  moreover have "unat L * unat p \<le> unat L * unat t" using m(1) by simp
  moreover have "unat p * unat t * unat a = unat a * unat p * unat t" by (simp only: ac_simps)
  ultimately have "unat L * unat p \<le> unat L * unat t - unat a * unat p * unat t" by linarith
  then have "unat L * unat p \<le> ?d * unat t" by (simp add: diff_mult_distrib)
  then show ?thesis unfolding z(2) using z(1) by (intro ceil_div_le) simp_all
qed

section \<open>Properties of a single price move\<close>

lemma next_from_input_cases:
  "get_next_sqrt_price_from_input p L a dir = Inr z \<longleftrightarrow> 0 < unat p \<and> 0 < unat L \<and>
    (if dir then get_next_sqrt_price_from_base_amount_in_rounding_up p L a = Inr z
     else get_next_sqrt_price_from_quote_amount_in_rounding_down p L a = Inr z)"
  by (auto simp: get_next_sqrt_price_from_input_def word_gt_0_unat)

lemma next_from_output_cases:
  "get_next_sqrt_price_from_output p L a dir = Inr z \<longleftrightarrow> 0 < unat p \<and> 0 < unat L \<and>
    (if dir then get_next_sqrt_price_from_quote_amount_out_rounding_down p L a = Inr z
     else get_next_sqrt_price_from_base_amount_out_rounding_up p L a = Inr z)"
  by (auto simp: get_next_sqrt_price_from_output_def word_gt_0_unat)

text \<open>
  C28: an input never moves the price further than it pays for.  Selling base
  moves the price down (never to zero) by at most the base amount that the real
  curve charges for the move, buying with quote moves it up by at most the quote
  amount the real curve charges.
\<close>

theorem next_price_from_input_is_paid:
  assumes "get_next_sqrt_price_from_input p L a base_for_quote = Inr z"
  shows "if base_for_quote
    then 0 < unat z \<and> unat z \<le> unat p \<and> base_between (unat L) (unat z) (unat p) \<le> real (unat a)
    else unat p \<le> unat z \<and> quote_between (unat L) (unat p) (unat z) \<le> real (unat a)"
  using assms next_base_in_bound next_quote_in_bound
  by (auto simp: next_from_input_cases split: if_splits)

theorem next_price_from_input_is_paid_witness:
  "get_next_sqrt_price_from_input (2 ^ 64) (2 ^ 70) 3 False = Inr (2 ^ 64 + 3 * 2 ^ 58)
    \<and> quote_between (2 ^ 70) (2 ^ 64) (2 ^ 64 + 3 * 2 ^ 58) \<le> 3"
proof -
  have e: "get_next_sqrt_price_from_input (2 ^ 64) (2 ^ 70) 3 False = Inr (2 ^ 64 + 3 * 2 ^ 58)"
    by (simp add: next_from_input_cases next_quote_in_Ok)
  show ?thesis using next_price_from_input_is_paid [OF e] e by simp
qed

text \<open>
  An output is always covered by the price move that is charged for it: the
  price reached by an exact output accounts, on the real curve, for at least the
  amount that leaves the pool, in both directions.
\<close>

theorem next_price_from_output_covers:
  assumes "get_next_sqrt_price_from_output p L a base_for_quote = Inr z"
  shows "if base_for_quote
    then unat z \<le> unat p \<and> real (unat a) \<le> quote_between (unat L) (unat z) (unat p)
    else unat p \<le> unat z \<and> real (unat a) \<le> base_between (unat L) (unat p) (unat z)"
  using assms next_base_out_bound next_quote_out_bound
  by (auto simp: next_from_output_cases split: if_splits)

theorem next_price_from_output_covers_witness:
  "get_next_sqrt_price_from_output (2 ^ 64) (2 ^ 70) 3 True = Inr (2 ^ 64 - 3 * 2 ^ 58)
    \<and> 3 \<le> quote_between (2 ^ 70) (2 ^ 64 - 3 * 2 ^ 58) (2 ^ 64)"
proof -
  have e: "get_next_sqrt_price_from_output (2 ^ 64) (2 ^ 70) 3 True = Inr (2 ^ 64 - 3 * 2 ^ 58)"
    by (simp add: next_from_output_cases next_quote_out_Ok ceil_div_def)
  show ?thesis using next_price_from_output_covers [OF e] e by simp
qed

text \<open>
  A step that stays below the amount that exhausts a curve segment never
  passes the segment's end: the price computed from a smaller input lies between
  the current price and the end of the segment, in both directions.
\<close>

lemma input_step_stays_in_segment:
  assumes "get_next_sqrt_price_from_input p L a base_for_quote = Inr z"
    and "(if base_for_quote then get_delta_amount_base_unsigned_256 t p L Up
          else get_delta_amount_quote_unsigned_256 p t L Up) = Inr m"
    and "ucast a < m"
  shows "if base_for_quote then unat t \<le> unat z \<and> unat z \<le> unat p
    else unat p \<le> unat z \<and> unat z \<le> unat t"
proof -
  have lt: "unat a < unat m" using assms(3) by (simp add: word_less_nat_alt)
  show ?thesis
    using assms(1,2) lt next_base_in_bound [of p L a z] next_quote_in_bound [of p L a z]
      next_base_in_target [of t p L m a z] next_quote_in_target [of p t L m a z]
    by (auto simp: next_from_input_cases split: if_splits)
qed

end
