(* ===== verification/Config.thy ===== *)
theory Config
  imports Pool_Fees Vesting Curve
begin

text \<open>
  The configuration of a pool (\<open>PoolConfig\<close> in \<open>state/config.rs\<close>) with the
  amounts it determines: the base tokens a curve needs, the price at which the
  migration threshold is reached (\<open>params/liquidity_distribution.rs\<close>), the token
  supply, the migration fee, and the splits between partner, creator and
  protocol.  Padding fields are left out.  The stored bytes of the migrated
  pool's market cap fee scheduler are the parameters they encode.
\<close>

section \<open>Data\<close>

record liquidity_point =
  lp_sqrt_price :: u128
  lp_liquidity :: u128

record locked_vesting =
  lv_amount_per_period :: u64
  lv_cliff_duration_from_migration_time :: u64
  lv_frequency :: u64
  lv_number_of_period :: u64
  lv_cliff_unlock_amount :: u64

record market_cap_scheduler_params =
  mc_number_of_period :: u16
  mc_sqrt_price_step_bps :: u16
  mc_scheduler_expiration_duration :: u32
  mc_reduction_factor :: u64

record pool_config =
  cfg_quote_mint :: pubkey
  cfg_fee_claimer :: pubkey
  cfg_leftover_receiver :: pubkey
  cfg_pool_fees :: pool_fees_config
  cfg_partner_liquidity_vesting_info :: liquidity_vesting_info
  cfg_creator_liquidity_vesting_info :: liquidity_vesting_info
  cfg_migration_quote_amount_cap :: u64
  cfg_collect_fee_mode :: u8
  cfg_migration_option :: u8
  cfg_activation_type :: u8
  cfg_token_decimal :: u8
  cfg_version :: u8
  cfg_token_type :: u8
  cfg_quote_token_flag :: u8
  cfg_partner_permanent_locked_liquidity_percentage :: u8
  cfg_partner_liquidity_percentage :: u8
  cfg_creator_permanent_locked_liquidity_percentage :: u8
  cfg_creator_liquidity_percentage :: u8
  cfg_migration_fee_option :: u8
  cfg_fixed_token_supply_flag :: u8
  cfg_creator_trading_fee_percentage :: u8
  cfg_token_update_authority :: u8
  cfg_migration_fee_percentage :: u8
  cfg_creator_migration_fee_percentage :: u8
  cfg_swap_base_amount :: u64
  cfg_migration_quote_threshold :: u64
  cfg_migration_base_threshold :: u64
  cfg_migration_sqrt_price :: u128
  cfg_locked_vesting_config :: locked_vesting
  cfg_pre_migration_token_supply :: u64
  cfg_post_migration_token_supply :: u64
  cfg_migrated_collect_fee_mode :: u8
  cfg_migrated_dynamic_fee :: u8
  cfg_migrated_pool_fee_bps :: u16
  cfg_migrated_pool_base_fee_mode :: u8
  cfg_enable_first_swap_with_min_fee :: u8
  cfg_migrated_compounding_fee_bps :: u16
  cfg_pool_creation_fee :: u64
  cfg_migrated_pool_base_fee :: market_cap_scheduler_params
  cfg_sqrt_start_price :: u128
  cfg_curve :: "liquidity_point list"

section \<open>The curve of a configuration\<close>

fun base_token_loop :: "u128 \<Rightarrow> u128 \<Rightarrow> liquidity_point list \<Rightarrow> u256 \<Rightarrow> u256 result" where
  "base_token_loop sqrt_migration_price lower_sqrt_price [] total_amount = Ok total_amount"
| "base_token_loop sqrt_migration_price lower_sqrt_price (c # cs) total_amount =
     (if lp_sqrt_price c > sqrt_migration_price then
        and_then (get_delta_amount_base_unsigned_256 lower_sqrt_price sqrt_migration_price
          (lp_liquidity c) Up) (\<lambda>delta_amount.
        safe_add total_amount delta_amount)
      else
        and_then (get_delta_amount_base_unsigned_256 lower_sqrt_price (lp_sqrt_price c)
          (lp_liquidity c) Up) (\<lambda>delta_amount.
        and_then (safe_add total_amount delta_amount) (\<lambda>total_amount.
        base_token_loop sqrt_migration_price (lp_sqrt_price c) cs total_amount)))"

definition get_base_token_for_swap :: "u128 \<Rightarrow> u128 \<Rightarrow> liquidity_point list \<Rightarrow> u256 result" where
  "get_base_token_for_swap sqrt_start_price sqrt_migration_price curve =
     base_token_loop sqrt_migration_price sqrt_start_price curve 0"

fun threshold_loop :: "liquidity_point list \<Rightarrow> u128 \<Rightarrow> u64 \<Rightarrow> (u128 \<times> u64) result" where
  "threshold_loop [] next_sqrt_price amount_left = Ok (next_sqrt_price, amount_left)"
| "threshold_loop (c # cs) next_sqrt_price amount_left =
     and_then (get_delta_amount_quote_unsigned_256 next_sqrt_price (lp_sqrt_price c)
       (lp_liquidity c) Up) (\<lambda>max_amount.
     if max_amount > ucast amount_left then
       and_then (get_next_sqrt_price_from_input next_sqrt_price (lp_liquidity c) amount_left False)
         (\<lambda>next_sqrt_price. Ok (next_sqrt_price, 0))
     else
       and_then (ok_or (try_cast max_amount) TypeCastFailed) (\<lambda>max_amount.
       and_then (safe_sub amount_left max_amount) (\<lambda>amount_left.
       threshold_loop cs (lp_sqrt_price c) amount_left)))"

definition get_migration_threshold_price :: "u64 \<Rightarrow> u128 \<Rightarrow> liquidity_point list \<Rightarrow> u128 result" where
  "get_migration_threshold_price migration_threshold sqrt_start_price curve =
     (case curve of
        [] \<Rightarrow> panic
      | c # cs \<Rightarrow>
        and_then (get_delta_amount_quote_unsigned_256 sqrt_start_price (lp_sqrt_price c)
          (lp_liquidity c) Up) (\<lambda>total_amount.
        if total_amount > ucast migration_threshold then
          get_next_sqrt_price_from_input sqrt_start_price (lp_liquidity c) migration_threshold False
        else
          and_then (ok_or (try_cast total_amount) TypeCastFailed) (\<lambda>total_amount.
          and_then (safe_sub migration_threshold total_amount) (\<lambda>amount_left.
          and_then (threshold_loop cs (lp_sqrt_price c) amount_left)
            (\<lambda>(next_sqrt_price, amount_left).
          and_then (require (amount_left = 0) NotEnoughLiquidity) (\<lambda>_.
          Ok next_sqrt_price))))))"

section \<open>Token authority and migration options\<close>

fun get_update_authority :: "token_authority_option \<Rightarrow> pubkey \<Rightarrow> pubkey \<Rightarrow> pubkey option" where
  "get_update_authority CreatorUpdateAndMintAuthority creator partner = Some creator"
| "get_update_authority CreatorUpdateAuthority creator partner = Some creator"
| "get_update_authority PartnerUpdateAndMintAuthority creator partner = Some partner"
| "get_update_authority PartnerUpdateAuthority creator partner = Some partner"
| "get_update_authority Immutable creator partner = None"

definition has_mint_authority :: "token_authority_option \<Rightarrow> bool" where
  "has_mint_authority a \<longleftrightarrow>
     a = CreatorUpdateAndMintAuthority \<or> a = PartnerUpdateAndMintAuthority"

definition get_mint_authority :: "token_authority_option \<Rightarrow> pubkey \<Rightarrow> pubkey \<Rightarrow> pubkey option" where
  "get_mint_authority a creator partner =
     (case a of
        CreatorUpdateAndMintAuthority \<Rightarrow> Some creator
      | PartnerUpdateAndMintAuthority \<Rightarrow> Some partner
      | _ \<Rightarrow> None)"

definition validate_base_fee :: "migration_fee_option \<Rightarrow> u64 \<Rightarrow> unit result" where
  "validate_base_fee mfo base_fee_bps =
     (case mfo of
        FixedBps25 \<Rightarrow> require (base_fee_bps = 25) InvalidMigrationFeeOption
      | FixedBps30 \<Rightarrow> require (base_fee_bps = 30) InvalidMigrationFeeOption
      | FixedBps100 \<Rightarrow> require (base_fee_bps = 100) InvalidMigrationFeeOption
      | FixedBps200 \<Rightarrow> require (base_fee_bps = 200) InvalidMigrationFeeOption
      | FixedBps400 \<Rightarrow> require (base_fee_bps = 400) InvalidMigrationFeeOption
      | FixedBps600 \<Rightarrow> require (base_fee_bps = 600) InvalidMigrationFeeOption
      | Customizable \<Rightarrow> Ok ())"

definition get_token_authority :: "pool_config \<Rightarrow> token_authority_option result" where
  "get_token_authority cfg =
     ok_or (token_authority_option_of (cfg_token_update_authority cfg)) InvalidTokenAuthorityOption"

section \<open>Migration amounts\<close>

record migration_amount =
  ma_quote_amount :: u64
  ma_fee :: u64

record migration_fee_distribution =
  mf_partner_migration_fee :: u64
  mf_creator_migration_fee :: u64

definition calculate_post_fee_migration_quote_amount :: "u64 \<Rightarrow> u8 \<Rightarrow> migration_amount result" where
  "calculate_post_fee_migration_quote_amount migration_quote_threshold migration_fee_percentage =
     and_then (safe_sub (100 :: u64) (ucast migration_fee_percentage)) (\<lambda>rest.
     and_then (safe_mul_div_cast_u64 migration_quote_threshold rest 100 Up) (\<lambda>quote_amount :: u64.
     and_then (safe_sub migration_quote_threshold quote_amount) (\<lambda>fee.
     Ok \<lparr>ma_quote_amount = quote_amount, ma_fee = fee\<rparr>)))"

definition get_effective_migration_quote_amount_cap :: "u64 \<Rightarrow> u64 \<Rightarrow> u64" where
  "get_effective_migration_quote_amount_cap migration_quote_threshold migration_quote_amount_cap =
     (if migration_quote_amount_cap > 0 then migration_quote_amount_cap
      else migration_quote_threshold)"

definition is_fixed_migration_quote_amount_enabled :: "pool_config \<Rightarrow> bool" where
  "is_fixed_migration_quote_amount_enabled cfg \<longleftrightarrow> cfg_migration_quote_amount_cap cfg > 0"

definition get_migration_quote_amount_cap :: "pool_config \<Rightarrow> u64" where
  "get_migration_quote_amount_cap cfg =
     get_effective_migration_quote_amount_cap (cfg_migration_quote_threshold cfg)
       (cfg_migration_quote_amount_cap cfg)"

definition get_post_fee_migration_quote_amount :: "pool_config \<Rightarrow> migration_amount result" where
  "get_post_fee_migration_quote_amount cfg =
     calculate_post_fee_migration_quote_amount (get_migration_quote_amount_cap cfg)
       (cfg_migration_fee_percentage cfg)"

definition get_migration_fee_distribution_for_threshold ::
  "pool_config \<Rightarrow> u64 \<Rightarrow> migration_fee_distribution result" where
  "get_migration_fee_distribution_for_threshold cfg migration_quote_threshold =
     and_then (calculate_post_fee_migration_quote_amount migration_quote_threshold
        (cfg_migration_fee_percentage cfg)) (\<lambda>m.
     and_then (safe_mul_div_cast_u64 (ma_fee m) (ucast (cfg_creator_migration_fee_percentage cfg))
        100 Down) (\<lambda>creator_migration_fee :: u64.
     and_then (safe_sub (ma_fee m) creator_migration_fee) (\<lambda>partner_migration_fee.
     Ok \<lparr>mf_partner_migration_fee = partner_migration_fee,
         mf_creator_migration_fee = creator_migration_fee\<rparr>)))"

definition get_migration_fee_distribution :: "pool_config \<Rightarrow> migration_fee_distribution result" where
  "get_migration_fee_distribution cfg =
     get_migration_fee_distribution_for_threshold cfg (get_migration_quote_amount_cap cfg)"

section \<open>Token supply\<close>

definition locked_vesting_total_amount :: "locked_vesting \<Rightarrow> u64 result" where
  "locked_vesting_total_amount lv =
     and_then (safe_mul (lv_amount_per_period lv) (lv_number_of_period lv)) (\<lambda>m.
     safe_add (lv_cliff_unlock_amount lv) m)"

definition get_swap_amount_with_buffer :: "u64 \<Rightarrow> u128 \<Rightarrow> liquidity_point list \<Rightarrow> u64 result" where
  "get_swap_amount_with_buffer swap_base_amount sqrt_start_price curve =
     and_then (safe_mul (ucast swap_base_amount :: u128) (ucast SWAP_BUFFER_PERCENTAGE)) (\<lambda>m.
     and_then (safe_div m 100) (\<lambda>q.
     and_then (safe_add q (ucast swap_base_amount)) (\<lambda>swap_amount_buffer.
     and_then (get_base_token_for_swap sqrt_start_price MAX_SQRT_PRICE curve)
       (\<lambda>max_base_amount_on_curve.
     if ucast swap_amount_buffer < max_base_amount_on_curve
     then ok_or (try_cast swap_amount_buffer) MathOverflow
     else ok_or (try_cast max_base_amount_on_curve) MathOverflow))))"

definition get_total_token_supply :: "u64 \<Rightarrow> u64 \<Rightarrow> locked_vesting \<Rightarrow> u64 result" where
  "get_total_token_supply swap_base_amount migration_base_threshold locked_vesting_params =
     and_then (safe_add swap_base_amount migration_base_threshold) (\<lambda>total_circulating_amount.
     and_then (locked_vesting_total_amount locked_vesting_params) (\<lambda>total_locked_vesting_amount.
     safe_add total_circulating_amount total_locked_vesting_amount))"

definition is_fixed_token_supply :: "pool_config \<Rightarrow> bool" where
  "is_fixed_token_supply cfg \<longleftrightarrow> cfg_fixed_token_supply_flag cfg = 1"

definition used_curve_points :: "pool_config \<Rightarrow> liquidity_point list" where
  "used_curve_points cfg = takeWhile (\<lambda>c. lp_liquidity c \<noteq> 0) (cfg_curve cfg)"

definition get_initial_base_supply :: "pool_config \<Rightarrow> u64 result" where
  "get_initial_base_supply cfg =
     (if is_fixed_token_supply cfg then Ok (cfg_pre_migration_token_supply cfg)
      else
        let curve = used_curve_points cfg in
        and_then (get_swap_amount_with_buffer (cfg_swap_base_amount cfg) (cfg_sqrt_start_price cfg)
          curve) (\<lambda>swap_amount_with_buffer.
        get_total_token_supply swap_amount_with_buffer (cfg_migration_base_threshold cfg)
          (cfg_locked_vesting_config cfg)))"

definition get_max_burnable_amount_post_migration :: "pool_config \<Rightarrow> u64 result" where
  "get_max_burnable_amount_post_migration cfg =
     (if is_fixed_token_supply cfg
      then safe_sub (cfg_pre_migration_token_supply cfg) (cfg_post_migration_token_supply cfg)
      else Ok (- 1))"

definition get_burnable_amount_post_migration :: "pool_config \<Rightarrow> u64 \<Rightarrow> u64 result" where
  "get_burnable_amount_post_migration cfg leftover =
     and_then (get_max_burnable_amount_post_migration cfg) (\<lambda>max_burnable_amount.
     Ok (min max_burnable_amount leftover))"

section \<open>Liquidity distribution\<close>

record liquidity_distribution_item =
  li_unlocked_liquidity :: u128
  li_permanent_locked_liquidity :: u128
  li_vested_liquidity :: u128
  li_permanent_locked_liquidity_percentage :: u8
  li_liquidity_vesting_info :: liquidity_vesting_info

record liquidity_distribution =
  ld_partner :: liquidity_distribution_item
  ld_creator :: liquidity_distribution_item

record liquidity_distribution_damm_v1 =
  l1_partner_locked_liquidity :: u64
  l1_partner_liquidity :: u64
  l1_creator_locked_liquidity :: u64
  l1_creator_liquidity :: u64

definition share :: "u128 \<Rightarrow> u8 \<Rightarrow> u128 result" where
  "share liquidity percentage = safe_mul_div_cast_u128 liquidity (ucast percentage) 100 Down"

definition get_liquidity_distribution :: "pool_config \<Rightarrow> u128 \<Rightarrow> liquidity_distribution result" where
  "get_liquidity_distribution cfg liquidity =
     and_then (share liquidity (cfg_partner_permanent_locked_liquidity_percentage cfg))
       (\<lambda>partner_permanent_locked_liquidity.
     and_then (share liquidity (vi_vesting_percentage (cfg_partner_liquidity_vesting_info cfg)))
       (\<lambda>partner_vested_liquidity.
     and_then (share liquidity (cfg_partner_liquidity_percentage cfg)) (\<lambda>partner_liquidity.
     and_then (share liquidity (cfg_creator_permanent_locked_liquidity_percentage cfg))
       (\<lambda>creator_permanent_locked_liquidity.
     and_then (share liquidity (vi_vesting_percentage (cfg_creator_liquidity_vesting_info cfg)))
       (\<lambda>creator_vested_liquidity.
     and_then (safe_sub liquidity partner_liquidity) (\<lambda>l1.
     and_then (safe_sub l1 partner_permanent_locked_liquidity) (\<lambda>l2.
     and_then (safe_sub l2 partner_vested_liquidity) (\<lambda>l3.
     and_then (safe_sub l3 creator_permanent_locked_liquidity) (\<lambda>l4.
     and_then (safe_sub l4 creator_vested_liquidity) (\<lambda>creator_liquidity.
     Ok \<lparr>ld_partner =
           \<lparr>li_unlocked_liquidity = partner_liquidity,
            li_permanent_locked_liquidity = partner_permanent_locked_liquidity,
            li_vested_liquidity = partner_vested_liquidity,
            li_permanent_locked_liquidity_percentage =
              cfg_partner_permanent_locked_liquidity_percentage cfg,
            li_liquidity_vesting_info = cfg_partner_liquidity_vesting_info cfg\<rparr>,
         ld_creator =
           \<lparr>li_unlocked_liquidity = creator_liquidity,
            li_permanent_locked_liquidity = creator_permanent_locked_liquidity,
            li_vested_liquidity = creator_vested_liquidity,
            li_permanent_locked_liquidity_percentage =
              cfg_creator_permanent_locked_liquidity_percentage cfg,
            li_liquidity_vesting_info = cfg_creator_liquidity_vesting_info cfg\<rparr>\<rparr>))))))))))"

definition to_liquidity_distribution_damm_v1 ::
  "liquidity_distribution \<Rightarrow> liquidity_distribution_damm_v1 result" where
  "to_liquidity_distribution_damm_v1 d =
     and_then (safe_cast (li_permanent_locked_liquidity (ld_partner d))) (\<lambda>partner_locked_liquidity.
     and_then (safe_cast (li_unlocked_liquidity (ld_partner d))) (\<lambda>partner_liquidity.
     and_then (safe_cast (li_permanent_locked_liquidity (ld_creator d))) (\<lambda>creator_locked_liquidity.
     and_then (safe_cast (li_unlocked_liquidity (ld_creator d))) (\<lambda>creator_liquidity.
     Ok \<lparr>l1_partner_locked_liquidity = partner_locked_liquidity,
         l1_partner_liquidity = partner_liquidity,
         l1_creator_locked_liquidity = creator_locked_liquidity,
         l1_creator_liquidity = creator_liquidity\<rparr>))))"

definition item_total_liquidity :: "liquidity_distribution_item \<Rightarrow> u128 result" where
  "item_total_liquidity it =
     and_then (safe_add (li_unlocked_liquidity it) (li_permanent_locked_liquidity it)) (\<lambda>s.
     safe_add s (li_vested_liquidity it))"

definition item_total_locked_liquidity :: "liquidity_distribution_item \<Rightarrow> u128 result" where
  "item_total_locked_liquidity it =
     safe_add (li_permanent_locked_liquidity it) (li_vested_liquidity it)"

definition item_vesting_parameters :: "liquidity_distribution_item \<Rightarrow> u64 \<Rightarrow> vesting_parameters result" where
  "item_vesting_parameters it current_timestamp =
     get_damm_v2_vesting_parameters (li_liquidity_vesting_info it) (li_vested_liquidity it)
       current_timestamp"

definition adjust_liquidity ::
  "liquidity_distribution_item \<Rightarrow> u128 \<Rightarrow> liquidity_distribution_item result" where
  "adjust_liquidity it adjusted_total_liquidity =
     (let vesting_percentage = vi_vesting_percentage (li_liquidity_vesting_info it) in
     and_then (safe_add vesting_percentage (li_permanent_locked_liquidity_percentage it))
       (\<lambda>total_locked_percentage.
     if total_locked_percentage = 0 then
       Ok (it\<lparr>li_unlocked_liquidity := adjusted_total_liquidity,
              li_permanent_locked_liquidity := 0, li_vested_liquidity := 0\<rparr>)
     else
       let unlocked_liquidity = min adjusted_total_liquidity (li_unlocked_liquidity it) in
       and_then (safe_sub adjusted_total_liquidity unlocked_liquidity)
         (\<lambda>liquidity_subject_to_lock.
       and_then (safe_mul_div_cast_u128 liquidity_subject_to_lock (ucast vesting_percentage)
          (ucast total_locked_percentage) Down) (\<lambda>vested_liquidity.
       and_then (safe_sub liquidity_subject_to_lock vested_liquidity)
         (\<lambda>permanent_locked_liquidity.
       Ok (it\<lparr>li_unlocked_liquidity := unlocked_liquidity,
              li_permanent_locked_liquidity := permanent_locked_liquidity,
              li_vested_liquidity := vested_liquidity\<rparr>))))))"

definition get_total_liquidity_locked_bps_at_n_seconds :: "pool_config \<Rightarrow> u64 \<Rightarrow> u16 result" where
  "get_total_liquidity_locked_bps_at_n_seconds cfg n_seconds =
     and_then (get_liquidity_locked_bps_at_n_seconds (cfg_partner_liquidity_vesting_info cfg) n_seconds)
       (\<lambda>partner_vested.
     and_then (get_liquidity_locked_bps_at_n_seconds (cfg_creator_liquidity_vesting_info cfg) n_seconds)
       (\<lambda>creator_vested.
     and_then (safe_mul (ucast (cfg_partner_permanent_locked_liquidity_percentage cfg) :: u16) 100)
       (\<lambda>partner_permanent.
     and_then (safe_mul (ucast (cfg_creator_permanent_locked_liquidity_percentage cfg) :: u16) 100)
       (\<lambda>creator_permanent.
     and_then (safe_add partner_vested partner_permanent) (\<lambda>a.
     and_then (safe_add a creator_vested) (\<lambda>b.
     safe_add b creator_permanent))))))"

section \<open>Fee splits\<close>

record partner_and_creator_split_fee =
  split_partner_fee :: u64
  split_creator_fee :: u64

definition split_partner_and_creator_fee :: "pool_config \<Rightarrow> u64 \<Rightarrow> partner_and_creator_split_fee result" where
  "split_partner_and_creator_fee cfg fee =
     (if cfg_creator_trading_fee_percentage cfg = 0
      then Ok \<lparr>split_partner_fee = fee, split_creator_fee = 0\<rparr>
      else
        and_then (safe_mul_div_cast_u64 fee (ucast (cfg_creator_trading_fee_percentage cfg)) 100 Down)
          (\<lambda>creator_fee :: u64.
        and_then (safe_sub fee creator_fee) (\<lambda>partner_fee.
        Ok \<lparr>split_partner_fee = partner_fee, split_creator_fee = creator_fee\<rparr>)))"

definition split_pool_creation_fee :: "pool_config \<Rightarrow> (u64 \<times> u64) result" where
  "split_pool_creation_fee cfg =
     and_then (safe_mul_div_cast_u64 (cfg_pool_creation_fee cfg)
        (ucast PROTOCOL_POOL_CREATION_FEE_PERCENT) 100 Down) (\<lambda>protocol_fee :: u64.
     and_then (safe_sub (cfg_pool_creation_fee cfg) protocol_fee) (\<lambda>partner_fee.
     Ok (protocol_fee, partner_fee)))"

definition is_first_swap_with_min_fee_enabled :: "pool_config \<Rightarrow> bool" where
  "is_first_swap_with_min_fee_enabled cfg \<longleftrightarrow> cfg_enable_first_swap_with_min_fee cfg = 1"

lemmas [eval] = get_base_token_for_swap_def get_migration_threshold_price_def has_mint_authority_def
  get_mint_authority_def validate_base_fee_def get_token_authority_def
  calculate_post_fee_migration_quote_amount_def get_effective_migration_quote_amount_cap_def
  is_fixed_migration_quote_amount_enabled_def get_migration_quote_amount_cap_def
  get_post_fee_migration_quote_amount_def get_migration_fee_distribution_for_threshold_def
  get_migration_fee_distribution_def locked_vesting_total_amount_def
  get_swap_amount_with_buffer_def get_total_token_supply_def is_fixed_token_supply_def
  used_curve_points_def get_initial_base_supply_def get_max_burnable_amount_post_migration_def
  get_burnable_amount_post_migration_def share_def get_liquidity_distribution_def
  to_liquidity_distribution_damm_v1_def item_total_liquidity_def item_total_locked_liquidity_def
  item_vesting_parameters_def adjust_liquidity_def get_total_liquidity_locked_bps_at_n_seconds_def
  split_partner_and_creator_fee_def split_pool_creation_fee_def is_first_swap_with_min_fee_enabled_def

end
