(* ===== verification/Sample.thy ===== *)
theory Sample
  imports Config
begin

text \<open>
  One concrete configuration, used by the examples: a linear curve of two
  segments from price \<open>1\<close> over \<open>2\<close> to \<open>4\<close> (square roots, in Q64), whose liquidity
  is worth a million quote units per unit of square root price, a flat trading
  fee of one percent taken in the quote token, an unlocked split of the
  migrated liquidity and a migration fee of ten percent.
\<close>

definition sample_vesting :: liquidity_vesting_info where
  "sample_vesting = \<lparr>vi_is_initialized = 0, vi_vesting_percentage = 0, vi_bps_per_period = 0,
     vi_number_of_periods = 0, vi_frequency = 0, vi_cliff_duration_from_migration_time = 0\<rparr>"

definition sample_fees :: pool_fees_config where
  "sample_fees = \<lparr>pf_base_fee = \<lparr>bf_cliff_fee_numerator = 10000000, bf_second_factor = 0,
       bf_third_factor = 0, bf_first_factor = 0, bf_base_fee_mode = 0\<rparr>,
     pf_dynamic_fee = \<lparr>df_initialized = 0, df_max_volatility_accumulator = 0,
       df_variable_fee_control = 0, df_bin_step = 0, df_filter_period = 0, df_decay_period = 0,
       df_reduction_factor = 0, df_bin_step_u128 = 0\<rparr>\<rparr>"

definition sample_curve :: "liquidity_point list" where
  "sample_curve = [\<lparr>lp_sqrt_price = 36893488147419103232, lp_liquidity = 18446744073709551616000000\<rparr>,
     \<lparr>lp_sqrt_price = 73786976294838206464, lp_liquidity = 18446744073709551616000000\<rparr>]"

definition sample_config :: pool_config where
  "sample_config = \<lparr>
     cfg_quote_mint = 1, cfg_fee_claimer = 2, cfg_leftover_receiver = 3,
     cfg_pool_fees = sample_fees,
     cfg_partner_liquidity_vesting_info = sample_vesting,
     cfg_creator_liquidity_vesting_info = sample_vesting,
     cfg_migration_quote_amount_cap = 0, cfg_collect_fee_mode = 0, cfg_migration_option = 1,
     cfg_activation_type = 0, cfg_token_decimal = 6, cfg_version = 0, cfg_token_type = 0,
     cfg_quote_token_flag = 0, cfg_partner_permanent_locked_liquidity_percentage = 20,
     cfg_partner_liquidity_percentage = 30, cfg_creator_permanent_locked_liquidity_percentage = 10,
     cfg_creator_liquidity_percentage = 40, cfg_migration_fee_option = 0,
     cfg_fixed_token_supply_flag = 0, cfg_creator_trading_fee_percentage = 50,
     cfg_token_update_authority = 1, cfg_migration_fee_percentage = 10,
     cfg_creator_migration_fee_percentage = 50, cfg_swap_base_amount = 700000,
     cfg_migration_quote_threshold = 2000000, cfg_migration_base_threshold = 200000,
     cfg_migration_sqrt_price = 55340232221128654848,
     cfg_locked_vesting_config = \<lparr>lv_amount_per_period = 0,
       lv_cliff_duration_from_migration_time = 0, lv_frequency = 0, lv_number_of_period = 0,
       lv_cliff_unlock_amount = 0\<rparr>,
     cfg_pre_migration_token_supply = 0, cfg_post_migration_token_supply = 0,
     cfg_migrated_collect_fee_mode = 0, cfg_migrated_dynamic_fee = 0, cfg_migrated_pool_fee_bps = 0,
     cfg_migrated_pool_base_fee_mode = 0, cfg_enable_first_swap_with_min_fee = 0,
     cfg_migrated_compounding_fee_bps = 0, cfg_pool_creation_fee = 0,
     cfg_migrated_pool_base_fee = \<lparr>mc_number_of_period = 0, mc_sqrt_price_step_bps = 0,
       mc_scheduler_expiration_duration = 0, mc_reduction_factor = 0\<rparr>,
     cfg_sqrt_start_price = 18446744073709551616,
     cfg_curve = sample_curve\<rparr>"

lemmas sample_defs = sample_vesting_def sample_fees_def sample_curve_def sample_config_def

end
