(* ===== verification/Pool_State.thy ===== *)
theory Pool_State
  imports Sample
begin

text \<open>
  The state of a pool and its swaps (\<open>state/virtual_pool.rs\<close>).  The account types
  \<open>VirtualPool\<close> and \<open>TransferHookPool\<close> both wrap one \<open>PoolState\<close>, which is the
  record here; padding is left out.  A method that mutates the pool returns the
  updated record, and the four loops over the curve are recursions over the part
  of the curve they still have to visit.
\<close>

section \<open>Data\<close>

record pool_metrics =
  pm_total_protocol_base_fee :: u64
  pm_total_protocol_quote_fee :: u64
  pm_total_trading_base_fee :: u64
  pm_total_trading_quote_fee :: u64

record pool_state =
  pool_volatility_tracker :: volatility_tracker
  pool_config_key :: pubkey
  pool_creator :: pubkey
  pool_base_mint :: pubkey
  pool_base_vault :: pubkey
  pool_quote_vault :: pubkey
  pool_base_reserve :: u64
  pool_quote_reserve :: u64
  pool_protocol_base_fee :: u64
  pool_protocol_quote_fee :: u64
  pool_partner_base_fee :: u64
  pool_partner_quote_fee :: u64
  pool_sqrt_price :: u128
  pool_activation_point :: u64
  pool_pool_type :: u8
  pool_is_migrated :: u8
  pool_is_partner_withdraw_surplus :: u8
  pool_is_protocol_withdraw_surplus :: u8
  pool_migration_progress :: u8
  pool_is_withdraw_leftover :: u8
  pool_is_creator_withdraw_surplus :: u8
  pool_migration_fee_withdraw_status :: u8
  pool_metrics_of :: pool_metrics
  pool_finish_curve_timestamp :: u64
  pool_creator_base_fee :: u64
  pool_creator_quote_fee :: u64
  pool_legacy_creation_fee_bits :: u8
  pool_creation_fee_bits :: u8
  pool_has_swap :: u8
  pool_protocol_liquidity_migration_fee_bps :: u16
  pool_protocol_migration_base_fee_amount :: u64
  pool_protocol_migration_quote_fee_amount :: u64
  pool_deadline_timestamp :: u64
  pool_virtual_quote_reserve :: u64

record swap_result =
  sr_actual_input_amount :: u64
  sr_output_amount :: u64
  sr_next_sqrt_price :: u128
  sr_trading_fee :: u64
  sr_protocol_fee :: u64
  sr_referral_fee :: u64

record swap_result2 =
  s2_included_fee_input_amount :: u64
  s2_excluded_fee_input_amount :: u64
  s2_amount_left :: u64
  s2_output_amount :: u64
  s2_next_sqrt_price :: u128
  s2_trading_fee :: u64
  s2_protocol_fee :: u64
  s2_referral_fee :: u64

record swap_amount_from_output =
  fo_amount_in :: u64
  fo_next_sqrt_price :: u128

record swap_amount_from_input =
  fi_amount_left :: u64
  fi_output_amount :: u64
  fi_next_sqrt_price :: u128

definition default_pool_state :: pool_state where
  "default_pool_state = \<lparr>
     pool_volatility_tracker = \<lparr>vt_last_update_timestamp = 0, vt_sqrt_price_reference = 0,
       vt_volatility_accumulator = 0, vt_volatility_reference = 0\<rparr>,
     pool_config_key = 0, pool_creator = 0, pool_base_mint = 0, pool_base_vault = 0,
     pool_quote_vault = 0, pool_base_reserve = 0, pool_quote_reserve = 0,
     pool_protocol_base_fee = 0, pool_protocol_quote_fee = 0, pool_partner_base_fee = 0,
     pool_partner_quote_fee = 0, pool_sqrt_price = 0, pool_activation_point = 0,
     pool_pool_type = 0, pool_is_migrated = 0, pool_is_partner_withdraw_surplus = 0,
     pool_is_protocol_withdraw_surplus = 0, pool_migration_progress = 0,
     pool_is_withdraw_leftover = 0, pool_is_creator_withdraw_surplus = 0,
     pool_migration_fee_withdraw_status = 0,
     pool_metrics_of = \<lparr>pm_total_protocol_base_fee = 0, pm_total_protocol_quote_fee = 0,
       pm_total_trading_base_fee = 0, pm_total_trading_quote_fee = 0\<rparr>,
     pool_finish_curve_timestamp = 0, pool_creator_base_fee = 0, pool_creator_quote_fee = 0,
     pool_legacy_creation_fee_bits = 0, pool_creation_fee_bits = 0, pool_has_swap = 0,
     pool_protocol_liquidity_migration_fee_bps = 0, pool_protocol_migration_base_fee_amount = 0,
     pool_protocol_migration_quote_fee_amount = 0, pool_deadline_timestamp = 0,
     pool_virtual_quote_reserve = 0\<rparr>"

definition pool_initialize ::
  "pool_state \<Rightarrow> volatility_tracker \<Rightarrow> pubkey \<Rightarrow> pubkey \<Rightarrow> pubkey \<Rightarrow> pubkey \<Rightarrow> pubkey \<Rightarrow> u128
    \<Rightarrow> u8 \<Rightarrow> u64 \<Rightarrow> u64 \<Rightarrow> u16 \<Rightarrow> u64 \<Rightarrow> pool_state" where
  "pool_initialize s volatility_tracker config creator base_mint base_vault quote_vault sqrt_price
     pool_type activation_point base_reserve protocol_liquidity_migration_fee_bps deadline_timestamp =
   s\<lparr>pool_volatility_tracker := volatility_tracker, pool_config_key := config,
     pool_creator := creator, pool_base_mint := base_mint, pool_base_vault := base_vault,
     pool_quote_vault := quote_vault, pool_sqrt_price := sqrt_price, pool_pool_type := pool_type,
     pool_activation_point := activation_point, pool_base_reserve := base_reserve,
     pool_protocol_liquidity_migration_fee_bps := protocol_liquidity_migration_fee_bps,
     pool_deadline_timestamp := deadline_timestamp\<rparr>"

definition accumulate_fee :: "pool_metrics \<Rightarrow> u64 \<Rightarrow> u64 \<Rightarrow> bool \<Rightarrow> pool_metrics result" where
  "accumulate_fee m protocol trading is_base_token =
     (if is_base_token then
        and_then (safe_add (pm_total_protocol_base_fee m) protocol) (\<lambda>p.
        and_then (safe_add (pm_total_trading_base_fee m) trading) (\<lambda>t.
        Ok (m\<lparr>pm_total_protocol_base_fee := p, pm_total_trading_base_fee := t\<rparr>)))
      else
        and_then (safe_add (pm_total_protocol_quote_fee m) protocol) (\<lambda>p.
        and_then (safe_add (pm_total_trading_quote_fee m) trading) (\<lambda>t.
        Ok (m\<lparr>pm_total_protocol_quote_fee := p, pm_total_trading_quote_fee := t\<rparr>))))"

section \<open>Walking the curve\<close>

text \<open>
  \<open>unused c\<close> is the test on which the loops stop (buying) or skip a point
  (selling).  \<open>descending curve\<close> lists the points \<open>i\<close> from \<open>curve.len() - 2\<close> down to
  \<open>0\<close>, each with point \<open>i + 1\<close>, whose liquidity lies above it.
\<close>

definition unused :: "liquidity_point \<Rightarrow> bool" where
  "unused c \<longleftrightarrow> lp_sqrt_price c = 0 \<or> lp_liquidity c = 0"

definition descending :: "liquidity_point list \<Rightarrow> (liquidity_point \<times> liquidity_point) list" where
  "descending curve = rev (zip curve (tl curve))"

fun quote_to_base_in_loop ::
  "u128 \<Rightarrow> liquidity_point list \<Rightarrow> u128 \<Rightarrow> u64 \<Rightarrow> u64 \<Rightarrow> swap_amount_from_input result" where
  "quote_to_base_in_loop stop_sqrt_price [] current_sqrt_price amount_left total_output_amount =
     Ok \<lparr>fi_amount_left = amount_left, fi_output_amount = total_output_amount,
         fi_next_sqrt_price = current_sqrt_price\<rparr>"
| "quote_to_base_in_loop stop_sqrt_price (c # cs) current_sqrt_price amount_left total_output_amount =
     (let reference_sqrt_price = min stop_sqrt_price (lp_sqrt_price c) in
      if unused c then
        Ok \<lparr>fi_amount_left = amount_left, fi_output_amount = total_output_amount,
            fi_next_sqrt_price = current_sqrt_price\<rparr>
      else if reference_sqrt_price > current_sqrt_price then
        and_then (get_delta_amount_quote_unsigned_256 current_sqrt_price reference_sqrt_price
          (lp_liquidity c) Up) (\<lambda>max_amount_in.
        if ucast amount_left < max_amount_in then
          and_then (get_next_sqrt_price_from_input current_sqrt_price (lp_liquidity c)
            amount_left False) (\<lambda>next_sqrt_price.
          and_then (get_delta_amount_base_unsigned current_sqrt_price next_sqrt_price
            (lp_liquidity c) Down) (\<lambda>output_amount.
          and_then (safe_add total_output_amount output_amount) (\<lambda>total_output_amount.
          Ok \<lparr>fi_amount_left = 0, fi_output_amount = total_output_amount,
              fi_next_sqrt_price = next_sqrt_price\<rparr>)))
        else
          and_then (get_delta_amount_base_unsigned current_sqrt_price reference_sqrt_price
            (lp_liquidity c) Down) (\<lambda>output_amount.
          and_then (safe_add total_output_amount output_amount) (\<lambda>total_output_amount.
          and_then (ok_or (try_cast max_amount_in) TypeCastFailed) (\<lambda>max_amount_in.
          and_then (safe_sub amount_left max_amount_in) (\<lambda>amount_left.
          if reference_sqrt_price = stop_sqrt_price then
            Ok \<lparr>fi_amount_left = amount_left, fi_output_amount = total_output_amount,
                fi_next_sqrt_price = reference_sqrt_price\<rparr>
          else quote_to_base_in_loop stop_sqrt_price cs reference_sqrt_price amount_left
            total_output_amount)))))
      else quote_to_base_in_loop stop_sqrt_price cs current_sqrt_price amount_left
        total_output_amount)"

definition calculate_quote_to_base_from_amount_in ::
  "pool_state \<Rightarrow> pool_config \<Rightarrow> u64 \<Rightarrow> u128 \<Rightarrow> swap_amount_from_input result" where
  "calculate_quote_to_base_from_amount_in s cfg amount_in stop_sqrt_price =
     quote_to_base_in_loop stop_sqrt_price (cfg_curve cfg) (pool_sqrt_price s) amount_in 0"

fun quote_to_base_out_loop ::
  "liquidity_point list \<Rightarrow> u128 \<Rightarrow> u64 \<Rightarrow> u64 \<Rightarrow> (u128 \<times> u64 \<times> u64) result" where
  "quote_to_base_out_loop [] current_sqrt_price amount_left total_input_amount =
     Ok (current_sqrt_price, amount_left, total_input_amount)"
| "quote_to_base_out_loop (c # cs) current_sqrt_price amount_left total_input_amount =
     (if unused c then Ok (current_sqrt_price, amount_left, total_input_amount)
      else if lp_sqrt_price c > current_sqrt_price then
        and_then (get_delta_amount_base_unsigned_256 current_sqrt_price (lp_sqrt_price c)
          (lp_liquidity c) Down) (\<lambda>max_amount_out.
        if ucast amount_left < max_amount_out then
          and_then (get_next_sqrt_price_from_output current_sqrt_price (lp_liquidity c)
            amount_left False) (\<lambda>next_sqrt_price.
          and_then (get_delta_amount_quote_unsigned current_sqrt_price next_sqrt_price
            (lp_liquidity c) Up) (\<lambda>input_amount.
          and_then (safe_add total_input_amount input_amount) (\<lambda>total_input_amount.
          Ok (next_sqrt_price, 0, total_input_amount))))
        else
          and_then (get_delta_amount_quote_unsigned current_sqrt_price (lp_sqrt_price c)
            (lp_liquidity c) Up) (\<lambda>input_amount.
          and_then (safe_add total_input_amount input_amount) (\<lambda>total_input_amount.
          and_then (ok_or (try_cast max_amount_out) TypeCastFailed) (\<lambda>max_amount_out.
          and_then (safe_sub amount_left max_amount_out) (\<lambda>amount_left.
          quote_to_base_out_loop cs (lp_sqrt_price c) amount_left total_input_amount)))))
      else quote_to_base_out_loop cs current_sqrt_price amount_left total_input_amount)"

definition calculate_quote_to_base_from_amount_out ::
  "pool_state \<Rightarrow> pool_config \<Rightarrow> u64 \<Rightarrow> swap_amount_from_output result" where
  "calculate_quote_to_base_from_amount_out s cfg amount_out =
     and_then (quote_to_base_out_loop (cfg_curve cfg) (pool_sqrt_price s) amount_out 0)
       (\<lambda>(current_sqrt_price, amount_left, total_input_amount).
     and_then (require (amount_left = 0) AmountLeftIsNotZero) (\<lambda>_.
     Ok \<lparr>fo_amount_in = total_input_amount, fo_next_sqrt_price = current_sqrt_price\<rparr>))"

fun base_to_quote_in_loop ::
  "(liquidity_point \<times> liquidity_point) list \<Rightarrow> u128 \<Rightarrow> u64 \<Rightarrow> u64 \<Rightarrow> (u128 \<times> u64 \<times> u64) result" where
  "base_to_quote_in_loop [] current_sqrt_price amount_left total_output_amount =
     Ok (current_sqrt_price, amount_left, total_output_amount)"
| "base_to_quote_in_loop ((c, upper) # cs) current_sqrt_price amount_left total_output_amount =
     (if unused c then
        base_to_quote_in_loop cs current_sqrt_price amount_left total_output_amount
      else if lp_sqrt_price c < current_sqrt_price then
        and_then (get_delta_amount_base_unsigned_256 (lp_sqrt_price c) current_sqrt_price
          (lp_liquidity upper) Up) (\<lambda>max_amount_in.
        if ucast amount_left < max_amount_in then
          and_then (get_next_sqrt_price_from_input current_sqrt_price (lp_liquidity upper)
            amount_left True) (\<lambda>next_sqrt_price.
          and_then (get_delta_amount_quote_unsigned next_sqrt_price current_sqrt_price
            (lp_liquidity upper) Down) (\<lambda>output_amount.
          and_then (safe_add total_output_amount output_amount) (\<lambda>total_output_amount.
          Ok (next_sqrt_price, 0, total_output_amount))))
        else
          and_then (get_delta_amount_quote_unsigned (lp_sqrt_price c) current_sqrt_price
            (lp_liquidity upper) Down) (\<lambda>output_amount.
          and_then (safe_add total_output_amount output_amount) (\<lambda>total_output_amount.
          and_then (ok_or (try_cast max_amount_in) TypeCastFailed) (\<lambda>max_amount_in.
          and_then (safe_sub amount_left max_amount_in) (\<lambda>amount_left.
          base_to_quote_in_loop cs (lp_sqrt_price c) amount_left total_output_amount)))))
      else base_to_quote_in_loop cs current_sqrt_price amount_left total_output_amount)"

definition calculate_base_to_quote_from_amount_in ::
  "pool_state \<Rightarrow> pool_config \<Rightarrow> u64 \<Rightarrow> swap_amount_from_input result" where
  "calculate_base_to_quote_from_amount_in s cfg amount_in =
     (case cfg_curve cfg of
        [] \<Rightarrow> panic
      | c0 # _ \<Rightarrow>
        and_then (base_to_quote_in_loop (descending (cfg_curve cfg)) (pool_sqrt_price s) amount_in 0)
          (\<lambda>(current_sqrt_price, amount_left, total_output_amount).
        if amount_left \<noteq> 0 then
          and_then (get_next_sqrt_price_from_input current_sqrt_price (lp_liquidity c0)
            amount_left True) (\<lambda>next_sqrt_price.
          and_then
            (if next_sqrt_price < cfg_sqrt_start_price cfg then
               let next_sqrt_price = cfg_sqrt_start_price cfg in
               and_then (get_delta_amount_base_unsigned next_sqrt_price current_sqrt_price
                 (lp_liquidity c0) Up) (\<lambda>amount_in.
               and_then (safe_sub amount_left amount_in) (\<lambda>amount_left.
               Ok (next_sqrt_price, amount_left)))
             else Ok (next_sqrt_price, 0)) (\<lambda>(next_sqrt_price, amount_left).
          and_then (get_delta_amount_quote_unsigned next_sqrt_price current_sqrt_price
            (lp_liquidity c0) Down) (\<lambda>output_amount.
          and_then (safe_add total_output_amount output_amount) (\<lambda>total_output_amount.
          Ok \<lparr>fi_amount_left = amount_left, fi_output_amount = total_output_amount,
              fi_next_sqrt_price = next_sqrt_price\<rparr>))))
        else Ok \<lparr>fi_amount_left = amount_left, fi_output_amount = total_output_amount,
                 fi_next_sqrt_price = current_sqrt_price\<rparr>))"

fun base_to_quote_out_loop ::
  "(liquidity_point \<times> liquidity_point) list \<Rightarrow> u128 \<Rightarrow> u64 \<Rightarrow> u64 \<Rightarrow> (u128 \<times> u64 \<times> u64) result" where
  "base_to_quote_out_loop [] current_sqrt_price amount_left total_amount_in =
     Ok (current_sqrt_price, amount_left, total_amount_in)"
| "base_to_quote_out_loop ((c, upper) # cs) current_sqrt_price amount_left total_amount_in =
     (if unused c then
        base_to_quote_out_loop cs current_sqrt_price amount_left total_amount_in
      else if lp_sqrt_price c < current_sqrt_price then
        and_then (get_delta_amount_quote_unsigned_256 (lp_sqrt_price c) current_sqrt_price
          (lp_liquidity upper) Down) (\<lambda>max_amount_out.
        if ucast amount_left < max_amount_out then
          and_then (get_next_sqrt_price_from_output current_sqrt_price (lp_liquidity upper)
            amount_left True) (\<lambda>next_sqrt_price.
          and_then (get_delta_amount_base_unsigned next_sqrt_price current_sqrt_price
            (lp_liquidity upper) Up) (\<lambda>in_amount.
          and_then (safe_add total_amount_in in_amount) (\<lambda>total_amount_in.
          Ok (next_sqrt_price, 0, total_amount_in))))
        else
          and_then (get_delta_amount_base_unsigned (lp_sqrt_price c) current_sqrt_price
            (lp_liquidity upper) Up) (\<lambda>in_amount.
          and_then (safe_add total_amount_in in_amount) (\<lambda>total_amount_in.
          and_then (unwrap (ok_or (try_cast max_amount_out) TypeCastFailed)) (\<lambda>max_amount_out.
          and_then (safe_sub amount_left max_amount_out) (\<lambda>amount_left.
          base_to_quote_out_loop cs (lp_sqrt_price c) amount_left total_amount_in)))))
      else base_to_quote_out_loop cs current_sqrt_price amount_left total_amount_in)"

definition calculate_base_to_quote_from_amount_out ::
  "pool_state \<Rightarrow> pool_config \<Rightarrow> u64 \<Rightarrow> swap_amount_from_output result" where
  "calculate_base_to_quote_from_amount_out s cfg amount_out =
     (case cfg_curve cfg of
        [] \<Rightarrow> panic
      | c0 # _ \<Rightarrow>
        and_then (base_to_quote_out_loop (descending (cfg_curve cfg)) (pool_sqrt_price s) amount_out 0)
          (\<lambda>(current_sqrt_price, amount_left, total_amount_in).
        if amount_left \<noteq> 0 then
          and_then (get_delta_amount_quote_unsigned_256 (cfg_sqrt_start_price cfg) current_sqrt_price
            (lp_liquidity c0) Down) (\<lambda>max_amount_out.
          and_then (require (ucast amount_left \<le> max_amount_out) InsufficientLiquidity) (\<lambda>_.
          and_then (get_next_sqrt_price_from_output current_sqrt_price (lp_liquidity c0)
            amount_left True) (\<lambda>next_sqrt_price.
          and_then (require (next_sqrt_price \<ge> cfg_sqrt_start_price cfg) InsufficientLiquidity) (\<lambda>_.
          and_then (get_delta_amount_base_unsigned next_sqrt_price current_sqrt_price
            (lp_liquidity c0) Up) (\<lambda>in_amount.
          and_then (safe_add total_amount_in in_amount) (\<lambda>total_amount_in.
          Ok \<lparr>fo_amount_in = total_amount_in, fo_next_sqrt_price = next_sqrt_price\<rparr>))))))
        else Ok \<lparr>fo_amount_in = total_amount_in, fo_next_sqrt_price = current_sqrt_price\<rparr>))"

lemmas [eval] = accumulate_fee_def unused_def descending_def
  calculate_quote_to_base_from_amount_in_def calculate_quote_to_base_from_amount_out_def
  calculate_base_to_quote_from_amount_in_def calculate_base_to_quote_from_amount_out_def

end
