(* ===== verification/Pool_Swap.thy ===== *)
theory Pool_Swap
  imports Pool_State
begin

text \<open>
  The result of a swap in each of the three modes, and its effect on the pool
  (\<open>get_swap_result_from_*\<close>, \<open>apply_swap_result\<close> and \<open>update_*_swap\<close> of
  \<open>state/virtual_pool.rs\<close>).
\<close>

section \<open>The fee numerator of a swap\<close>

text \<open>
  The choice, made wherever a fee is charged, between the minimal fee of the
  first swap and the fee for the amount with or without the fee.
\<close>

definition fee_numerator_included ::
  "pool_state \<Rightarrow> pool_config \<Rightarrow> u64 \<Rightarrow> trade_direction \<Rightarrow> u64 \<Rightarrow> bool \<Rightarrow> u64 result" where
  "fee_numerator_included s cfg amt trade_direction current_point eligible_for_first_swap_with_min_fee =
     (if eligible_for_first_swap_with_min_fee
      then get_min_base_fee_numerator (cfg_pool_fees cfg)
      else get_total_fee_numerator_from_included_fee_amount (cfg_pool_fees cfg)
        (pool_volatility_tracker s) current_point (pool_activation_point s) amt trade_direction)"

definition fee_numerator_excluded ::
  "pool_state \<Rightarrow> pool_config \<Rightarrow> u64 \<Rightarrow> trade_direction \<Rightarrow> u64 \<Rightarrow> bool \<Rightarrow> u64 result" where
  "fee_numerator_excluded s cfg amt trade_direction current_point eligible_for_first_swap_with_min_fee =
     (if eligible_for_first_swap_with_min_fee
      then get_min_base_fee_numerator (cfg_pool_fees cfg)
      else get_total_fee_numerator_from_excluded_fee_amount (cfg_pool_fees cfg)
        (pool_volatility_tracker s) current_point (pool_activation_point s) amt trade_direction)"

text \<open>
  An amount that must remain after the fee, made into the amount with the fee,
  and the three shares of the fee (trading, protocol, referral).
\<close>

definition include_fee ::
  "pool_state \<Rightarrow> pool_config \<Rightarrow> u64 \<Rightarrow> fee_mode \<Rightarrow> trade_direction \<Rightarrow> u64 \<Rightarrow> bool
    \<Rightarrow> (u64 \<times> u64 \<times> u64 \<times> u64) result" where
  "include_fee s cfg amt mode trade_direction current_point eligible =
     and_then (fee_numerator_excluded s cfg amt trade_direction current_point eligible)
       (\<lambda>trade_fee_numerator.
     and_then (get_included_fee_amount trade_fee_numerator amt) (\<lambda>(included, fee_amount).
     and_then (split_fees fee_amount (has_referral mode)) (\<lambda>(trading, protocol, referral).
     Ok (included, trading, protocol, referral))))"

section \<open>Swap results\<close>

definition get_swap_result_from_exact_output ::
  "pool_state \<Rightarrow> pool_config \<Rightarrow> u64 \<Rightarrow> fee_mode \<Rightarrow> trade_direction \<Rightarrow> u64 \<Rightarrow> bool
    \<Rightarrow> swap_result2 result" where
  "get_swap_result_from_exact_output s cfg amount_out mode trade_direction current_point eligible =
     and_then
       (if fees_on_input mode then Ok (amount_out, 0, 0, 0)
        else include_fee s cfg amount_out mode trade_direction current_point eligible)
       (\<lambda>(included_fee_out_amount, trading, protocol, referral).
     and_then
       (case trade_direction of
          BaseToQuote \<Rightarrow> calculate_base_to_quote_from_amount_out s cfg included_fee_out_amount
        | QuoteToBase \<Rightarrow> calculate_quote_to_base_from_amount_out s cfg included_fee_out_amount)
       (\<lambda>res.
     and_then (require (fo_next_sqrt_price res \<le> cfg_migration_sqrt_price cfg) InsufficientLiquidity)
       (\<lambda>_.
     and_then
       (if fees_on_input mode
        then include_fee s cfg (fo_amount_in res) mode trade_direction current_point eligible
        else Ok (fo_amount_in res, trading, protocol, referral))
       (\<lambda>(included_fee_input_amount, trading, protocol, referral).
     Ok \<lparr>s2_included_fee_input_amount = included_fee_input_amount,
         s2_excluded_fee_input_amount = fo_amount_in res,
         s2_amount_left = 0,
         s2_output_amount = amount_out,
         s2_next_sqrt_price = fo_next_sqrt_price res,
         s2_trading_fee = trading, s2_protocol_fee = protocol, s2_referral_fee = referral\<rparr>))))"

definition swap_from_input ::
  "pool_state \<Rightarrow> pool_config \<Rightarrow> u64 \<Rightarrow> trade_direction \<Rightarrow> swap_amount_from_input result" where
  "swap_from_input s cfg actual_amount_in trade_direction =
     (case trade_direction of
        BaseToQuote \<Rightarrow> calculate_base_to_quote_from_amount_in s cfg actual_amount_in
      | QuoteToBase \<Rightarrow> calculate_quote_to_base_from_amount_in s cfg actual_amount_in
          (cfg_migration_sqrt_price cfg))"

definition get_swap_result_from_exact_input ::
  "pool_state \<Rightarrow> pool_config \<Rightarrow> u64 \<Rightarrow> fee_mode \<Rightarrow> trade_direction \<Rightarrow> u64 \<Rightarrow> bool
    \<Rightarrow> swap_result2 result" where
  "get_swap_result_from_exact_input s cfg amount_in mode trade_direction current_point eligible =
     and_then (fee_numerator_included s cfg amount_in trade_direction current_point eligible)
       (\<lambda>trade_fee_numerator.
     and_then
       (if fees_on_input mode
        then get_fee_on_amount trade_fee_numerator amount_in (has_referral mode)
        else Ok \<lparr>amount = amount_in, trading_fee = 0, protocol_fee = 0, referral_fee = 0\<rparr>)
       (\<lambda>on_input.
     and_then (swap_from_input s cfg (amount on_input) trade_direction) (\<lambda>res.
     and_then (require (fi_amount_left res = 0) InsufficientLiquidity) (\<lambda>_.
     and_then
       (if fees_on_input mode then Ok (on_input\<lparr>amount := fi_output_amount res\<rparr>)
        else get_fee_on_amount trade_fee_numerator (fi_output_amount res) (has_referral mode))
       (\<lambda>on_output.
     Ok \<lparr>s2_included_fee_input_amount = amount_in,
         s2_excluded_fee_input_amount = amount on_input,
         s2_amount_left = fi_amount_left res,
         s2_output_amount = amount on_output,
         s2_next_sqrt_price = fi_next_sqrt_price res,
         s2_trading_fee = trading_fee on_output, s2_protocol_fee = protocol_fee on_output,
         s2_referral_fee = referral_fee on_output\<rparr>)))))"

definition get_swap_result_from_partial_input ::
  "pool_state \<Rightarrow> pool_config \<Rightarrow> u64 \<Rightarrow> fee_mode \<Rightarrow> trade_direction \<Rightarrow> u64 \<Rightarrow> bool
    \<Rightarrow> swap_result2 result" where
  "get_swap_result_from_partial_input s cfg amount_in mode trade_direction current_point eligible =
     and_then (fee_numerator_included s cfg amount_in trade_direction current_point eligible)
       (\<lambda>trade_fee_numerator.
     and_then
       (if fees_on_input mode
        then get_fee_on_amount trade_fee_numerator amount_in (has_referral mode)
        else Ok \<lparr>amount = amount_in, trading_fee = 0, protocol_fee = 0, referral_fee = 0\<rparr>)
       (\<lambda>on_input.
     and_then (swap_from_input s cfg (amount on_input) trade_direction) (\<lambda>res.
     and_then
       (if fi_amount_left res \<noteq> 0 then
          and_then (safe_sub (amount on_input) (fi_amount_left res)) (\<lambda>actual_amount_in.
          if fees_on_input mode then
            and_then (include_fee s cfg actual_amount_in mode trade_direction current_point eligible)
              (\<lambda>(included, trading, protocol, referral).
            Ok (included, \<lparr>amount = actual_amount_in, trading_fee = trading,
                           protocol_fee = protocol, referral_fee = referral\<rparr>))
          else Ok (actual_amount_in, on_input\<lparr>amount := actual_amount_in\<rparr>))
        else Ok (amount_in, on_input))
       (\<lambda>(included_fee_input_amount, on_input).
     and_then
       (if fees_on_input mode then Ok (on_input\<lparr>amount := fi_output_amount res\<rparr>)
        else get_fee_on_amount trade_fee_numerator (fi_output_amount res) (has_referral mode))
       (\<lambda>on_output.
     Ok \<lparr>s2_included_fee_input_amount = included_fee_input_amount,
         s2_excluded_fee_input_amount = amount on_input,
         s2_amount_left = fi_amount_left res,
         s2_output_amount = amount on_output,
         s2_next_sqrt_price = fi_next_sqrt_price res,
         s2_trading_fee = trading_fee on_output, s2_protocol_fee = protocol_fee on_output,
         s2_referral_fee = referral_fee on_output\<rparr>)))))"

definition get_swap_result :: "swap_result2 \<Rightarrow> swap_result" where
  "get_swap_result r =
     \<lparr>sr_actual_input_amount = s2_excluded_fee_input_amount r,
      sr_output_amount = s2_output_amount r, sr_next_sqrt_price = s2_next_sqrt_price r,
      sr_trading_fee = s2_trading_fee r, sr_protocol_fee = s2_protocol_fee r,
      sr_referral_fee = s2_referral_fee r\<rparr>"

definition get_included_fee_amount_in :: "swap_result \<Rightarrow> bool \<Rightarrow> u64 result" where
  "get_included_fee_amount_in r fee_on_input =
     (if fee_on_input then
        and_then (safe_add (sr_actual_input_amount r) (sr_trading_fee r)) (\<lambda>a.
        and_then (safe_add a (sr_protocol_fee r)) (\<lambda>b.
        safe_add b (sr_referral_fee r)))
      else Ok (sr_actual_input_amount r))"

section \<open>Effect on the pool\<close>

definition update_pre_swap :: "pool_state \<Rightarrow> pool_config \<Rightarrow> u64 \<Rightarrow> pool_state result" where
  "update_pre_swap s cfg current_timestamp =
     (if is_dynamic_fee_enable (pf_dynamic_fee (cfg_pool_fees cfg)) then
        and_then (update_references (pool_volatility_tracker s) (pf_dynamic_fee (cfg_pool_fees cfg))
          (pool_sqrt_price s) current_timestamp) (\<lambda>vt.
        Ok (s\<lparr>pool_volatility_tracker := vt\<rparr>))
      else Ok s)"

definition update_post_swap :: "pool_state \<Rightarrow> pool_config \<Rightarrow> u128 \<Rightarrow> u64 \<Rightarrow> pool_state result" where
  "update_post_swap s cfg old_sqrt_price current_timestamp =
     (let df = pf_dynamic_fee (cfg_pool_fees cfg) in
      if is_dynamic_fee_enable df then
        and_then (update_volatility_accumulator (pool_volatility_tracker s) df (pool_sqrt_price s))
          (\<lambda>vt.
        and_then (get_delta_bin_id (df_bin_step_u128 df) old_sqrt_price (pool_sqrt_price s))
          (\<lambda>delta_price.
        Ok (s\<lparr>pool_volatility_tracker :=
              (if delta_price > 0 then vt\<lparr>vt_last_update_timestamp := current_timestamp\<rparr>
               else vt)\<rparr>)))
      else Ok s)"

definition collect_swap_fees ::
  "pool_state \<Rightarrow> pool_config \<Rightarrow> swap_result \<Rightarrow> fee_mode \<Rightarrow> bool \<Rightarrow> pool_state result" where
  "collect_swap_fees s cfg r mode is_virtual =
     and_then (split_partner_and_creator_fee cfg (sr_trading_fee r)) (\<lambda>split.
     if fees_on_base_token mode then
       and_then (safe_add (pool_partner_base_fee s) (split_partner_fee split)) (\<lambda>partner.
       and_then (safe_add (pool_protocol_base_fee s) (sr_protocol_fee r)) (\<lambda>protocol.
       and_then (safe_add (pool_creator_base_fee s) (split_creator_fee split)) (\<lambda>creator.
       and_then (accumulate_fee (pool_metrics_of s) (sr_protocol_fee r) (sr_trading_fee r) True)
         (\<lambda>m.
       Ok (s\<lparr>pool_partner_base_fee := partner, pool_protocol_base_fee := protocol,
             pool_creator_base_fee := creator, pool_metrics_of := m\<rparr>)))))
     else if \<not> is_virtual then
       and_then (safe_add (pool_partner_quote_fee s) (split_partner_fee split)) (\<lambda>partner.
       and_then (safe_add (pool_protocol_quote_fee s) (sr_protocol_fee r)) (\<lambda>protocol.
       and_then (safe_add (pool_creator_quote_fee s) (split_creator_fee split)) (\<lambda>creator.
       and_then (accumulate_fee (pool_metrics_of s) (sr_protocol_fee r) (sr_trading_fee r) False)
         (\<lambda>m.
       Ok (s\<lparr>pool_partner_quote_fee := partner, pool_protocol_quote_fee := protocol,
             pool_creator_quote_fee := creator, pool_metrics_of := m\<rparr>)))))
     else Ok s)"

definition apply_swap_result_internal ::
  "pool_state \<Rightarrow> pool_config \<Rightarrow> swap_result \<Rightarrow> fee_mode \<Rightarrow> trade_direction \<Rightarrow> u64 \<Rightarrow> bool
    \<Rightarrow> pool_state result" where
  "apply_swap_result_internal s cfg r mode trade_direction current_timestamp is_virtual =
     (let old_sqrt_price = pool_sqrt_price s;
          s = s\<lparr>pool_sqrt_price := sr_next_sqrt_price r\<rparr> in
     and_then (collect_swap_fees s cfg r mode is_virtual) (\<lambda>s.
     and_then
       (if fees_on_input mode then Ok (sr_output_amount r)
        else
          and_then (safe_add (sr_output_amount r) (sr_trading_fee r)) (\<lambda>a.
          and_then (safe_add a (sr_protocol_fee r)) (\<lambda>b.
          safe_add b (sr_referral_fee r)))) (\<lambda>actual_output_amount.
     and_then
       (if trade_direction = BaseToQuote then
          and_then (safe_add (pool_base_reserve s) (sr_actual_input_amount r)) (\<lambda>base.
          and_then (safe_sub (pool_quote_reserve s) actual_output_amount) (\<lambda>quote.
          Ok (s\<lparr>pool_base_reserve := base, pool_quote_reserve := quote\<rparr>)))
        else if is_virtual then
          and_then (safe_add (pool_virtual_quote_reserve s) (sr_actual_input_amount r)) (\<lambda>virtual.
          and_then (safe_sub (pool_base_reserve s) actual_output_amount) (\<lambda>base.
          Ok (s\<lparr>pool_virtual_quote_reserve := virtual, pool_base_reserve := base\<rparr>)))
        else
          and_then (safe_add (pool_quote_reserve s) (sr_actual_input_amount r)) (\<lambda>quote.
          and_then (safe_sub (pool_base_reserve s) actual_output_amount) (\<lambda>base.
          Ok (s\<lparr>pool_quote_reserve := quote, pool_base_reserve := base\<rparr>)))) (\<lambda>s.
     and_then (update_post_swap s cfg old_sqrt_price current_timestamp) (\<lambda>s.
     Ok (s\<lparr>pool_has_swap := 1\<rparr>))))))"

definition apply_swap_result ::
  "pool_state \<Rightarrow> pool_config \<Rightarrow> swap_result \<Rightarrow> fee_mode \<Rightarrow> trade_direction \<Rightarrow> u64 \<Rightarrow> pool_state result" where
  "apply_swap_result s cfg r mode trade_direction current_timestamp =
     apply_swap_result_internal s cfg r mode trade_direction current_timestamp False"

definition apply_virtual_swap_result ::
  "pool_state \<Rightarrow> pool_config \<Rightarrow> swap_result \<Rightarrow> fee_mode \<Rightarrow> u64 \<Rightarrow> pool_state result" where
  "apply_virtual_swap_result s cfg r mode current_timestamp =
     apply_swap_result_internal s cfg r mode QuoteToBase current_timestamp True"

definition is_first_swap :: "pool_state \<Rightarrow> bool" where
  "is_first_swap s \<longleftrightarrow> pool_has_swap s = 0"

lemmas [eval] = fee_numerator_included_def fee_numerator_excluded_def include_fee_def
  get_swap_result_from_exact_output_def swap_from_input_def get_swap_result_from_exact_input_def
  get_swap_result_from_partial_input_def get_swap_result_def get_included_fee_amount_in_def
  update_pre_swap_def update_post_swap_def collect_swap_fees_def apply_swap_result_internal_def
  apply_swap_result_def apply_virtual_swap_result_def is_first_swap_def

end
