(* ===== verification/Curve_Value.thy ===== *)
theory Curve_Value
  imports Pool_Swap
begin

text \<open>
  The abstract curve: what the quote and the base token that a curve holds between
  its start and a price are worth as real numbers, without any rounding.  A swap
  is measured against the difference of these values at its two prices; the
  lemmas give the differences segment by segment, in the two orders in which the
  loops visit the segments.
\<close>

abbreviation price :: "liquidity_point \<Rightarrow> nat" where "price c \<equiv> unat (lp_sqrt_price c)"
abbreviation depth :: "liquidity_point \<Rightarrow> nat" where "depth c \<equiv> unat (lp_liquidity c)"

lemma unused_iff: "unused c \<longleftrightarrow> price c = 0 \<or> depth c = 0"
  by (simp add: unused_def unat_eq_0)

section \<open>Values of a curve\<close>

fun quote_value :: "nat \<Rightarrow> liquidity_point list \<Rightarrow> nat \<Rightarrow> real" where
  "quote_value lo [] p = 0"
| "quote_value lo (c # cs) p =
     (if unused c then 0
      else quote_between (depth c) lo (max lo (min (price c) p)) + quote_value (price c) cs p)"

fun base_value :: "nat \<Rightarrow> liquidity_point list \<Rightarrow> nat \<Rightarrow> real" where
  "base_value lo [] p = 0"
| "base_value lo (c # cs) p =
     (if unused c then 0
      else base_between (depth c) lo (max lo (min (price c) p)) + base_value (price c) cs p)"

text \<open>
  A well formed curve: from the start price on the prices of the used points
  increase, and every point after the first unused one is unused.
\<close>

fun curve_ok :: "nat \<Rightarrow> liquidity_point list \<Rightarrow> bool" where
  "curve_ok lo [] \<longleftrightarrow> True"
| "curve_ok lo (c # cs) \<longleftrightarrow>
     (if unused c then list_all unused cs else lo < price c \<and> curve_ok (price c) cs)"

fun curve_top :: "nat \<Rightarrow> liquidity_point list \<Rightarrow> nat" where
  "curve_top lo [] = lo"
| "curve_top lo (c # cs) = (if unused c then lo else curve_top (price c) cs)"

lemma curve_top_ge: "curve_ok lo cs \<Longrightarrow> lo \<le> curve_top lo cs"
  by (induction lo cs rule: curve_ok.induct) (auto intro: less_imp_le order_trans)

lemma value_at_start:
  assumes "curve_ok lo cs" "p \<le> lo"
  shows "quote_value lo cs p = 0" "base_value lo cs p = 0"
  using assms by (induction lo cs rule: curve_ok.induct) (auto simp: max_def min_def)

lemma curve_ok_price_le: "curve_ok lo cs \<Longrightarrow> c \<in> set cs \<Longrightarrow> \<not> unused c \<Longrightarrow> lo \<le> price c"
  by (induction lo cs rule: curve_ok.induct) (auto simp: list_all_iff split: if_splits)

text \<open>On the first segment, and beyond it.\<close>

lemma value_first:
  assumes "\<not> unused c" "curve_ok lo (c # cs)" "lo \<le> p" "p \<le> q" "q \<le> price c"
  shows "quote_value lo (c # cs) q - quote_value lo (c # cs) p = quote_between (depth c) p q"
    and "base_value lo (c # cs) q - base_value lo (c # cs) p = base_between (depth c) p q"
  using assms quote_between_add [of "depth c" lo p q] base_between_add [of "depth c" lo p q]
  by (auto simp: value_at_start max_def min_def)

lemma value_rest:
  assumes "\<not> unused c" "price c \<le> p" "price c \<le> q"
  shows "quote_value lo (c # cs) q - quote_value lo (c # cs) p
      = quote_value (price c) cs q - quote_value (price c) cs p"
    and "base_value lo (c # cs) q - base_value lo (c # cs) p
      = base_value (price c) cs q - base_value (price c) cs p"
  using assms by (auto simp: max_def min_def)

lemma quote_value_mono: "p \<le> q \<Longrightarrow> quote_value lo cs p \<le> quote_value lo cs q"
  by (induction lo cs p rule: quote_value.induct)
    (auto intro!: add_mono quote_between_mono max.mono min.mono)

lemma base_value_mono: "0 < lo \<Longrightarrow> p \<le> q \<Longrightarrow> base_value lo cs p \<le> base_value lo cs q"
  by (induction lo cs p rule: base_value.induct)
    (auto simp: unused_iff intro!: add_mono base_between_mono max.mono min.mono)

lemma base_between_strict: "0 < L \<Longrightarrow> 0 < p \<Longrightarrow> p < q \<Longrightarrow> 0 < base_between L p q"
  unfolding base_between_def by (simp add: divide_strict_left_mono)

lemma quote_between_strict: "0 < L \<Longrightarrow> p < q \<Longrightarrow> 0 < quote_between L p q"
  unfolding quote_between_def by simp

text \<open>Every step of the price inside the curve takes some base and some quote token.\<close>

lemma value_strict:
  assumes "curve_ok lo cs" "0 < lo" "lo \<le> p" "p < q" "p < curve_top lo cs"
  shows "quote_value lo cs p < quote_value lo cs q \<and> base_value lo cs p < base_value lo cs q"
  using assms
proof (induction lo cs rule: curve_ok.induct)
  case (1 lo)
  then show ?case by simp
next
  case (2 lo c cs)
  have u: "\<not> unused c" using "2.prems" by (auto split: if_splits)
  show ?case
  proof (cases "p < price c")
    case True
    let ?m = "min q (price c)"
    have "lo < price c" "0 < depth c" "0 < p" using "2.prems" u by (auto simp: unused_iff)
    then have "0 < quote_between (depth c) p ?m" "0 < base_between (depth c) p ?m"
      using True "2.prems"(4) by (auto intro: base_between_strict quote_between_strict)
    moreover note value_first [OF u "2.prems"(1,3), of ?m]
    moreover have "p \<le> ?m" using True "2.prems"(4) by simp
    moreover have "quote_value lo (c # cs) ?m \<le> quote_value lo (c # cs) q"
      "base_value lo (c # cs) ?m \<le> base_value lo (c # cs) q"
      using "2.prems"(2) by (simp_all add: quote_value_mono base_value_mono del: quote_value.simps base_value.simps)
    ultimately show ?thesis by (smt (verit) min.cobounded2)
  next
    case False
    then have "quote_value (price c) cs p < quote_value (price c) cs q
        \<and> base_value (price c) cs p < base_value (price c) cs q"
      using "2.prems" u by (intro "2.IH") (auto simp: unused_iff)
    then show ?thesis
      using value_rest [OF u, of p q lo cs] False "2.prems"(4) by simp
  qed
qed

text \<open>On a segment between two neighbouring points.\<close>

lemma value_pair:
  assumes "curve_ok lo cs" "(c, d) \<in> set (zip cs (tl cs))" "\<not> unused c" "\<not> unused d"
    "price c \<le> p" "p \<le> q" "q \<le> price d"
  shows "quote_value lo cs q - quote_value lo cs p = quote_between (depth d) p q
    \<and> base_value lo cs q - base_value lo cs p = base_between (depth d) p q"
  using assms
proof (induction lo cs rule: curve_ok.induct)
  case (1 lo)
  then show ?case by simp
next
  case (2 lo x cs)
  show ?case
  proof (cases cs)
    case Nil
    then show ?thesis using "2.prems"(2) by simp
  next
    case (Cons y ys)
    then consider "c = x" "d = y" | "(c, d) \<in> set (zip cs (tl cs))" using "2.prems"(2) by auto
    then show ?thesis
    proof cases
      case 1
      then have ok: "curve_ok (price x) (y # ys)" using "2.prems" Cons by auto
      show ?thesis
        using value_rest [of x p q lo cs] value_first [of y "price x" ys p q] ok "2.prems" 1 Cons
        by simp
    next
      case m: 2
      have cx: "c \<in> set cs" using m set_zip_leftD by fastforce
      have u: "\<not> unused x" using cx "2.prems" by (auto simp: list_all_iff)
      have ok: "curve_ok (price x) cs" using "2.prems"(1) u by simp
      have "price x \<le> price c"
        using ok cx "2.prems"(3) by (rule curve_ok_price_le)
      then show ?thesis
        using value_rest [OF u, of p q lo cs] "2.IH" [OF u ok m] "2.prems" by simp
    qed
  qed
qed

end
