(* ===== verification/Swap_Loops.thy ===== *)
theory Swap_Loops
  imports Curve_Value
begin

text \<open>
  The four loops over the curve are fair to the pool: whatever segments they
  cross, the quote or base token that is paid is at least the difference of the
  curve's values at the two prices, and what the trader gets is at most that
  difference.
\<close>

section \<open>Steps on one segment\<close>

definition buy_step :: "nat \<Rightarrow> nat \<Rightarrow> nat \<Rightarrow> real \<Rightarrow> real \<Rightarrow> bool" where
  "buy_step L p q paid got \<longleftrightarrow> p \<le> q \<and> quote_between L p q \<le> paid \<and> got \<le> base_between L p q"

definition sell_step :: "nat \<Rightarrow> nat \<Rightarrow> nat \<Rightarrow> real \<Rightarrow> real \<Rightarrow> bool" where
  "sell_step L p q paid got \<longleftrightarrow> q \<le> p \<and> base_between L q p \<le> paid \<and> got \<le> quote_between L q p"

lemma ucast_less: "ucast (a :: u64) < (m :: u256) \<longleftrightarrow> unat a < unat m"
  by (simp add: word_less_nat_alt)

lemma buy_in_partial:
  assumes "get_delta_amount_quote_unsigned_256 p t L Up = Inr m" "ucast a < m"
    "get_next_sqrt_price_from_input p L a False = Inr q"
    "get_delta_amount_base_unsigned p q L Down = Inr z"
  shows "buy_step (unat L) (unat p) (unat q) (real (unat a)) (real (unat z)) \<and> unat q \<le> unat t"
  using assms next_quote_in_bound [of p L a q] next_quote_in_target [of p t L m a q]
    base_down_le [of p q L z]
  by (auto simp: buy_step_def next_from_input_cases ucast_less)

lemma buy_in_full:
  assumes "get_delta_amount_quote_unsigned_256 p t L Up = Inr m"
    "get_delta_amount_base_unsigned p t L Down = Inr z" "unat m' = unat m"
  shows "buy_step (unat L) (unat p) (unat t) (real (unat m')) (real (unat z))"
  using assms quote_up_ge [of p t L m] base_down_le [of p t L z]
  by (auto simp: buy_step_def quote_256_Ok)

lemma quote_unsigned_up_ge:
  "get_delta_amount_quote_unsigned l u L Up = Inr z \<Longrightarrow>
    quote_between (unat L) (unat l) (unat u) \<le> real (unat z)"
  using div_round_real(2) [of "2 ^ 128" "unat L * (unat u - unat l)"]
  by (auto simp: quote_unsigned_Ok quote_between_frac simp del: of_nat_mult)

lemma base_unsigned_up_ge:
  "get_delta_amount_base_unsigned l u L Up = Inr z \<Longrightarrow>
    base_between (unat L) (unat l) (unat u) \<le> real (unat z)"
  using div_round_real(2) [of "unat l * unat u" "unat L * (unat u - unat l)"]
  by (auto simp: base_unsigned_Ok base_between_frac simp del: of_nat_mult)

lemma base_256_down_le:
  "get_delta_amount_base_unsigned_256 l u L Down = Inr z \<Longrightarrow>
    real (unat z) \<le> base_between (unat L) (unat l) (unat u)"
  using div_round_real(1) [of "unat l * unat u" "unat L * (unat u - unat l)"]
  by (auto simp: base_256_Ok base_between_frac simp del: of_nat_mult)

lemma quote_256_down_le:
  "get_delta_amount_quote_unsigned_256 l u L Down = Inr z \<Longrightarrow>
    real (unat z) \<le> quote_between (unat L) (unat l) (unat u)"
  using div_round_real(1) [of "2 ^ 128" "unat L * (unat u - unat l)"]
  by (auto simp: quote_256_Ok quote_between_frac simp del: of_nat_mult)

lemma buy_out_partial:
  assumes "get_delta_amount_base_unsigned_256 p t L Down = Inr m" "ucast a < m"
    "get_next_sqrt_price_from_output p L a False = Inr q"
    "get_delta_amount_quote_unsigned p q L Up = Inr z"
  shows "buy_step (unat L) (unat p) (unat q) (real (unat z)) (real (unat a)) \<and> unat q \<le> unat t"
  using assms next_base_out_bound [of p L a q] next_base_out_target [of p t L m a q]
    quote_unsigned_up_ge [of p q L z]
  by (auto simp: buy_step_def next_from_output_cases ucast_less)

lemma buy_out_full:
  assumes "get_delta_amount_base_unsigned_256 p t L Down = Inr m"
    "get_delta_amount_quote_unsigned p t L Up = Inr z" "unat m' = unat m"
  shows "buy_step (unat L) (unat p) (unat t) (real (unat z)) (real (unat m'))"
  using assms quote_unsigned_up_ge [of p t L z] base_256_down_le [of p t L m]
  by (auto simp: buy_step_def quote_unsigned_Ok)

lemma sell_in_partial:
  assumes "get_delta_amount_base_unsigned_256 t p L Up = Inr m" "ucast a < m"
    "get_next_sqrt_price_from_input p L a True = Inr q"
    "get_delta_amount_quote_unsigned q p L Down = Inr z"
  shows "sell_step (unat L) (unat p) (unat q) (real (unat a)) (real (unat z)) \<and> unat t \<le> unat q"
  using assms next_base_in_bound [of p L a q] next_base_in_target [of t p L m a q]
    quote_down_le [of q p L z]
  by (auto simp: sell_step_def next_from_input_cases ucast_less)

lemma sell_in_full:
  assumes "get_delta_amount_base_unsigned_256 t p L Up = Inr m"
    "get_delta_amount_quote_unsigned t p L Down = Inr z" "unat m' = unat m"
  shows "sell_step (unat L) (unat p) (unat t) (real (unat m')) (real (unat z))"
  using assms base_up_ge [of t p L m] quote_down_le [of t p L z]
  by (auto simp: sell_step_def base_256_Ok)

lemma sell_out_partial:
  assumes "get_delta_amount_quote_unsigned_256 t p L Down = Inr m" "ucast a < m"
    "get_next_sqrt_price_from_output p L a True = Inr q"
    "get_delta_amount_base_unsigned q p L Up = Inr z"
  shows "sell_step (unat L) (unat p) (unat q) (real (unat z)) (real (unat a)) \<and> unat t \<le> unat q"
  using assms next_quote_out_bound [of p L a q] next_quote_out_target [of t p L m a q]
    base_unsigned_up_ge [of q p L z]
  by (auto simp: sell_step_def next_from_output_cases ucast_less)

lemma sell_out_full:
  assumes "get_delta_amount_quote_unsigned_256 t p L Down = Inr m"
    "get_delta_amount_base_unsigned t p L Up = Inr z" "unat m' = unat m"
  shows "sell_step (unat L) (unat p) (unat t) (real (unat z)) (real (unat m'))"
  using assms base_unsigned_up_ge [of t p L z] quote_256_down_le [of t p L m]
  by (auto simp: sell_step_def quote_256_Ok)

section \<open>Fair trades on a whole curve\<close>

definition fair_buy :: "nat \<Rightarrow> liquidity_point list \<Rightarrow> nat \<Rightarrow> nat \<Rightarrow> real \<Rightarrow> real \<Rightarrow> bool" where
  "fair_buy lo cs p q paid got \<longleftrightarrow> p \<le> q
     \<and> quote_value lo cs q - quote_value lo cs p \<le> paid
     \<and> got \<le> base_value lo cs q - base_value lo cs p"

definition fair_sell :: "nat \<Rightarrow> liquidity_point list \<Rightarrow> nat \<Rightarrow> nat \<Rightarrow> real \<Rightarrow> real \<Rightarrow> bool" where
  "fair_sell lo cs p q paid got \<longleftrightarrow> q \<le> p
     \<and> base_value lo cs p - base_value lo cs q \<le> paid
     \<and> got \<le> quote_value lo cs p - quote_value lo cs q"

lemma fair_buy_refl: "fair_buy lo cs p p 0 0"
  by (simp add: fair_buy_def)

lemma fair_sell_refl: "fair_sell lo cs p p 0 0"
  by (simp add: fair_sell_def)

lemma fair_buy_first:
  assumes "\<not> unused c" "curve_ok lo (c # cs)" "lo \<le> p" "q \<le> price c"
    and "buy_step (depth c) p q paid got"
  shows "fair_buy lo (c # cs) p q paid got"
  using assms value_first [OF assms(1-3), of q] by (simp add: fair_buy_def buy_step_def del: quote_value.simps base_value.simps)

lemma fair_buy_rest:
  assumes "\<not> unused c" "price c \<le> p" "fair_buy (price c) cs p q paid got"
  shows "fair_buy lo (c # cs) p q paid got"
  using assms value_rest [OF assms(1,2), of q lo cs] by (auto simp: fair_buy_def simp del: quote_value.simps base_value.simps)

lemma fair_buy_trans:
  assumes "fair_buy lo cs p q a b" "fair_buy lo cs q r a' b'"
  shows "fair_buy lo cs p r (a + a') (b + b')"
  using assms by (auto simp: fair_buy_def)

lemma fair_sell_trans:
  assumes "fair_sell lo cs p q a b" "fair_sell lo cs q r a' b'"
  shows "fair_sell lo cs p r (a + a') (b + b')"
  using assms by (auto simp: fair_sell_def)

lemma fair_buy_through:
  assumes "\<not> unused c" "curve_ok lo (c # cs)" "lo \<le> p"
    and "buy_step (depth c) p (price c) a b" "fair_buy (price c) cs (price c) r a' b'"
  shows "fair_buy lo (c # cs) p r (a + a') (b + b')"
  using fair_buy_trans [OF fair_buy_first [OF assms(1-3) order_refl assms(4)]
      fair_buy_rest [OF assms(1) order_refl assms(5)]] .

section \<open>Buying\<close>

lemma quote_to_base_in_loop_idle:
  assumes "\<not> p < stop"
  shows "quote_to_base_in_loop stop cs p a z
    = Inr \<lparr>fi_amount_left = a, fi_output_amount = z, fi_next_sqrt_price = p\<rparr>"
  using assms by (induction cs) (auto simp: Let_def)

lemma quote_to_base_in_loop_fair:
  assumes "quote_to_base_in_loop stop cs p a z = Inr r" "curve_ok lo cs" "0 < lo" "lo \<le> unat p"
  shows "fair_buy lo cs (unat p) (unat (fi_next_sqrt_price r))
      (real (unat a) - real (unat (fi_amount_left r))) (real (unat (fi_output_amount r)) - real (unat z))
    \<and> (unat p \<le> unat stop \<longrightarrow> unat (fi_next_sqrt_price r) \<le> unat stop)
    \<and> (unat p \<le> curve_top lo cs \<longrightarrow> unat (fi_next_sqrt_price r) \<le> curve_top lo cs)"
  using assms
proof (induction cs arbitrary: lo p a z)
  case Nil
  then show ?case by (auto simp: fair_buy_refl)
next
  case (Cons c cs)
  let ?t = "min stop (lp_sqrt_price c)"
  have ut: "unat ?t = min (unat stop) (price c)" by (simp add: min_def word_le_nat_alt)
  consider (idle) "unused c \<or> \<not> p < stop" | (skip) "\<not> unused c" "lp_sqrt_price c \<le> p" "p < stop"
    | (enter) "\<not> unused c" "p < ?t" by fastforce
  then show ?case
  proof cases
    case idle
    then show ?thesis using Cons.prems quote_to_base_in_loop_idle [of p stop "c # cs" a z]
      by (cases "unused c") (auto simp: fair_buy_refl)
  next
    case skip
    then have ok: "curve_ok (price c) cs" "lo < price c" "price c \<le> unat p" "0 < price c"
      using Cons.prems by (auto simp: word_le_nat_alt)
    have "quote_to_base_in_loop stop cs p a z = Inr r"
      using Cons.prems(1) skip by (simp add: Let_def leD)
    from Cons.IH [OF this ok(1,4,3)] show ?thesis
      using skip ok fair_buy_rest [OF skip(1) ok(3)] by simp
  next
    case enter
    have u: "price c > unat p" "unat stop > unat p"
      using enter(2) ut by (simp_all add: word_less_nat_alt)
    have top_price: "price c \<le> curve_top lo (c # cs)"
      using Cons.prems(2) enter(1) curve_top_ge [of "price c" cs] by simp
    obtain m where m: "get_delta_amount_quote_unsigned_256 p ?t (lp_liquidity c) Up = Inr m"
      using Cons.prems(1) enter by (auto simp: Let_def)
    show ?thesis
    proof (cases "ucast a < m")
      case True
      then obtain q y w where q: "get_next_sqrt_price_from_input p (lp_liquidity c) a False = Inr q"
        "get_delta_amount_base_unsigned p q (lp_liquidity c) Down = Inr y" "safe_add z y = Inr w"
        "r = \<lparr>fi_amount_left = 0, fi_output_amount = w, fi_next_sqrt_price = q\<rparr>"
        using Cons.prems(1) enter m by (auto simp: Let_def simp del: safe_add_Ok)
      have st: "buy_step (depth c) (unat p) (unat q) (real (unat a)) (real (unat y))" "unat q \<le> unat ?t"
        using buy_in_partial [OF m True q(1,2)] by blast+
      have "fair_buy lo (c # cs) (unat p) (unat q) (real (unat a)) (real (unat y))"
        using enter(1) Cons.prems(2,4) st ut by (intro fair_buy_first) simp_all
      then show ?thesis using st(2) ut q(3,4) top_price by simp
    next
      case False
      then obtain y w m' b where q: "get_delta_amount_base_unsigned p ?t (lp_liquidity c) Down = Inr y"
        "safe_add z y = Inr w" "try_cast m = Some m'" "safe_sub a m' = Inr b"
        "(if ?t = stop then Inr \<lparr>fi_amount_left = b, fi_output_amount = w, fi_next_sqrt_price = ?t\<rparr>
          else quote_to_base_in_loop stop cs ?t b w) = Inr r"
        using Cons.prems(1) enter m
        by (auto simp: Let_def simp del: safe_add_Ok safe_sub_Ok try_cast_Some split: if_splits)
      have "unat m' = unat m" using q(3) by simp
      note st = buy_in_full [OF m q(1) this]
      have sums: "real (unat w) = real (unat z) + real (unat y)" "real (unat b) = real (unat a) - real (unat m')"
        using q(2,4) by auto
      show ?thesis
      proof (cases "?t = stop")
        case True
        have "fair_buy lo (c # cs) (unat p) (unat ?t) (real (unat m')) (real (unat y))"
          using enter(1) Cons.prems(2,4) st ut by (intro fair_buy_first) simp_all
        moreover have "unat ?t \<le> curve_top lo (c # cs)" using ut top_price by linarith
        moreover have "r = \<lparr>fi_amount_left = b, fi_output_amount = w, fi_next_sqrt_price = ?t\<rparr>"
          using q(5) True by auto
        ultimately show ?thesis using True sums by simp
      next
        case ne: False
        then have t: "?t = lp_sqrt_price c" by (simp add: min_def split: if_splits)
        have "quote_to_base_in_loop stop cs (lp_sqrt_price c) b w = Inr r" using q(5) ne t by simp
        moreover have "curve_ok (price c) cs" "0 < price c" using Cons.prems(2) enter(1) u by simp_all
        ultimately have ih: "fair_buy (price c) cs (price c) (unat (fi_next_sqrt_price r))
            (real (unat b) - real (unat (fi_amount_left r))) (real (unat (fi_output_amount r)) - real (unat w))"
          "price c \<le> unat stop \<Longrightarrow> unat (fi_next_sqrt_price r) \<le> unat stop"
          "price c \<le> curve_top (price c) cs \<Longrightarrow> unat (fi_next_sqrt_price r) \<le> curve_top (price c) cs"
          using Cons.IH [of "lp_sqrt_price c" b w "price c"] by auto
        have "price c \<le> unat stop" using t ut by simp
        moreover have "price c \<le> curve_top (price c) cs" using top_price enter(1) by simp
        moreover have "fair_buy lo (c # cs) (unat p) (unat (fi_next_sqrt_price r))
            (real (unat m') + (real (unat b) - real (unat (fi_amount_left r))))
            (real (unat y) + (real (unat (fi_output_amount r)) - real (unat w)))"
          using st ih(1) Cons.prems(2,4) enter(1) unfolding t by (intro fair_buy_through) simp_all
        ultimately show ?thesis using ih(2,3) sums enter(1) by simp
      qed
    qed
  qed
qed

lemma quote_to_base_out_loop_fair:
  assumes "quote_to_base_out_loop cs p a z = Inr (q, a', z')" "curve_ok lo cs" "0 < lo" "lo \<le> unat p"
  shows "fair_buy lo cs (unat p) (unat q)
      (real (unat z') - real (unat z)) (real (unat a) - real (unat a'))
    \<and> (unat p \<le> curve_top lo cs \<longrightarrow> unat q \<le> curve_top lo cs)"
  using assms
proof (induction cs arbitrary: lo p a z)
  case Nil
  then show ?case by (auto simp: fair_buy_refl)
next
  case (Cons c cs)
  consider (unused) "unused c" | (skip) "\<not> unused c" "lp_sqrt_price c \<le> p"
    | (enter) "\<not> unused c" "p < lp_sqrt_price c" by fastforce
  then show ?case
  proof cases
    case unused
    then show ?thesis using Cons.prems by (auto simp: fair_buy_refl)
  next
    case skip
    then have ok: "curve_ok (price c) cs" "lo < price c" "price c \<le> unat p" "0 < price c"
      using Cons.prems by (auto simp: word_le_nat_alt)
    have "quote_to_base_out_loop cs p a z = Inr (q, a', z')" using Cons.prems(1) skip by (simp add: leD)
    from Cons.IH [OF this ok(1,4,3)] show ?thesis
      using skip ok fair_buy_rest [OF skip(1) ok(3)] by simp
  next
    case enter
    have u: "price c > unat p" using enter(2) by (simp add: word_less_nat_alt)
    have top_price: "price c \<le> curve_top lo (c # cs)"
      using Cons.prems(2) enter(1) curve_top_ge [of "price c" cs] by simp
    obtain m where m: "get_delta_amount_base_unsigned_256 p (lp_sqrt_price c) (lp_liquidity c) Down = Inr m"
      using Cons.prems(1) enter by auto
    show ?thesis
    proof (cases "ucast a < m")
      case True
      then obtain y where y: "get_next_sqrt_price_from_output p (lp_liquidity c) a False = Inr q"
        "get_delta_amount_quote_unsigned p q (lp_liquidity c) Up = Inr y" "safe_add z y = Inr z'" "a' = 0"
        using Cons.prems(1) enter m by (auto simp del: safe_add_Ok)
      note st = buy_out_partial [OF m True y(1,2)]
      have "fair_buy lo (c # cs) (unat p) (unat q) (real (unat y)) (real (unat a))"
        using enter(1) Cons.prems(2,4) st by (intro fair_buy_first) simp_all
      then show ?thesis using st y(3,4) top_price by simp
    next
      case False
      then obtain y w m' b where y: "get_delta_amount_quote_unsigned p (lp_sqrt_price c) (lp_liquidity c) Up = Inr y"
        "safe_add z y = Inr w" "try_cast m = Some m'" "safe_sub a m' = Inr b"
        "quote_to_base_out_loop cs (lp_sqrt_price c) b w = Inr (q, a', z')"
        using Cons.prems(1) enter m
        by (auto simp del: safe_add_Ok safe_sub_Ok try_cast_Some split: if_splits)
      have "unat m' = unat m" using y(3) by simp
      note st = buy_out_full [OF m y(1) this]
      have sums: "real (unat w) = real (unat z) + real (unat y)" "real (unat b) = real (unat a) - real (unat m')"
        using y(2,4) by auto
      have "curve_ok (price c) cs" "0 < price c" using Cons.prems(2) enter(1) u by simp_all
      note ih = Cons.IH [OF y(5) this order_refl]
      have "fair_buy lo (c # cs) (unat p) (unat q)
          (real (unat y) + (real (unat z') - real (unat w)))
          (real (unat m') + (real (unat b) - real (unat a')))"
        using st ih Cons.prems(2,4) enter(1) by (intro fair_buy_through) simp_all
      moreover have "price c \<le> curve_top (price c) cs" using top_price enter(1) by simp
      ultimately show ?thesis using ih sums enter(1) by simp
    qed
  qed
qed

section \<open>Selling\<close>

text \<open>
  \<open>linked low_price ps top_price\<close>: the pairs \<open>ps\<close> lead from the price \<open>top_price\<close> down to \<open>low_price\<close>,
  segment by segment, apart from pairs the loop does not enter.
\<close>

fun linked :: "nat \<Rightarrow> (liquidity_point \<times> liquidity_point) list \<Rightarrow> nat \<Rightarrow> bool" where
  "linked low_price [] top_price \<longleftrightarrow> top_price = low_price"
| "linked low_price ((c, d) # ps) top_price \<longleftrightarrow>
     (if unused c then linked low_price ps top_price
      else if unused d then price c = top_price \<and> linked low_price ps top_price
      else price d = top_price \<and> price c < top_price \<and> linked low_price ps (price c))"

lemma curve_ok_snoc:
  "curve_ok lo (cs @ [d]) \<longleftrightarrow> curve_ok lo cs
    \<and> (unused d \<or> (\<forall>c \<in> set cs. \<not> unused c) \<and> curve_top lo cs < price d)"
  by (induction lo cs rule: curve_ok.induct) auto

lemma curve_top_snoc:
  "curve_top lo (cs @ [d])
    = (if (\<exists>c \<in> set cs. unused c) \<or> unused d then curve_top lo cs else price d)"
  by (induction lo cs rule: curve_top.induct) auto

lemma curve_ok_unused_last:
  "curve_ok lo cs \<Longrightarrow> c \<in> set cs \<Longrightarrow> unused c \<Longrightarrow> unused (last cs)"
  by (induction lo cs rule: curve_ok.induct) (auto simp: list_all_iff split: if_splits)

lemma curve_top_last:
  assumes "curve_ok lo cs" "cs \<noteq> []" "\<not> unused (last cs)"
  shows "curve_top lo cs = price (last cs)"
  using assms curve_ok_unused_last [OF assms(1)] curve_top_snoc [of lo "butlast cs" "last cs"]
  by (metis append_butlast_last_id in_set_butlastD)

lemma descending_snoc:
  "cs \<noteq> [] \<Longrightarrow> descending (cs @ [d]) = (last cs, d) # descending cs"
proof -
  assume ne: "cs \<noteq> []"
  then have "zip (cs @ [d]) (tl cs @ [d]) = zip cs (tl cs) @ [(last cs, d)]"
    by (induction cs) (auto simp: neq_Nil_conv split: list.splits)
  then show ?thesis using ne by (simp add: descending_def)
qed

lemma linked_descending:
  assumes "curve_ok lo cs" "cs \<noteq> []" "\<not> unused (hd cs)"
  shows "linked (price (hd cs)) (descending cs) (curve_top lo cs)"
  using assms
proof (induction cs rule: rev_induct)
  case Nil
  then show ?case by simp
next
  case (snoc d cs)
  show ?case
  proof (cases "cs = []")
    case True
    then show ?thesis using snoc.prems by (simp add: descending_def)
  next
    case False
    have ih: "linked (price (hd cs)) (descending cs) (curve_top lo cs)"
      using snoc False by (simp add: curve_ok_snoc)
    have ok: "curve_ok lo cs" using snoc.prems(1) by (simp add: curve_ok_snoc)
    have d: "unused d \<or> (\<forall>c \<in> set cs. \<not> unused c) \<and> curve_top lo cs < price d"
      using snoc.prems(1) by (simp add: curve_ok_snoc)
    show ?thesis
      using ih d False curve_top_last [OF ok False]
      by (auto simp: descending_snoc curve_top_snoc)
  qed
qed

lemma descending_pair: "(c, d) \<in> set (descending cs) \<Longrightarrow> (c, d) \<in> set (zip cs (tl cs))"
  by (simp add: descending_def)

lemma fair_sell_pair:
  assumes "curve_ok lo cs" "(c, d) \<in> set (zip cs (tl cs))" "\<not> unused c" "\<not> unused d"
    "price c \<le> q" "p \<le> price d" "sell_step (depth d) p q paid got"
  shows "fair_sell lo cs p q paid got"
  using assms(7) value_pair [OF assms(1-5), of p] assms(6) by (simp add: fair_sell_def sell_step_def)

lemma base_to_quote_in_loop_fair:
  assumes "base_to_quote_in_loop ps p a z = Inr (q, a', z')" "linked low_price ps top_price" "unat p \<le> top_price"
    and "curve_ok lo cs" "\<And>c d. (c, d) \<in> set ps \<Longrightarrow> (c, d) \<in> set (zip cs (tl cs))"
  shows "fair_sell lo cs (unat p) (unat q)
      (real (unat a) - real (unat a')) (real (unat z') - real (unat z))
    \<and> (a' \<noteq> 0 \<longrightarrow> unat q \<le> low_price) \<and> (unat q = unat p \<or> low_price \<le> unat q)"
  using assms
proof (induction ps arbitrary: top_price p a z)
  case Nil
  then show ?case by (auto simp: fair_sell_refl)
next
  case (Cons e ps)
  obtain c d where e: "e = (c, d)" by (cases e)
  have down: "linked low_price ps t \<Longrightarrow> low_price \<le> t" for t
    by (induction low_price ps t rule: linked.induct) (auto split: if_splits)
  consider (skip) "unused c \<or> unused d \<or> price c \<ge> unat p"
    | (enter) "\<not> unused c" "\<not> unused d" "price c < unat p" by linarith
  then show ?case
  proof cases
    case skip
    obtain t where t: "linked low_price ps t" "unat p \<le> t"
      using skip Cons.prems(2,3) e by (auto split: if_splits)
    have "base_to_quote_in_loop ps p a z = Inr (q, a', z')"
      using Cons.prems(1-3) skip e by (auto simp: word_less_nat_alt split: if_splits)
    then show ?thesis using Cons.IH [OF _ t Cons.prems(4)] Cons.prems(5) by simp
  next
    case enter
    have l: "price d = top_price" "price c < top_price" "linked low_price ps (price c)"
      using Cons.prems(2) enter e by simp_all
    have lt: "lp_sqrt_price c < p" using enter(3) by (simp add: word_less_nat_alt)
    have pair: "(c, d) \<in> set (zip cs (tl cs))" using Cons.prems(5) e by simp
    note fair = fair_sell_pair [OF Cons.prems(4) pair enter(1,2)]
    obtain m where m: "get_delta_amount_base_unsigned_256 (lp_sqrt_price c) p (lp_liquidity d) Up = Inr m"
      using Cons.prems(1) enter(1) lt e by auto
    show ?thesis
    proof (cases "ucast a < m")
      case True
      then obtain y where y: "get_next_sqrt_price_from_input p (lp_liquidity d) a True = Inr q"
        "get_delta_amount_quote_unsigned q p (lp_liquidity d) Down = Inr y" "safe_add z y = Inr z'" "a' = 0"
        using Cons.prems(1) enter(1) lt e m by (auto simp del: safe_add_Ok)
      note st = sell_in_partial [OF m True y(1,2)]
      then have "fair_sell lo cs (unat p) (unat q) (real (unat a)) (real (unat y))"
        using fair Cons.prems(3) l(1) by simp
      then show ?thesis using y(3,4) st down [OF l(3)] by simp
    next
      case False
      then obtain y w m' b where y: "get_delta_amount_quote_unsigned (lp_sqrt_price c) p (lp_liquidity d) Down = Inr y"
        "safe_add z y = Inr w" "try_cast m = Some m'" "safe_sub a m' = Inr b"
        "base_to_quote_in_loop ps (lp_sqrt_price c) b w = Inr (q, a', z')"
        using Cons.prems(1) enter(1) lt e m
        by (auto simp del: safe_add_Ok safe_sub_Ok try_cast_Some split: if_splits)
      have "unat m' = unat m" using y(3) by simp
      note st = sell_in_full [OF m y(1) this]
      have sums: "real (unat w) = real (unat z) + real (unat y)" "real (unat b) = real (unat a) - real (unat m')"
        using y(2,4) by auto
      have ih: "fair_sell lo cs (price c) (unat q)
          (real (unat b) - real (unat a')) (real (unat z') - real (unat w))
        \<and> (a' \<noteq> 0 \<longrightarrow> unat q \<le> low_price) \<and> (unat q = price c \<or> low_price \<le> unat q)"
        using Cons.IH [OF y(5) l(3) order_refl Cons.prems(4)] Cons.prems(5) by simp
      have "fair_sell lo cs (unat p) (unat q)
          (real (unat m') + (real (unat b) - real (unat a')))
          (real (unat y) + (real (unat z') - real (unat w)))"
        using ih fair [OF order_refl _ st] Cons.prems(3) l(1) by (blast intro: fair_sell_trans)
      then show ?thesis using ih sums down [OF l(3)] by auto
    qed
  qed
qed

lemma base_to_quote_out_loop_fair:
  assumes "base_to_quote_out_loop ps p a z = Inr (q, a', z')" "linked low_price ps top_price" "unat p \<le> top_price"
    and "curve_ok lo cs" "\<And>c d. (c, d) \<in> set ps \<Longrightarrow> (c, d) \<in> set (zip cs (tl cs))"
  shows "fair_sell lo cs (unat p) (unat q)
      (real (unat z') - real (unat z)) (real (unat a) - real (unat a'))
    \<and> (a' \<noteq> 0 \<longrightarrow> unat q \<le> low_price) \<and> (unat q = unat p \<or> low_price \<le> unat q)"
  using assms
proof (induction ps arbitrary: top_price p a z)
  case Nil
  then show ?case by (auto simp: fair_sell_refl)
next
  case (Cons e ps)
  obtain c d where e: "e = (c, d)" by (cases e)
  have down: "linked low_price ps t \<Longrightarrow> low_price \<le> t" for t
    by (induction low_price ps t rule: linked.induct) (auto split: if_splits)
  consider (skip) "unused c \<or> unused d \<or> price c \<ge> unat p"
    | (enter) "\<not> unused c" "\<not> unused d" "price c < unat p" by linarith
  then show ?case
  proof cases
    case skip
    obtain t where t: "linked low_price ps t" "unat p \<le> t"
      using skip Cons.prems(2,3) e by (auto split: if_splits)
    have "base_to_quote_out_loop ps p a z = Inr (q, a', z')"
      using Cons.prems(1-3) skip e by (auto simp: word_less_nat_alt split: if_splits)
    then show ?thesis using Cons.IH [OF _ t Cons.prems(4)] Cons.prems(5) by simp
  next
    case enter
    have l: "price d = top_price" "price c < top_price" "linked low_price ps (price c)"
      using Cons.prems(2) enter e by simp_all
    have lt: "lp_sqrt_price c < p" using enter(3) by (simp add: word_less_nat_alt)
    have pair: "(c, d) \<in> set (zip cs (tl cs))" using Cons.prems(5) e by simp
    note fair = fair_sell_pair [OF Cons.prems(4) pair enter(1,2)]
    obtain m where m: "get_delta_amount_quote_unsigned_256 (lp_sqrt_price c) p (lp_liquidity d) Down = Inr m"
      using Cons.prems(1) enter(1) lt e by auto
    show ?thesis
    proof (cases "ucast a < m")
      case True
      then obtain y where y: "get_next_sqrt_price_from_output p (lp_liquidity d) a True = Inr q"
        "get_delta_amount_base_unsigned q p (lp_liquidity d) Up = Inr y" "safe_add z y = Inr z'" "a' = 0"
        using Cons.prems(1) enter(1) lt e m by (auto simp del: safe_add_Ok)
      note st = sell_out_partial [OF m True y(1,2)]
      then have "fair_sell lo cs (unat p) (unat q) (real (unat y)) (real (unat a))"
        using fair Cons.prems(3) l(1) by simp
      then show ?thesis using y(3,4) st down [OF l(3)] by simp
    next
      case False
      then obtain y w m' b where y: "get_delta_amount_base_unsigned (lp_sqrt_price c) p (lp_liquidity d) Up = Inr y"
        "safe_add z y = Inr w" "try_cast m = Some m'" "safe_sub a m' = Inr b"
        "base_to_quote_out_loop ps (lp_sqrt_price c) b w = Inr (q, a', z')"
        using Cons.prems(1) enter(1) lt e m
        by (auto simp del: safe_add_Ok safe_sub_Ok try_cast_Some split: if_splits)
      have "unat m' = unat m" using y(3) by simp
      note st = sell_out_full [OF m y(1) this]
      have sums: "real (unat w) = real (unat z) + real (unat y)" "real (unat b) = real (unat a) - real (unat m')"
        using y(2,4) by auto
      have ih: "fair_sell lo cs (price c) (unat q)
          (real (unat z') - real (unat w)) (real (unat b) - real (unat a'))
        \<and> (a' \<noteq> 0 \<longrightarrow> unat q \<le> low_price) \<and> (unat q = price c \<or> low_price \<le> unat q)"
        using Cons.IH [OF y(5) l(3) order_refl Cons.prems(4)] Cons.prems(5) by simp
      have "fair_sell lo cs (unat p) (unat q)
          (real (unat y) + (real (unat z') - real (unat w)))
          (real (unat m') + (real (unat b) - real (unat a')))"
        using ih fair [OF order_refl _ st] Cons.prems(3) l(1) by (blast intro: fair_sell_trans)
      then show ?thesis using ih sums down [OF l(3)] by auto
    qed
  qed
qed

end
