(* ===== verification/Swap_Fair.thy ===== *)
theory Swap_Fair
  imports Swap_Loops
begin

text \<open>
  Fairness of a whole swap.  For a configuration with a well formed curve, each of
  the three swap modes in both directions moves the price inside the curve and
  trades at or below the curve's value, fees included; applying the result keeps
  the reserves above the values that the curve assigns to the price.
\<close>

section \<open>The curve of a configuration\<close>

definition start_price :: "pool_config \<Rightarrow> nat" where
  "start_price cfg = unat (cfg_sqrt_start_price cfg)"

definition last_price :: "pool_config \<Rightarrow> nat" where
  "last_price cfg = unat (cfg_migration_sqrt_price cfg)"

definition curve_quote :: "pool_config \<Rightarrow> nat \<Rightarrow> real" where
  "curve_quote cfg p = quote_value (start_price cfg) (cfg_curve cfg) p"

definition curve_base :: "pool_config \<Rightarrow> nat \<Rightarrow> real" where
  "curve_base cfg p = base_value (start_price cfg) (cfg_curve cfg) p"

definition config_ok :: "pool_config \<Rightarrow> bool" where
  "config_ok cfg \<longleftrightarrow> 0 < start_price cfg \<and> cfg_curve cfg \<noteq> [] \<and> \<not> unused (hd (cfg_curve cfg))
     \<and> curve_ok (start_price cfg) (cfg_curve cfg)
     \<and> last_price cfg \<le> curve_top (start_price cfg) (cfg_curve cfg)"

definition on_curve :: "pool_config \<Rightarrow> nat \<Rightarrow> bool" where
  "on_curve cfg p \<longleftrightarrow> start_price cfg \<le> p \<and> p \<le> last_price cfg"

definition buy :: "pool_config \<Rightarrow> nat \<Rightarrow> nat \<Rightarrow> real \<Rightarrow> real \<Rightarrow> bool" where
  "buy cfg p q paid got \<longleftrightarrow> on_curve cfg q \<and> fair_buy (start_price cfg) (cfg_curve cfg) p q paid got"

definition sell :: "pool_config \<Rightarrow> nat \<Rightarrow> nat \<Rightarrow> real \<Rightarrow> real \<Rightarrow> bool" where
  "sell cfg p q paid got \<longleftrightarrow> on_curve cfg q \<and> fair_sell (start_price cfg) (cfg_curve cfg) p q paid got"

section \<open>The four calculations\<close>

lemma calculate_buy_in:
  assumes "calculate_quote_to_base_from_amount_in s cfg a (cfg_migration_sqrt_price cfg) = Inr r"
    and "config_ok cfg" "on_curve cfg (unat (pool_sqrt_price s))"
  shows "buy cfg (unat (pool_sqrt_price s)) (unat (fi_next_sqrt_price r))
    (real (unat a) - real (unat (fi_amount_left r))) (real (unat (fi_output_amount r)))"
  using quote_to_base_in_loop_fair [of "cfg_migration_sqrt_price cfg" "cfg_curve cfg"
      "pool_sqrt_price s" a 0 r "start_price cfg"] assms
  by (auto simp: calculate_quote_to_base_from_amount_in_def config_ok_def on_curve_def buy_def
      fair_buy_def last_price_def)

lemma calculate_buy_out:
  assumes "calculate_quote_to_base_from_amount_out s cfg a = Inr r"
    and "config_ok cfg" "on_curve cfg (unat (pool_sqrt_price s))"
    and "fo_next_sqrt_price r \<le> cfg_migration_sqrt_price cfg"
  shows "buy cfg (unat (pool_sqrt_price s)) (unat (fo_next_sqrt_price r))
    (real (unat (fo_amount_in r))) (real (unat a))"
proof -
  obtain q z where q: "quote_to_base_out_loop (cfg_curve cfg) (pool_sqrt_price s) a 0 = Inr (q, 0, z)"
    "r = \<lparr>fo_amount_in = z, fo_next_sqrt_price = q\<rparr>"
    using assms(1) by (auto simp: calculate_quote_to_base_from_amount_out_def)
  show ?thesis
    using quote_to_base_out_loop_fair [OF q(1), of "start_price cfg"] assms(2-4) q(2)
    by (auto simp: config_ok_def on_curve_def buy_def fair_buy_def last_price_def word_le_nat_alt)
qed

text \<open>The segment below the first point, which the base to quote loops leave to the code after them.\<close>

lemma fair_sell_first:
  assumes "config_ok cfg" "cfg_curve cfg = c # cs" "start_price cfg \<le> q" "p \<le> price c"
    and "sell_step (depth c) p q paid got"
  shows "fair_sell (start_price cfg) (cfg_curve cfg) p q paid got"
proof -
  have u: "\<not> unused c" "curve_ok (start_price cfg) (c # cs)" using assms(1,2) by (auto simp: config_ok_def)
  have "q \<le> p" using assms(5) by (simp add: sell_step_def)
  from value_first [OF u assms(3) this assms(4)] show ?thesis
    using assms(5) unfolding assms(2) fair_sell_def sell_step_def by simp
qed

lemma config_linked:
  assumes "config_ok cfg" "cfg_curve cfg = c # cs" "on_curve cfg p"
  shows "linked (price c) (descending (cfg_curve cfg)) (curve_top (start_price cfg) (cfg_curve cfg))"
    and "p \<le> curve_top (start_price cfg) (cfg_curve cfg)"
  using assms linked_descending [of "start_price cfg" "cfg_curve cfg"]
  by (auto simp: config_ok_def on_curve_def)

lemma calculate_sell_in:
  assumes "calculate_base_to_quote_from_amount_in s cfg a = Inr r"
    and "config_ok cfg" "on_curve cfg (unat (pool_sqrt_price s))"
  shows "sell cfg (unat (pool_sqrt_price s)) (unat (fi_next_sqrt_price r))
    (real (unat a) - real (unat (fi_amount_left r))) (real (unat (fi_output_amount r)))"
proof -
  let ?lo = "start_price cfg" and ?p = "unat (pool_sqrt_price s)"
  have "cfg_curve cfg \<noteq> []" using assms(2) by (simp add: config_ok_def)
  then obtain c cs where cv: "cfg_curve cfg = c # cs" by (cases "cfg_curve cfg") auto
  have ok: "curve_ok ?lo (cfg_curve cfg)" "?lo < price c"
    using assms(2) cv by (auto simp: config_ok_def)
  obtain q a' z' where lp: "base_to_quote_in_loop (descending (cfg_curve cfg)) (pool_sqrt_price s) a 0
      = Inr (q, a', z')"
    using assms(1) cv by (auto simp: calculate_base_to_quote_from_amount_in_def)
  have fair: "fair_sell ?lo (cfg_curve cfg) ?p (unat q)
      (real (unat a) - real (unat a')) (real (unat z') - real (unat (0::u64)))"
    "a' \<noteq> 0 \<Longrightarrow> unat q \<le> price c" "unat q = ?p \<or> price c \<le> unat q"
    using base_to_quote_in_loop_fair [OF lp config_linked [OF assms(2) cv assms(3)] ok(1)]
      descending_pair by blast+
  have qlo: "?lo \<le> unat q" using fair(3) ok(2) assms(3) by (auto simp: on_curve_def)
  have le: "unat q \<le> last_price cfg"
    using fair(1) assms(3) by (simp add: fair_sell_def on_curve_def)
  show ?thesis
  proof (cases "a' = 0")
    case True
    then have "r = \<lparr>fi_amount_left = 0, fi_output_amount = z', fi_next_sqrt_price = q\<rparr>"
      using assms(1) lp by (simp add: calculate_base_to_quote_from_amount_in_def cv)
    then show ?thesis using fair(1) qlo le True by (simp add: sell_def on_curve_def)
  next
    case False
    note low = fair(2) [OF False]
    obtain n where n: "get_next_sqrt_price_from_input q (lp_liquidity c) a' True = Inr n"
      using assms(1) lp False by (auto simp: calculate_base_to_quote_from_amount_in_def cv)
    obtain t b y w where t:
      "(if n < cfg_sqrt_start_price cfg then
          and_then (get_delta_amount_base_unsigned (cfg_sqrt_start_price cfg) q (lp_liquidity c) Up)
            (\<lambda>x. and_then (safe_sub a' x) (\<lambda>b. Inr (cfg_sqrt_start_price cfg, b)))
        else Inr (n, 0)) = Inr (t, b)"
      "get_delta_amount_quote_unsigned t q (lp_liquidity c) Down = Inr y" "safe_add z' y = Inr w"
      "r = \<lparr>fi_amount_left = b, fi_output_amount = w, fi_next_sqrt_price = t\<rparr>"
      using assms(1) lp False n
      unfolding calculate_base_to_quote_from_amount_in_def cv Let_def
      by (auto simp del: safe_add_Ok safe_sub_Ok)
    have st: "sell_step (depth c) (unat q) (unat t) (real (unat a') - real (unat b)) (real (unat y))
        \<and> ?lo \<le> unat t"
    proof (cases "n < cfg_sqrt_start_price cfg")
      case True
      then obtain x where x: "t = cfg_sqrt_start_price cfg"
        "get_delta_amount_base_unsigned t q (lp_liquidity c) Up = Inr x" "safe_sub a' x = Inr b"
        using t(1) by (auto simp del: safe_sub_Ok)
      have "real (unat b) = real (unat a') - real (unat x)" using x(3) by auto
      moreover have "unat t \<le> unat q" using t(2) by (simp add: quote_unsigned_Ok)
      ultimately show ?thesis
        using x(1) base_unsigned_up_ge [OF x(2)] quote_down_le [OF t(2)]
        by (simp add: sell_step_def start_price_def)
    next
      case ge: False
      then have "t = n" "b = 0" using t(1) by auto
      then show ?thesis using n ge next_base_in_bound [of q "lp_liquidity c" a' n] quote_down_le [OF t(2)]
        by (auto simp: sell_step_def start_price_def next_from_input_cases word_less_nat_alt)
    qed
    have "fair_sell ?lo (cfg_curve cfg) (unat q) (unat t) (real (unat a') - real (unat b)) (real (unat y))"
      using fair_sell_first [OF assms(2) cv _ low] st by blast
    then have "fair_sell ?lo (cfg_curve cfg) ?p (unat t)
        (real (unat a) - real (unat a') + (real (unat a') - real (unat b)))
        (real (unat z') - real (unat (0::u64)) + real (unat y))"
      by (rule fair_sell_trans [OF fair(1)])
    moreover have "unat t \<le> last_price cfg" using st le by (simp add: sell_step_def)
    ultimately show ?thesis using st t(3,4) by (auto simp: sell_def on_curve_def)
  qed
qed

lemma calculate_sell_out:
  assumes "calculate_base_to_quote_from_amount_out s cfg a = Inr r"
    and "config_ok cfg" "on_curve cfg (unat (pool_sqrt_price s))"
  shows "sell cfg (unat (pool_sqrt_price s)) (unat (fo_next_sqrt_price r))
    (real (unat (fo_amount_in r))) (real (unat a))"
proof -
  let ?lo = "start_price cfg" and ?p = "unat (pool_sqrt_price s)"
  have "cfg_curve cfg \<noteq> []" using assms(2) by (simp add: config_ok_def)
  then obtain c cs where cv: "cfg_curve cfg = c # cs" by (cases "cfg_curve cfg") auto
  have ok: "curve_ok ?lo (cfg_curve cfg)" "?lo < price c"
    using assms(2) cv by (auto simp: config_ok_def)
  obtain q a' z' where lp: "base_to_quote_out_loop (descending (cfg_curve cfg)) (pool_sqrt_price s) a 0
      = Inr (q, a', z')"
    using assms(1) cv by (auto simp: calculate_base_to_quote_from_amount_out_def)
  have fair: "fair_sell ?lo (cfg_curve cfg) ?p (unat q)
      (real (unat z') - real (unat (0::u64))) (real (unat a) - real (unat a'))"
    "a' \<noteq> 0 \<Longrightarrow> unat q \<le> price c" "unat q = ?p \<or> price c \<le> unat q"
    using base_to_quote_out_loop_fair [OF lp config_linked [OF assms(2) cv assms(3)] ok(1)]
      descending_pair by blast+
  have qlo: "?lo \<le> unat q" using fair(3) ok(2) assms(3) by (auto simp: on_curve_def)
  have le: "unat q \<le> last_price cfg"
    using fair(1) assms(3) by (simp add: fair_sell_def on_curve_def)
  show ?thesis
  proof (cases "a' = 0")
    case True
    then have "r = \<lparr>fo_amount_in = z', fo_next_sqrt_price = q\<rparr>"
      using assms(1) lp by (simp add: calculate_base_to_quote_from_amount_out_def cv)
    then show ?thesis using fair(1) qlo le True by (simp add: sell_def on_curve_def)
  next
    case False
    note low = fair(2) [OF False]
    obtain n y w where n: "get_next_sqrt_price_from_output q (lp_liquidity c) a' True = Inr n"
      "cfg_sqrt_start_price cfg \<le> n"
      "get_delta_amount_base_unsigned n q (lp_liquidity c) Up = Inr y" "safe_add z' y = Inr w"
      "r = \<lparr>fo_amount_in = w, fo_next_sqrt_price = n\<rparr>"
      using assms(1) lp False
      by (auto simp: calculate_base_to_quote_from_amount_out_def cv simp del: safe_add_Ok)
    have st: "sell_step (depth c) (unat q) (unat n) (real (unat y)) (real (unat a'))"
      "?lo \<le> unat n"
      using n(1,2) next_quote_out_bound [of q "lp_liquidity c" a' n] base_unsigned_up_ge [OF n(3)]
      by (simp_all add: sell_step_def start_price_def next_from_output_cases word_le_nat_alt)
    have "fair_sell ?lo (cfg_curve cfg) (unat q) (unat n) (real (unat y)) (real (unat a'))"
      using fair_sell_first [OF assms(2) cv st(2) low st(1)] .
    then have "fair_sell ?lo (cfg_curve cfg) ?p (unat n)
        (real (unat z') - real (unat (0::u64)) + real (unat y))
        (real (unat a) - real (unat a') + real (unat a'))"
      by (rule fair_sell_trans [OF fair(1)])
    moreover have "unat n \<le> last_price cfg" using st le by (simp add: sell_step_def)
    ultimately show ?thesis using st n(4,5) by (auto simp: sell_def on_curve_def)
  qed
qed

end
