(* ===== verification/Trading.thy ===== *)
theory Trading
  imports Swap_Fair
begin

text \<open>
  What trading on a pool promises.  The interface \<open>bonding_curve\<close> asks of a curve
  its two value functions and that purchases and sales are fair to it; within it,
  no sequence of trades takes value out of the curve.  The swap results of the
  model discharge the interface, and applying them keeps the pool solvent.
\<close>

section \<open>The interface of a bonding curve\<close>

locale bonding_curve =
  fixes curve_ok :: "'c \<Rightarrow> bool"
    and inside :: "'c \<Rightarrow> nat \<Rightarrow> bool"
    and quote_val :: "'c \<Rightarrow> nat \<Rightarrow> real"
    and base_val :: "'c \<Rightarrow> nat \<Rightarrow> real"
    and buys :: "'c \<Rightarrow> nat \<Rightarrow> nat \<Rightarrow> real \<Rightarrow> real \<Rightarrow> bool"
    and sells :: "'c \<Rightarrow> nat \<Rightarrow> nat \<Rightarrow> real \<Rightarrow> real \<Rightarrow> bool"
  assumes quote_mono: "p \<le> q \<Longrightarrow> quote_val c p \<le> quote_val c q"
    and base_strict: "curve_ok c \<Longrightarrow> inside c p \<Longrightarrow> inside c q \<Longrightarrow> p < q \<Longrightarrow> base_val c p < base_val c q"
    and buys_fair: "buys c p q paid got \<Longrightarrow>
      inside c q \<and> quote_val c q - quote_val c p \<le> paid \<and> got \<le> base_val c q - base_val c p"
    and sells_fair: "sells c p q paid got \<Longrightarrow>
      inside c q \<and> base_val c p - base_val c q \<le> paid \<and> got \<le> quote_val c p - quote_val c q"
begin

text \<open>
  \<open>trades c p q x y\<close>: a sequence of trades moves the price from \<open>p\<close> to \<open>q\<close>, and
  over all of it the traders pay \<open>x\<close> of the quote token and receive \<open>y\<close> of the base
  token, net.
\<close>

inductive trades :: "'c \<Rightarrow> nat \<Rightarrow> nat \<Rightarrow> real \<Rightarrow> real \<Rightarrow> bool" for c p where
  none: "trades c p p 0 0"
| bought: "trades c p q x y \<Longrightarrow> buys c q r paid got \<Longrightarrow> trades c p r (x + paid) (y + got)"
| sold: "trades c p q x y \<Longrightarrow> sells c q r paid got \<Longrightarrow> trades c p r (x - got) (y - paid)"

lemma trades_fair:
  assumes "trades c p q x y" "inside c p"
  shows "inside c q \<and> quote_val c q - quote_val c p \<le> x \<and> y \<le> base_val c q - base_val c p"
  using assms by (induction rule: trades.induct) (auto dest!: buys_fair sells_fair)

lemma no_money_pump:
  assumes "curve_ok c" "trades c p q x y" "inside c p" "0 \<le> y"
  shows "p \<le> q \<and> 0 \<le> x"
proof -
  note fair = trades_fair [OF assms(2,3)]
  then have "base_val c p \<le> base_val c q" using assms(4) by simp
  then have "p \<le> q" using base_strict [OF assms(1), of q p] assms(3) fair by (meson leD not_le_imp_less)
  then show ?thesis using quote_mono [of p q c] fair by simp
qed

end

lemma curve_base_strict:
  assumes "config_ok cfg" "on_curve cfg p" "on_curve cfg q" "p < q"
  shows "curve_base cfg p < curve_base cfg q"
  using value_strict [of "start_price cfg" "cfg_curve cfg" p q] assms
  by (auto simp: config_ok_def on_curve_def curve_base_def)

interpretation dbc: bonding_curve config_ok on_curve curve_quote curve_base buy sell
proof (unfold_locales, goal_cases)
  case (1 p q c)
  then show ?case unfolding curve_quote_def by (rule quote_value_mono)
next
  case (2 c p q)
  then show ?case by (rule curve_base_strict)
next
  case (3 c p q paid got)
  then show ?case by (auto simp: buy_def fair_buy_def curve_quote_def curve_base_def)
next
  case (4 c p q paid got)
  then show ?case by (auto simp: sell_def fair_sell_def curve_quote_def curve_base_def)
qed

section \<open>Swap results\<close>

definition swap_fees :: "swap_result2 \<Rightarrow> nat" where
  "swap_fees r = unat (s2_trading_fee r) + unat (s2_protocol_fee r) + unat (s2_referral_fee r)"

definition pool_in :: "swap_result2 \<Rightarrow> nat" where
  "pool_in r = unat (s2_excluded_fee_input_amount r)"

definition pool_out :: "fee_mode \<Rightarrow> swap_result2 \<Rightarrow> nat" where
  "pool_out mode r = unat (s2_output_amount r) + (if fees_on_input mode then 0 else swap_fees r)"

fun trade :: "pool_config \<Rightarrow> trade_direction \<Rightarrow> nat \<Rightarrow> nat \<Rightarrow> real \<Rightarrow> real \<Rightarrow> bool" where
  "trade cfg QuoteToBase = buy cfg"
| "trade cfg BaseToQuote = sell cfg"

definition swap_fair :: "pool_config \<Rightarrow> fee_mode \<Rightarrow> trade_direction \<Rightarrow> nat \<Rightarrow> swap_result2 \<Rightarrow> bool" where
  "swap_fair cfg mode dir p r \<longleftrightarrow>
     unat (s2_included_fee_input_amount r)
       = pool_in r + (if fees_on_input mode then swap_fees r else 0)
     \<and> trade cfg dir p (unat (s2_next_sqrt_price r)) (real (pool_in r)) (real (pool_out mode r))"

lemma get_included_sum:
  "get_included_fee_amount n x = Inr (inc, fee) \<Longrightarrow> unat inc = unat x + unat fee"
  by (auto simp: get_included_fee_amount_def)

lemma get_excluded_sum:
  "get_excluded_fee_amount n x = Inr (ex, fee) \<Longrightarrow> unat x = unat ex + unat fee"
  by (auto simp: get_excluded_fee_amount_def)

lemma get_fee_on_amount_sum:
  "get_fee_on_amount n x ref = Inr f \<Longrightarrow>
    unat x = unat (amount f) + (unat (trading_fee f) + unat (protocol_fee f) + unat (referral_fee f))"
  by (auto simp: get_fee_on_amount_split dest!: get_excluded_sum split_fees_sum)

lemma include_fee_sum:
  "include_fee s cfg x mode dir pt el = Inr (inc, t, pr, rf) \<Longrightarrow>
    unat inc = unat x + (unat t + unat pr + unat rf)"
  by (auto simp: include_fee_def dest!: get_included_sum split_fees_sum)

lemma swap_from_input_trade:
  assumes "swap_from_input s cfg a dir = Inr r" "config_ok cfg" "on_curve cfg (unat (pool_sqrt_price s))"
  shows "trade cfg dir (unat (pool_sqrt_price s)) (unat (fi_next_sqrt_price r))
    (real (unat a) - real (unat (fi_amount_left r))) (real (unat (fi_output_amount r)))"
  using assms calculate_buy_in [of s cfg a r] calculate_sell_in [of s cfg a r]
  by (cases dir) (simp_all add: swap_from_input_def)

lemma exact_input_fair:
  assumes "get_swap_result_from_exact_input s cfg a mode dir pt el = Inr r"
    and "config_ok cfg" "on_curve cfg (unat (pool_sqrt_price s))"
  shows "swap_fair cfg mode dir (unat (pool_sqrt_price s)) r"
proof -
  obtain n fi res fo where e:
    "(if fees_on_input mode then get_fee_on_amount n a (has_referral mode)
      else Inr \<lparr>amount = a, trading_fee = 0, protocol_fee = 0, referral_fee = 0\<rparr>) = Inr fi"
    "swap_from_input s cfg (amount fi) dir = Inr res" "fi_amount_left res = 0"
    "(if fees_on_input mode then Inr (fi\<lparr>amount := fi_output_amount res\<rparr>)
      else get_fee_on_amount n (fi_output_amount res) (has_referral mode)) = Inr fo"
    "r = \<lparr>s2_included_fee_input_amount = a, s2_excluded_fee_input_amount = amount fi,
         s2_amount_left = fi_amount_left res, s2_output_amount = amount fo,
         s2_next_sqrt_price = fi_next_sqrt_price res,
         s2_trading_fee = trading_fee fo, s2_protocol_fee = protocol_fee fo,
         s2_referral_fee = referral_fee fo\<rparr>"
    using assms(1) unfolding get_swap_result_from_exact_input_def and_then_Ok_iff by auto
  have t: "trade cfg dir (unat (pool_sqrt_price s)) (unat (fi_next_sqrt_price res))
      (real (unat (amount fi))) (real (unat (fi_output_amount res)))"
    using swap_from_input_trade [OF e(2) assms(2,3)] e(3) by simp
  show ?thesis
  proof (cases "fees_on_input mode")
    case True
    then have "fo = fi\<lparr>amount := fi_output_amount res\<rparr>" "get_fee_on_amount n a (has_referral mode) = Inr fi"
      using e(1,4) by auto
    then show ?thesis using t True get_fee_on_amount_sum e(5)
      by (simp add: swap_fair_def pool_in_def pool_out_def swap_fees_def)
  next
    case False
    then have "amount fi = a" "get_fee_on_amount n (fi_output_amount res) (has_referral mode) = Inr fo"
      using e(1,4) by auto
    then show ?thesis using t False get_fee_on_amount_sum [of n "fi_output_amount res" _ fo] e(5)
      by (simp add: swap_fair_def pool_in_def pool_out_def swap_fees_def)
  qed
qed

lemma partial_input_fair:
  assumes "get_swap_result_from_partial_input s cfg a mode dir pt el = Inr r"
    and "config_ok cfg" "on_curve cfg (unat (pool_sqrt_price s))"
  shows "swap_fair cfg mode dir (unat (pool_sqrt_price s)) r"
proof -
  obtain n fi res inc f2 fo where e:
    "(if fees_on_input mode then get_fee_on_amount n a (has_referral mode)
      else Inr \<lparr>amount = a, trading_fee = 0, protocol_fee = 0, referral_fee = 0\<rparr>) = Inr fi"
    "swap_from_input s cfg (amount fi) dir = Inr res"
    "(if fi_amount_left res \<noteq> 0 then
        and_then (safe_sub (amount fi) (fi_amount_left res)) (\<lambda>x.
        if fees_on_input mode then
          and_then (include_fee s cfg x mode dir pt el) (\<lambda>(inc, t, p, rf).
          Inr (inc, \<lparr>amount = x, trading_fee = t, protocol_fee = p, referral_fee = rf\<rparr>))
        else Inr (x, fi\<lparr>amount := x\<rparr>))
      else Inr (a, fi)) = Inr (inc, f2)"
    "(if fees_on_input mode then Inr (f2\<lparr>amount := fi_output_amount res\<rparr>)
      else get_fee_on_amount n (fi_output_amount res) (has_referral mode)) = Inr fo"
    "r = \<lparr>s2_included_fee_input_amount = inc, s2_excluded_fee_input_amount = amount f2,
         s2_amount_left = fi_amount_left res, s2_output_amount = amount fo,
         s2_next_sqrt_price = fi_next_sqrt_price res,
         s2_trading_fee = trading_fee fo, s2_protocol_fee = protocol_fee fo,
         s2_referral_fee = referral_fee fo\<rparr>"
    using assms(1) unfolding get_swap_result_from_partial_input_def and_then_Ok_iff by auto
  have f2: "real (unat (amount f2)) = real (unat (amount fi)) - real (unat (fi_amount_left res))
    \<and> unat inc = unat (amount f2) + (if fees_on_input mode
      then unat (trading_fee f2) + unat (protocol_fee f2) + unat (referral_fee f2) else 0)"
  proof (cases "fi_amount_left res = 0")
    case True
    then show ?thesis using e(1,3) get_fee_on_amount_sum by (auto split: if_splits)
  next
    case False
    then obtain x where x: "safe_sub (amount fi) (fi_amount_left res) = Inr x" "amount f2 = x"
      "fees_on_input mode \<Longrightarrow> \<exists>t p rf. include_fee s cfg x mode dir pt el = Inr (inc, t, p, rf)
        \<and> f2 = \<lparr>amount = x, trading_fee = t, protocol_fee = p, referral_fee = rf\<rparr>"
      "\<not> fees_on_input mode \<Longrightarrow> inc = x"
      using e(3) by (auto split: if_splits simp del: safe_sub_Ok)
    have "real (unat x) = real (unat (amount fi)) - real (unat (fi_amount_left res))" using x(1) by auto
    moreover have "unat inc = unat x + (unat (trading_fee f2) + unat (protocol_fee f2)
        + unat (referral_fee f2))" if "fees_on_input mode"
      using x(3) [OF that] include_fee_sum by fastforce
    ultimately show ?thesis using x(2,4) by simp
  qed
  have t: "trade cfg dir (unat (pool_sqrt_price s)) (unat (fi_next_sqrt_price res))
      (real (unat (amount f2))) (real (unat (fi_output_amount res)))"
    using swap_from_input_trade [OF e(2) assms(2,3)] f2 by simp
  show ?thesis
  proof (cases "fees_on_input mode")
    case True
    then have "fo = f2\<lparr>amount := fi_output_amount res\<rparr>" using e(4) by auto
    then show ?thesis using t True f2 e(5)
      by (simp add: swap_fair_def pool_in_def pool_out_def swap_fees_def)
  next
    case False
    then have "get_fee_on_amount n (fi_output_amount res) (has_referral mode) = Inr fo"
      using e(4) by auto
    then show ?thesis using t False f2 get_fee_on_amount_sum [of n "fi_output_amount res" _ fo] e(5)
      by (simp add: swap_fair_def pool_in_def pool_out_def swap_fees_def)
  qed
qed

lemma exact_output_fair:
  assumes "get_swap_result_from_exact_output s cfg a mode dir pt el = Inr r"
    and "config_ok cfg" "on_curve cfg (unat (pool_sqrt_price s))"
  shows "swap_fair cfg mode dir (unat (pool_sqrt_price s)) r"
proof -
  obtain out t p rf res inc t' p' rf' where e:
    "(if fees_on_input mode then Inr (a, 0, 0, 0) else include_fee s cfg a mode dir pt el)
      = Inr (out, t, p, rf)"
    "(case dir of BaseToQuote \<Rightarrow> calculate_base_to_quote_from_amount_out s cfg out
      | QuoteToBase \<Rightarrow> calculate_quote_to_base_from_amount_out s cfg out) = Inr res"
    "fo_next_sqrt_price res \<le> cfg_migration_sqrt_price cfg"
    "(if fees_on_input mode then include_fee s cfg (fo_amount_in res) mode dir pt el
      else Inr (fo_amount_in res, t, p, rf)) = Inr (inc, t', p', rf')"
    "r = \<lparr>s2_included_fee_input_amount = inc, s2_excluded_fee_input_amount = fo_amount_in res,
         s2_amount_left = 0, s2_output_amount = a, s2_next_sqrt_price = fo_next_sqrt_price res,
         s2_trading_fee = t', s2_protocol_fee = p', s2_referral_fee = rf'\<rparr>"
    using assms(1) unfolding get_swap_result_from_exact_output_def and_then_Ok_iff by auto
  have t: "trade cfg dir (unat (pool_sqrt_price s)) (unat (fo_next_sqrt_price res))
      (real (unat (fo_amount_in res))) (real (unat out))"
    using e(2) calculate_buy_out [OF _ assms(2,3) e(3)] calculate_sell_out [OF _ assms(2,3)]
    by (cases dir) simp_all
  show ?thesis
  proof (cases "fees_on_input mode")
    case True
    then show ?thesis using t e(1,4,5) include_fee_sum
      by (auto simp: swap_fair_def pool_in_def pool_out_def swap_fees_def)
  next
    case False
    then have f: "t' = t" "p' = p" "rf' = rf" "inc = fo_amount_in res" using e(4) by auto
    have "unat out = unat a + (unat t + unat p + unat rf)"
      using e(1) False include_fee_sum by simp
    then have "real (unat out) = real (unat a + (unat t + unat p + unat rf))" by (rule arg_cong)
    with t have "trade cfg dir (unat (pool_sqrt_price s)) (unat (fo_next_sqrt_price res))
      (real (unat (fo_amount_in res))) (real (unat a + (unat t + unat p + unat rf)))" by metis
    then show ?thesis using False f e(5)
      by (simp add: swap_fair_def pool_in_def pool_out_def swap_fees_def)
  qed
qed

end
