(* ===== verification/Pool_Ops.thy ===== *)
theory Pool_Ops
  imports Trading
begin

unbundle bit_operations_syntax

text \<open>
  The remaining operations of a pool (\<open>state/virtual_pool.rs\<close>): claims of fees,
  the surplus above the migration threshold, the withdraw flags, the completion of
  the sale and the migration progress.
\<close>

section \<open>Constants\<close>

definition PARTNER_MIGRATION_FEE_MASK :: u8 where "PARTNER_MIGRATION_FEE_MASK = 4"
definition CREATOR_MIGRATION_FEE_MASK :: u8 where "CREATOR_MIGRATION_FEE_MASK = 2"
definition LEGACY_CREATION_FEE_CHARGED_MASK :: u8 where "LEGACY_CREATION_FEE_CHARGED_MASK = 1"
definition LEGACY_CREATION_FEE_CLAIMED_MASK :: u8 where "LEGACY_CREATION_FEE_CLAIMED_MASK = 2"
definition PARTNER_CREATION_FEE_CLAIMED_MASK :: u8 where "PARTNER_CREATION_FEE_CLAIMED_MASK = 2"
definition PROTOCOL_CREATION_FEE_CLAIMED_MASK :: u8 where "PROTOCOL_CREATION_FEE_CLAIMED_MASK = 1"

lemmas mask_defs [eval] = PARTNER_MIGRATION_FEE_MASK_def CREATOR_MIGRATION_FEE_MASK_def
  LEGACY_CREATION_FEE_CHARGED_MASK_def LEGACY_CREATION_FEE_CLAIMED_MASK_def
  PARTNER_CREATION_FEE_CLAIMED_MASK_def PROTOCOL_CREATION_FEE_CLAIMED_MASK_def

section \<open>Protocol fees\<close>

definition claim_protocol_base_fee :: "pool_state \<Rightarrow> u64 \<Rightarrow> (u64 \<times> pool_state) result" where
  "claim_protocol_base_fee s max_amount =
     (let trading_claimed_fee = min (pool_protocol_base_fee s) max_amount in
     and_then (safe_sub (pool_protocol_base_fee s) trading_claimed_fee) (\<lambda>fee.
     and_then (safe_sub max_amount trading_claimed_fee) (\<lambda>max_amount.
     let migration_claimed_fee = min (pool_protocol_migration_base_fee_amount s) max_amount in
     and_then (safe_sub (pool_protocol_migration_base_fee_amount s) migration_claimed_fee)
       (\<lambda>migration.
     and_then (safe_add trading_claimed_fee migration_claimed_fee) (\<lambda>total_claimed_fee.
     Ok (total_claimed_fee, s\<lparr>pool_protocol_base_fee := fee,
                             pool_protocol_migration_base_fee_amount := migration\<rparr>))))))"

definition claim_protocol_quote_fee :: "pool_state \<Rightarrow> u64 \<Rightarrow> (u64 \<times> pool_state) result" where
  "claim_protocol_quote_fee s max_amount =
     (let trading_claimed_fee = min (pool_protocol_quote_fee s) max_amount in
     and_then (safe_sub (pool_protocol_quote_fee s) trading_claimed_fee) (\<lambda>fee.
     and_then (safe_sub max_amount trading_claimed_fee) (\<lambda>max_amount.
     let migration_claimed_fee = min (pool_protocol_migration_quote_fee_amount s) max_amount in
     and_then (safe_sub (pool_protocol_migration_quote_fee_amount s) migration_claimed_fee)
       (\<lambda>migration.
     and_then (safe_add trading_claimed_fee migration_claimed_fee) (\<lambda>total_claimed_fee.
     Ok (total_claimed_fee, s\<lparr>pool_protocol_quote_fee := fee,
                             pool_protocol_migration_quote_fee_amount := migration\<rparr>))))))"

section \<open>Completion and surplus\<close>

definition total_quote_reserve :: "pool_state \<Rightarrow> u64" where
  "total_quote_reserve s = saturating_add (pool_quote_reserve s) (pool_virtual_quote_reserve s)"

definition has_real_quote_surplus :: "pool_state \<Rightarrow> u64 \<Rightarrow> bool" where
  "has_real_quote_surplus s migration_threshold \<longleftrightarrow> pool_quote_reserve s \<ge> migration_threshold"

definition effective_migration_quote_threshold :: "pool_state \<Rightarrow> u64 \<Rightarrow> u64" where
  "effective_migration_quote_threshold s migration_threshold =
     min (pool_quote_reserve s) migration_threshold"

definition is_curve_complete :: "pool_state \<Rightarrow> u64 \<Rightarrow> bool" where
  "is_curve_complete s migration_threshold \<longleftrightarrow> total_quote_reserve s \<ge> migration_threshold"

definition is_deadline_reached :: "pool_state \<Rightarrow> u64 \<Rightarrow> bool" where
  "is_deadline_reached s current_timestamp \<longleftrightarrow>
     pool_deadline_timestamp s \<noteq> 0 \<and> current_timestamp \<ge> pool_deadline_timestamp s"

definition is_sale_complete :: "pool_state \<Rightarrow> u64 \<Rightarrow> u64 \<Rightarrow> bool" where
  "is_sale_complete s migration_threshold current_timestamp \<longleftrightarrow>
     is_curve_complete s migration_threshold \<or> is_deadline_reached s current_timestamp"

definition update_after_create_pool :: "pool_state \<Rightarrow> pool_state" where
  "update_after_create_pool s = s\<lparr>pool_is_migrated := 1\<rparr>"

definition get_total_surplus :: "pool_state \<Rightarrow> u64 \<Rightarrow> u64 result" where
  "get_total_surplus s migration_threshold = safe_sub (pool_quote_reserve s) migration_threshold"

definition get_partner_and_creator_surplus :: "u64 \<Rightarrow> u64 result" where
  "get_partner_and_creator_surplus total_surplus =
     safe_mul_div_cast_u64 total_surplus (ucast PARTNER_AND_CREATOR_SURPLUS_SHARE) 100 Down"

definition get_partner_surplus :: "pool_config \<Rightarrow> u64 \<Rightarrow> u64 result" where
  "get_partner_surplus cfg total_surplus =
     (if is_fixed_migration_quote_amount_enabled cfg then Ok total_surplus
      else
        and_then (get_partner_and_creator_surplus total_surplus) (\<lambda>surplus.
        and_then (split_partner_and_creator_fee cfg surplus) (\<lambda>split.
        Ok (split_partner_fee split))))"

definition get_creator_surplus :: "pool_config \<Rightarrow> u64 \<Rightarrow> u64 result" where
  "get_creator_surplus cfg total_surplus =
     (if is_fixed_migration_quote_amount_enabled cfg then Ok 0
      else
        and_then (get_partner_and_creator_surplus total_surplus) (\<lambda>surplus.
        and_then (split_partner_and_creator_fee cfg surplus) (\<lambda>split.
        Ok (split_creator_fee split))))"

definition get_protocol_surplus :: "pool_state \<Rightarrow> u64 \<Rightarrow> u64 result" where
  "get_protocol_surplus s migration_threshold =
     and_then (get_total_surplus s migration_threshold) (\<lambda>total_surplus.
     and_then (get_partner_and_creator_surplus total_surplus) (\<lambda>partner_surplus_amount.
     safe_sub total_surplus partner_surplus_amount))"

definition update_partner_withdraw_surplus :: "pool_state \<Rightarrow> pool_state" where
  "update_partner_withdraw_surplus s = s\<lparr>pool_is_partner_withdraw_surplus := 1\<rparr>"

definition update_creator_withdraw_surplus :: "pool_state \<Rightarrow> pool_state" where
  "update_creator_withdraw_surplus s = s\<lparr>pool_is_creator_withdraw_surplus := 1\<rparr>"

definition update_protocol_withdraw_surplus :: "pool_state \<Rightarrow> pool_state" where
  "update_protocol_withdraw_surplus s = s\<lparr>pool_is_protocol_withdraw_surplus := 1\<rparr>"

definition update_withdraw_leftover :: "pool_state \<Rightarrow> pool_state" where
  "update_withdraw_leftover s = s\<lparr>pool_is_withdraw_leftover := 1\<rparr>"

definition claim_protocol_quote_fee_and_surplus ::
  "pool_state \<Rightarrow> u64 \<Rightarrow> pool_config \<Rightarrow> (u64 \<times> pool_state) result" where
  "claim_protocol_quote_fee_and_surplus s max_amount cfg =
     and_then (claim_protocol_quote_fee s max_amount) (\<lambda>(amt, s).
     let surplus_quote_threshold = get_migration_quote_amount_cap cfg in
     if pool_is_protocol_withdraw_surplus s = 0 \<and> \<not> is_fixed_migration_quote_amount_enabled cfg
        \<and> has_real_quote_surplus s surplus_quote_threshold then
       let s = update_protocol_withdraw_surplus s in
       and_then (get_protocol_surplus s surplus_quote_threshold) (\<lambda>protocol_surplus_amount.
       and_then (safe_add amt protocol_surplus_amount) (\<lambda>amt.
       Ok (amt, s)))
     else Ok (amt, s))"

section \<open>Trading fees of partner and creator\<close>

definition claim_partner_trading_fee :: "pool_state \<Rightarrow> u64 \<Rightarrow> u64 \<Rightarrow> (u64 \<times> u64 \<times> pool_state) result" where
  "claim_partner_trading_fee s max_base_amount max_quote_amount =
     (let token_base_amount = min (pool_partner_base_fee s) max_base_amount;
          token_quote_amount = min (pool_partner_quote_fee s) max_quote_amount in
     and_then (safe_sub (pool_partner_base_fee s) token_base_amount) (\<lambda>base.
     and_then (safe_sub (pool_partner_quote_fee s) token_quote_amount) (\<lambda>quote.
     Ok (token_base_amount, token_quote_amount,
         s\<lparr>pool_partner_base_fee := base, pool_partner_quote_fee := quote\<rparr>))))"

definition claim_creator_trading_fee :: "pool_state \<Rightarrow> u64 \<Rightarrow> u64 \<Rightarrow> (u64 \<times> u64 \<times> pool_state) result" where
  "claim_creator_trading_fee s max_base_amount max_quote_amount =
     (let token_base_amount = min (pool_creator_base_fee s) max_base_amount;
          token_quote_amount = min (pool_creator_quote_fee s) max_quote_amount in
     and_then (safe_sub (pool_creator_base_fee s) token_base_amount) (\<lambda>base.
     and_then (safe_sub (pool_creator_quote_fee s) token_quote_amount) (\<lambda>quote.
     Ok (token_base_amount, token_quote_amount,
         s\<lparr>pool_creator_base_fee := base, pool_creator_quote_fee := quote\<rparr>))))"

definition get_protocol_and_trading_base_fee :: "pool_state \<Rightarrow> u64 result" where
  "get_protocol_and_trading_base_fee s =
     and_then (safe_add (pool_partner_base_fee s) (pool_protocol_base_fee s)) (\<lambda>a.
     safe_add a (pool_creator_base_fee s))"

section \<open>Flags and progress\<close>

definition eligible_to_withdraw_migration_fee :: "pool_state \<Rightarrow> u8 \<Rightarrow> bool" where
  "eligible_to_withdraw_migration_fee s fee_mask \<longleftrightarrow>
     pool_migration_fee_withdraw_status s AND fee_mask = 0"

definition update_withdraw_migration_fee :: "pool_state \<Rightarrow> u8 \<Rightarrow> pool_state" where
  "update_withdraw_migration_fee s fee_mask =
     s\<lparr>pool_migration_fee_withdraw_status := pool_migration_fee_withdraw_status s XOR fee_mask\<rparr>"

definition get_migration_progress :: "pool_state \<Rightarrow> migration_progress result" where
  "get_migration_progress s =
     ok_or (migration_progress_of (pool_migration_progress s)) TypeCastFailed"

definition set_migration_progress :: "pool_state \<Rightarrow> u8 \<Rightarrow> pool_state" where
  "set_migration_progress s progress = s\<lparr>pool_migration_progress := progress\<rparr>"

definition has_legacy_creation_fee :: "pool_state \<Rightarrow> bool" where
  "has_legacy_creation_fee s \<longleftrightarrow>
     pool_legacy_creation_fee_bits s AND LEGACY_CREATION_FEE_CHARGED_MASK \<noteq> 0"

definition eligible_to_claim_legacy_creation_fee :: "pool_state \<Rightarrow> bool" where
  "eligible_to_claim_legacy_creation_fee s \<longleftrightarrow>
     pool_legacy_creation_fee_bits s AND LEGACY_CREATION_FEE_CLAIMED_MASK = 0"

definition update_legacy_creation_fee_claimed :: "pool_state \<Rightarrow> pool_state" where
  "update_legacy_creation_fee_claimed s =
     s\<lparr>pool_legacy_creation_fee_bits :=
         pool_legacy_creation_fee_bits s XOR LEGACY_CREATION_FEE_CLAIMED_MASK\<rparr>"

definition eligible_to_claim_partner_pool_creation_fee :: "pool_state \<Rightarrow> bool" where
  "eligible_to_claim_partner_pool_creation_fee s \<longleftrightarrow>
     pool_creation_fee_bits s AND PARTNER_CREATION_FEE_CLAIMED_MASK = 0"

definition update_partner_pool_creation_fee_claimed :: "pool_state \<Rightarrow> pool_state" where
  "update_partner_pool_creation_fee_claimed s =
     s\<lparr>pool_creation_fee_bits := pool_creation_fee_bits s XOR PARTNER_CREATION_FEE_CLAIMED_MASK\<rparr>"

definition eligible_to_claim_protocol_pool_creation_fee :: "pool_state \<Rightarrow> bool" where
  "eligible_to_claim_protocol_pool_creation_fee s \<longleftrightarrow>
     pool_creation_fee_bits s AND PROTOCOL_CREATION_FEE_CLAIMED_MASK = 0"

definition update_protocol_pool_creation_fee_claimed :: "pool_state \<Rightarrow> pool_state" where
  "update_protocol_pool_creation_fee_claimed s =
     s\<lparr>pool_creation_fee_bits := pool_creation_fee_bits s XOR PROTOCOL_CREATION_FEE_CLAIMED_MASK\<rparr>"

definition save_protocol_liquidity_migration_fee :: "pool_state \<Rightarrow> u64 \<Rightarrow> u64 \<Rightarrow> pool_state" where
  "save_protocol_liquidity_migration_fee s base_amount quote_amount =
     s\<lparr>pool_protocol_migration_base_fee_amount := base_amount,
       pool_protocol_migration_quote_fee_amount := quote_amount\<rparr>"

section \<open>Claims\<close>

definition sample_pool :: pool_state where
  "sample_pool = default_pool_state\<lparr>pool_sqrt_price := 18446744073709551616,
     pool_base_reserve := 1000000, pool_quote_reserve := 2500000, pool_protocol_quote_fee := 10\<rparr>"

lemma min_diff: "a - min a b = a - b" "a - min b a = a - b" for a b :: nat
  by linarith+

lemma unat_min: "unat (min (a :: 'w::len word) v) = min (unat a) (unat v)"
  by (simp add: min_def word_le_nat_alt)

text \<open>The two halves of a protocol claim, on an amount \<open>fee\<close> and then an amount \<open>extra\<close>.\<close>

lemma claim_two_steps:
  fixes fee extra max_amount :: u64
  shows "\<exists>f m e t. safe_sub fee (min fee max_amount) = Inr f
    \<and> safe_sub max_amount (min fee max_amount) = Inr m
    \<and> safe_sub extra (min extra m) = Inr e
    \<and> safe_add (min fee max_amount) (min extra m) = Inr t
    \<and> unat t = min (unat fee + unat extra) (unat max_amount)
    \<and> unat f + unat e + unat t = unat fee + unat extra
    \<and> (unat f \<noteq> 0 \<longrightarrow> e = extra)"
proof -
  let ?t = "min fee max_amount"
  let ?m = "max_amount - ?t"
  let ?e = "min extra ?m"
  have f: "unat (fee - ?t) = unat fee - unat max_amount"
    by (subst unat_sub) (simp_all add: unat_min)
  have m: "unat ?m = unat max_amount - unat fee"
    by (subst unat_sub) (simp_all add: unat_min)
  have e: "unat (extra - ?e) = unat extra - unat ?m"
    by (subst unat_sub) (simp_all add: unat_min)
  have sum: "unat ?t + unat ?e = min (unat fee + unat extra) (unat max_amount)"
    unfolding unat_min m by linarith
  then have "unat ?t + unat ?e < 2 ^ LENGTH(64)"
    using unat_lt_2p [of max_amount] by linarith
  then obtain t :: u64 where t: "unat t = unat ?t + unat ?e" by (rule word_witness)
  have "safe_sub fee ?t = Inr (fee - ?t)" "safe_sub max_amount ?t = Inr ?m"
    "safe_sub extra ?e = Inr (extra - ?e)" "safe_add ?t ?e = Inr t"
    using f m e t by (simp_all add: unat_min min_diff)
  moreover have "unat t = min (unat fee + unat extra) (unat max_amount)" using t sum by simp
  moreover have "unat (fee - ?t) + unat (extra - ?e) + unat t = unat fee + unat extra"
    unfolding f e t unat_min m by linarith
  moreover have "unat (fee - ?t) \<noteq> 0 \<longrightarrow> extra - ?e = extra"
  proof
    assume "unat (fee - ?t) \<noteq> 0"
    then have "unat ?m = 0" unfolding f m by linarith
    then show "extra - ?e = extra" by (simp add: unat_eq_0)
  qed
  ultimately show ?thesis by blast
qed

text \<open>
  A protocol claim on the base token always succeeds, pays out exactly the
  smaller of what is owed and the requested maximum, takes it from the trading
  fees before it touches the migration fee, and what is left plus what is paid is
  what was owed.
\<close>

lemma claim_protocol_base_fee_pays_owed:
  "\<exists>amt s'. claim_protocol_base_fee s max_amount = Inr (amt, s') \<and>
    unat amt = min (unat (pool_protocol_base_fee s) + unat (pool_protocol_migration_base_fee_amount s))
      (unat max_amount) \<and>
    unat (pool_protocol_base_fee s') + unat (pool_protocol_migration_base_fee_amount s') + unat amt
      = unat (pool_protocol_base_fee s) + unat (pool_protocol_migration_base_fee_amount s) \<and>
    (pool_protocol_base_fee s' = 0 \<or>
      pool_protocol_migration_base_fee_amount s' = pool_protocol_migration_base_fee_amount s)"
proof -
  obtain f m e t where c: "safe_sub (pool_protocol_base_fee s) (min (pool_protocol_base_fee s) max_amount) = Inr f"
    "safe_sub max_amount (min (pool_protocol_base_fee s) max_amount) = Inr m"
    "safe_sub (pool_protocol_migration_base_fee_amount s)
      (min (pool_protocol_migration_base_fee_amount s) m) = Inr e"
    "safe_add (min (pool_protocol_base_fee s) max_amount)
      (min (pool_protocol_migration_base_fee_amount s) m) = Inr t"
    "unat t = min (unat (pool_protocol_base_fee s) + unat (pool_protocol_migration_base_fee_amount s))
      (unat max_amount)"
    "unat f + unat e + unat t
      = unat (pool_protocol_base_fee s) + unat (pool_protocol_migration_base_fee_amount s)"
    "unat f \<noteq> 0 \<longrightarrow> e = pool_protocol_migration_base_fee_amount s"
    using claim_two_steps by blast
  have "claim_protocol_base_fee s max_amount = Inr (t, s\<lparr>pool_protocol_base_fee := f,
      pool_protocol_migration_base_fee_amount := e\<rparr>)"
    unfolding claim_protocol_base_fee_def Let_def c(1,2) and_then_simps c(3,4) ..
  then show ?thesis using c(5-7) by (auto simp: unat_eq_0)
qed

lemma claim_protocol_quote_fee_pays_owed:
  "\<exists>amt s'. claim_protocol_quote_fee s max_amount = Inr (amt, s') \<and>
    unat amt = min (unat (pool_protocol_quote_fee s) + unat (pool_protocol_migration_quote_fee_amount s))
      (unat max_amount) \<and>
    unat (pool_protocol_quote_fee s') + unat (pool_protocol_migration_quote_fee_amount s') + unat amt
      = unat (pool_protocol_quote_fee s) + unat (pool_protocol_migration_quote_fee_amount s) \<and>
    pool_is_protocol_withdraw_surplus s' = pool_is_protocol_withdraw_surplus s \<and>
    pool_quote_reserve s' = pool_quote_reserve s"
proof -
  obtain f m e t where c: "safe_sub (pool_protocol_quote_fee s) (min (pool_protocol_quote_fee s) max_amount) = Inr f"
    "safe_sub max_amount (min (pool_protocol_quote_fee s) max_amount) = Inr m"
    "safe_sub (pool_protocol_migration_quote_fee_amount s)
      (min (pool_protocol_migration_quote_fee_amount s) m) = Inr e"
    "safe_add (min (pool_protocol_quote_fee s) max_amount)
      (min (pool_protocol_migration_quote_fee_amount s) m) = Inr t"
    "unat t = min (unat (pool_protocol_quote_fee s) + unat (pool_protocol_migration_quote_fee_amount s))
      (unat max_amount)"
    "unat f + unat e + unat t
      = unat (pool_protocol_quote_fee s) + unat (pool_protocol_migration_quote_fee_amount s)"
    using claim_two_steps by blast
  have "claim_protocol_quote_fee s max_amount = Inr (t, s\<lparr>pool_protocol_quote_fee := f,
      pool_protocol_migration_quote_fee_amount := e\<rparr>)"
    unfolding claim_protocol_quote_fee_def Let_def c(1,2) and_then_simps c(3,4) ..
  then show ?thesis using c(5,6) by auto
qed

lemma partner_and_creator_surplus_all [simp]:
  "get_partner_and_creator_surplus t = Inr t"
  by (simp add: get_partner_and_creator_surplus_def PARTNER_AND_CREATOR_SURPLUS_SHARE_def)

lemma protocol_surplus_zero:
  assumes "has_real_quote_surplus s t"
  shows "get_protocol_surplus s t = Inr 0"
proof -
  have "t \<le> pool_quote_reserve s" using assms by (simp add: has_real_quote_surplus_def)
  then have "get_total_surplus s t = Inr (pool_quote_reserve s - t)"
    by (simp add: get_total_surplus_def safe_sub_def)
  then show ?thesis by (simp add: get_protocol_surplus_def safe_sub_def and_then_def del: safe_sub_Ok)
qed


section \<open>Surplus\<close>

lemma split_partner_and_creator_fee_ex:
  assumes "unat (cfg_creator_trading_fee_percentage cfg) \<le> 100"
  shows "\<exists>t. split_partner_and_creator_fee cfg fee = Inr t
    \<and> unat (split_partner_fee t) + unat (split_creator_fee t) = unat fee"
proof (cases "cfg_creator_trading_fee_percentage cfg = 0")
  case True
  then show ?thesis by (simp add: split_partner_and_creator_fee_def)
next
  case False
  let ?c = "unat fee * unat (cfg_creator_trading_fee_percentage cfg) div 100"
  have le: "?c \<le> unat fee" using assms by (intro div_le_of_le_mult) (simp_all add: mult.commute)
  then have "?c < 2 ^ LENGTH(64)" using unat_lt_2p [of fee] by linarith
  then obtain c :: u64 where c: "unat c = ?c" by (rule word_witness)
  have m: "safe_mul_div_cast_u64 fee (ucast (cfg_creator_trading_fee_percentage cfg)) 100 Down = Inr c"
    using c by simp
  have d: "safe_sub fee c = Inr (fee - c)" using le c by (simp add: unat_sub_le)
  have "split_partner_and_creator_fee cfg fee
      = Inr \<lparr>split_partner_fee = fee - c, split_creator_fee = c\<rparr>"
    unfolding split_partner_and_creator_fee_def m and_then_simps d using False by simp
  then show ?thesis using le c by (simp add: unat_sub_le)
qed

text \<open>
  The surplus is divided completely and never twice: once the quote reserve
  has reached the threshold all three shares can be computed, those of partner,
  creator and protocol add up to the surplus, and with a fixed migration amount
  the partner gets all of it.
\<close>

lemma surplus_divided:
  assumes "get_total_surplus s threshold = Inr total_surplus"
    and "unat (cfg_creator_trading_fee_percentage cfg) \<le> 100"
  shows "\<exists>p c. get_partner_surplus cfg total_surplus = Inr p \<and> get_creator_surplus cfg total_surplus = Inr c
    \<and> (if is_fixed_migration_quote_amount_enabled cfg then p = total_surplus \<and> c = 0
       else \<exists>pr. get_protocol_surplus s threshold = Inr pr
         \<and> unat p + unat c + unat pr = unat total_surplus)"
proof (cases "is_fixed_migration_quote_amount_enabled cfg")
  case True
  then show ?thesis by (simp add: get_partner_surplus_def get_creator_surplus_def)
next
  case False
  have m: "get_partner_and_creator_surplus total_surplus = Inr total_surplus"
    by (simp add: get_partner_and_creator_surplus_def PARTNER_AND_CREATOR_SURPLUS_SHARE_def)
  obtain t where t: "split_partner_and_creator_fee cfg total_surplus = Inr t"
    "unat (split_partner_fee t) + unat (split_creator_fee t) = unat total_surplus"
    using split_partner_and_creator_fee_ex [OF assms(2)] by blast
  have "safe_sub total_surplus total_surplus = Inr (0 :: u64)" by simp
  then have "get_protocol_surplus s threshold = Inr 0"
    unfolding get_protocol_surplus_def assms(1) and_then_simps m .
  then show ?thesis using False t
    by (simp add: get_partner_surplus_def get_creator_surplus_def m)
qed

lemma surplus_divided_sample:
  "\<exists>p c pr. get_partner_surplus sample_config 500000 = Inr p
    \<and> get_creator_surplus sample_config 500000 = Inr c
    \<and> get_protocol_surplus sample_pool 2000000 = Inr pr \<and> unat p + unat c + unat pr = 500000"
proof -
  have e: "get_total_surplus sample_pool 2000000 = Inr 500000"
    by (simp add: get_total_surplus_def sample_pool_def default_pool_state_def)
  show ?thesis using surplus_divided [OF e, of sample_config]
    by (auto simp: sample_defs is_fixed_migration_quote_amount_enabled_def)
qed

end
