(* ===== verification/Locked_Vesting.thy ===== *)
theory Locked_Vesting
  imports Config
begin

text \<open>
  The vesting of base tokens after the sale (\<open>LockedVestingParams\<close> in
  \<open>instructions/partner/create_config/process_create_config.rs\<close>) and the escrow of the
  locker program it is turned into.
\<close>

record create_vesting_escrow_parameters =
  ve_vesting_start_time :: u64
  ve_cliff_time :: u64
  ve_frequency :: u64
  ve_cliff_unlock_amount :: u64
  ve_amount_per_period :: u64
  ve_number_of_period :: u64
  ve_update_recipient_mode :: u8
  ve_cancel_mode :: u8

definition default_locked_vesting :: locked_vesting where
  "default_locked_vesting = \<lparr>lv_amount_per_period = 0, lv_cliff_duration_from_migration_time = 0,
     lv_frequency = 0, lv_number_of_period = 0, lv_cliff_unlock_amount = 0\<rparr>"

definition has_vesting :: "locked_vesting \<Rightarrow> bool" where
  "has_vesting lv \<longleftrightarrow> lv \<noteq> default_locked_vesting"

definition to_create_vesting_escrow_params ::
  "locked_vesting \<Rightarrow> u64 \<Rightarrow> create_vesting_escrow_parameters result" where
  "to_create_vesting_escrow_params lv finish_curve_timestamp =
     (let cliff_time = saturating_add finish_curve_timestamp (lv_cliff_duration_from_migration_time lv) in
      Ok \<lparr>ve_vesting_start_time = finish_curve_timestamp, ve_cliff_time = cliff_time,
          ve_frequency = lv_frequency lv, ve_cliff_unlock_amount = lv_cliff_unlock_amount lv,
          ve_amount_per_period = lv_amount_per_period lv,
          ve_number_of_period = lv_number_of_period lv,
          ve_update_recipient_mode = 2, ve_cancel_mode = 1\<rparr>)"

definition locked_vesting_validate :: "locked_vesting \<Rightarrow> unit result" where
  "locked_vesting_validate lv =
     (if has_vesting lv then
        and_then (locked_vesting_total_amount lv) (\<lambda>total_amount.
        require (lv_frequency lv \<noteq> 0 \<and> total_amount \<noteq> 0) InvalidVestingParameters)
      else Ok ())"

lemmas [eval] = default_locked_vesting_def has_vesting_def to_create_vesting_escrow_params_def
  locked_vesting_validate_def locked_vesting_total_amount_def

text \<open>The amount of an escrow, and what it releases by a time.\<close>

definition escrow_total :: "create_vesting_escrow_parameters \<Rightarrow> nat" where
  "escrow_total e = unat (ve_cliff_unlock_amount e) + unat (ve_amount_per_period e) * unat (ve_number_of_period e)"

lemma locked_vesting_total_amount_unat:
  "locked_vesting_total_amount lv = Inr t \<Longrightarrow>
    unat t = unat (lv_cliff_unlock_amount lv) + unat (lv_amount_per_period lv) * unat (lv_number_of_period lv)"
  by (auto simp: locked_vesting_total_amount_def)

lemma to_create_vesting_escrow_params_total:
  assumes "locked_vesting_total_amount lv = Inr t" "to_create_vesting_escrow_params lv finish = Inr e"
  shows "escrow_total e = unat t"
  using assms by (auto simp: to_create_vesting_escrow_params_def escrow_total_def Let_def
      locked_vesting_total_amount_unat)

lemma no_vesting_no_amount: "\<not> has_vesting lv \<Longrightarrow> locked_vesting_total_amount lv = Inr 0"
  by (simp add: has_vesting_def default_locked_vesting_def locked_vesting_total_amount_def safe_mul_def safe_add_def)

end
