(* ===== verification/Damm_V2_Fees.thy ===== *)
theory Damm_V2_Fees
  imports Config
begin

text \<open>
  The fees of the pool that a sale migrates to (\<open>utils/damm_v2_utils.rs\<close>, and the
  fee builders of \<open>PoolConfig\<close> in \<open>state/config.rs\<close>): the market cap fee scheduler with
  its validation, the dynamic fee derived from the base fee, and the parameters
  handed to the DAMM v2 program.  The constants of that program are those of its
  interface description \<open>idls/damm_v2.json\<close>.  Serialized fee data is the record it
  encodes.
\<close>

section \<open>Constants and modes of the DAMM v2 program\<close>

definition DAMM_V2_FEE_DENOMINATOR :: u64 where "DAMM_V2_FEE_DENOMINATOR = 1000000000"
definition DAMM_V2_MAX_BASIS_POINT :: u16 where "DAMM_V2_MAX_BASIS_POINT = 10000"
definition DAMM_V2_MIN_FEE_NUMERATOR :: u64 where "DAMM_V2_MIN_FEE_NUMERATOR = 100000"
definition DAMM_V2_MAX_FEE_NUMERATOR_V0 :: u64 where "DAMM_V2_MAX_FEE_NUMERATOR_V0 = 500000000"
definition DAMM_V2_MAX_FEE_NUMERATOR_V1 :: u64 where "DAMM_V2_MAX_FEE_NUMERATOR_V1 = 990000000"
definition DAMM_V2_CURRENT_POOL_VERSION :: u8 where "DAMM_V2_CURRENT_POOL_VERSION = 1"

datatype damm_v2_dynamic_fee = DynamicFeeDisable | DynamicFeeEnable

datatype damm_v2_base_fee_mode =
    FeeTimeSchedulerLinear | FeeTimeSchedulerExponential | DammV2RateLimiter
  | FeeMarketCapSchedulerLinear | FeeMarketCapSchedulerExponential

definition damm_v2_dynamic_fee_of :: "u8 \<Rightarrow> damm_v2_dynamic_fee option" where
  "damm_v2_dynamic_fee_of = try_from_u8 [DynamicFeeDisable, DynamicFeeEnable]"

definition damm_v2_base_fee_mode_of :: "u8 \<Rightarrow> damm_v2_base_fee_mode option" where
  "damm_v2_base_fee_mode_of = try_from_u8 [FeeTimeSchedulerLinear, FeeTimeSchedulerExponential,
     DammV2RateLimiter, FeeMarketCapSchedulerLinear, FeeMarketCapSchedulerExponential]"

definition get_max_fee_numerator :: "u8 \<Rightarrow> u64 result" where
  "get_max_fee_numerator pool_version =
     (if pool_version = 0 then Ok DAMM_V2_MAX_FEE_NUMERATOR_V0
      else if pool_version = 1 then Ok DAMM_V2_MAX_FEE_NUMERATOR_V1
      else Inl ConstraintViolated)"

section \<open>The market cap fee scheduler\<close>

record market_cap_scheduler =
  ms_cliff_fee_numerator :: u64
  ms_base_fee_mode :: u8
  ms_number_of_period :: u16
  ms_sqrt_price_step_bps :: u32
  ms_scheduler_expiration_duration :: u32
  ms_reduction_factor :: u64

definition market_cap_fee_numerator_by_period :: "market_cap_scheduler \<Rightarrow> u64 \<Rightarrow> u64 result" where
  "market_cap_fee_numerator_by_period m period =
     (let period = min period (ucast (ms_number_of_period m)) in
     and_then (ok_or (damm_v2_base_fee_mode_of (ms_base_fee_mode m)) TypeCastFailed) (\<lambda>mode.
     case mode of
       FeeMarketCapSchedulerLinear \<Rightarrow>
         and_then (safe_mul (ms_reduction_factor m) period) (\<lambda>d.
         safe_sub (ms_cliff_fee_numerator m) d)
     | FeeMarketCapSchedulerExponential \<Rightarrow>
         and_then (ok_or (try_cast period) MathOverflow) (\<lambda>period.
         get_fee_in_period (ms_cliff_fee_numerator m) (ms_reduction_factor m) period)
     | _ \<Rightarrow> err UndeterminedError))"

definition market_cap_min_base_fee_numerator :: "market_cap_scheduler \<Rightarrow> u64 result" where
  "market_cap_min_base_fee_numerator m =
     market_cap_fee_numerator_by_period m (ucast (ms_number_of_period m))"

definition market_cap_scheduler_validate :: "market_cap_scheduler \<Rightarrow> unit result" where
  "market_cap_scheduler_validate m =
     and_then (require (ms_reduction_factor m > 0) InvalidFeeMarketCapScheduler) (\<lambda>_.
     and_then (require (ms_sqrt_price_step_bps m > 0) InvalidFeeMarketCapScheduler) (\<lambda>_.
     and_then (require (ms_scheduler_expiration_duration m > 0) InvalidFeeMarketCapScheduler) (\<lambda>_.
     and_then (require (ms_number_of_period m > 0) InvalidFeeMarketCapScheduler) (\<lambda>_.
     and_then (market_cap_min_base_fee_numerator m) (\<lambda>min_fee_numerator.
     let max_fee_numerator = ms_cliff_fee_numerator m in
     and_then (validate_fee_fraction min_fee_numerator DAMM_V2_FEE_DENOMINATOR) (\<lambda>_.
     and_then (validate_fee_fraction max_fee_numerator DAMM_V2_FEE_DENOMINATOR) (\<lambda>_.
     if min_fee_numerator \<ge> DAMM_V2_MIN_FEE_NUMERATOR then
       and_then (get_max_fee_numerator DAMM_V2_CURRENT_POOL_VERSION) (\<lambda>max_allowed.
       require (max_fee_numerator \<le> max_allowed) ExceedMaxFeeBps)
     else err ExceedMaxFeeBps)))))))"

section \<open>The dynamic fee\<close>

definition calculate_dynamic_fee_params :: "u64 \<Rightarrow> dynamic_fee_parameters result" where
  "calculate_dynamic_fee_params base_fee_numerator =
     and_then (safe_mul (ucast base_fee_numerator :: u128) (ucast MAX_DYNAMIC_FEE_PERCENT)) (\<lambda>m.
     and_then (safe_div m 100) (\<lambda>max_dynamic_fee_numerator.
     and_then (safe_mul max_dynamic_fee_numerator 100000000000) (\<lambda>v.
     and_then (safe_sub v 99999999999) (\<lambda>v_fee.
     and_then (safe_div v_fee (ucast SQUARE_VFA_BIN)) (\<lambda>variable_fee_control.
     and_then (ok_or (try_cast variable_fee_control) TypeCastFailed) (\<lambda>variable_fee_control.
     Ok \<lparr>dp_bin_step = BIN_STEP_BPS_DEFAULT, dp_bin_step_u128 = BIN_STEP_BPS_U128_DEFAULT,
         dp_filter_period = FILTER_PERIOD_DEFAULT, dp_decay_period = DECAY_PERIOD_DEFAULT,
         dp_reduction_factor = REDUCTION_FACTOR_DEFAULT,
         dp_max_volatility_accumulator = MAX_VOLATILITY_ACCUMULATOR,
         dp_variable_fee_control = variable_fee_control\<rparr>))))))"

section \<open>The parameters of the migrated pool\<close>

text \<open>A time scheduler with a fixed fee has all its other fields zero.\<close>

datatype damm_v2_base_fee =
    FeeTimeScheduler u8 u64
  | FeeMarketCapScheduler market_cap_scheduler

record damm_v2_pool_fee_parameters =
  dfp_base_fee :: damm_v2_base_fee
  dfp_compounding_fee_bps :: u16
  dfp_dynamic_fee :: "dynamic_fee_parameters option"

definition config_market_cap_scheduler :: "pool_config \<Rightarrow> u64 \<Rightarrow> market_cap_scheduler" where
  "config_market_cap_scheduler cfg cliff_fee_numerator =
     (let p = cfg_migrated_pool_base_fee cfg in
      \<lparr>ms_cliff_fee_numerator = cliff_fee_numerator,
       ms_base_fee_mode = cfg_migrated_pool_base_fee_mode cfg,
       ms_number_of_period = mc_number_of_period p,
       ms_sqrt_price_step_bps = ucast (mc_sqrt_price_step_bps p),
       ms_scheduler_expiration_duration = mc_scheduler_expiration_duration p,
       ms_reduction_factor = mc_reduction_factor p\<rparr>)"

definition get_damm_v2_migrated_pool_min_base_fee_numerator :: "pool_config \<Rightarrow> u64 result" where
  "get_damm_v2_migrated_pool_min_base_fee_numerator cfg =
     and_then (ok_or (damm_v2_base_fee_mode_of (cfg_migrated_pool_base_fee_mode cfg)) TypeCastFailed)
       (\<lambda>mode.
     if mode = FeeTimeSchedulerLinear \<or> mode = FeeTimeSchedulerExponential then
       to_numerator (ucast (cfg_migrated_pool_fee_bps cfg)) (ucast DAMM_V2_FEE_DENOMINATOR)
     else if mode = FeeMarketCapSchedulerLinear \<or> mode = FeeMarketCapSchedulerExponential then
       and_then (to_numerator (ucast (cfg_migrated_pool_fee_bps cfg)) (ucast DAMM_V2_FEE_DENOMINATOR))
         (\<lambda>cliff_fee_numerator.
       market_cap_min_base_fee_numerator (config_market_cap_scheduler cfg cliff_fee_numerator))
     else err UndeterminedError)"

definition build_damm_v2_base_fee_params :: "pool_config \<Rightarrow> damm_v2_base_fee result" where
  "build_damm_v2_base_fee_params cfg =
     and_then (to_numerator (ucast (cfg_migrated_pool_fee_bps cfg)) (ucast DAMM_V2_FEE_DENOMINATOR))
       (\<lambda>cliff_fee_numerator.
     and_then (ok_or (damm_v2_base_fee_mode_of (cfg_migrated_pool_base_fee_mode cfg)) TypeCastFailed)
       (\<lambda>mode.
     if mode = FeeTimeSchedulerLinear \<or> mode = FeeTimeSchedulerExponential then
       Ok (FeeTimeScheduler (cfg_migrated_pool_base_fee_mode cfg) cliff_fee_numerator)
     else if mode = FeeMarketCapSchedulerLinear \<or> mode = FeeMarketCapSchedulerExponential then
       Ok (FeeMarketCapScheduler (config_market_cap_scheduler cfg cliff_fee_numerator))
     else err UndeterminedError))"

definition build_damm_v2_dynamic_fee_params :: "pool_config \<Rightarrow> dynamic_fee_parameters option result" where
  "build_damm_v2_dynamic_fee_params cfg =
     and_then (get_damm_v2_migrated_pool_min_base_fee_numerator cfg) (\<lambda>min_base_fee_numerator.
     and_then (ok_or (damm_v2_dynamic_fee_of (cfg_migrated_dynamic_fee cfg)) TypeCastFailed) (\<lambda>d.
     case d of
       DynamicFeeDisable \<Rightarrow> Ok None
     | DynamicFeeEnable \<Rightarrow>
         (case calculate_dynamic_fee_params min_base_fee_numerator of
            Inr params \<Rightarrow> Ok (Some params)
          | Inl _ \<Rightarrow> Ok None)))"

definition build_damm_v2_pool_fee_params :: "pool_config \<Rightarrow> damm_v2_pool_fee_parameters result" where
  "build_damm_v2_pool_fee_params cfg =
     and_then (build_damm_v2_base_fee_params cfg) (\<lambda>base_fee.
     and_then (build_damm_v2_dynamic_fee_params cfg) (\<lambda>dynamic_fee.
     Ok \<lparr>dfp_base_fee = base_fee, dfp_compounding_fee_bps = cfg_migrated_compounding_fee_bps cfg,
         dfp_dynamic_fee = dynamic_fee\<rparr>))"

lemmas [eval] = DAMM_V2_FEE_DENOMINATOR_def DAMM_V2_MAX_BASIS_POINT_def DAMM_V2_MIN_FEE_NUMERATOR_def
  DAMM_V2_MAX_FEE_NUMERATOR_V0_def DAMM_V2_MAX_FEE_NUMERATOR_V1_def DAMM_V2_CURRENT_POOL_VERSION_def
  damm_v2_dynamic_fee_of_def damm_v2_base_fee_mode_of_def get_max_fee_numerator_def
  market_cap_fee_numerator_by_period_def market_cap_min_base_fee_numerator_def
  market_cap_scheduler_validate_def calculate_dynamic_fee_params_def
  config_market_cap_scheduler_def get_damm_v2_migrated_pool_min_base_fee_numerator_def
  build_damm_v2_base_fee_params_def build_damm_v2_dynamic_fee_params_def
  build_damm_v2_pool_fee_params_def

end
