(* ===== verification/Accounts.thy ===== *)
theory Accounts
  imports Pool_Ops Locked_Vesting Damm_V2_Fees
begin

text \<open>
  What the instructions see of the chain: accounts and their loaders
  (\<open>utils/pool_account_loader.rs\<close>, \<open>utils/config_account_loader.rs\<close>), the operators and
  the access control of the entry points (\<open>state/operator.rs\<close>, \<open>access_control.rs\<close>,
  \<open>instructions/admin\<close>), the current point (\<open>utils/activation_handler.rs\<close>), the slices
  of remaining accounts (\<open>utils/remaining_accounts.rs\<close>), and token and lamport
  transfers (\<open>utils/token.rs\<close>).

  Other programs and the runtime are not part of the repository.  They are the
  parameter \<open>runtime\<close>: an abstract chain state, the effect of a call on it, the
  balances read back, the addresses of the programs, and the eight byte
  discriminators that the account framework derives from names.
\<close>

section \<open>The runtime\<close>

datatype anchor_name =
    AccountVirtualPool | AccountTransferHookPool | AccountPoolConfig | AccountConfigWithTransferHook
  | AccountMigrationMetadata | AccountDammV2Config | AccountDammV2Pool
  | InstructionSwap | InstructionSwap2 | InstructionSwap2WithTransferHook | InstructionVirtualSwap2
  | InstructionInitializeVirtualPoolWithSplToken | InstructionInitializeVirtualPoolWithToken2022
  | InstructionInitializeVirtualPoolWithToken2022TransferHook

datatype authority_type = MintTokens | AccountOwner | MetadataPointer | TransferHookProgramId

text \<open>
  The calls the program makes, with the accounts and arguments that matter to it:
  to the token programs, the system program, the token metadata program, the
  locker, and the two constant product programs it migrates to.
\<close>

record damm_v2_dynamic_config_parameters =
  dcp_pool_fees :: damm_v2_pool_fee_parameters
  dcp_sqrt_min_price :: u128
  dcp_sqrt_max_price :: u128
  dcp_has_alpha_vault :: bool
  dcp_liquidity :: u128
  dcp_sqrt_price :: u128
  dcp_activation_type :: u8
  dcp_collect_fee_mode :: u8
  dcp_activation_point :: "u64 option"

datatype call =
    TransferChecked pubkey pubkey pubkey pubkey pubkey u64
  | TokenTransfer pubkey pubkey pubkey u64
  | UpdateTransferHook pubkey pubkey pubkey "pubkey option"
  | SetAuthority pubkey pubkey pubkey authority_type "pubkey option"
  | MintTo pubkey pubkey pubkey pubkey u64
  | Burn pubkey pubkey pubkey pubkey u64
  | SystemTransfer pubkey pubkey u64
  | SubLamports pubkey u64
  | AddLamports pubkey u64
  | CreateMetadataAccount pubkey pubkey bool string string string
  | UpdateMetadataAuthority pubkey pubkey
  | TokenMetadataInitialize pubkey pubkey pubkey string string string
  | TokenMetadataUpdateAuthority pubkey pubkey pubkey "pubkey option"
  | CreateVestingEscrow pubkey pubkey pubkey pubkey pubkey create_vesting_escrow_parameters
  | DammV1InitializePool pubkey pubkey pubkey pubkey pubkey u64 u64
  | DammV1Lock pubkey pubkey pubkey u64
  | DammV2InitializePool pubkey pubkey pubkey pubkey pubkey u128 u128
  | DammV2InitializePoolWithDynamicConfig pubkey pubkey pubkey pubkey pubkey damm_v2_dynamic_config_parameters
  | DammV2CreatePosition pubkey pubkey
  | DammV2AddLiquidity pubkey pubkey pubkey pubkey u128 u64 u64
  | DammV2PermanentLockPosition pubkey pubkey u128
  | DammV2LockInnerPosition pubkey pubkey vesting_parameters

record 'r runtime =
  rt_invoke :: "call \<Rightarrow> 'r \<Rightarrow> 'r option"
  rt_token_amount :: "pubkey \<Rightarrow> 'r \<Rightarrow> u64"
  rt_lamports :: "pubkey \<Rightarrow> 'r \<Rightarrow> u64"
  rt_minimum_balance :: "nat \<Rightarrow> u64"
  rt_token_program :: pubkey
  rt_token_2022_program :: pubkey
  rt_instructions_sysvar :: pubkey
  rt_pool_authority :: pubkey
  rt_protocol_fee_authority :: pubkey
  rt_discriminator :: "anchor_name \<Rightarrow> u64"
  rt_associated_token_address :: "pubkey \<Rightarrow> pubkey \<Rightarrow> pubkey \<Rightarrow> pubkey"

definition invoke :: "'r runtime \<Rightarrow> call \<Rightarrow> 'r \<Rightarrow> 'r result" where
  "invoke rt c r = (case rt_invoke rt c r of None \<Rightarrow> Inl CallFailed | Some r' \<Rightarrow> Ok r')"

lemma invoke_Ok_iff [simp]: "invoke rt c r = Inr r' \<longleftrightarrow> rt_invoke rt c r = Some r'"
  by (simp add: invoke_def split: option.splits)

record clock =
  clk_slot :: u64
  clk_unix_timestamp :: u64

definition get_current_point :: "clock \<Rightarrow> u8 \<Rightarrow> u64 result" where
  "get_current_point clk activation_type =
     and_then (ok_or (activation_type_of activation_type) InvalidActivationType) (\<lambda>activation_type.
     Ok (case activation_type of
           Slot \<Rightarrow> clk_slot clk
         | Timestamp \<Rightarrow> clk_unix_timestamp clk))"

section \<open>Addresses of the program\<close>

definition program_id :: pubkey where
  "program_id = 81827801845132257645041356541650224567801136459156794772048681032187587598702"
definition admin_id :: pubkey where
  "admin_id = 2367758253315726129267097742729202915660568706888840637202074618360248949808"
definition treasury_id :: pubkey where
  "treasury_id = 98498064679591032085660472652858798584297956472382403602762096729011772377446"
definition virtual_swap_authority_id :: pubkey where
  "virtual_swap_authority_id = 100676659787733978081881293625116048297289951551258894055075687665947312682269"

definition assert_eq_admin :: "pubkey \<Rightarrow> bool" where
  "assert_eq_admin admin \<longleftrightarrow> admin_id = admin"

definition assert_eq_virtual_swap_authority :: "pubkey \<Rightarrow> bool" where
  "assert_eq_virtual_swap_authority authority \<longleftrightarrow> virtual_swap_authority_id = authority"

section \<open>Loading accounts\<close>

text \<open>
  An account as its loaders see it: owner, length of its data, and the first eight
  bytes when there are as many.  The state behind the discriminator is the record
  the instruction works on.
\<close>

record account_info =
  ai_key :: pubkey
  ai_owner :: pubkey
  ai_data_len :: nat
  ai_discriminator :: u64

record account_loader =
  al_account_info :: account_info
  al_is_transfer_hook :: bool

definition POOL_STATE_INIT_SPACE :: nat where "POOL_STATE_INIT_SPACE = 416"
definition POOL_CONFIG_INIT_SPACE :: nat where "POOL_CONFIG_INIT_SPACE = 1040"
definition CONFIG_WITH_TRANSFER_HOOK_INIT_SPACE :: nat where
  "CONFIG_WITH_TRANSFER_HOOK_INIT_SPACE = 1120"

definition load_pool_account :: "'r runtime \<Rightarrow> account_info \<Rightarrow> account_loader result" where
  "load_pool_account rt account =
     and_then (require (ai_owner account = program_id) InvalidPoolAccount) (\<lambda>_.
     and_then (require (ai_data_len account = 8 + POOL_STATE_INIT_SPACE) InvalidPoolAccount) (\<lambda>_.
     let is_transfer_hook = ai_discriminator account = rt_discriminator rt AccountTransferHookPool in
     and_then (require (ai_discriminator account = rt_discriminator rt AccountVirtualPool
        \<or> is_transfer_hook) InvalidPoolAccount) (\<lambda>_.
     Ok \<lparr>al_account_info = account, al_is_transfer_hook = is_transfer_hook\<rparr>)))"

definition load_config_account :: "'r runtime \<Rightarrow> account_info \<Rightarrow> account_loader result" where
  "load_config_account rt account =
     and_then (require (ai_owner account = program_id) InvalidConfigAccount) (\<lambda>_.
     and_then (require (ai_data_len account \<ge> 8) InvalidConfigAccount) (\<lambda>_.
     let is_transfer_hook =
       ai_discriminator account = rt_discriminator rt AccountConfigWithTransferHook in
     and_then
       (if is_transfer_hook then
          require (ai_data_len account = 8 + CONFIG_WITH_TRANSFER_HOOK_INIT_SPACE) InvalidConfigAccount
        else
          and_then (require (ai_discriminator account = rt_discriminator rt AccountPoolConfig)
            InvalidConfigAccount) (\<lambda>_.
          require (ai_data_len account = 8 + POOL_CONFIG_INIT_SPACE) InvalidConfigAccount)) (\<lambda>_.
     Ok \<lparr>al_account_info = account, al_is_transfer_hook = is_transfer_hook\<rparr>)))"

section \<open>Operators and access control\<close>

record operator =
  op_whitelisted_address :: pubkey
  op_permission :: u128

definition operator_initialize :: "operator \<Rightarrow> pubkey \<Rightarrow> u128 \<Rightarrow> operator" where
  "operator_initialize op whitelisted_address permission =
     op\<lparr>op_whitelisted_address := whitelisted_address, op_permission := permission\<rparr>"

definition is_permission_allow :: "operator \<Rightarrow> operator_permission \<Rightarrow> bool" where
  "is_permission_allow op permission \<longleftrightarrow>
     op_permission op AND push_bit (unat (operator_permission_code permission)) 1 \<noteq> 0"

definition handle_create_operator_account :: "operator \<Rightarrow> pubkey \<Rightarrow> u128 \<Rightarrow> operator result" where
  "handle_create_operator_account op whitelisted_address permission =
     and_then (require (permission > 0 \<and> permission < push_bit (unat MAX_OPERATION) 1)
       InvalidPermission) (\<lambda>_.
     Ok (operator_initialize op whitelisted_address permission))"

definition is_admin :: "pubkey \<Rightarrow> unit result" where
  "is_admin signer = require (assert_eq_admin signer) InvalidAdmin"

definition is_virtual_swap_authority :: "pubkey \<Rightarrow> unit result" where
  "is_virtual_swap_authority signer = require (assert_eq_virtual_swap_authority signer) Unauthorized"

definition is_claim_fee_operator :: "pubkey \<Rightarrow> pubkey \<Rightarrow> unit result" where
  "is_claim_fee_operator operator signer = require (operator = signer) Unauthorized"

definition is_partner_fee_claimer ::
  "'r runtime \<Rightarrow> account_info \<Rightarrow> pool_config \<Rightarrow> pubkey \<Rightarrow> unit result" where
  "is_partner_fee_claimer rt account cfg fee_claimer =
     and_then (load_config_account rt account) (\<lambda>_.
     require (cfg_fee_claimer cfg = fee_claimer) Unauthorized)"

definition is_pool_creator :: "'r runtime \<Rightarrow> account_info \<Rightarrow> pool_state \<Rightarrow> pubkey \<Rightarrow> unit result" where
  "is_pool_creator rt account s creator =
     and_then (load_pool_account rt account) (\<lambda>_.
     require (pool_creator s = creator) Unauthorized)"

definition is_valid_operator_role :: "operator \<Rightarrow> pubkey \<Rightarrow> operator_permission \<Rightarrow> unit result" where
  "is_valid_operator_role op signer permission =
     (if op_whitelisted_address op = signer \<and> is_permission_allow op permission
      then Ok () else err InvalidPermission)"

lemmas [eval] = get_current_point_def POOL_STATE_INIT_SPACE_def POOL_CONFIG_INIT_SPACE_def
  CONFIG_WITH_TRANSFER_HOOK_INIT_SPACE_def load_pool_account_def load_config_account_def
  is_permission_allow_def handle_create_operator_account_def operator_initialize_def
  is_partner_fee_claimer_def is_pool_creator_def is_valid_operator_role_def invoke_def

section \<open>Token accounts and transfers\<close>

record mint_account =
  mint_key :: pubkey
  mint_program :: pubkey
  mint_hook_program :: "pubkey option"

record token_account =
  ta_key :: pubkey
  ta_mint :: pubkey
  ta_program :: pubkey
  ta_authority :: pubkey
  ta_amount :: u64

definition get_transfer_hook_program_id :: "'r runtime \<Rightarrow> mint_account \<Rightarrow> pubkey option" where
  "get_transfer_hook_program_id rt token_mint =
     (if mint_program token_mint = rt_token_program rt then None else mint_hook_program token_mint)"

text \<open>
  A transfer with the accounts its mint's transfer hook asks for: they must be given
  exactly when the mint has a hook.
\<close>

definition check_transfer_hook ::
  "'r runtime \<Rightarrow> mint_account \<Rightarrow> account_info list option \<Rightarrow> unit result" where
  "check_transfer_hook rt token_mint transfer_hook_accounts =
     (case get_transfer_hook_program_id rt token_mint of
        Some _ \<Rightarrow> (case transfer_hook_accounts of
            None \<Rightarrow> err MissingRemainingAccountForTransferHook
          | Some _ \<Rightarrow> Ok ())
      | None \<Rightarrow> require (transfer_hook_accounts = None) NoTransferHookProgram)"

definition transfer_token_from_user ::
  "'r runtime \<Rightarrow> pubkey \<Rightarrow> mint_account \<Rightarrow> pubkey \<Rightarrow> pubkey \<Rightarrow> pubkey \<Rightarrow> u64
    \<Rightarrow> account_info list option \<Rightarrow> 'r \<Rightarrow> 'r result" where
  "transfer_token_from_user rt authority token_mint token_owner_account destination token_program
     amt transfer_hook_accounts r =
     and_then (check_transfer_hook rt token_mint transfer_hook_accounts) (\<lambda>_.
     invoke rt (TransferChecked token_program token_owner_account (mint_key token_mint) destination
       authority amt) r)"

definition transfer_token_from_pool_authority ::
  "'r runtime \<Rightarrow> mint_account \<Rightarrow> pubkey \<Rightarrow> pubkey \<Rightarrow> pubkey \<Rightarrow> u64
    \<Rightarrow> account_info list option \<Rightarrow> 'r \<Rightarrow> 'r result" where
  "transfer_token_from_pool_authority rt token_mint token_vault token_owner_account token_program
     amt transfer_hook_accounts r =
     and_then (check_transfer_hook rt token_mint transfer_hook_accounts) (\<lambda>_.
     invoke rt (TransferChecked token_program token_vault (mint_key token_mint) token_owner_account
       (rt_pool_authority rt) amt) r)"

definition update_account_lamports_to_minimum_balance ::
  "'r runtime \<Rightarrow> account_info \<Rightarrow> pubkey \<Rightarrow> 'r \<Rightarrow> 'r result" where
  "update_account_lamports_to_minimum_balance rt account payer r =
     (let minimum_balance = rt_minimum_balance rt (ai_data_len account);
          current_lamport = rt_lamports rt (ai_key account) r in
      if minimum_balance > current_lamport then
        and_then (safe_sub minimum_balance current_lamport) (\<lambda>extra_lamports.
        invoke rt (SystemTransfer payer (ai_key account) extra_lamports) r)
      else Ok r)"

definition transfer_lamports_from_user ::
  "'r runtime \<Rightarrow> pubkey \<Rightarrow> pubkey \<Rightarrow> u64 \<Rightarrow> 'r \<Rightarrow> 'r result" where
  "transfer_lamports_from_user rt from_user to_account lamports r =
     invoke rt (SystemTransfer from_user to_account lamports) r"

definition transfer_lamports_from_pool_account ::
  "'r runtime \<Rightarrow> pubkey \<Rightarrow> pubkey \<Rightarrow> u64 \<Rightarrow> 'r \<Rightarrow> 'r result" where
  "transfer_lamports_from_pool_account rt pool to_account lamports r =
     and_then (invoke rt (SubLamports pool lamports) r) (\<lambda>r.
     and_then (invoke rt (AddLamports to_account lamports) r) (\<lambda>r.
     let minimum_balance = rt_minimum_balance rt (8 + POOL_STATE_INIT_SPACE) in
     and_then (require (rt_lamports rt pool r \<ge> minimum_balance) InsufficientPoolLamports) (\<lambda>_.
     Ok r)))"

definition validate_ata_token ::
  "'r runtime \<Rightarrow> token_account \<Rightarrow> pubkey \<Rightarrow> pubkey \<Rightarrow> pubkey \<Rightarrow> unit result" where
  "validate_ata_token rt token_account owner mint token_program_id =
     and_then (require (rt_associated_token_address rt owner mint token_program_id
       = ta_key token_account) IncorrectATA) (\<lambda>_.
     require (ta_authority token_account = owner) IncorrectATA)"

definition get_token_program_from_flag :: "'r runtime \<Rightarrow> u8 \<Rightarrow> pubkey result" where
  "get_token_program_from_flag rt flag =
     and_then (ok_or (try_from_u8 [TokenProgram, TokenProgram2022] flag) TypeCastFailed) (\<lambda>f.
     Ok (case f of
           TokenProgram \<Rightarrow> rt_token_program rt
         | TokenProgram2022 \<Rightarrow> rt_token_2022_program rt))"

definition get_token_program_from_pool_type :: "'r runtime \<Rightarrow> u8 \<Rightarrow> pubkey result" where
  "get_token_program_from_pool_type rt pool_type =
     and_then (ok_or (pool_type_of pool_type) TypeCastFailed) (\<lambda>t.
     Ok (case t of
           PoolSplToken \<Rightarrow> rt_token_program rt
         | PoolToken2022 \<Rightarrow> rt_token_2022_program rt))"

definition get_token_program_flags :: "'r runtime \<Rightarrow> mint_account \<Rightarrow> token_program_flags" where
  "get_token_program_flags rt token_mint =
     (if mint_program token_mint = rt_token_program rt then TokenProgram else TokenProgram2022)"

text \<open>
  The wrapper of the calls to other programs that sign for the pool authority: the
  call may not take lamports from the account, nor change its owner or size.
\<close>

record account_snapshot =
  snap_lamports :: u64
  snap_owner :: pubkey
  snap_data_len :: nat

definition cpi_with_account_lamport_and_owner_checking ::
  "('r \<Rightarrow> 'r result) \<Rightarrow> ('r \<Rightarrow> account_snapshot) \<Rightarrow> 'r \<Rightarrow> 'r result" where
  "cpi_with_account_lamport_and_owner_checking cpi_fn account r =
     (let before = account r in
      and_then (cpi_fn r) (\<lambda>r.
      let after = account r in
      and_then (require (snap_lamports after \<ge> snap_lamports before) AccountInvariantViolation) (\<lambda>_.
      and_then (require (snap_owner before = snap_owner after) AccountInvariantViolation) (\<lambda>_.
      and_then (require (snap_data_len before = snap_data_len after) AccountInvariantViolation) (\<lambda>_.
      Ok r)))))"

lemmas [eval] = get_transfer_hook_program_id_def check_transfer_hook_def
  transfer_token_from_user_def transfer_token_from_pool_authority_def validate_ata_token_def
  get_token_program_from_flag_def get_token_program_from_pool_type_def
  transfer_lamports_from_pool_account_def

section \<open>Remaining accounts\<close>

datatype accounts_type = TransferHookBase | TransferHookBaseReferral

record remaining_accounts_slice =
  slice_accounts_type :: accounts_type
  slice_length :: u8

record parsed_remaining_accounts =
  transfer_hook_base :: "account_info list option"
  transfer_hook_base_referral :: "account_info list option"

fun parse_slices ::
  "accounts_type list \<Rightarrow> remaining_accounts_slice list \<Rightarrow> account_info list
    \<Rightarrow> parsed_remaining_accounts \<Rightarrow> (account_info list \<times> parsed_remaining_accounts) result" where
  "parse_slices valid [] remaining parsed = Ok (remaining, parsed)"
| "parse_slices valid (sl # slices) remaining parsed =
     and_then (require (slice_accounts_type sl \<in> set valid) InvalidRemainingAccountSliceType) (\<lambda>_.
     if slice_length sl = 0 then parse_slices valid slices remaining parsed
     else
       let len = unat (slice_length sl) in
       and_then (require (len \<le> length remaining) InvalidRemainingAccountsLength) (\<lambda>_.
       let accounts = take len remaining; remaining = drop len remaining in
       case slice_accounts_type sl of
         TransferHookBase \<Rightarrow>
           and_then (require (transfer_hook_base parsed = None) DuplicatedRemainingAccountTypes) (\<lambda>_.
           parse_slices valid slices remaining (parsed\<lparr>transfer_hook_base := Some accounts\<rparr>))
       | TransferHookBaseReferral \<Rightarrow>
           and_then (require (transfer_hook_base_referral parsed = None)
             DuplicatedRemainingAccountTypes) (\<lambda>_.
           parse_slices valid slices remaining
             (parsed\<lparr>transfer_hook_base_referral := Some accounts\<rparr>))))"

definition parse_transfer_hook_accounts ::
  "account_info list \<Rightarrow> remaining_accounts_slice list \<Rightarrow> accounts_type list
    \<Rightarrow> (account_info list \<times> parsed_remaining_accounts) result" where
  "parse_transfer_hook_accounts remaining slices valid =
     parse_slices valid slices remaining
       \<lparr>transfer_hook_base = None, transfer_hook_base_referral = None\<rparr>"

lemmas [eval] = parse_transfer_hook_accounts_def

section \<open>Slices use the accounts in order\<close>

definition slice_total :: "remaining_accounts_slice list \<Rightarrow> nat" where
  "slice_total slices = sum_list (map (\<lambda>s. unat (slice_length s)) slices)"

lemma slice_total_simps [simp]:
  "slice_total [] = 0"
  "slice_total (s # ss) = unat (slice_length s) + slice_total ss"
  by (simp_all add: slice_total_def)

definition parsed_of :: "parsed_remaining_accounts \<Rightarrow> accounts_type \<Rightarrow> account_info list option" where
  "parsed_of p t = (case t of
     TransferHookBase \<Rightarrow> transfer_hook_base p
   | TransferHookBaseReferral \<Rightarrow> transfer_hook_base_referral p)"

text \<open>The accounts each slice names, in order, without the empty slices.\<close>

fun allot :: "remaining_accounts_slice list \<Rightarrow> account_info list \<Rightarrow> (accounts_type \<times> account_info list) list" where
  "allot [] remaining = []"
| "allot (s # ss) remaining =
     (if slice_length s = 0 then allot ss remaining
      else (slice_accounts_type s, take (unat (slice_length s)) remaining)
        # allot ss (drop (unat (slice_length s)) remaining))"

lemma unat_pos: "x \<noteq> 0 \<Longrightarrow> 0 < unat x"
  by (simp add: unat_gt_0)

lemma parse_slices_parts:
  assumes "parse_slices valid slices remaining p = Inr (rest, p')"
  shows "rest = drop (slice_total slices) remaining \<and> slice_total slices \<le> length remaining
    \<and> distinct (map fst (allot slices remaining))
    \<and> (\<forall>s\<in>set slices. slice_accounts_type s \<in> set valid)
    \<and> (\<forall>t\<in>fst ` set (allot slices remaining). parsed_of p t = None)
    \<and> (\<forall>t. parsed_of p' t = (case map_of (allot slices remaining) t of
          None \<Rightarrow> parsed_of p t | Some accs \<Rightarrow> Some accs))"
  using assms
proof (induction slices arbitrary: remaining p)
  case Nil
  then show ?case by (auto split: option.splits)
next
  case (Cons sl slices)
  let ?n = "unat (slice_length sl)"
  show ?case
  proof (cases "slice_length sl = 0")
    case True
    then have "parse_slices valid slices remaining p = Inr (rest, p')"
      "slice_accounts_type sl \<in> set valid" using Cons.prems by simp_all
    then show ?thesis using Cons.IH True by simp
  next
    case False
    define q where "q = (case slice_accounts_type sl of
        TransferHookBase \<Rightarrow> p\<lparr>transfer_hook_base := Some (take ?n remaining)\<rparr>
      | TransferHookBaseReferral \<Rightarrow> p\<lparr>transfer_hook_base_referral := Some (take ?n remaining)\<rparr>)"
    have fields: "parsed_of q t = (if t = slice_accounts_type sl then Some (take ?n remaining) else parsed_of p t)" for t
      by (cases t; cases "slice_accounts_type sl") (simp_all add: parsed_of_def q_def)
    have rec: "parse_slices valid slices (drop ?n remaining) q = Inr (rest, p')"
      and pre: "slice_accounts_type sl \<in> set valid" "?n \<le> length remaining"
        "parsed_of p (slice_accounts_type sl) = None"
      using Cons.prems False
      by (auto simp: Let_def parsed_of_def q_def split: accounts_type.splits)
    have ih: "rest = drop (slice_total slices) (drop ?n remaining)
      \<and> slice_total slices \<le> length (drop ?n remaining)
      \<and> distinct (map fst (allot slices (drop ?n remaining)))
      \<and> (\<forall>s\<in>set slices. slice_accounts_type s \<in> set valid)
      \<and> (\<forall>t\<in>fst ` set (allot slices (drop ?n remaining)). parsed_of q t = None)
      \<and> (\<forall>t. parsed_of p' t = (case map_of (allot slices (drop ?n remaining)) t of
          None \<Rightarrow> parsed_of q t | Some accs \<Rightarrow> Some accs))"
      by (rule Cons.IH [OF rec])
    have new: "slice_accounts_type sl \<notin> fst ` set (allot slices (drop ?n remaining))"
      using ih fields by (metis option.distinct(1))
    have all: "allot (sl # slices) remaining
        = (slice_accounts_type sl, take ?n remaining) # allot slices (drop ?n remaining)"
      using False by simp
    have "parsed_of p' t = (case map_of (allot (sl # slices) remaining) t of
        None \<Rightarrow> parsed_of p t | Some accs \<Rightarrow> Some accs)" for t
    proof (cases "t = slice_accounts_type sl")
      case True
      then have "map_of (allot slices (drop ?n remaining)) t = None"
        using new by (simp add: map_of_eq_None_iff)
      then show ?thesis using ih fields True unfolding all by simp
    next
      case False
      then show ?thesis using ih fields unfolding all by (simp split: option.split)
    qed
    moreover have "\<forall>t\<in>fst ` set (allot slices (drop ?n remaining)). parsed_of p t = None"
      using ih fields by (metis option.distinct(1))
    moreover have "rest = drop (slice_total (sl # slices)) remaining"
      "slice_total (sl # slices) \<le> length remaining"
      using ih pre(2) by (auto simp: add.commute)
    ultimately show ?thesis using ih new pre unfolding all by simp
  qed
qed

lemma parse_transfer_hook_accounts_parts:
  assumes "parse_transfer_hook_accounts remaining slices valid = Inr (rest, p)"
  shows "rest = drop (slice_total slices) remaining" "slice_total slices \<le> length remaining"
    "distinct (map fst (allot slices remaining))"
    "parsed_of p t = map_of (allot slices remaining) t"
  using parse_slices_parts [OF assms [unfolded parse_transfer_hook_accounts_def]]
  by (auto simp: parsed_of_def split: option.splits accounts_type.splits)

end
