(* ===== verification/Sample_Runtime.thy ===== *)
theory Sample_Runtime
  imports Accounts
begin

text \<open>
  A concrete runtime for the examples, whose chain state is a table of token
  balances, and the accounts of one pool, whose vaults only the pool authority may
  debit.  It only serves to show that the
  hypotheses about the runtime can be met.
\<close>

section \<open>A runtime of token balances\<close>

text \<open>
  The tokens of a position over the whole range, rounded up; liquidity is added at
  the price of the sample pool.
\<close>

definition take_liquidity :: "pubkey \<Rightarrow> pubkey \<Rightarrow> u128 \<Rightarrow> u128 \<Rightarrow> (pubkey \<Rightarrow> u64) \<Rightarrow> (pubkey \<Rightarrow> u64) option" where
  "take_liquidity base_vault quote_vault liquidity sqrt_p b =
     (let x = ceil_div (unat liquidity * (unat MAX_SQRT_PRICE - unat sqrt_p)) (unat sqrt_p * unat MAX_SQRT_PRICE);
          y = ceil_div (unat liquidity * (unat sqrt_p - unat MIN_SQRT_PRICE)) (2 ^ 128) in
      if x \<le> unat (b base_vault) \<and> y \<le> unat (b quote_vault)
      then Some (b(base_vault := b base_vault - of_nat x, quote_vault := b quote_vault - of_nat y))
      else None)"

definition ledger_invoke :: "call \<Rightarrow> (pubkey \<Rightarrow> u64) \<Rightarrow> (pubkey \<Rightarrow> u64) option" where
  "ledger_invoke c b =
     (case c of
        TransferChecked _ from _ to authority n \<Rightarrow>
          if (from \<in> {11, 12} \<longrightarrow> authority = 104) \<and> n \<le> b from \<and> unat ((b(from := b from - n)) to) + unat n < 2 ^ 64
          then Some ((b(from := b from - n))(to := (b(from := b from - n)) to + n))
          else None
      | MintTo _ _ to _ n \<Rightarrow> if unat (b to) + unat n < 2 ^ 64 then Some (b(to := b to + n)) else None
      | Burn _ _ from authority n \<Rightarrow>
          if (from \<in> {11, 12} \<longrightarrow> authority = 104) \<and> n \<le> b from
          then Some (b(from := b from - n)) else None
      | DammV1InitializePool _ _ base_vault quote_vault _ n m \<Rightarrow>
          if n \<le> b base_vault \<and> m \<le> b quote_vault
          then Some (b(base_vault := b base_vault - n, quote_vault := b quote_vault - m)) else None
      | DammV2InitializePool _ _ _ base_vault quote_vault liquidity sqrt_p \<Rightarrow>
          take_liquidity base_vault quote_vault liquidity sqrt_p b
      | DammV2AddLiquidity _ _ base_vault quote_vault liquidity _ _ \<Rightarrow>
          take_liquidity base_vault quote_vault liquidity 55340232221128654848 b
      | _ \<Rightarrow> Some b)"

fun sample_discriminator :: "anchor_name \<Rightarrow> u64" where
  "sample_discriminator AccountVirtualPool = 1"
| "sample_discriminator AccountTransferHookPool = 2"
| "sample_discriminator AccountPoolConfig = 3"
| "sample_discriminator AccountConfigWithTransferHook = 4"
| "sample_discriminator InstructionSwap = 5"
| "sample_discriminator InstructionSwap2 = 6"
| "sample_discriminator InstructionSwap2WithTransferHook = 7"
| "sample_discriminator InstructionVirtualSwap2 = 8"
| "sample_discriminator InstructionInitializeVirtualPoolWithSplToken = 9"
| "sample_discriminator InstructionInitializeVirtualPoolWithToken2022 = 10"
| "sample_discriminator InstructionInitializeVirtualPoolWithToken2022TransferHook = 11"
| "sample_discriminator AccountMigrationMetadata = 12"
| "sample_discriminator AccountDammV2Config = 13"
| "sample_discriminator AccountDammV2Pool = 14"

definition ledger_runtime :: "(pubkey \<Rightarrow> u64) runtime" where
  "ledger_runtime = \<lparr>rt_invoke = ledger_invoke, rt_token_amount = (\<lambda>k b. b k),
     rt_lamports = (\<lambda>k b. 1000000), rt_minimum_balance = (\<lambda>n. 1000), rt_token_program = 101,
     rt_token_2022_program = 102, rt_instructions_sysvar = 103, rt_pool_authority = 104,
     rt_protocol_fee_authority = 105, rt_discriminator = sample_discriminator,
     rt_associated_token_address = (\<lambda>a b c. a)\<rparr>"

text \<open>The pool with key 10, vaults 11 and 12, and its configuration with key 20.\<close>

definition sample_pool_account :: account_info where
  "sample_pool_account = \<lparr>ai_key = 10, ai_owner = program_id, ai_data_len = 424, ai_discriminator = 1\<rparr>"

definition sample_config_account :: account_info where
  "sample_config_account = \<lparr>ai_key = 20, ai_owner = program_id, ai_data_len = 1048, ai_discriminator = 3\<rparr>"

definition sample_clock :: clock where
  "sample_clock = \<lparr>clk_slot = 10, clk_unix_timestamp = 10\<rparr>"

definition sample_balances :: "pubkey \<Rightarrow> u64" where
  "sample_balances = (\<lambda>_. 0)(11 := 1000000, 31 := 5000000)"

definition keyed :: "pool_state \<Rightarrow> pool_state" where
  "keyed s = s\<lparr>pool_base_vault := 11, pool_quote_vault := 12, pool_config_key := 20,
     pool_base_mint := 5, pool_creator := 40\<rparr>"

lemmas runtime_sample_defs = ledger_runtime_def ledger_invoke_def sample_pool_account_def
  sample_config_account_def sample_clock_def sample_balances_def keyed_def

end
