(* ===== verification/Distribution.thy ===== *)
theory Distribution
  imports Sample
begin

text \<open>
  The splits of a configuration add up: migrated liquidity, migration fee,
  trading fee, creation fee, and the adjustment of a distribution to the
  liquidity that the migrated pool really gets.
\<close>

section \<open>Shares\<close>

lemma share_Ok [simp]: "share l p = Inr z \<longleftrightarrow> unat z = unat l * unat p div 100"
  using unat_range(5) [of z] by (auto simp: share_def simp del: unat_range)

definition percentages :: "pool_config \<Rightarrow> nat" where
  "percentages cfg = unat (cfg_partner_liquidity_percentage cfg)
     + unat (cfg_partner_permanent_locked_liquidity_percentage cfg)
     + unat (vi_vesting_percentage (cfg_partner_liquidity_vesting_info cfg))
     + unat (cfg_creator_liquidity_percentage cfg)
     + unat (cfg_creator_permanent_locked_liquidity_percentage cfg)
     + unat (vi_vesting_percentage (cfg_creator_liquidity_vesting_info cfg))"

lemma share_ex:
  assumes "unat p \<le> 100" shows "\<exists>z. share l p = Inr z \<and> unat z = unat l * unat p div 100"
proof -
  have "unat l * unat p div 100 \<le> unat l"
    using assms by (intro div_le_of_le_mult) (simp_all add: mult.commute)
  then have "unat l * unat p div 100 < 2 ^ LENGTH(128)" using unat_lt_2p [of l] by linarith
  then obtain z :: u128 where z: "unat z = unat l * unat p div 100" by (rule word_witness)
  then have "share l p = Inr z" by simp
  with z show ?thesis by blast
qed

lemma div_add_le: "x div m + y div m \<le> (x + y) div (m :: nat)"
  using div_add1_eq [of x y m] by linarith

lemma liquidity_distribution_total:
  assumes "percentages cfg = 100"
  shows "\<exists>d. get_liquidity_distribution cfg l = Inr d \<and>
    unat (li_unlocked_liquidity (ld_partner d)) + unat (li_permanent_locked_liquidity (ld_partner d))
      + unat (li_vested_liquidity (ld_partner d)) + unat (li_unlocked_liquidity (ld_creator d))
      + unat (li_permanent_locked_liquidity (ld_creator d)) + unat (li_vested_liquidity (ld_creator d)) = unat l \<and>
    unat l * unat (cfg_creator_liquidity_percentage cfg) div 100 \<le> unat (li_unlocked_liquidity (ld_creator d))"
proof -
  let ?a = "unat (cfg_partner_liquidity_percentage cfg)"
  let ?b = "unat (cfg_partner_permanent_locked_liquidity_percentage cfg)"
  let ?c = "unat (vi_vesting_percentage (cfg_partner_liquidity_vesting_info cfg))"
  let ?d = "unat (cfg_creator_liquidity_percentage cfg)"
  let ?e = "unat (cfg_creator_permanent_locked_liquidity_percentage cfg)"
  let ?f = "unat (vi_vesting_percentage (cfg_creator_liquidity_vesting_info cfg))"
  have s: "?a + ?b + ?c + ?d + ?e + ?f = 100" using assms by (simp add: percentages_def)
  have small: "?a \<le> 100" "?b \<le> 100" "?c \<le> 100" "?e \<le> 100" "?f \<le> 100"
    using s by linarith+
  obtain a where a: "share l (cfg_partner_liquidity_percentage cfg) = Inr a"
    "unat a = unat l * ?a div 100" using share_ex [OF small(1)] by blast
  obtain b where b: "share l (cfg_partner_permanent_locked_liquidity_percentage cfg) = Inr b"
    "unat b = unat l * ?b div 100" using share_ex [OF small(2)] by blast
  obtain c where c: "share l (vi_vesting_percentage (cfg_partner_liquidity_vesting_info cfg)) = Inr c"
    "unat c = unat l * ?c div 100" using share_ex [OF small(3)] by blast
  obtain e where e: "share l (cfg_creator_permanent_locked_liquidity_percentage cfg) = Inr e"
    "unat e = unat l * ?e div 100" using share_ex [OF small(4)] by blast
  obtain f where f: "share l (vi_vesting_percentage (cfg_creator_liquidity_vesting_info cfg)) = Inr f"
    "unat f = unat l * ?f div 100" using share_ex [OF small(5)] by blast
  have "unat l * ?a div 100 + unat l * ?b div 100 + unat l * ?c div 100
      + unat l * ?d div 100 + unat l * ?e div 100 + unat l * ?f div 100
      \<le> (unat l * ?a + unat l * ?b + unat l * ?c + unat l * ?d + unat l * ?e + unat l * ?f) div 100"
    by (intro order_trans [OF add_right_mono div_add_le] order_refl)
  also have "\<dots> = unat l" unfolding distrib_left [symmetric] s by simp
  finally have le: "unat a + unat b + unat c + unat l * ?d div 100 + unat e + unat f \<le> unat l"
    unfolding a(2) b(2) c(2) e(2) f(2) by linarith
  have u1: "unat (l - a) = unat l - unat a" using le by (intro unat_sub) (simp add: word_le_nat_alt)
  have u2: "unat (l - a - b) = unat l - unat a - unat b"
    using le u1 by (subst unat_sub) (simp_all add: word_le_nat_alt)
  have u3: "unat (l - a - b - c) = unat l - unat a - unat b - unat c"
    using le u2 by (subst unat_sub) (simp_all add: word_le_nat_alt)
  have u4: "unat (l - a - b - c - e) = unat l - unat a - unat b - unat c - unat e"
    using le u3 by (subst unat_sub) (simp_all add: word_le_nat_alt)
  have u5: "unat (l - a - b - c - e - f) = unat l - unat a - unat b - unat c - unat e - unat f"
    using le u4 by (subst unat_sub) (simp_all add: word_le_nat_alt)
  have s1: "safe_sub l a = Inr (l - a)" using le u1 by simp
  have s2: "safe_sub (l - a) b = Inr (l - a - b)" using le u1 u2 by simp
  have s3: "safe_sub (l - a - b) c = Inr (l - a - b - c)" using le u2 u3 by simp
  have s4: "safe_sub (l - a - b - c) e = Inr (l - a - b - c - e)" using le u3 u4 by simp
  have s5: "safe_sub (l - a - b - c - e) f = Inr (l - a - b - c - e - f)" using le u4 u5 by simp
  note eqs = a(1) b(1) c(1) e(1) f(1) s1 s2 s3 s4 s5
  show ?thesis
    unfolding get_liquidity_distribution_def eqs and_then_simps
    using le u5 by simp
qed

text \<open>
  C29: the migrated liquidity is distributed completely: when the percentages of
  the configuration add up to one hundred the distribution never fails, and the
  six parts (unlocked, permanently locked and vested, of partner and creator)
  add up to the liquidity, the rounding going to the creator.
\<close>

theorem liquidity_distribution_complete:
  assumes "percentages cfg = 100"
  shows "\<exists>d. get_liquidity_distribution cfg l = Inr d \<and>
    unat (li_unlocked_liquidity (ld_partner d)) + unat (li_permanent_locked_liquidity (ld_partner d))
      + unat (li_vested_liquidity (ld_partner d)) + unat (li_unlocked_liquidity (ld_creator d))
      + unat (li_permanent_locked_liquidity (ld_creator d)) + unat (li_vested_liquidity (ld_creator d)) = unat l \<and>
    unat l * unat (cfg_creator_liquidity_percentage cfg) div 100 \<le> unat (li_unlocked_liquidity (ld_creator d))"
  by (rule liquidity_distribution_total [OF assms])

theorem liquidity_distribution_complete_witness:
  "\<exists>d. get_liquidity_distribution sample_config 1001 = Inr d \<and>
    unat (li_unlocked_liquidity (ld_partner d)) + unat (li_permanent_locked_liquidity (ld_partner d))
      + unat (li_vested_liquidity (ld_partner d)) + unat (li_unlocked_liquidity (ld_creator d))
      + unat (li_permanent_locked_liquidity (ld_creator d)) + unat (li_vested_liquidity (ld_creator d)) = 1001"
  using liquidity_distribution_complete [of sample_config 1001]
  by (auto simp: percentages_def sample_defs)

section \<open>Migration fee\<close>

lemma post_fee_amount_ex:
  assumes "unat p \<le> 100"
  shows "\<exists>m. calculate_post_fee_migration_quote_amount t p = Inr m
    \<and> unat (ma_quote_amount m) = ceil_div (unat t * (100 - unat p)) 100
    \<and> unat (ma_quote_amount m) + unat (ma_fee m) = unat t"
proof -
  have "100 - unat p < 2 ^ LENGTH(64)" by simp
  then obtain r :: u64 where r: "unat r = 100 - unat p" by (rule word_witness)
  have le: "ceil_div (unat t * (100 - unat p)) 100 \<le> unat t" by (intro ceil_div_le) simp_all
  then have "ceil_div (unat t * (100 - unat p)) 100 < 2 ^ LENGTH(64)"
    using unat_lt_2p [of t] by linarith
  then obtain q :: u64 where q: "unat q = ceil_div (unat t * (100 - unat p)) 100" by (rule word_witness)
  have "safe_sub (100 :: u64) (ucast p) = Inr r" using assms r by simp
  moreover have "safe_mul_div_cast_u64 t r 100 Up = Inr q" using r q by simp
  moreover have "safe_sub t q = Inr (t - q)" using le q by (simp add: unat_sub_le)
  ultimately have "calculate_post_fee_migration_quote_amount t p
      = Inr \<lparr>ma_quote_amount = q, ma_fee = t - q\<rparr>"
    unfolding calculate_post_fee_migration_quote_amount_def by (simp only: and_then_simps)
  then show ?thesis using le q by (simp add: unat_sub_le)
qed

text \<open>
  C30: the migration fee is split without loss: the quote amount that migrates
  and the fee add up to the threshold, and the shares of creator and partner add
  up to the fee.
\<close>

theorem migration_fee_conserved:
  assumes "unat (cfg_migration_fee_percentage cfg) \<le> 100"
    and "unat (cfg_creator_migration_fee_percentage cfg) \<le> 100"
  shows "\<exists>m d. calculate_post_fee_migration_quote_amount t (cfg_migration_fee_percentage cfg) = Inr m
    \<and> get_migration_fee_distribution_for_threshold cfg t = Inr d
    \<and> unat (ma_quote_amount m) + unat (ma_fee m) = unat t
    \<and> unat (mf_partner_migration_fee d) + unat (mf_creator_migration_fee d) = unat (ma_fee m)
    \<and> unat (ma_fee m) * 100 \<le> unat t * unat (cfg_migration_fee_percentage cfg)"
proof -
  let ?p = "unat (cfg_migration_fee_percentage cfg)"
  obtain m where m: "calculate_post_fee_migration_quote_amount t (cfg_migration_fee_percentage cfg) = Inr m"
    "unat (ma_quote_amount m) = ceil_div (unat t * (100 - ?p)) 100"
    "unat (ma_quote_amount m) + unat (ma_fee m) = unat t"
    using post_fee_amount_ex [OF assms(1)] by blast
  let ?c = "unat (ma_fee m) * unat (cfg_creator_migration_fee_percentage cfg) div 100"
  have le: "?c \<le> unat (ma_fee m)"
    using assms(2) by (intro div_le_of_le_mult) (simp_all add: mult.commute)
  then have "?c < 2 ^ LENGTH(64)" using unat_lt_2p [of "ma_fee m"] by linarith
  then obtain c :: u64 where c: "unat c = ?c" by (rule word_witness)
  have "safe_mul_div_cast_u64 (ma_fee m) (ucast (cfg_creator_migration_fee_percentage cfg)) 100 Down = Inr c"
    using c by simp
  moreover have "safe_sub (ma_fee m) c = Inr (ma_fee m - c)" using le c by (simp add: unat_sub_le)
  ultimately have d: "get_migration_fee_distribution_for_threshold cfg t
      = Inr \<lparr>mf_partner_migration_fee = ma_fee m - c, mf_creator_migration_fee = c\<rparr>"
    unfolding get_migration_fee_distribution_for_threshold_def m(1) by (simp only: and_then_simps)
  have "unat t * (100 - ?p) \<le> 100 * unat (ma_quote_amount m)"
    unfolding m(2) by (rule ceil_div_ge) simp
  then have "unat (ma_fee m) * 100 \<le> unat t * ?p"
    using m(3) assms(1) mult_le_mono2 [OF assms(1), of "unat t"]
    by (simp add: diff_mult_distrib2)
  then show ?thesis using m d le c by (simp add: unat_sub_le)
qed

theorem migration_fee_conserved_witness:
  "\<exists>m. calculate_post_fee_migration_quote_amount 1001 10 = Inr m
    \<and> unat (ma_quote_amount m) + unat (ma_fee m) = 1001"
  using migration_fee_conserved [of sample_config 1001] by (auto simp: sample_defs)

section \<open>Adjusting a distribution\<close>

lemma adjust_liquidity_Ok:
  assumes "adjust_liquidity it l = Inr it'"
  shows "unat (li_unlocked_liquidity it') + unat (li_permanent_locked_liquidity it')
      + unat (li_vested_liquidity it') = unat l"
  using assms by (auto simp: adjust_liquidity_def Let_def min_def word_le_nat_alt split: if_splits)

text \<open>
  Adjusting a holder's distribution to the liquidity actually received
  keeps the total: afterwards unlocked, permanently locked and vested liquidity
  add up to the received liquidity, and whoever has a lock never gets more
  unlocked liquidity than before, so that any shortfall or excess is taken by the
  locked part.
\<close>

theorem adjust_liquidity_keeps_locks:
  assumes "adjust_liquidity it received = Inr it'"
  shows "item_total_liquidity it' = Inr received
    \<and> (vi_vesting_percentage (li_liquidity_vesting_info it) \<noteq> 0
        \<or> li_permanent_locked_liquidity_percentage it \<noteq> 0
       \<longrightarrow> li_unlocked_liquidity it' = min received (li_unlocked_liquidity it))"
proof -
  note s = adjust_liquidity_Ok [OF assms]
  have "unat (li_unlocked_liquidity it') + unat (li_permanent_locked_liquidity it') < 2 ^ LENGTH(128)"
    using s unat_lt_2p [of received] by linarith
  then obtain k :: u128 where k: "unat k = unat (li_unlocked_liquidity it') + unat (li_permanent_locked_liquidity it')"
    by (rule word_witness)
  have "safe_add (li_unlocked_liquidity it') (li_permanent_locked_liquidity it') = Inr k" using k by simp
  moreover have "safe_add k (li_vested_liquidity it') = Inr received" using k s by simp
  ultimately have "item_total_liquidity it' = Inr received"
    unfolding item_total_liquidity_def by (simp only: and_then_simps)
  moreover have "li_unlocked_liquidity it' = min received (li_unlocked_liquidity it)"
    if "vi_vesting_percentage (li_liquidity_vesting_info it) \<noteq> 0
        \<or> li_permanent_locked_liquidity_percentage it \<noteq> 0"
  proof -
    obtain t where t: "safe_add (vi_vesting_percentage (li_liquidity_vesting_info it))
        (li_permanent_locked_liquidity_percentage it) = Inr t"
      using assms unfolding adjust_liquidity_def Let_def and_then_Ok_iff by blast
    then have "unat t \<noteq> 0" using that by (simp only: safe_add_Ok) (auto simp: unat_eq_0)
    then have "t \<noteq> 0" by auto
    then show ?thesis using assms t
      by (auto simp: adjust_liquidity_def Let_def simp del: safe_add_Ok safe_sub_Ok safe_mul_div_cast_u128_Ok)
  qed
  ultimately show ?thesis by blast
qed

definition sample_item :: liquidity_distribution_item where
  "sample_item = \<lparr>li_unlocked_liquidity = 50, li_permanent_locked_liquidity = 30,
     li_vested_liquidity = 20, li_permanent_locked_liquidity_percentage = 30,
     li_liquidity_vesting_info = \<lparr>vi_is_initialized = 1, vi_vesting_percentage = 20,
       vi_bps_per_period = 1000, vi_number_of_periods = 5, vi_frequency = 10,
       vi_cliff_duration_from_migration_time = 100\<rparr>\<rparr>"

lemma adjust_sample_item:
  "adjust_liquidity sample_item 90
     = Inr (sample_item\<lparr>li_permanent_locked_liquidity := 24, li_vested_liquidity := 16\<rparr>)"
  by (simp add: sample_item_def eval and_then_def ok_or_def Let_def)

theorem adjust_liquidity_keeps_locks_witness:
  "item_total_liquidity (sample_item\<lparr>li_permanent_locked_liquidity := 24, li_vested_liquidity := 16\<rparr>)
     = Inr 90"
  using adjust_liquidity_keeps_locks [OF adjust_sample_item] by blast

section \<open>Fee splits\<close>

lemma split_partner_and_creator_fee_sum:
  "split_partner_and_creator_fee cfg fee = Inr s \<Longrightarrow>
    unat (split_partner_fee s) + unat (split_creator_fee s) = unat fee"
  by (auto simp: split_partner_and_creator_fee_def split: if_splits)

lemma split_pool_creation_fee_sum:
  "split_pool_creation_fee cfg = Inr (pr, pa) \<Longrightarrow>
    unat pr + unat pa = unat (cfg_pool_creation_fee cfg)"
  by (auto simp: split_pool_creation_fee_def)

end
