(* ===== verification/Lp_Tokens.thy ===== *)
theory Lp_Tokens
  imports Sample_Runtime Distribution
begin

text \<open>
  The liquidity tokens of a sale migrated to the older constant product program
  (\<open>instructions/migration/meteora_damm\<close>): the migration metadata records what partner
  and creator may claim and what has to be locked for them, and the two
  instructions that claim and lock each part once.
\<close>

section \<open>The migration metadata\<close>

record migration_metadata =
  mm_virtual_pool :: pubkey
  mm_partner :: pubkey
  mm_lp_mint :: pubkey
  mm_partner_locked_liquidity :: u64
  mm_partner_liquidity :: u64
  mm_creator_locked_liquidity :: u64
  mm_creator_liquidity :: u64
  mm_creator_locked_status :: u8
  mm_partner_locked_status :: u8
  mm_creator_claim_status :: u8
  mm_partner_claim_status :: u8

definition set_liquidity_token_minted ::
  "migration_metadata \<Rightarrow> pubkey \<Rightarrow> liquidity_distribution_damm_v1 \<Rightarrow> migration_metadata" where
  "set_liquidity_token_minted m lp_mint d =
     m\<lparr>mm_lp_mint := lp_mint,
       mm_partner_locked_liquidity := l1_partner_locked_liquidity d,
       mm_partner_liquidity := l1_partner_liquidity d,
       mm_creator_locked_liquidity := l1_creator_locked_liquidity d,
       mm_creator_liquidity := l1_creator_liquidity d\<rparr>"

definition is_creator_liquidity_locked :: "migration_metadata \<Rightarrow> bool" where
  "is_creator_liquidity_locked m \<longleftrightarrow> mm_creator_locked_status m = 1"

definition is_partner_liquidity_locked :: "migration_metadata \<Rightarrow> bool" where
  "is_partner_liquidity_locked m \<longleftrightarrow> mm_partner_locked_status m = 1"

definition is_creator_claim_liquidity :: "migration_metadata \<Rightarrow> bool" where
  "is_creator_claim_liquidity m \<longleftrightarrow> mm_creator_claim_status m = 1"

definition is_partner_claim_liquidity :: "migration_metadata \<Rightarrow> bool" where
  "is_partner_claim_liquidity m \<longleftrightarrow> mm_partner_claim_status m = 1"

definition set_creator_lock_status :: "migration_metadata \<Rightarrow> migration_metadata" where
  "set_creator_lock_status m = m\<lparr>mm_creator_locked_status := 1\<rparr>"

definition set_partner_lock_status :: "migration_metadata \<Rightarrow> migration_metadata" where
  "set_partner_lock_status m = m\<lparr>mm_partner_locked_status := 1\<rparr>"

definition set_creator_claim_status :: "migration_metadata \<Rightarrow> migration_metadata" where
  "set_creator_claim_status m = m\<lparr>mm_creator_claim_status := 1\<rparr>"

definition set_partner_claim_status :: "migration_metadata \<Rightarrow> migration_metadata" where
  "set_partner_claim_status m = m\<lparr>mm_partner_claim_status := 1\<rparr>"

definition lock_as_creator :: "migration_metadata \<Rightarrow> (u64 \<times> migration_metadata) result" where
  "lock_as_creator m =
     and_then (require (\<not> is_creator_liquidity_locked m) NotPermitToDoThisAction) (\<lambda>_.
     and_then (require (mm_creator_locked_liquidity m \<noteq> 0) NotPermitToDoThisAction) (\<lambda>_.
     Ok (mm_creator_locked_liquidity m, set_creator_lock_status m)))"

definition lock_as_partner :: "migration_metadata \<Rightarrow> (u64 \<times> migration_metadata) result" where
  "lock_as_partner m =
     and_then (require (\<not> is_partner_liquidity_locked m) NotPermitToDoThisAction) (\<lambda>_.
     and_then (require (mm_partner_locked_liquidity m \<noteq> 0) NotPermitToDoThisAction) (\<lambda>_.
     Ok (mm_partner_locked_liquidity m, set_partner_lock_status m)))"

definition lock_as_self_partnered_creator :: "migration_metadata \<Rightarrow> (u64 \<times> migration_metadata) result" where
  "lock_as_self_partnered_creator m =
     and_then (require (\<not> is_creator_liquidity_locked m \<and> \<not> is_partner_liquidity_locked m)
       NotPermitToDoThisAction) (\<lambda>_.
     and_then (safe_add (mm_partner_locked_liquidity m) (mm_creator_locked_liquidity m)) (\<lambda>to_lock.
     and_then (require (to_lock \<noteq> 0) NotPermitToDoThisAction) (\<lambda>_.
     Ok (to_lock, set_partner_lock_status (set_creator_lock_status m)))))"

definition claim_as_creator :: "migration_metadata \<Rightarrow> (u64 \<times> migration_metadata) result" where
  "claim_as_creator m =
     and_then (require (\<not> is_creator_claim_liquidity m) NotPermitToDoThisAction) (\<lambda>_.
     and_then (require (mm_creator_liquidity m \<noteq> 0) NotPermitToDoThisAction) (\<lambda>_.
     Ok (mm_creator_liquidity m, set_creator_claim_status m)))"

definition claim_as_partner :: "migration_metadata \<Rightarrow> (u64 \<times> migration_metadata) result" where
  "claim_as_partner m =
     and_then (require (\<not> is_partner_claim_liquidity m) NotPermitToDoThisAction) (\<lambda>_.
     and_then (require (mm_partner_liquidity m \<noteq> 0) NotPermitToDoThisAction) (\<lambda>_.
     Ok (mm_partner_liquidity m, set_partner_claim_status m)))"

definition claim_as_self_partnered_creator :: "migration_metadata \<Rightarrow> (u64 \<times> migration_metadata) result" where
  "claim_as_self_partnered_creator m =
     and_then (require (\<not> is_creator_claim_liquidity m \<and> \<not> is_partner_claim_liquidity m)
       NotPermitToDoThisAction) (\<lambda>_.
     and_then (safe_add (mm_partner_liquidity m) (mm_creator_liquidity m)) (\<lambda>to_claim.
     and_then (require (to_claim \<noteq> 0) NotPermitToDoThisAction) (\<lambda>_.
     Ok (to_claim, set_partner_claim_status (set_creator_claim_status m)))))"

section \<open>The instructions\<close>

record lp_accounts =
  lpa_virtual_pool :: account_info
  lpa_migration_metadata :: account_info
  lpa_pool_authority :: pubkey
  lpa_pool :: pubkey
  lpa_lp_mint :: pubkey
  lpa_lock_escrow :: pubkey
  lpa_lock_escrow_pool :: pubkey
  lpa_lock_escrow_owner :: pubkey
  lpa_owner :: pubkey
  lpa_source_token :: pubkey
  lpa_destination_token :: pubkey

text \<open>
  What the account lists declare: accounts of this program, the metadata of this
  pool and mint, and associated token accounts of pool authority and owner.
\<close>

definition claim_lp_accounts_ok :: "'r runtime \<Rightarrow> lp_accounts \<Rightarrow> migration_metadata \<Rightarrow> bool" where
  "claim_lp_accounts_ok rt a m \<longleftrightarrow>
     ai_owner (lpa_virtual_pool a) = program_id
     \<and> ai_discriminator (lpa_virtual_pool a) = rt_discriminator rt AccountVirtualPool
     \<and> ai_owner (lpa_migration_metadata a) = program_id
     \<and> ai_discriminator (lpa_migration_metadata a) = rt_discriminator rt AccountMigrationMetadata
     \<and> mm_lp_mint m = lpa_lp_mint a \<and> mm_virtual_pool m = ai_key (lpa_virtual_pool a)
     \<and> lpa_pool_authority a = rt_pool_authority rt
     \<and> lpa_source_token a = rt_associated_token_address rt (rt_pool_authority rt) (mm_lp_mint m)
         (rt_token_program rt)
     \<and> lpa_destination_token a = rt_associated_token_address rt (lpa_owner a) (mm_lp_mint m)
         (rt_token_program rt)"

definition lock_lp_accounts_ok :: "'r runtime \<Rightarrow> lp_accounts \<Rightarrow> migration_metadata \<Rightarrow> bool" where
  "lock_lp_accounts_ok rt a m \<longleftrightarrow>
     ai_owner (lpa_virtual_pool a) = program_id
     \<and> ai_discriminator (lpa_virtual_pool a) = rt_discriminator rt AccountVirtualPool
     \<and> ai_owner (lpa_migration_metadata a) = program_id
     \<and> ai_discriminator (lpa_migration_metadata a) = rt_discriminator rt AccountMigrationMetadata
     \<and> mm_lp_mint m = lpa_lp_mint a \<and> mm_virtual_pool m = ai_key (lpa_virtual_pool a)
     \<and> lpa_pool_authority a = rt_pool_authority rt
     \<and> lpa_lock_escrow_pool a = lpa_pool a \<and> lpa_lock_escrow_owner a = lpa_owner a
     \<and> lpa_source_token a = rt_associated_token_address rt (rt_pool_authority rt) (mm_lp_mint m)
         (rt_token_program rt)"

definition handle_migrate_meteora_damm_claim_lp_token ::
  "'r runtime \<Rightarrow> lp_accounts \<Rightarrow> pool_state \<Rightarrow> migration_metadata \<Rightarrow> 'r
    \<Rightarrow> (u64 \<times> migration_metadata \<times> 'r) result" where
  "handle_migrate_meteora_damm_claim_lp_token rt a s m r =
     and_then (has_one (claim_lp_accounts_ok rt a m)) (\<lambda>_.
     and_then (get_migration_progress s) (\<lambda>progress.
     and_then (require (progress = CreatedPool) NotPermitToDoThisAction) (\<lambda>_.
     let is_partner = (lpa_owner a = mm_partner m); is_creator = (lpa_owner a = pool_creator s) in
     and_then
       (if is_partner \<and> is_creator then claim_as_self_partnered_creator m
        else if is_partner then claim_as_partner m
        else if is_creator then claim_as_creator m
        else err InvalidOwnerAccount) (\<lambda>(to_claim, m).
     and_then (invoke rt (TokenTransfer (lpa_source_token a) (lpa_destination_token a)
       (rt_pool_authority rt) to_claim) r) (\<lambda>r.
     Ok (to_claim, m, r))))))"

definition handle_migrate_meteora_damm_lock_lp_token ::
  "'r runtime \<Rightarrow> ('r \<Rightarrow> account_snapshot) \<Rightarrow> lp_accounts \<Rightarrow> pool_state \<Rightarrow> migration_metadata \<Rightarrow> 'r
    \<Rightarrow> (u64 \<times> migration_metadata \<times> 'r) result" where
  "handle_migrate_meteora_damm_lock_lp_token rt authority a s m r =
     and_then (has_one (lock_lp_accounts_ok rt a m)) (\<lambda>_.
     and_then (get_migration_progress s) (\<lambda>progress.
     and_then (require (progress = CreatedPool) NotPermitToDoThisAction) (\<lambda>_.
     let is_partner = (lpa_owner a = mm_partner m); is_creator = (lpa_owner a = pool_creator s) in
     and_then
       (if is_partner \<and> is_creator then lock_as_self_partnered_creator m
        else if is_partner then lock_as_partner m
        else if is_creator then lock_as_creator m
        else err InvalidOwnerAccount) (\<lambda>(to_lock, m).
     and_then (cpi_with_account_lamport_and_owner_checking
       (invoke rt (DammV1Lock (lpa_pool a) (lpa_lock_escrow a) (lpa_source_token a) to_lock))
       authority r) (\<lambda>r.
     Ok (to_lock, m, r))))))"

definition handle_migration_meteora_damm_create_metadata ::
  "pubkey \<Rightarrow> pool_config \<Rightarrow> migration_metadata result" where
  "handle_migration_meteora_damm_create_metadata virtual_pool cfg =
     and_then (ok_or (migration_option_of (cfg_migration_option cfg)) InvalidMigrationOption) (\<lambda>option.
     and_then (require (option = MeteoraDamm) InvalidMigrationOption) (\<lambda>_.
     Ok \<lparr>mm_virtual_pool = virtual_pool, mm_partner = cfg_fee_claimer cfg, mm_lp_mint = 0,
         mm_partner_locked_liquidity = 0, mm_partner_liquidity = 0,
         mm_creator_locked_liquidity = 0, mm_creator_liquidity = 0,
         mm_creator_locked_status = 0, mm_partner_locked_status = 0,
         mm_creator_claim_status = 0, mm_partner_claim_status = 0\<rparr>))"

lemmas [eval] = set_liquidity_token_minted_def is_creator_liquidity_locked_def
  is_partner_liquidity_locked_def is_creator_claim_liquidity_def is_partner_claim_liquidity_def
  set_creator_lock_status_def set_partner_lock_status_def set_creator_claim_status_def
  set_partner_claim_status_def lock_as_creator_def lock_as_partner_def
  lock_as_self_partnered_creator_def claim_as_creator_def claim_as_partner_def
  claim_as_self_partnered_creator_def claim_lp_accounts_ok_def lock_lp_accounts_ok_def
  handle_migrate_meteora_damm_claim_lp_token_def handle_migrate_meteora_damm_lock_lp_token_def
  handle_migration_meteora_damm_create_metadata_def

section \<open>Every part is paid once\<close>

text \<open>What can still be claimed, and what can still be locked.\<close>

definition claimable :: "migration_metadata \<Rightarrow> nat" where
  "claimable m = (if is_partner_claim_liquidity m then 0 else unat (mm_partner_liquidity m))
     + (if is_creator_claim_liquidity m then 0 else unat (mm_creator_liquidity m))"

definition lockable :: "migration_metadata \<Rightarrow> nat" where
  "lockable m = (if is_partner_liquidity_locked m then 0 else unat (mm_partner_locked_liquidity m))
     + (if is_creator_liquidity_locked m then 0 else unat (mm_creator_locked_liquidity m))"

lemma claim_step:
  assumes "handle_migrate_meteora_damm_claim_lp_token rt a s m r = Inr (n, m', r')"
  shows "unat n + claimable m' = claimable m" "lockable m' = lockable m" "0 < unat n"
  using assms
  by (auto simp: handle_migrate_meteora_damm_claim_lp_token_def Let_def claim_as_self_partnered_creator_def
      claim_as_partner_def claim_as_creator_def claimable_def lockable_def
      set_partner_claim_status_def set_creator_claim_status_def is_partner_claim_liquidity_def
      is_creator_claim_liquidity_def is_partner_liquidity_locked_def is_creator_liquidity_locked_def
      unat_gt_0 split: if_splits)

lemma lock_step:
  assumes "handle_migrate_meteora_damm_lock_lp_token rt auth a s m r = Inr (n, m', r')"
  shows "unat n + lockable m' = lockable m" "claimable m' = claimable m" "0 < unat n"
  using assms
  by (auto simp: handle_migrate_meteora_damm_lock_lp_token_def Let_def lock_as_self_partnered_creator_def
      lock_as_partner_def lock_as_creator_def claimable_def lockable_def
      set_partner_lock_status_def set_creator_lock_status_def is_partner_claim_liquidity_def
      is_creator_claim_liquidity_def is_partner_liquidity_locked_def is_creator_liquidity_locked_def
      unat_gt_0 split: if_splits)

text \<open>
  Sequences of claims and locks by anybody, on any state of the pool (the creator
  may change in between): \<open>x\<close> was claimed and \<open>y\<close> locked in total.
\<close>

inductive lp_run :: "'r runtime \<Rightarrow> migration_metadata \<Rightarrow> migration_metadata \<Rightarrow> nat \<Rightarrow> nat \<Rightarrow> bool"
  for rt m0 where
  lp_none: "lp_run rt m0 m0 0 0"
| lp_claim: "lp_run rt m0 m x y \<Longrightarrow>
    handle_migrate_meteora_damm_claim_lp_token rt a s m r = Inr (n, m', r') \<Longrightarrow>
    lp_run rt m0 m' (x + unat n) y"
| lp_lock: "lp_run rt m0 m x y \<Longrightarrow>
    handle_migrate_meteora_damm_lock_lp_token rt auth a s m r = Inr (n, m', r') \<Longrightarrow>
    lp_run rt m0 m' x (y + unat n)"

text \<open>
  C26: claims and locks pay out exactly what the migration assigned.  Whatever the
  order of claims and locks and whoever sends them, what was claimed and what is
  still claimable add up to the liquidity assigned to partner and creator, and
  likewise for the liquidity to be locked; in particular no part is paid twice.
\<close>

theorem lp_tokens_paid_once:
  assumes "lp_run rt m0 m x y"
  shows "x + claimable m = claimable m0 \<and> y + lockable m = lockable m0
    \<and> x \<le> unat (mm_partner_liquidity m0) + unat (mm_creator_liquidity m0)
    \<and> y \<le> unat (mm_partner_locked_liquidity m0) + unat (mm_creator_locked_liquidity m0)"
proof -
  have "x + claimable m = claimable m0 \<and> y + lockable m = lockable m0"
    using assms
  proof (induction rule: lp_run.induct)
    case (lp_claim m x y a s r n m' r')
    then show ?case using claim_step [OF lp_claim.hyps(2)] by linarith
  next
    case (lp_lock m x y auth a s r n m' r')
    then show ?case using lock_step [OF lp_lock.hyps(2)] by linarith
  qed simp
  moreover have "claimable m0 \<le> unat (mm_partner_liquidity m0) + unat (mm_creator_liquidity m0)"
    "lockable m0 \<le> unat (mm_partner_locked_liquidity m0) + unat (mm_creator_locked_liquidity m0)"
    by (simp_all add: claimable_def lockable_def)
  ultimately show ?thesis by linarith
qed

definition sample_metadata :: migration_metadata where
  "sample_metadata = \<lparr>mm_virtual_pool = 10, mm_partner = 2, mm_lp_mint = 50,
     mm_partner_locked_liquidity = 20, mm_partner_liquidity = 30,
     mm_creator_locked_liquidity = 10, mm_creator_liquidity = 40,
     mm_creator_locked_status = 0, mm_partner_locked_status = 0,
     mm_creator_claim_status = 0, mm_partner_claim_status = 0\<rparr>"

definition sample_lp_accounts :: lp_accounts where
  "sample_lp_accounts = \<lparr>lpa_virtual_pool = sample_pool_account,
     lpa_migration_metadata = \<lparr>ai_key = 51, ai_owner = program_id, ai_data_len = 280, ai_discriminator = 12\<rparr>,
     lpa_pool_authority = 104, lpa_pool = 60, lpa_lp_mint = 50, lpa_lock_escrow = 61,
     lpa_lock_escrow_pool = 60, lpa_lock_escrow_owner = 2, lpa_owner = 2, lpa_source_token = 104,
     lpa_destination_token = 2\<rparr>"

lemma sample_lp_claim:
  "handle_migrate_meteora_damm_claim_lp_token ledger_runtime sample_lp_accounts
     (sample_pool\<lparr>pool_migration_progress := 3\<rparr>) sample_metadata sample_balances
   = Inr (30, sample_metadata\<lparr>mm_partner_claim_status := 1\<rparr>, sample_balances)"
  by (simp add: eval and_then_def has_one_def Let_def get_migration_progress_def runtime_sample_defs
      sample_metadata_def sample_lp_accounts_def sample_pool_def default_pool_state_def)

theorem lp_tokens_paid_once_witness:
  "lp_run ledger_runtime sample_metadata (sample_metadata\<lparr>mm_partner_claim_status := 1\<rparr>) 30 0
   \<and> 30 + claimable (sample_metadata\<lparr>mm_partner_claim_status := 1\<rparr>) = claimable sample_metadata"
proof -
  have "lp_run ledger_runtime sample_metadata (sample_metadata\<lparr>mm_partner_claim_status := 1\<rparr>) (0 + unat (30 :: u64)) 0"
    by (rule lp_claim [OF lp_none sample_lp_claim])
  then have "lp_run ledger_runtime sample_metadata (sample_metadata\<lparr>mm_partner_claim_status := 1\<rparr>) 30 0"
    by simp
  then show ?thesis using lp_tokens_paid_once by blast
qed

end
