(* ===== verification/Claims.thy ===== *)
theory Claims
  imports Lp_Tokens
begin

text \<open>
  The instructions that take money out of a pool: trading fees of partner and
  creator, protocol fees, pool creation fees, surplus, migration fees and the
  leftover base tokens; and the transfer of the creator role
  (\<open>instructions/creator\<close>, \<open>instructions/partner\<close>, \<open>instructions/operator\<close>,
  \<open>instructions/migration/withdraw_leftover.rs\<close>, \<open>ix_withdraw_migration_fee.rs\<close>).
  Each handler is preceded by the constraints of its account list and, in the entry
  points of \<open>lib.rs\<close>, by the access control.
\<close>

section \<open>Accounts\<close>

text \<open>
  The accounts of the claim instructions; each uses some of them.  The two receivers
  are the accounts the tokens go to.
\<close>

record claim_accounts =
  cla_pool_authority :: pubkey
  cla_config :: account_info
  cla_pool :: account_info
  cla_base_receiver :: token_account
  cla_quote_receiver :: token_account
  cla_base_vault :: token_account
  cla_quote_vault :: token_account
  cla_base_mint :: mint_account
  cla_quote_mint :: mint_account
  cla_signer :: pubkey
  cla_receiver :: pubkey
  cla_token_base_program :: pubkey
  cla_token_quote_program :: pubkey
  cla_remaining_accounts :: "account_info list"

definition base_vault_ok :: "claim_accounts \<Rightarrow> bool" where
  "base_vault_ok a \<longleftrightarrow> ta_program (cla_base_vault a) = cla_token_base_program a
     \<and> ta_mint (cla_base_vault a) = mint_key (cla_base_mint a)"

definition quote_vault_ok :: "claim_accounts \<Rightarrow> bool" where
  "quote_vault_ok a \<longleftrightarrow> ta_program (cla_quote_vault a) = cla_token_quote_program a
     \<and> ta_mint (cla_quote_vault a) = mint_key (cla_quote_mint a)"

definition authority_ok :: "'r runtime \<Rightarrow> claim_accounts \<Rightarrow> bool" where
  "authority_ok rt a \<longleftrightarrow> cla_pool_authority a = rt_pool_authority rt"

definition pay_base ::
  "'r runtime \<Rightarrow> claim_accounts \<Rightarrow> u64 \<Rightarrow> account_info list option \<Rightarrow> 'r \<Rightarrow> 'r result" where
  "pay_base rt a n hook r =
     transfer_token_from_pool_authority rt (cla_base_mint a) (ta_key (cla_base_vault a))
       (ta_key (cla_base_receiver a)) (cla_token_base_program a) n hook r"

definition pay_quote :: "'r runtime \<Rightarrow> claim_accounts \<Rightarrow> u64 \<Rightarrow> 'r \<Rightarrow> 'r result" where
  "pay_quote rt a n r =
     transfer_token_from_pool_authority rt (cla_quote_mint a) (ta_key (cla_quote_vault a))
       (ta_key (cla_quote_receiver a)) (cla_token_quote_program a) n None r"

section \<open>Trading fees\<close>

definition pay_trading_fee ::
  "'r runtime \<Rightarrow> claim_accounts \<Rightarrow> parsed_remaining_accounts \<Rightarrow> u64 \<Rightarrow> u64 \<Rightarrow> 'r \<Rightarrow> 'r result" where
  "pay_trading_fee rt a parsed token_base_amount token_quote_amount r =
     and_then (if token_base_amount > 0
        then pay_base rt a token_base_amount (transfer_hook_base parsed) r else Ok r) (\<lambda>r.
     if token_quote_amount > 0 then pay_quote rt a token_quote_amount r else Ok r)"

definition parse_claim_accounts ::
  "claim_accounts \<Rightarrow> remaining_accounts_slice list option \<Rightarrow> parsed_remaining_accounts result" where
  "parse_claim_accounts a slices =
     and_then (parse_transfer_hook_accounts (cla_remaining_accounts a)
        (case slices of None \<Rightarrow> [] | Some s \<Rightarrow> s) [TransferHookBase]) (\<lambda>(rest, parsed).
     and_then (require (rest = []) InvalidRemainingAccountsLength) (\<lambda>_.
     Ok parsed))"

definition handle_claim_creator_trading_fee ::
  "'r runtime \<Rightarrow> claim_accounts \<Rightarrow> u64 \<Rightarrow> u64 \<Rightarrow> remaining_accounts_slice list option
    \<Rightarrow> pool_state \<Rightarrow> 'r \<Rightarrow> (u64 \<times> u64 \<times> pool_state \<times> 'r) result" where
  "handle_claim_creator_trading_fee rt a max_base_amount max_quote_amount slices s r =
     and_then (load_pool_account rt (cla_pool a)) (\<lambda>loader.
     and_then (require (slices \<noteq> None \<or> \<not> al_is_transfer_hook loader) PoolTypeMismatch) (\<lambda>_.
     and_then (has_one (pool_base_vault s = ta_key (cla_base_vault a))) (\<lambda>_.
     and_then (has_one (pool_quote_vault s = ta_key (cla_quote_vault a))) (\<lambda>_.
     and_then (has_one (pool_base_mint s = mint_key (cla_base_mint a))) (\<lambda>_.
     and_then (parse_claim_accounts a slices) (\<lambda>parsed.
     and_then (claim_creator_trading_fee s max_base_amount max_quote_amount) (\<lambda>(base, quote, s).
     and_then (pay_trading_fee rt a parsed base quote r) (\<lambda>r.
     Ok (base, quote, s, r)))))))))"

definition handle_claim_trading_fee ::
  "'r runtime \<Rightarrow> claim_accounts \<Rightarrow> pool_config \<Rightarrow> u64 \<Rightarrow> u64 \<Rightarrow> remaining_accounts_slice list option
    \<Rightarrow> pool_state \<Rightarrow> 'r \<Rightarrow> (u64 \<times> u64 \<times> pool_state \<times> 'r) result" where
  "handle_claim_trading_fee rt a cfg max_base_amount max_quote_amount slices s r =
     and_then (load_config_account rt (cla_config a)) (\<lambda>_.
     and_then (has_one (cfg_quote_mint cfg = mint_key (cla_quote_mint a))) (\<lambda>_.
     and_then (load_pool_account rt (cla_pool a)) (\<lambda>loader.
     and_then (require (slices \<noteq> None \<or> \<not> al_is_transfer_hook loader) PoolTypeMismatch) (\<lambda>_.
     and_then (has_one (pool_base_vault s = ta_key (cla_base_vault a))) (\<lambda>_.
     and_then (has_one (pool_quote_vault s = ta_key (cla_quote_vault a))) (\<lambda>_.
     and_then (has_one (pool_base_mint s = mint_key (cla_base_mint a))) (\<lambda>_.
     and_then (has_one (pool_config_key s = ai_key (cla_config a))) (\<lambda>_.
     and_then (parse_claim_accounts a slices) (\<lambda>parsed.
     and_then (claim_partner_trading_fee s max_base_amount max_quote_amount) (\<lambda>(base, quote, s).
     and_then (pay_trading_fee rt a parsed base quote r) (\<lambda>r.
     Ok (base, quote, s, r))))))))))))"

definition claim_creator_trading_fee2_entry ::
  "'r runtime \<Rightarrow> claim_accounts \<Rightarrow> u64 \<Rightarrow> u64 \<Rightarrow> remaining_accounts_slice list
    \<Rightarrow> pool_state \<Rightarrow> 'r \<Rightarrow> (u64 \<times> u64 \<times> pool_state \<times> 'r) result" where
  "claim_creator_trading_fee2_entry rt a max_base_amount max_quote_amount slices s r =
     and_then (has_one (authority_ok rt a \<and> base_vault_ok a \<and> quote_vault_ok a)) (\<lambda>_.
     and_then (is_pool_creator rt (cla_pool a) s (cla_signer a)) (\<lambda>_.
     handle_claim_creator_trading_fee rt a max_base_amount max_quote_amount (Some slices) s r))"

definition claim_trading_fee2_entry ::
  "'r runtime \<Rightarrow> claim_accounts \<Rightarrow> pool_config \<Rightarrow> u64 \<Rightarrow> u64 \<Rightarrow> remaining_accounts_slice list
    \<Rightarrow> pool_state \<Rightarrow> 'r \<Rightarrow> (u64 \<times> u64 \<times> pool_state \<times> 'r) result" where
  "claim_trading_fee2_entry rt a cfg max_base_amount max_quote_amount slices s r =
     and_then (has_one (authority_ok rt a \<and> base_vault_ok a \<and> quote_vault_ok a)) (\<lambda>_.
     and_then (is_partner_fee_claimer rt (cla_config a) cfg (cla_signer a)) (\<lambda>_.
     handle_claim_trading_fee rt a cfg max_base_amount max_quote_amount (Some slices) s r))"

text \<open>The older entry points have no accounts for a transfer hook.\<close>

definition claim_creator_trading_fee_entry ::
  "'r runtime \<Rightarrow> claim_accounts \<Rightarrow> u64 \<Rightarrow> u64 \<Rightarrow> pool_state \<Rightarrow> 'r
    \<Rightarrow> (u64 \<times> u64 \<times> pool_state \<times> 'r) result" where
  "claim_creator_trading_fee_entry rt a max_base_amount max_quote_amount s r =
     and_then (has_one (authority_ok rt a \<and> base_vault_ok a \<and> quote_vault_ok a)) (\<lambda>_.
     and_then (is_pool_creator rt (cla_pool a) s (cla_signer a)) (\<lambda>_.
     handle_claim_creator_trading_fee rt a max_base_amount max_quote_amount None s r))"

definition claim_trading_fee_entry ::
  "'r runtime \<Rightarrow> claim_accounts \<Rightarrow> pool_config \<Rightarrow> u64 \<Rightarrow> u64 \<Rightarrow> pool_state \<Rightarrow> 'r
    \<Rightarrow> (u64 \<times> u64 \<times> pool_state \<times> 'r) result" where
  "claim_trading_fee_entry rt a cfg max_base_amount max_quote_amount s r =
     and_then (has_one (authority_ok rt a \<and> base_vault_ok a \<and> quote_vault_ok a)) (\<lambda>_.
     and_then (is_partner_fee_claimer rt (cla_config a) cfg (cla_signer a)) (\<lambda>_.
     handle_claim_trading_fee rt a cfg max_base_amount max_quote_amount None s r))"

section \<open>Surplus\<close>

definition handle_creator_withdraw_surplus ::
  "'r runtime \<Rightarrow> claim_accounts \<Rightarrow> pool_config \<Rightarrow> pool_state \<Rightarrow> 'r \<Rightarrow> (u64 \<times> pool_state \<times> 'r) result" where
  "handle_creator_withdraw_surplus rt a cfg s r =
     and_then (load_config_account rt (cla_config a)) (\<lambda>_.
     and_then (has_one (cfg_quote_mint cfg = mint_key (cla_quote_mint a))) (\<lambda>_.
     and_then (load_pool_account rt (cla_pool a)) (\<lambda>_.
     and_then (require (\<not> is_fixed_migration_quote_amount_enabled cfg) NotPermitToDoThisAction) (\<lambda>_.
     and_then (has_one (pool_quote_vault s = ta_key (cla_quote_vault a))) (\<lambda>_.
     and_then (has_one (pool_config_key s = ai_key (cla_config a))) (\<lambda>_.
     and_then (require (has_real_quote_surplus s (get_migration_quote_amount_cap cfg))
       NotPermitToDoThisAction) (\<lambda>_.
     and_then (require (pool_is_creator_withdraw_surplus s = 0) SurplusHasBeenWithdraw) (\<lambda>_.
     and_then (get_total_surplus s (get_migration_quote_amount_cap cfg)) (\<lambda>total_surplus.
     and_then (get_creator_surplus cfg total_surplus) (\<lambda>creator_surplus_amount.
     and_then (pay_quote rt a creator_surplus_amount r) (\<lambda>r.
     Ok (creator_surplus_amount, update_creator_withdraw_surplus s, r))))))))))))"

definition handle_partner_withdraw_surplus ::
  "'r runtime \<Rightarrow> claim_accounts \<Rightarrow> pool_config \<Rightarrow> pool_state \<Rightarrow> 'r \<Rightarrow> (u64 \<times> pool_state \<times> 'r) result" where
  "handle_partner_withdraw_surplus rt a cfg s r =
     and_then (load_config_account rt (cla_config a)) (\<lambda>_.
     and_then (has_one (cfg_quote_mint cfg = mint_key (cla_quote_mint a))) (\<lambda>_.
     and_then (load_pool_account rt (cla_pool a)) (\<lambda>_.
     and_then (has_one (pool_quote_vault s = ta_key (cla_quote_vault a))) (\<lambda>_.
     and_then (has_one (pool_config_key s = ai_key (cla_config a))) (\<lambda>_.
     and_then (require (has_real_quote_surplus s (get_migration_quote_amount_cap cfg))
       NotPermitToDoThisAction) (\<lambda>_.
     and_then (require (pool_is_partner_withdraw_surplus s = 0) SurplusHasBeenWithdraw) (\<lambda>_.
     and_then (get_total_surplus s (get_migration_quote_amount_cap cfg)) (\<lambda>total_surplus.
     and_then (get_partner_surplus cfg total_surplus) (\<lambda>partner_surplus_amount.
     and_then (pay_quote rt a partner_surplus_amount r) (\<lambda>r.
     Ok (partner_surplus_amount, update_partner_withdraw_surplus s, r)))))))))))"

definition creator_withdraw_surplus_entry ::
  "'r runtime \<Rightarrow> claim_accounts \<Rightarrow> pool_config \<Rightarrow> pool_state \<Rightarrow> 'r \<Rightarrow> (u64 \<times> pool_state \<times> 'r) result" where
  "creator_withdraw_surplus_entry rt a cfg s r =
     and_then (has_one (authority_ok rt a \<and> quote_vault_ok a)) (\<lambda>_.
     and_then (is_pool_creator rt (cla_pool a) s (cla_signer a)) (\<lambda>_.
     handle_creator_withdraw_surplus rt a cfg s r))"

definition partner_withdraw_surplus_entry ::
  "'r runtime \<Rightarrow> claim_accounts \<Rightarrow> pool_config \<Rightarrow> pool_state \<Rightarrow> 'r \<Rightarrow> (u64 \<times> pool_state \<times> 'r) result" where
  "partner_withdraw_surplus_entry rt a cfg s r =
     and_then (has_one (authority_ok rt a \<and> quote_vault_ok a)) (\<lambda>_.
     and_then (is_partner_fee_claimer rt (cla_config a) cfg (cla_signer a)) (\<lambda>_.
     handle_partner_withdraw_surplus rt a cfg s r))"

section \<open>The migration fee\<close>

datatype sender_flag = SenderPartner | SenderCreator

definition sender_flag_of :: "u8 \<Rightarrow> sender_flag option" where
  "sender_flag_of = try_from_u8 [SenderPartner, SenderCreator]"

definition handle_withdraw_migration_fee ::
  "'r runtime \<Rightarrow> claim_accounts \<Rightarrow> pool_config \<Rightarrow> u8 \<Rightarrow> pool_state \<Rightarrow> 'r
    \<Rightarrow> (u64 \<times> pool_state \<times> 'r) result" where
  "handle_withdraw_migration_fee rt a cfg flag s r =
     and_then (has_one (authority_ok rt a \<and> quote_vault_ok a)) (\<lambda>_.
     and_then (load_config_account rt (cla_config a)) (\<lambda>_.
     and_then (has_one (cfg_quote_mint cfg = mint_key (cla_quote_mint a))) (\<lambda>_.
     and_then (load_pool_account rt (cla_pool a)) (\<lambda>_.
     and_then (has_one (pool_quote_vault s = ta_key (cla_quote_vault a))) (\<lambda>_.
     and_then (has_one (pool_config_key s = ai_key (cla_config a))) (\<lambda>_.
     let sale_complete = is_curve_complete s (cfg_migration_quote_threshold cfg) in
     and_then (get_migration_progress s) (\<lambda>progress.
     and_then (require (sale_complete \<or> progress = CreatedPool) NotPermitToDoThisAction) (\<lambda>_.
     let threshold = effective_migration_quote_threshold s (get_migration_quote_amount_cap cfg) in
     and_then (get_migration_fee_distribution_for_threshold cfg threshold) (\<lambda>d.
     and_then (ok_or (sender_flag_of flag) TypeCastFailed) (\<lambda>sender_flag.
     and_then
       (if sender_flag = SenderPartner then
          and_then (require (cla_signer a = cfg_fee_claimer cfg) NotPermitToDoThisAction) (\<lambda>_.
          let mask = PARTNER_MIGRATION_FEE_MASK in
          and_then (require (eligible_to_withdraw_migration_fee s mask) MigrationFeeHasBeenWithdraw) (\<lambda>_.
          Ok (mf_partner_migration_fee d, update_withdraw_migration_fee s mask)))
        else
          and_then (require (cla_signer a = pool_creator s) NotPermitToDoThisAction) (\<lambda>_.
          let mask = CREATOR_MIGRATION_FEE_MASK in
          and_then (require (eligible_to_withdraw_migration_fee s mask) MigrationFeeHasBeenWithdraw) (\<lambda>_.
          Ok (mf_creator_migration_fee d, update_withdraw_migration_fee s mask)))) (\<lambda>(fee, s).
     and_then (pay_quote rt a fee r) (\<lambda>r.
     Ok (fee, s, r)))))))))))))"

section \<open>Leftover base tokens\<close>

definition leftover_accounts_ok :: "'r runtime \<Rightarrow> claim_accounts \<Rightarrow> bool" where
  "leftover_accounts_ok rt a \<longleftrightarrow> authority_ok rt a \<and> base_vault_ok a
     \<and> ta_key (cla_base_receiver a) = rt_associated_token_address rt (cla_receiver a)
         (mint_key (cla_base_mint a)) (cla_token_base_program a)
     \<and> ta_authority (cla_base_receiver a) = cla_receiver a"

definition handle_withdraw_leftover ::
  "'r runtime \<Rightarrow> claim_accounts \<Rightarrow> pool_config \<Rightarrow> pool_state \<Rightarrow> 'r \<Rightarrow> (u64 \<times> pool_state \<times> 'r) result" where
  "handle_withdraw_leftover rt a cfg s r =
     and_then (has_one (leftover_accounts_ok rt a)) (\<lambda>_.
     and_then (load_config_account rt (cla_config a)) (\<lambda>_.
     and_then (has_one (cfg_leftover_receiver cfg = cla_receiver a)) (\<lambda>_.
     and_then (load_pool_account rt (cla_pool a)) (\<lambda>_.
     and_then (has_one (pool_base_mint s = mint_key (cla_base_mint a))) (\<lambda>_.
     and_then (has_one (pool_base_vault s = ta_key (cla_base_vault a))) (\<lambda>_.
     and_then (has_one (pool_config_key s = ai_key (cla_config a))) (\<lambda>_.
     and_then (get_migration_progress s) (\<lambda>progress.
     and_then (require (progress = CreatedPool) NotPermitToDoThisAction) (\<lambda>_.
     and_then (require (is_fixed_token_supply cfg) NotPermitToDoThisAction) (\<lambda>_.
     and_then (require (pool_is_withdraw_leftover s = 0) LeftoverHasBeenWithdraw) (\<lambda>_.
     and_then (get_protocol_and_trading_base_fee s) (\<lambda>base_fee.
     and_then (safe_sub (ta_amount (cla_base_vault a)) base_fee) (\<lambda>rest.
     and_then (safe_sub rest (pool_protocol_migration_base_fee_amount s)) (\<lambda>leftover_amount.
     and_then (pay_base rt a leftover_amount None r) (\<lambda>r.
     Ok (leftover_amount, update_withdraw_leftover s, r))))))))))))))))"

section \<open>Pool creation fees\<close>

definition handle_claim_partner_pool_creation_fee ::
  "'r runtime \<Rightarrow> claim_accounts \<Rightarrow> pool_config \<Rightarrow> pool_state \<Rightarrow> 'r \<Rightarrow> (u64 \<times> pool_state \<times> 'r) result" where
  "handle_claim_partner_pool_creation_fee rt a cfg s r =
     and_then (load_config_account rt (cla_config a)) (\<lambda>_.
     and_then (split_pool_creation_fee cfg) (\<lambda>(_, partner_fee).
     and_then (require (partner_fee > 0) ZeroPoolCreationFee) (\<lambda>_.
     and_then (load_pool_account rt (cla_pool a)) (\<lambda>_.
     and_then (has_one (pool_config_key s = ai_key (cla_config a))) (\<lambda>_.
     and_then (require (eligible_to_claim_partner_pool_creation_fee s) PoolCreationFeeHasBeenClaimed) (\<lambda>_.
     let s = update_partner_pool_creation_fee_claimed s in
     and_then (transfer_lamports_from_pool_account rt (ai_key (cla_pool a)) (cla_receiver a)
       partner_fee r) (\<lambda>r.
     Ok (partner_fee, s, r))))))))"

definition TOKEN_2022_POOL_WITH_OUTPUT_FEE_COLLECTION_CREATION_FEE :: u64 where
  "TOKEN_2022_POOL_WITH_OUTPUT_FEE_COLLECTION_CREATION_FEE = 10000000"

definition handle_claim_protocol_pool_creation_fee ::
  "'r runtime \<Rightarrow> claim_accounts \<Rightarrow> pool_config \<Rightarrow> pool_state \<Rightarrow> 'r \<Rightarrow> (u64 \<times> pool_state \<times> 'r) result" where
  "handle_claim_protocol_pool_creation_fee rt a cfg s r =
     and_then (load_config_account rt (cla_config a)) (\<lambda>_.
     and_then (load_pool_account rt (cla_pool a)) (\<lambda>_.
     and_then (has_one (pool_config_key s = ai_key (cla_config a))) (\<lambda>_.
     and_then
       (if eligible_to_claim_protocol_pool_creation_fee s then
          and_then (split_pool_creation_fee cfg) (\<lambda>(protocol, _).
          Ok (protocol, update_protocol_pool_creation_fee_claimed s))
        else Ok (0, s)) (\<lambda>(protocol, s).
     and_then
       (if has_legacy_creation_fee s \<and> eligible_to_claim_legacy_creation_fee s then
          and_then (safe_add protocol TOKEN_2022_POOL_WITH_OUTPUT_FEE_COLLECTION_CREATION_FEE) (\<lambda>protocol.
          Ok (protocol, update_legacy_creation_fee_claimed s))
        else Ok (protocol, s)) (\<lambda>(protocol, s).
     and_then
       (if protocol > 0 then
          transfer_lamports_from_pool_account rt (ai_key (cla_pool a)) (cla_receiver a) protocol r
        else Ok r) (\<lambda>r.
     Ok (protocol, s, r)))))))"

definition claim_partner_pool_creation_fee_entry ::
  "'r runtime \<Rightarrow> claim_accounts \<Rightarrow> pool_config \<Rightarrow> pool_state \<Rightarrow> 'r \<Rightarrow> (u64 \<times> pool_state \<times> 'r) result" where
  "claim_partner_pool_creation_fee_entry rt a cfg s r =
     and_then (is_partner_fee_claimer rt (cla_config a) cfg (cla_signer a)) (\<lambda>_.
     handle_claim_partner_pool_creation_fee rt a cfg s r)"

definition claim_protocol_pool_creation_fee_entry ::
  "'r runtime \<Rightarrow> claim_accounts \<Rightarrow> operator \<Rightarrow> pool_config \<Rightarrow> pool_state \<Rightarrow> 'r
    \<Rightarrow> (u64 \<times> pool_state \<times> 'r) result" where
  "claim_protocol_pool_creation_fee_entry rt a op cfg s r =
     and_then (has_one (cla_receiver a = treasury_id)) (\<lambda>_.
     and_then (is_valid_operator_role op (cla_signer a) ClaimProtocolFee) (\<lambda>_.
     handle_claim_protocol_pool_creation_fee rt a cfg s r))"

section \<open>Protocol fees\<close>

definition protocol_fee_accounts_ok ::
  "'r runtime \<Rightarrow> claim_accounts \<Rightarrow> pool_config \<Rightarrow> pool_state \<Rightarrow> bool" where
  "protocol_fee_accounts_ok rt a cfg s \<longleftrightarrow> authority_ok rt a \<and> base_vault_ok a \<and> quote_vault_ok a
     \<and> ai_owner (cla_config a) = program_id
     \<and> ai_discriminator (cla_config a) = rt_discriminator rt AccountPoolConfig
     \<and> ai_owner (cla_pool a) = program_id
     \<and> ai_discriminator (cla_pool a) = rt_discriminator rt AccountVirtualPool
     \<and> cfg_quote_mint cfg = mint_key (cla_quote_mint a)
     \<and> pool_base_vault s = ta_key (cla_base_vault a) \<and> pool_quote_vault s = ta_key (cla_quote_vault a)
     \<and> pool_base_mint s = mint_key (cla_base_mint a) \<and> pool_config_key s = ai_key (cla_config a)"

definition handle_claim_protocol_fee ::
  "'r runtime \<Rightarrow> claim_accounts \<Rightarrow> pool_config \<Rightarrow> u64 \<Rightarrow> u64 \<Rightarrow> pool_state \<Rightarrow> 'r
    \<Rightarrow> (u64 \<times> u64 \<times> pool_state \<times> 'r) result" where
  "handle_claim_protocol_fee rt a cfg max_base_amount max_quote_amount s r =
     and_then (claim_protocol_base_fee s max_base_amount) (\<lambda>(base, s).
     and_then
       (if base > 0 then
          and_then (validate_ata_token rt (cla_base_receiver a) treasury_id (mint_key (cla_base_mint a))
            (cla_token_base_program a)) (\<lambda>_.
          pay_base rt a base None r)
        else Ok r) (\<lambda>r.
     and_then (claim_protocol_quote_fee_and_surplus s max_quote_amount cfg) (\<lambda>(quote, s).
     and_then
       (if quote > 0 then
          and_then (validate_ata_token rt (cla_quote_receiver a) treasury_id (mint_key (cla_quote_mint a))
            (cla_token_quote_program a)) (\<lambda>_.
          pay_quote rt a quote r)
        else Ok r) (\<lambda>r.
     Ok (base, quote, s, r)))))"

definition claim_protocol_fee_entry ::
  "'r runtime \<Rightarrow> claim_accounts \<Rightarrow> operator \<Rightarrow> pool_config \<Rightarrow> u64 \<Rightarrow> u64 \<Rightarrow> pool_state \<Rightarrow> 'r
    \<Rightarrow> (u64 \<times> u64 \<times> pool_state \<times> 'r) result" where
  "claim_protocol_fee_entry rt a op cfg max_base_amount max_quote_amount s r =
     and_then (has_one (protocol_fee_accounts_ok rt a cfg s)) (\<lambda>_.
     and_then (is_valid_operator_role op (cla_signer a) ClaimProtocolFee) (\<lambda>_.
     handle_claim_protocol_fee rt a cfg max_base_amount max_quote_amount s r))"

text \<open>
  The newer instruction has one receiver account, whose mint decides the side; it is
  the base receiver of the account record.
\<close>

definition get_claim_direction_and_validate_accounts ::
  "claim_accounts \<Rightarrow> pool_config \<Rightarrow> pool_state \<Rightarrow> bool result" where
  "get_claim_direction_and_validate_accounts a cfg s =
     (let receiver_token_mint = ta_mint (cla_base_receiver a);
          is_claiming_base = (receiver_token_mint = pool_base_mint s) in
     and_then (require (is_claiming_base \<or> receiver_token_mint = cfg_quote_mint cfg)
       InvalidClaimProtocolFeeAccounts) (\<lambda>_.
     let token_program = (if is_claiming_base then cla_token_base_program a
       else cla_token_quote_program a) in
     and_then (require (ta_program (cla_base_receiver a) = token_program)
       InvalidClaimProtocolFeeAccounts) (\<lambda>_.
     Ok is_claiming_base)))"

definition handle_claim_protocol_fee2 ::
  "'r runtime \<Rightarrow> claim_accounts \<Rightarrow> pool_config \<Rightarrow> u64 \<Rightarrow> pool_state \<Rightarrow> 'r
    \<Rightarrow> (u64 \<times> pool_state \<times> 'r) result" where
  "handle_claim_protocol_fee2 rt a cfg max_amount s r =
     and_then (has_one (authority_ok rt a \<and> cla_signer a = rt_protocol_fee_authority rt)) (\<lambda>_.
     and_then (load_config_account rt (cla_config a)) (\<lambda>_.
     and_then (has_one (cfg_quote_mint cfg = mint_key (cla_quote_mint a))) (\<lambda>_.
     and_then (load_pool_account rt (cla_pool a)) (\<lambda>loader.
     and_then (has_one (pool_base_mint s = mint_key (cla_base_mint a))) (\<lambda>_.
     and_then (has_one (pool_base_vault s = ta_key (cla_base_vault a))) (\<lambda>_.
     and_then (has_one (pool_quote_vault s = ta_key (cla_quote_vault a))) (\<lambda>_.
     and_then (has_one (pool_config_key s = ai_key (cla_config a))) (\<lambda>_.
     and_then (get_claim_direction_and_validate_accounts a cfg s) (\<lambda>is_claiming_base.
     and_then
       (if is_claiming_base then
          and_then
            (if al_is_transfer_hook loader
             then require (is_curve_complete s (cfg_migration_quote_threshold cfg)) PoolIsIncompleted
             else Ok ()) (\<lambda>_.
          claim_protocol_base_fee s max_amount)
        else claim_protocol_quote_fee_and_surplus s max_amount cfg) (\<lambda>(amt, s).
     if amt = 0 then Ok (amt, s, r)
     else
       let (token_vault, token_mint, token_program) =
         (if is_claiming_base then (cla_base_vault a, cla_base_mint a, cla_token_base_program a)
          else (cla_quote_vault a, cla_quote_mint a, cla_token_quote_program a)) in
       and_then (transfer_token_from_pool_authority rt token_mint (ta_key token_vault)
         (ta_key (cla_base_receiver a)) token_program amt None r) (\<lambda>r.
       Ok (amt, s, r))))))))))))"

text \<open>
  Withdrawing protocol fees for a swap in the same transaction.  The inspection of
  that swap and the list of mints it may not be used for belong to another crate.
\<close>

record zap_rules =
  zr_mints_disallowed_to_zap_out :: "pubkey list"
  zr_validate_zap_out_to_treasury :: "u64 \<Rightarrow> token_account \<Rightarrow> pubkey \<Rightarrow> pool_error option"

record zap_accounts =
  zpa_pool_authority :: pubkey
  zpa_config :: account_info
  zpa_pool :: account_info
  zpa_token_vault :: token_account
  zpa_token_mint :: mint_account
  zpa_receiver_token :: token_account
  zpa_signer :: pubkey
  zpa_token_program :: pubkey
  zpa_sysvar_instructions :: pubkey

definition validate_accounts_and_return_withdraw_direction ::
  "pool_config \<Rightarrow> pool_state \<Rightarrow> zap_accounts \<Rightarrow> bool result" where
  "validate_accounts_and_return_withdraw_direction cfg s a =
     and_then (require (mint_key (zpa_token_mint a) = pool_base_mint s
        \<or> mint_key (zpa_token_mint a) = cfg_quote_mint cfg) InvalidWithdrawProtocolFeeZapAccounts) (\<lambda>_.
     let is_withdrawing_base = (mint_key (zpa_token_mint a) = pool_base_mint s) in
     and_then (require (ta_key (zpa_token_vault a) =
        (if is_withdrawing_base then pool_base_vault s else pool_quote_vault s))
        InvalidWithdrawProtocolFeeZapAccounts) (\<lambda>_.
     and_then (require (mint_program (zpa_token_mint a) = zpa_token_program a)
        InvalidWithdrawProtocolFeeZapAccounts) (\<lambda>_.
     Ok is_withdrawing_base)))"

definition zap_accounts_ok :: "'r runtime \<Rightarrow> zap_accounts \<Rightarrow> pool_state \<Rightarrow> bool" where
  "zap_accounts_ok rt a s \<longleftrightarrow> zpa_pool_authority a = rt_pool_authority rt
     \<and> ai_owner (zpa_config a) = program_id
     \<and> ai_discriminator (zpa_config a) = rt_discriminator rt AccountPoolConfig
     \<and> ai_owner (zpa_pool a) = program_id
     \<and> ai_discriminator (zpa_pool a) = rt_discriminator rt AccountVirtualPool
     \<and> pool_config_key s = ai_key (zpa_config a)
     \<and> zpa_sysvar_instructions a = rt_instructions_sysvar rt"

definition handle_zap_protocol_fee ::
  "'r runtime \<Rightarrow> zap_rules \<Rightarrow> zap_accounts \<Rightarrow> pool_config \<Rightarrow> u64 \<Rightarrow> pool_state \<Rightarrow> 'r
    \<Rightarrow> (u64 \<times> pool_state \<times> 'r) result" where
  "handle_zap_protocol_fee rt z a cfg max_amount s r =
     and_then (validate_accounts_and_return_withdraw_direction cfg s a) (\<lambda>is_withdrawing_base.
     and_then (require (mint_key (zpa_token_mint a) \<notin> set (zr_mints_disallowed_to_zap_out z))
        MintRestrictedFromZap) (\<lambda>_.
     and_then
       (if is_withdrawing_base then
          and_then (claim_protocol_base_fee s max_amount) (\<lambda>(amt, s).
          and_then (get_token_program_from_flag rt (cfg_quote_token_flag cfg)) (\<lambda>token_program.
          Ok (amt, s, rt_associated_token_address rt treasury_id (cfg_quote_mint cfg) token_program)))
        else
          and_then (claim_protocol_quote_fee_and_surplus s max_amount cfg) (\<lambda>(amt, s).
          and_then (get_token_program_from_pool_type rt (pool_pool_type s)) (\<lambda>token_program.
          Ok (amt, s, rt_associated_token_address rt treasury_id (pool_base_mint s) token_program))))
       (\<lambda>(amt, s, paired_destination).
     and_then (require (amt > 0) AmountIsZero) (\<lambda>_.
     and_then (validate_ata_token rt (zpa_receiver_token a) (zpa_signer a)
        (mint_key (zpa_token_mint a)) (zpa_token_program a)) (\<lambda>_.
     and_then (case zr_validate_zap_out_to_treasury z amt (zpa_receiver_token a) paired_destination of
          None \<Rightarrow> Ok () | Some e \<Rightarrow> err e) (\<lambda>_.
     and_then (transfer_token_from_pool_authority rt (zpa_token_mint a) (ta_key (zpa_token_vault a))
        (ta_key (zpa_receiver_token a)) (zpa_token_program a) amt None r) (\<lambda>r.
     Ok (amt, s, r))))))))"

definition zap_protocol_fee_entry ::
  "'r runtime \<Rightarrow> zap_rules \<Rightarrow> zap_accounts \<Rightarrow> operator \<Rightarrow> pool_config \<Rightarrow> u64 \<Rightarrow> pool_state \<Rightarrow> 'r
    \<Rightarrow> (u64 \<times> pool_state \<times> 'r) result" where
  "zap_protocol_fee_entry rt z a op cfg max_amount s r =
     and_then (has_one (zap_accounts_ok rt a s)) (\<lambda>_.
     and_then (is_valid_operator_role op (zpa_signer a) ZapProtocolFee) (\<lambda>_.
     handle_zap_protocol_fee rt z a cfg max_amount s r))"

section \<open>The creator\<close>

text \<open>
  The metadata argument is the first remaining account, if there is one: its content,
  or the error of loading it.
\<close>

definition handle_transfer_pool_creator ::
  "'r runtime \<Rightarrow> claim_accounts \<Rightarrow> pool_config \<Rightarrow> migration_metadata result option \<Rightarrow> pubkey
    \<Rightarrow> pool_state \<Rightarrow> pool_state result" where
  "handle_transfer_pool_creator rt a cfg metadata new_creator s =
     and_then (load_pool_account rt (cla_pool a)) (\<lambda>_.
     and_then (has_one (pool_config_key s = ai_key (cla_config a))) (\<lambda>_.
     and_then (get_migration_progress s) (\<lambda>progress.
     and_then (load_config_account rt (cla_config a)) (\<lambda>_.
     and_then
       (case progress of
          PreBondingCurve \<Rightarrow> Ok ()
        | CreatedPool \<Rightarrow>
            and_then (ok_or (migration_option_of (cfg_migration_option cfg)) InvalidMigrationOption) (\<lambda>option.
            if option = MeteoraDamm then
              and_then (ok_or metadata InvalidAccount) (\<lambda>loaded.
              and_then loaded (\<lambda>m.
              and_then (require (mm_virtual_pool m = ai_key (cla_pool a)) InvalidAccount) (\<lambda>_.
              and_then (require (mm_partner_locked_liquidity m = 0 \<or> is_partner_liquidity_locked m)
                NotPermitToDoThisAction) (\<lambda>_.
              and_then (require (mm_creator_locked_liquidity m = 0 \<or> is_creator_liquidity_locked m)
                NotPermitToDoThisAction) (\<lambda>_.
              and_then (require (mm_creator_liquidity m = 0 \<or> is_creator_claim_liquidity m)
                NotPermitToDoThisAction) (\<lambda>_.
              require (mm_partner_liquidity m = 0 \<or> is_partner_claim_liquidity m)
                NotPermitToDoThisAction))))))
            else Ok ())
        | _ \<Rightarrow> err NotPermitToDoThisAction) (\<lambda>_.
     Ok (s\<lparr>pool_creator := new_creator\<rparr>))))))"

definition transfer_pool_creator_entry ::
  "'r runtime \<Rightarrow> claim_accounts \<Rightarrow> pool_config \<Rightarrow> migration_metadata result option \<Rightarrow> pubkey
    \<Rightarrow> pool_state \<Rightarrow> pool_state result" where
  "transfer_pool_creator_entry rt a cfg metadata new_creator s =
     and_then (require (new_creator \<noteq> cla_signer a) InvalidNewCreator) (\<lambda>_.
     and_then (is_pool_creator rt (cla_pool a) s (cla_signer a)) (\<lambda>_.
     handle_transfer_pool_creator rt a cfg metadata new_creator s))"

lemmas claim_handler_defs [eval] = base_vault_ok_def quote_vault_ok_def authority_ok_def pay_base_def
  pay_quote_def pay_trading_fee_def parse_claim_accounts_def handle_claim_creator_trading_fee_def
  handle_claim_trading_fee_def claim_creator_trading_fee2_entry_def claim_trading_fee2_entry_def
  claim_creator_trading_fee_entry_def claim_trading_fee_entry_def
  handle_creator_withdraw_surplus_def handle_partner_withdraw_surplus_def
  creator_withdraw_surplus_entry_def partner_withdraw_surplus_entry_def sender_flag_of_def
  handle_withdraw_migration_fee_def leftover_accounts_ok_def handle_withdraw_leftover_def
  handle_claim_partner_pool_creation_fee_def
  TOKEN_2022_POOL_WITH_OUTPUT_FEE_COLLECTION_CREATION_FEE_def
  handle_claim_protocol_pool_creation_fee_def claim_partner_pool_creation_fee_entry_def
  claim_protocol_pool_creation_fee_entry_def protocol_fee_accounts_ok_def
  handle_claim_protocol_fee_def claim_protocol_fee_entry_def
  get_claim_direction_and_validate_accounts_def handle_claim_protocol_fee2_def
  validate_accounts_and_return_withdraw_direction_def zap_accounts_ok_def
  handle_zap_protocol_fee_def zap_protocol_fee_entry_def handle_transfer_pool_creator_def
  transfer_pool_creator_entry_def

end
