(* ===== verification/Migration_Handler.thy ===== *)
theory Migration_Handler
  imports Distribution Sqrt
begin

text \<open>
  The amounts a migration deposits and the liquidity it gets for them
  (\<open>migration_handler/\<close>).  The trait of the source has two implementations,
  \<open>CompoundingLiquidity\<close> for constant product pools and \<open>ConcentratedLiquidity\<close>
  for pools over the whole price range; a handler is the value of a datatype and
  the dynamic dispatch a case distinction.  The interface \<open>migration_handler\<close>
  states what both implementations promise: the deposit covers the liquidity and
  the protocol's fee.
\<close>

declare of_nat_unat [simp del]

record initial_pool_information =
  ipi_sqrt_price :: u128
  ipi_distributable_liquidity :: u128
  ipi_dead_liquidity :: u128

section \<open>Liquidity of a concentrated pool\<close>

definition get_initial_liquidity_from_delta_base :: "u64 \<Rightarrow> u128 \<Rightarrow> u128 \<Rightarrow> u512 result" where
  "get_initial_liquidity_from_delta_base base_amount sqrt_max_price sqrt_price =
     and_then (safe_sub sqrt_max_price sqrt_price) (\<lambda>d.
     let price_delta = (ucast d :: u512) in
     and_then (safe_mul (ucast base_amount :: u512) (ucast sqrt_price)) (\<lambda>m.
     and_then (safe_mul m (ucast sqrt_max_price)) (\<lambda>prod.
     safe_div prod price_delta)))"

definition get_initial_liquidity_from_delta_quote :: "u64 \<Rightarrow> u128 \<Rightarrow> u128 \<Rightarrow> u128 result" where
  "get_initial_liquidity_from_delta_quote quote_amount sqrt_min_price sqrt_price =
     and_then (safe_sub sqrt_price sqrt_min_price) (\<lambda>d.
     let price_delta = (ucast d :: u256) in
     and_then (safe_shl_big (ucast quote_amount :: u256) 128) (\<lambda>quote_amount.
     and_then (safe_div quote_amount price_delta) (\<lambda>liquidity.
     ok_or (try_cast liquidity) TypeCastFailed)))"

definition calculate_concentrated_initial_liquidity :: "u64 \<Rightarrow> u64 \<Rightarrow> u128 \<Rightarrow> u128 result" where
  "calculate_concentrated_initial_liquidity base_amount quote_amount migration_sqrt_price =
     and_then (get_initial_liquidity_from_delta_base base_amount MAX_SQRT_PRICE migration_sqrt_price)
       (\<lambda>liquidity_from_base.
     and_then (get_initial_liquidity_from_delta_quote quote_amount MIN_SQRT_PRICE migration_sqrt_price)
       (\<lambda>liquidity_from_quote.
     if liquidity_from_base > ucast liquidity_from_quote then Ok liquidity_from_quote
     else ok_or (try_cast liquidity_from_base) TypeCastFailed))"

section \<open>The concentrated handler\<close>

definition concentrated_initial_pool_information ::
  "u128 \<Rightarrow> u64 \<Rightarrow> u64 \<Rightarrow> initial_pool_information result" where
  "concentrated_initial_pool_information migration_sqrt_price base_amount quote_amount =
     and_then (calculate_concentrated_initial_liquidity base_amount quote_amount migration_sqrt_price)
       (\<lambda>liquidity.
     Ok \<lparr>ipi_sqrt_price = migration_sqrt_price, ipi_distributable_liquidity = liquidity,
         ipi_dead_liquidity = 0\<rparr>)"

definition concentrated_migration_protocol_fees :: "u128 \<Rightarrow> u64 \<Rightarrow> u64 \<Rightarrow> u16 \<Rightarrow> (u64 \<times> u64) result" where
  "concentrated_migration_protocol_fees migration_sqrt_price deposit_base_amount deposit_quote_amount
     migration_fee_bps =
     and_then (safe_mul_div_cast_u64 deposit_quote_amount (ucast migration_fee_bps) BASIS_POINT_MAX Down)
       (\<lambda>quote_fee_amount :: u64.
     and_then (get_initial_liquidity_from_delta_quote quote_fee_amount MIN_SQRT_PRICE migration_sqrt_price)
       (\<lambda>fee_liquidity.
     and_then (get_delta_amount_base_unsigned migration_sqrt_price MAX_SQRT_PRICE fee_liquidity Down)
       (\<lambda>base_fee_amount.
     Ok (base_fee_amount, quote_fee_amount))))"

definition concentrated_liquidity_delta :: "u128 \<Rightarrow> u64 \<Rightarrow> u64 \<Rightarrow> u64 \<Rightarrow> u64 \<Rightarrow> u128 \<Rightarrow> u128 result" where
  "concentrated_liquidity_delta migration_sqrt_price base_amount quote_amount
     pool_base_reserve pool_quote_reserve pool_liquidity =
     calculate_concentrated_initial_liquidity base_amount quote_amount migration_sqrt_price"

definition concentrated_included_amounts_1 :: "u128 \<Rightarrow> u64 \<Rightarrow> u8 \<Rightarrow> (u64 \<times> u64) result" where
  "concentrated_included_amounts_1 migration_sqrt_price migration_quote_threshold
     migration_fee_percentage =
     and_then (calculate_post_fee_migration_quote_amount migration_quote_threshold
       migration_fee_percentage) (\<lambda>m.
     and_then (get_initial_liquidity_from_delta_quote (ma_quote_amount m) MIN_SQRT_PRICE
       migration_sqrt_price) (\<lambda>liquidity.
     and_then (get_delta_amount_base_unsigned_256 migration_sqrt_price MAX_SQRT_PRICE liquidity Up)
       (\<lambda>base_amount.
     and_then (u64_of_256 base_amount) (\<lambda>base_amount.
     Ok (base_amount, ma_quote_amount m)))))"

definition concentrated_included_amounts_2 :: "u64 \<Rightarrow> u64 \<Rightarrow> u8 \<Rightarrow> u64 \<Rightarrow> (u64 \<times> u64) result" where
  "concentrated_included_amounts_2 migration_base_threshold migration_quote_threshold
     migration_fee_percentage excluded_fee_base_reserve =
     and_then (calculate_post_fee_migration_quote_amount migration_quote_threshold
       migration_fee_percentage) (\<lambda>m.
     Ok (excluded_fee_base_reserve, ma_quote_amount m))"

section \<open>Liquidity of a compounding pool\<close>

definition DAMM_V2_COMPOUNDING_DEAD_LIQUIDITY :: u128 where
  "DAMM_V2_COMPOUNDING_DEAD_LIQUIDITY = push_bit 64 100"

text \<open>
  The option of the source is the error \<open>MathOverflow\<close> here: both callers turn
  \<open>None\<close> into it.  The rounded-up division aborts on a zero divisor.
\<close>

definition calculate_compounding_initial_sqrt_price_and_liquidity ::
  "u64 \<Rightarrow> u64 \<Rightarrow> (u128 \<times> u128) result" where
  "calculate_compounding_initial_sqrt_price_and_liquidity token_a_amount token_b_amount =
     and_then (ok_or (big_checked_shl (ucast token_b_amount :: u256) 128) MathOverflow) (\<lambda>b.
     and_then (big_div_ceil b (ucast token_a_amount)) (\<lambda>q1.
     and_then (ok_or (sqrt_u256 q1) MathOverflow) (\<lambda>sqrt_price_1.
     and_then (ok_or (try_cast sqrt_price_1) MathOverflow) (\<lambda>sqrt_price_1 :: u128.
     if sqrt_price_1 < MIN_SQRT_PRICE \<or> sqrt_price_1 > MAX_SQRT_PRICE then err MathOverflow
     else
       and_then (safe_div b (ucast token_a_amount)) (\<lambda>q2.
       and_then (ok_or (sqrt_u256 q2) MathOverflow) (\<lambda>sqrt_price_2.
       and_then (ok_or (try_cast sqrt_price_2) MathOverflow) (\<lambda>sqrt_price_2 :: u128.
       and_then (ok_or (checked_mul sqrt_price_2 (ucast token_a_amount)) MathOverflow) (\<lambda>liquidity.
       Ok (sqrt_price_1, liquidity)))))))))"

definition get_constant_product_base_from_quote :: "u64 \<Rightarrow> u128 \<Rightarrow> u64 result" where
  "get_constant_product_base_from_quote quote_amount sqrt_migration_price =
     (let sqrt_migration_price = (ucast sqrt_migration_price :: u256) in
     and_then (safe_mul sqrt_migration_price sqrt_migration_price) (\<lambda>price.
     and_then (safe_shl_big (ucast quote_amount :: u256) 128) (\<lambda>quote.
     and_then (if price = 0 then panic else Ok (quote div price, quote mod price)) (\<lambda>(base, remainder).
     and_then (if remainder \<noteq> 0 then safe_add base 1 else Ok base) (\<lambda>base.
     u64_of_256 base)))))"

section \<open>The compounding handler\<close>

definition abs_diff :: "u128 \<Rightarrow> u128 \<Rightarrow> u128" where
  "abs_diff a b = (if a < b then b - a else a - b)"

definition validate_initial_pool_information :: "u64 \<Rightarrow> u64 \<Rightarrow> u128 \<Rightarrow> unit result" where
  "validate_initial_pool_information base_amount quote_amount migration_sqrt_price =
     and_then (calculate_compounding_initial_sqrt_price_and_liquidity base_amount quote_amount)
       (\<lambda>(sqrt_price, total_liquidity).
     and_then (require (sqrt_price \<ge> MIN_SQRT_PRICE \<and> sqrt_price \<le> MAX_SQRT_PRICE)
       InvalidCompoundingParameters) (\<lambda>_.
     and_then (require (total_liquidity > DAMM_V2_COMPOUNDING_DEAD_LIQUIDITY)
       InsufficientLiquidityForMigration) (\<lambda>_.
     and_then (safe_mul (abs_diff migration_sqrt_price sqrt_price) 100) (\<lambda>d.
     require (d \<le> max migration_sqrt_price sqrt_price) InvalidCurve))))"

definition compounding_initial_pool_information ::
  "u64 \<Rightarrow> u64 \<Rightarrow> initial_pool_information result" where
  "compounding_initial_pool_information base_amount quote_amount =
     and_then (calculate_compounding_initial_sqrt_price_and_liquidity base_amount quote_amount)
       (\<lambda>(sqrt_price, total_liquidity).
     and_then (safe_sub total_liquidity DAMM_V2_COMPOUNDING_DEAD_LIQUIDITY) (\<lambda>distributable_liquidity.
     Ok \<lparr>ipi_sqrt_price = sqrt_price, ipi_distributable_liquidity = distributable_liquidity,
         ipi_dead_liquidity = DAMM_V2_COMPOUNDING_DEAD_LIQUIDITY\<rparr>))"

definition compounding_migration_protocol_fees :: "u64 \<Rightarrow> u64 \<Rightarrow> u16 \<Rightarrow> (u64 \<times> u64) result" where
  "compounding_migration_protocol_fees deposit_base_amount deposit_quote_amount migration_fee_bps =
     and_then (safe_mul_div_cast_u64 deposit_base_amount (ucast migration_fee_bps) BASIS_POINT_MAX Down)
       (\<lambda>base_fee_amount :: u64.
     and_then (safe_mul_div_cast_u64 deposit_quote_amount (ucast migration_fee_bps) BASIS_POINT_MAX Down)
       (\<lambda>quote_fee_amount :: u64.
     Ok (base_fee_amount, quote_fee_amount)))"

definition compounding_liquidity_delta :: "u64 \<Rightarrow> u64 \<Rightarrow> u64 \<Rightarrow> u64 \<Rightarrow> u128 \<Rightarrow> u128 result" where
  "compounding_liquidity_delta base_amount quote_amount pool_base_reserve pool_quote_reserve
     pool_liquidity =
     and_then (safe_mul_div_cast_u128 (ucast base_amount) pool_liquidity (ucast pool_base_reserve) Down)
       (\<lambda>liquidity_from_base.
     and_then (safe_mul_div_cast_u128 (ucast quote_amount) pool_liquidity (ucast pool_quote_reserve) Down)
       (\<lambda>liquidity_from_quote.
     Ok (min liquidity_from_base liquidity_from_quote)))"

definition compounding_included_amounts_1 :: "u128 \<Rightarrow> u64 \<Rightarrow> u8 \<Rightarrow> (u64 \<times> u64) result" where
  "compounding_included_amounts_1 migration_sqrt_price migration_quote_threshold
     migration_fee_percentage =
     and_then (calculate_post_fee_migration_quote_amount migration_quote_threshold
       migration_fee_percentage) (\<lambda>m.
     and_then (get_constant_product_base_from_quote (ma_quote_amount m) migration_sqrt_price)
       (\<lambda>base_amount.
     Ok (base_amount, ma_quote_amount m)))"

definition compounding_included_amounts_2 :: "u64 \<Rightarrow> u64 \<Rightarrow> u8 \<Rightarrow> u64 \<Rightarrow> (u64 \<times> u64) result" where
  "compounding_included_amounts_2 migration_base_threshold migration_quote_threshold
     migration_fee_percentage excluded_fee_base_reserve =
     and_then (require (excluded_fee_base_reserve \<ge> migration_base_threshold) UndeterminedError) (\<lambda>_.
     and_then (calculate_post_fee_migration_quote_amount migration_quote_threshold
       migration_fee_percentage) (\<lambda>m.
     Ok (migration_base_threshold, ma_quote_amount m)))"

section \<open>Dispatch\<close>

datatype migration_handler = CompoundingLiquidity u128 | ConcentratedLiquidity u128

definition get_migration_handler ::
  "migration_option \<Rightarrow> migrated_collect_fee_mode \<Rightarrow> u128 \<Rightarrow> migration_handler" where
  "get_migration_handler migration_option migrated_collect_fee_mode migration_sqrt_price =
     (if migration_option = MeteoraDamm then CompoundingLiquidity migration_sqrt_price
      else if migrated_collect_fee_mode = Compounding then CompoundingLiquidity migration_sqrt_price
      else ConcentratedLiquidity migration_sqrt_price)"

fun get_initial_pool_information ::
  "migration_handler \<Rightarrow> u64 \<Rightarrow> u64 \<Rightarrow> initial_pool_information result" where
  "get_initial_pool_information (CompoundingLiquidity p) b q = compounding_initial_pool_information b q"
| "get_initial_pool_information (ConcentratedLiquidity p) b q = concentrated_initial_pool_information p b q"

fun get_migration_protocol_fees :: "migration_handler \<Rightarrow> u64 \<Rightarrow> u64 \<Rightarrow> u16 \<Rightarrow> (u64 \<times> u64) result" where
  "get_migration_protocol_fees (CompoundingLiquidity p) b q bps = compounding_migration_protocol_fees b q bps"
| "get_migration_protocol_fees (ConcentratedLiquidity p) b q bps = concentrated_migration_protocol_fees p b q bps"

fun calculate_liquidity_delta ::
  "migration_handler \<Rightarrow> u64 \<Rightarrow> u64 \<Rightarrow> u64 \<Rightarrow> u64 \<Rightarrow> u128 \<Rightarrow> u128 result" where
  "calculate_liquidity_delta (CompoundingLiquidity p) b q rb rq l = compounding_liquidity_delta b q rb rq l"
| "calculate_liquidity_delta (ConcentratedLiquidity p) b q rb rq l = concentrated_liquidity_delta p b q rb rq l"

fun get_included_protocol_fee_migration_amounts_1 ::
  "migration_handler \<Rightarrow> u64 \<Rightarrow> u8 \<Rightarrow> (u64 \<times> u64) result" where
  "get_included_protocol_fee_migration_amounts_1 (CompoundingLiquidity p) t pct =
     compounding_included_amounts_1 p t pct"
| "get_included_protocol_fee_migration_amounts_1 (ConcentratedLiquidity p) t pct =
     concentrated_included_amounts_1 p t pct"

fun get_included_protocol_fee_migration_amounts_2 ::
  "migration_handler \<Rightarrow> u64 \<Rightarrow> u64 \<Rightarrow> u8 \<Rightarrow> u64 \<Rightarrow> (u64 \<times> u64) result" where
  "get_included_protocol_fee_migration_amounts_2 (CompoundingLiquidity p) tb tq pct reserve =
     compounding_included_amounts_2 tb tq pct reserve"
| "get_included_protocol_fee_migration_amounts_2 (ConcentratedLiquidity p) tb tq pct reserve =
     concentrated_included_amounts_2 tb tq pct reserve"

fun to_dammv2_collect_fee_mode :: "migrated_collect_fee_mode \<Rightarrow> u8" where
  "to_dammv2_collect_fee_mode MigratedQuoteToken = 1"
| "to_dammv2_collect_fee_mode MigratedOutputToken = 0"
| "to_dammv2_collect_fee_mode Compounding = 2"

lemmas migration_handler_defs [eval] = get_initial_liquidity_from_delta_base_def
  get_initial_liquidity_from_delta_quote_def calculate_concentrated_initial_liquidity_def
  concentrated_initial_pool_information_def concentrated_migration_protocol_fees_def
  concentrated_liquidity_delta_def concentrated_included_amounts_1_def
  concentrated_included_amounts_2_def DAMM_V2_COMPOUNDING_DEAD_LIQUIDITY_def
  calculate_compounding_initial_sqrt_price_and_liquidity_def
  get_constant_product_base_from_quote_def abs_diff_def validate_initial_pool_information_def
  compounding_initial_pool_information_def compounding_migration_protocol_fees_def
  compounding_liquidity_delta_def compounding_included_amounts_1_def
  compounding_included_amounts_2_def get_migration_handler_def

section \<open>Exact results\<close>

lemma initial_liquidity_from_quote_Ok:
  "get_initial_liquidity_from_delta_quote q mn p = Inr L \<longleftrightarrow>
    unat mn < unat p \<and> unat L = unat q * 2 ^ 128 div (unat p - unat mn)"
proof (cases "unat mn \<le> unat p")
  case False
  then show ?thesis by (simp add: get_initial_liquidity_from_delta_quote_def)
next
  case True
  obtain s :: u256 where s: "safe_shl_big (ucast q) 128 = Inr s" "unat s = unat q * 2 ^ 128"
    using shl_amount_128 by blast
  have d: "safe_sub p mn = Inr (p - mn)" "unat (p - mn) = unat p - unat mn"
    using True by (simp_all add: unat_sub_le)
  have "unat s div (unat p - unat mn) < 2 ^ LENGTH(256)"
    by (rule le_less_trans [OF div_le_dividend unat_lt_2p])
  then have lt: "unat q * 2 ^ 128 div (unat p - unat mn) < 2 ^ 256" by (simp add: s(2))
  show ?thesis unfolding get_initial_liquidity_from_delta_quote_def d(1) and_then_simps Let_def s(1)
    using True lt by (auto simp: s d(2) simp del: safe_shl_big_Ok safe_sub_Ok intro!: ex_unatI)
qed

lemma initial_liquidity_from_base_Ok:
  "get_initial_liquidity_from_delta_base b mx p = Inr L \<longleftrightarrow>
    unat p < unat mx \<and> unat L = unat b * unat p * unat mx div (unat mx - unat p)"
proof (cases "unat p \<le> unat mx")
  case False
  then show ?thesis by (simp add: get_initial_liquidity_from_delta_base_def)
next
  case True
  have bp: "unat b * unat p < 2 ^ 192" by (rule prod_lt_2p [where m = 64 and n = 128]) simp_all
  then have "unat b * unat p < 2 ^ LENGTH(512)" by simp
  then obtain m :: u512 where m: "unat m = unat b * unat p" by (rule word_witness)
  have "unat m * unat mx < 2 ^ 320"
    using bp by (intro prod_lt_2p [where m = 192 and n = 128]) (simp_all add: m)
  then have "unat m * unat mx < 2 ^ LENGTH(512)" by simp
  then obtain n :: u512 where n: "unat n = unat m * unat mx" by (rule word_witness)
  have "safe_mul (ucast b :: u512) (ucast p) = Inr m" "safe_mul m (ucast mx) = Inr n"
    using m n by simp_all
  moreover have "safe_sub mx p = Inr (mx - p)" "unat (mx - p) = unat mx - unat p"
    using True by (simp_all add: unat_sub_le)
  ultimately show ?thesis unfolding get_initial_liquidity_from_delta_base_def
    using True by (auto simp: m n simp del: safe_mul_Ok safe_sub_Ok)
qed

lemma concentrated_initial_liquidity_Ok:
  "calculate_concentrated_initial_liquidity b q p = Inr L \<longleftrightarrow>
    unat MIN_SQRT_PRICE < unat p \<and> unat p < unat MAX_SQRT_PRICE
    \<and> unat q * 2 ^ 128 div (unat p - unat MIN_SQRT_PRICE) < 2 ^ 128
    \<and> unat L = min (unat b * unat p * unat MAX_SQRT_PRICE div (unat MAX_SQRT_PRICE - unat p))
        (unat q * 2 ^ 128 div (unat p - unat MIN_SQRT_PRICE))" (is "?l \<longleftrightarrow> ?r")
proof (cases "\<exists>B Q. get_initial_liquidity_from_delta_base b MAX_SQRT_PRICE p = Inr B
    \<and> get_initial_liquidity_from_delta_quote q MIN_SQRT_PRICE p = Inr Q")
  case True
  then obtain B Q where BQ: "get_initial_liquidity_from_delta_base b MAX_SQRT_PRICE p = Inr B"
    "get_initial_liquidity_from_delta_quote q MIN_SQRT_PRICE p = Inr Q" by blast
  note b = BQ(1) [unfolded initial_liquidity_from_base_Ok]
  note c = BQ(2) [unfolded initial_liquidity_from_quote_Ok]
  have "unat Q < 2 ^ 128" by simp
  then have "unat q * 2 ^ 128 div (unat p - unat MIN_SQRT_PRICE) < 2 ^ 128"
    using c by (simp del: unat_range)
  then show ?thesis using b c
    by (auto simp: calculate_concentrated_initial_liquidity_def BQ word_less_nat_alt min_def word_unat_eq_iff)
next
  case False
  have "\<not> ?l" using False by (auto simp: calculate_concentrated_initial_liquidity_def)
  moreover have "\<not> ?r"
  proof
    assume r: ?r
    then have "unat q * 2 ^ 128 div (unat p - unat MIN_SQRT_PRICE) < 2 ^ LENGTH(128)" by simp
    then obtain Q :: u128 where Q: "unat Q = unat q * 2 ^ 128 div (unat p - unat MIN_SQRT_PRICE)"
      by (rule word_witness)
    have "unat b * unat p < 2 ^ (64 + 128)" by (intro prod_lt_2p [where m = 64 and n = 128]) simp_all
    then have "unat b * unat p * unat MAX_SQRT_PRICE < 2 ^ LENGTH(512)"
      by (rule prod_lt_2p [OF _ unat_lt_2p]) simp
    then have "unat b * unat p * unat MAX_SQRT_PRICE div (unat MAX_SQRT_PRICE - unat p) < 2 ^ LENGTH(512)"
      by (rule le_less_trans [OF div_le_dividend])
    then obtain B :: u512 where
      B: "unat B = unat b * unat p * unat MAX_SQRT_PRICE div (unat MAX_SQRT_PRICE - unat p)"
      by (rule word_witness)
    show False using False r Q B
      unfolding initial_liquidity_from_base_Ok initial_liquidity_from_quote_Ok by blast
  qed
  ultimately show ?thesis by blast
qed

lemma concentrated_included_Ok:
  "concentrated_included_amounts_1 p t pct = Inr (b, q) \<longleftrightarrow>
    (\<exists>m L. calculate_post_fee_migration_quote_amount t pct = Inr m \<and> q = ma_quote_amount m
      \<and> get_initial_liquidity_from_delta_quote q MIN_SQRT_PRICE p = Inr L
      \<and> unat p \<le> unat MAX_SQRT_PRICE
      \<and> unat b = ceil_div (unat L * (unat MAX_SQRT_PRICE - unat p)) (unat p * unat MAX_SQRT_PRICE))"
proof -
  have "unat L * (unat MAX_SQRT_PRICE - unat p) < 2 ^ 256" for L :: u128
    by (rule prod_lt_2p [where m = 128 and n = 128]) (simp_all add: less_imp_diff_less)
  then have "ceil_div (unat L * (unat MAX_SQRT_PRICE - unat p)) (unat p * unat MAX_SQRT_PRICE) < 2 ^ 256"
    if "0 < unat p" for L :: u128
    using that by (intro le_less_trans [OF ceil_div_le_self]) simp_all
  then show ?thesis unfolding concentrated_included_amounts_1_def
    by (fastforce simp: base_256_Ok initial_liquidity_from_quote_Ok)
qed

lemma calculate_post_fee_le:
  "calculate_post_fee_migration_quote_amount t pct = Inr m \<Longrightarrow> unat (ma_quote_amount m) \<le> unat t"
  by (auto simp: calculate_post_fee_migration_quote_amount_def)

lemma bps_share_le: "unat bps \<le> 10000 \<Longrightarrow> x * unat bps div 10000 \<le> x"
  using mult_le_mono2 [of "unat bps" 10000 x] by (intro div_le_of_le_mult) simp_all

lemma isqrt_mono:
  fixes a b :: nat
  assumes "a * a \<le> m" "m \<le> n" "n < (b + 1) * (b + 1)"
  shows "a \<le> b"
proof (rule ccontr)
  assume "\<not> a \<le> b"
  then have "(b + 1) * (b + 1) \<le> a * a" by (intro mult_le_mono) simp_all
  with assms show False by linarith
qed

lemma compounding_liquidity_Ok:
  assumes "calculate_compounding_initial_sqrt_price_and_liquidity a b = Inr (s, L)"
  shows "\<exists>s2. unat L = s2 * unat a \<and> s2 \<le> unat s \<and> 0 < unat a \<and> 0 < unat s
    \<and> unat MIN_SQRT_PRICE \<le> unat s \<and> unat s \<le> unat MAX_SQRT_PRICE
    \<and> s2 * unat s \<le> unat b * 2 ^ 128 div unat a"
proof -
  obtain x q1 r1 q2 r2 s2 where p: "unat x = unat b * 2 ^ 128"
    "big_div_ceil x (ucast a :: u256) = Inr q1" "sqrt_u256 q1 = Some r1" "unat s = unat r1"
    "\<not> s < MIN_SQRT_PRICE" "\<not> s > MAX_SQRT_PRICE"
    "safe_div x (ucast a) = Inr q2" "sqrt_u256 q2 = Some r2" "unat (s2 :: u128) = unat r2"
    "unat L = unat s2 * unat a"
    using assms unfolding calculate_compounding_initial_sqrt_price_and_liquidity_def
    by (auto simp: bind_Some_iff)
  define N where "N = unat x div unat a"
  have a: "0 < unat a" and q2: "unat q2 = N" using p(7) by (simp_all add: N_def)
  have q1: "unat q1 = ceil_div (unat x) (unat a)" using p(2) by simp
  have N1: "N \<le> unat q1" "unat q1 \<le> N + 1"
    using a ceil_div_alt [of "unat a" "unat x"] by (simp_all add: q1 N_def)
  have r1: "unat r1 * unat r1 \<le> unat q1" "unat q1 < (unat r1 + 1) * (unat r1 + 1)"
    using sqrt_u256_spec [of q1] p(3) by simp_all
  have r2: "unat r2 * unat r2 \<le> N" "N < (unat r2 + 1) * (unat r2 + 1)"
    using sqrt_u256_spec [of q2] p(8) by (simp_all add: q2)
  have le: "unat r2 \<le> unat r1" using isqrt_mono [OF r2(1) N1(1) r1(2)] .
  have pos: "unat MIN_SQRT_PRICE \<le> unat s" "unat s \<le> unat MAX_SQRT_PRICE"
    using p(5,6) by (simp_all add: word_less_nat_alt not_less)
  have "unat r2 * unat r1 \<le> N"
  proof (cases "unat r1 = unat r2")
    case True
    then show ?thesis using r2(1) by simp
  next
    case False
    then have "unat r2 + 1 \<le> unat r1" using le by simp
    then have "unat r2 * unat r1 + unat r1 \<le> unat r1 * unat r1"
      using mult_le_mono1 [of "unat r2 + 1" "unat r1" "unat r1"] by simp
    then have "unat r2 * unat r1 + unat r1 \<le> N + 1" using r1(1) N1(2) by linarith
    moreover have "1 \<le> unat r1" using False le by linarith
    ultimately show ?thesis by linarith
  qed
  then show ?thesis using p(1,4,9,10) pos le a
    by (intro exI [of _ "unat s2"]) (simp add: N_def)
qed

section \<open>What a handler promises\<close>

text \<open>
  The tokens a pool with the given initial information holds, as real numbers: a
  concentrated pool over the whole price range, and a constant product pool.
\<close>

fun needed_base :: "migration_handler \<Rightarrow> initial_pool_information \<Rightarrow> real" where
  "needed_base (ConcentratedLiquidity p) i =
     base_between (unat (ipi_distributable_liquidity i)) (unat (ipi_sqrt_price i)) (unat MAX_SQRT_PRICE)"
| "needed_base (CompoundingLiquidity p) i =
     real (unat (ipi_distributable_liquidity i) + unat (ipi_dead_liquidity i)) / real (unat (ipi_sqrt_price i))"

fun needed_quote :: "migration_handler \<Rightarrow> initial_pool_information \<Rightarrow> real" where
  "needed_quote (ConcentratedLiquidity p) i =
     quote_between (unat (ipi_distributable_liquidity i)) (unat MIN_SQRT_PRICE) (unat (ipi_sqrt_price i))"
| "needed_quote (CompoundingLiquidity p) i =
     real (unat (ipi_distributable_liquidity i) + unat (ipi_dead_liquidity i))
       * real (unat (ipi_sqrt_price i)) / 2 ^ 128"

locale migration =
  fixes included :: "'h \<Rightarrow> u64 \<Rightarrow> u8 \<Rightarrow> (u64 \<times> u64) result"
    and protocol_fees :: "'h \<Rightarrow> u64 \<Rightarrow> u64 \<Rightarrow> u16 \<Rightarrow> (u64 \<times> u64) result"
    and initial :: "'h \<Rightarrow> u64 \<Rightarrow> u64 \<Rightarrow> initial_pool_information result"
    and base_for :: "'h \<Rightarrow> initial_pool_information \<Rightarrow> real"
    and quote_for :: "'h \<Rightarrow> initial_pool_information \<Rightarrow> real"
  assumes deposit_covers: "initial h b q = Inr i \<Longrightarrow> base_for h i \<le> real (unat b) \<and> quote_for h i \<le> real (unat q)"
    and fees_within: "included h t pct = Inr (b, q) \<Longrightarrow> protocol_fees h b q bps = Inr (fb, fq) \<Longrightarrow>
      unat bps \<le> 10000 \<Longrightarrow> unat fb \<le> unat b \<and> unat fq \<le> unat q"
    and included_within: "included h t pct = Inr (b, q) \<Longrightarrow> unat q \<le> unat t"
begin

lemma deposit_and_fees_paid:
  assumes "included h t pct = Inr (b, q)" "protocol_fees h b q bps = Inr (fb, fq)" "unat bps \<le> 10000"
    and "safe_sub b fb = Inr b'" "safe_sub q fq = Inr q'" "initial h b' q' = Inr i"
  shows "base_for h i + real (unat fb) \<le> real (unat b) \<and> quote_for h i + real (unat fq) \<le> real (unat t)"
proof -
  note f = fees_within [OF assms(1-3)]
  have "real (unat b') = real (unat b) - real (unat fb)" "real (unat q') = real (unat q) - real (unat fq)"
    using assms(4,5) f by (simp_all add: of_nat_diff)
  moreover have "real (unat q) \<le> real (unat t)"
    using included_within [OF assms(1)] by (simp only: of_nat_le_iff)
  ultimately show ?thesis using deposit_covers [OF assms(6)] by linarith
qed

end

lemma concentrated_deposit_covers:
  assumes "concentrated_initial_pool_information p b q = Inr i"
  shows "needed_base (ConcentratedLiquidity p) i \<le> real (unat b) \<and>
    needed_quote (ConcentratedLiquidity p) i \<le> real (unat q)"
proof -
  let ?x = "unat MAX_SQRT_PRICE" and ?n = "unat MIN_SQRT_PRICE" and ?p = "unat p"
  obtain L where L: "calculate_concentrated_initial_liquidity b q p = Inr L"
    "i = \<lparr>ipi_sqrt_price = p, ipi_distributable_liquidity = L, ipi_dead_liquidity = 0\<rparr>"
    using assms by (auto simp: concentrated_initial_pool_information_def)
  then have r: "?n < ?p" "?p < ?x" "unat L \<le> unat b * ?p * ?x div (?x - ?p)"
    "unat L \<le> unat q * 2 ^ 128 div (?p - ?n)"
    unfolding concentrated_initial_liquidity_Ok by linarith+
  have "(?x - ?p) * unat L \<le> unat b * ?p * ?x" "(?p - ?n) * unat L \<le> unat q * 2 ^ 128"
    using r mult_le_mono2 [OF r(3), of "?x - ?p"] mult_le_mono2 [OF r(4), of "?p - ?n"]
    by (meson le_trans mult_div_le)+
  then have "real (unat L * (?x - ?p)) \<le> real (unat b) * real (?p * ?x)"
    "real (unat L * (?p - ?n)) \<le> real (unat q) * real (2 ^ 128)"
    unfolding of_nat_mult [symmetric] of_nat_le_iff by (simp_all add: ac_simps)
  moreover have "0 < ?p" "?p \<le> ?x" "?n \<le> ?p" using r by linarith+
  moreover have "0 < real (?p * ?x)" using r by (simp del: of_nat_mult)
  ultimately show ?thesis unfolding L(2)
    by (simp add: base_between_frac quote_between_frac divide_le_eq del: of_nat_mult)
qed

lemma compounding_deposit_covers:
  assumes "compounding_initial_pool_information b q = Inr i"
  shows "needed_base (CompoundingLiquidity p) i \<le> real (unat b) \<and>
    needed_quote (CompoundingLiquidity p) i \<le> real (unat q)"
proof -
  obtain s L d where L: "calculate_compounding_initial_sqrt_price_and_liquidity b q = Inr (s, L)"
    "unat DAMM_V2_COMPOUNDING_DEAD_LIQUIDITY \<le> unat L"
    "unat d = unat L - unat DAMM_V2_COMPOUNDING_DEAD_LIQUIDITY"
    "i = \<lparr>ipi_sqrt_price = s, ipi_distributable_liquidity = d,
         ipi_dead_liquidity = DAMM_V2_COMPOUNDING_DEAD_LIQUIDITY\<rparr>"
    using assms by (auto simp: compounding_initial_pool_information_def)
  obtain s2 where s2: "unat L = s2 * unat b" "s2 \<le> unat s" "0 < unat b" "0 < unat s"
    "s2 * unat s \<le> unat q * 2 ^ 128 div unat b"
    using compounding_liquidity_Ok [OF L(1)] by blast
  have t: "unat (ipi_distributable_liquidity i) + unat (ipi_dead_liquidity i) = unat L"
    using L by simp
  have "unat L \<le> unat b * unat s" using s2(1,2) by simp
  moreover have "unat L * unat s \<le> unat q * 2 ^ 128"
  proof -
    have "unat b * (s2 * unat s) \<le> unat q * 2 ^ 128"
      by (rule le_trans [OF mult_le_mono2 [OF s2(5)] mult_div_le])
    then show ?thesis by (simp only: s2(1) ac_simps)
  qed
  ultimately have "real (unat L) \<le> real (unat b * unat s)" "real (unat L * unat s) \<le> real (unat q * 2 ^ 128)"
    unfolding of_nat_le_iff by blast+
  then show ?thesis unfolding needed_base.simps needed_quote.simps t
    using s2(4) by (simp add: L(4) divide_le_eq)
qed

lemma concentrated_fees_within:
  assumes "concentrated_included_amounts_1 p t pct = Inr (b, q)"
    and "concentrated_migration_protocol_fees p b q bps = Inr (fb, fq)" "unat bps \<le> 10000"
  shows "unat fb \<le> unat b \<and> unat fq \<le> unat q"
proof -
  let ?x = "unat MAX_SQRT_PRICE" and ?n = "unat MIN_SQRT_PRICE" and ?p = "unat p"
  obtain L where L: "unat L = unat q * 2 ^ 128 div (?p - ?n)" "?n < ?p" "?p \<le> ?x"
    "unat b = ceil_div (unat (L :: u128) * (?x - ?p)) (?p * ?x)"
    using assms(1) unfolding concentrated_included_Ok initial_liquidity_from_quote_Ok by blast
  obtain F where F: "unat fq = unat q * unat bps div 10000"
    "unat F = unat fq * 2 ^ 128 div (?p - ?n)"
    "unat fb = unat (F :: u128) * (?x - ?p) div (?p * ?x)"
    using assms(2) unfolding concentrated_migration_protocol_fees_def and_then_Ok_iff
      initial_liquidity_from_quote_Ok base_unsigned_Ok by auto
  have q: "unat fq \<le> unat q" unfolding F(1) using assms(3) by (rule bps_share_le)
  then have "unat F \<le> unat L" unfolding L(1) F(2) by (intro div_le_mono) simp
  then have "unat F * (?x - ?p) div (?p * ?x) \<le> unat L * (?x - ?p) div (?p * ?x)"
    by (intro div_le_mono mult_le_mono1)
  also have "\<dots> \<le> unat b" unfolding L(4) by (rule div_le_ceil_div)
  finally show ?thesis using q F(3) by simp
qed

lemma compounding_fees_within:
  "compounding_migration_protocol_fees b q bps = Inr (fb, fq) \<Longrightarrow> unat bps \<le> 10000 \<Longrightarrow>
    unat fb \<le> unat b \<and> unat fq \<le> unat q"
  by (auto simp: compounding_migration_protocol_fees_def bps_share_le)

interpretation handlers: migration get_included_protocol_fee_migration_amounts_1
  get_migration_protocol_fees get_initial_pool_information needed_base needed_quote
proof (unfold_locales, goal_cases)
  case (1 h b q i)
  then show ?case
    using compounding_deposit_covers concentrated_deposit_covers by (cases h) auto
next
  case (2 h t pct b q bps fb fq)
  then show ?case
    using compounding_fees_within concentrated_fees_within by (cases h) auto
next
  case (3 h t pct b q)
  then show ?case
    by (cases h) (auto simp: compounding_included_amounts_1_def concentrated_included_Ok
      dest: calculate_post_fee_le)
qed

section \<open>The deposit of a migration\<close>

text \<open>
  C25: what a migration deposits is covered.  For both kinds of pool, the base and
  quote amounts reserved at the creation of a configuration cover the protocol's
  migration fee together with all tokens that the liquidity of the new pool
  stands for, and no more than the quote threshold is used.
\<close>

theorem migration_deposit_is_covered:
  assumes "get_included_protocol_fee_migration_amounts_1 h t pct = Inr (b, q)"
    and "get_migration_protocol_fees h b q bps = Inr (fb, fq)" "unat bps \<le> 10000"
    and "safe_sub b fb = Inr b'" "safe_sub q fq = Inr q'"
    and "get_initial_pool_information h b' q' = Inr i"
  shows "needed_base h i + real (unat fb) \<le> real (unat b)
    \<and> needed_quote h i + real (unat fq) \<le> real (unat t)"
  using assms by (rule handlers.deposit_and_fees_paid)

lemma sample_deposit:
  "get_included_protocol_fee_migration_amounts_1 (ConcentratedLiquidity 18446744073709551616) 1000 0
    = Inr (1000, 1000)"
  "get_migration_protocol_fees (ConcentratedLiquidity 18446744073709551616) 1000 1000 100 = Inr (9, 10)"
  "get_initial_pool_information (ConcentratedLiquidity 18446744073709551616) 991 990
    = Inr \<lparr>ipi_sqrt_price = 18446744073709551616, ipi_distributable_liquidity = 18262276637224553636670,
        ipi_dead_liquidity = 0\<rparr>"
  by (simp_all add: eval Let_def)

theorem migration_deposit_is_covered_witness:
  "needed_base (ConcentratedLiquidity 18446744073709551616)
     \<lparr>ipi_sqrt_price = 18446744073709551616, ipi_distributable_liquidity = 18262276637224553636670,
      ipi_dead_liquidity = 0\<rparr> + 9 \<le> 1000"
  using migration_deposit_is_covered [OF sample_deposit(1,2) _ _ _ sample_deposit(3)]
  by (simp del: needed_base.simps needed_quote.simps)

text \<open>
  The base tokens reserved for a migration to a concentrated pool are enough to
  use the whole quote amount: with at least that base amount the new pool gets
  exactly the liquidity that the quote amount buys.
\<close>

lemma concentrated_migration_uses_all_quote:
  assumes "get_included_protocol_fee_migration_amounts_1 (ConcentratedLiquidity p) t pct = Inr (b, q)"
    and "unat b \<le> unat b'" "unat p < unat MAX_SQRT_PRICE"
  shows "\<exists>i. get_initial_pool_information (ConcentratedLiquidity p) b' q = Inr i
    \<and> unat (ipi_distributable_liquidity i) = unat q * 2 ^ 128 div (unat p - unat MIN_SQRT_PRICE)
    \<and> ipi_sqrt_price i = p \<and> ipi_dead_liquidity i = 0"
proof -
  let ?x = "unat MAX_SQRT_PRICE" and ?n = "unat MIN_SQRT_PRICE" and ?p = "unat p"
  obtain L where L: "unat L = unat q * 2 ^ 128 div (?p - ?n)" "?n < ?p"
    "unat b = ceil_div (unat (L :: u128) * (?x - ?p)) (?p * ?x)"
    using assms(1) by (auto simp: concentrated_included_Ok initial_liquidity_from_quote_Ok)
  have pos: "0 < ?p * ?x" using L(2) assms(3) by simp
  have "unat L * (?x - ?p) \<le> (?p * ?x) * unat b" unfolding L(3) using pos by (rule ceil_div_ge)
  also have "\<dots> \<le> unat b' * ?p * ?x" using assms(2) by (simp add: ac_simps)
  finally have "unat L \<le> unat b' * ?p * ?x div (?x - ?p)"
    using assms(3) by (intro le_div_of_mult_le) (simp_all add: ac_simps)
  then have "calculate_concentrated_initial_liquidity b' q p = Inr L"
    unfolding concentrated_initial_liquidity_Ok using L(1,2) assms(3) unat_lt_2p [of L]
    by (simp add: min_absorb2 flip: L(1))
  then show ?thesis using L(1) by (simp add: concentrated_initial_pool_information_def)
qed

lemma concentrated_migration_uses_all_quote_sample:
  "\<exists>i. get_initial_pool_information (ConcentratedLiquidity 18446744073709551616) 1005 1000 = Inr i
    \<and> ipi_sqrt_price i = 18446744073709551616"
  using concentrated_migration_uses_all_quote [OF sample_deposit(1), of 1005] by fastforce

end
