(* ===== verification/Create_Config.thy ===== *)
theory Create_Config
  imports Migration_Handler Accounts
begin

text \<open>
  The creation of a configuration (\<open>instructions/partner/create_config\<close>,
  \<open>PoolConfig::init\<close> in \<open>state/config.rs\<close>): the parameters with their validation,
  the amounts derived from them, and the account that results.  The mint of the
  quote token is seen through its token extensions, which only the token program
  can decode: \<open>extension_types\<close> is a parameter that is \<open>None\<close> where decoding fails.
\<close>

declare of_nat_unat [simp del]

section \<open>The parameters\<close>

record migration_fee =
  mfp_fee_percentage :: u8
  mfp_creator_fee_percentage :: u8

record migrated_pool_fee =
  mpf_collect_fee_mode :: u8
  mpf_dynamic_fee :: u8
  mpf_pool_fee_bps :: u16

record token_supply_params =
  tsp_pre_migration_token_supply :: u64
  tsp_post_migration_token_supply :: u64

record liquidity_vesting_info_params =
  lvp_vesting_percentage :: u8
  lvp_bps_per_period :: u16
  lvp_number_of_periods :: u16
  lvp_cliff_duration_from_migration_time :: u32
  lvp_frequency :: u32

record config_parameters =
  cp_pool_fees :: pool_fee_parameters
  cp_collect_fee_mode :: u8
  cp_migration_option :: u8
  cp_activation_type :: u8
  cp_token_type :: u8
  cp_token_decimal :: u8
  cp_partner_liquidity_percentage :: u8
  cp_partner_permanent_locked_liquidity_percentage :: u8
  cp_creator_liquidity_percentage :: u8
  cp_creator_permanent_locked_liquidity_percentage :: u8
  cp_migration_quote_threshold :: u64
  cp_migration_quote_amount_cap :: u64
  cp_sqrt_start_price :: u128
  cp_locked_vesting :: locked_vesting
  cp_migration_fee_option :: u8
  cp_token_supply :: "token_supply_params option"
  cp_creator_trading_fee_percentage :: u8
  cp_token_update_authority :: u8
  cp_migration_fee :: migration_fee
  cp_migrated_pool_fee :: migrated_pool_fee
  cp_pool_creation_fee :: u64
  cp_partner_liquidity_vesting_info :: liquidity_vesting_info_params
  cp_creator_liquidity_vesting_info :: liquidity_vesting_info_params
  cp_migrated_pool_base_fee_mode :: u8
  cp_migrated_pool_market_cap_fee_scheduler_params :: market_cap_scheduler_params
  cp_enable_first_swap_with_min_fee :: bool
  cp_compounding_fee_bps :: u16
  cp_curve :: "liquidity_point list"

section \<open>Validation of the parts\<close>

definition migration_fee_validate :: "migration_fee \<Rightarrow> unit result" where
  "migration_fee_validate f =
     and_then (require (mfp_fee_percentage f \<le> MAX_MIGRATION_FEE_PERCENTAGE)
       InvalidMigratorFeePercentage) (\<lambda>_.
     if mfp_fee_percentage f = 0
     then require (mfp_creator_fee_percentage f = 0) InvalidMigratorFeePercentage
     else require (mfp_creator_fee_percentage f \<le> 100) InvalidMigratorFeePercentage)"

record migrated_pool_fee_validator =
  mpv_collect_fee_mode :: u8
  mpv_dynamic_fee :: u8
  mpv_pool_fee_bps :: u16
  mpv_compounding_fee_bps :: u16
  mpv_migrated_pool_base_fee_mode :: u8
  mpv_number_of_period :: u16
  mpv_sqrt_price_step_bps :: u16
  mpv_scheduler_expiration_duration :: u32
  mpv_reduction_factor :: u64

definition migrated_pool_fee_validator_new ::
  "migrated_pool_fee \<Rightarrow> u16 \<Rightarrow> market_cap_scheduler_params \<Rightarrow> u8 \<Rightarrow> migrated_pool_fee_validator" where
  "migrated_pool_fee_validator_new f compounding_fee_bps m migrated_pool_base_fee_mode =
     \<lparr>mpv_collect_fee_mode = mpf_collect_fee_mode f, mpv_dynamic_fee = mpf_dynamic_fee f,
      mpv_pool_fee_bps = mpf_pool_fee_bps f, mpv_compounding_fee_bps = compounding_fee_bps,
      mpv_migrated_pool_base_fee_mode = migrated_pool_base_fee_mode,
      mpv_number_of_period = mc_number_of_period m,
      mpv_sqrt_price_step_bps = mc_sqrt_price_step_bps m,
      mpv_scheduler_expiration_duration = mc_scheduler_expiration_duration m,
      mpv_reduction_factor = mc_reduction_factor m\<rparr>"

definition migrated_pool_fee_is_none :: "migrated_pool_fee_validator \<Rightarrow> bool" where
  "migrated_pool_fee_is_none v \<longleftrightarrow>
     mpv_collect_fee_mode v = 0 \<and> mpv_dynamic_fee v = 0 \<and> mpv_pool_fee_bps v = 0
     \<and> mpv_compounding_fee_bps v = 0 \<and> mpv_migrated_pool_base_fee_mode v = 0
     \<and> mpv_number_of_period v = 0 \<and> mpv_sqrt_price_step_bps v = 0
     \<and> mpv_scheduler_expiration_duration v = 0 \<and> mpv_reduction_factor v = 0"

definition migrated_base_fee_validate ::
  "migrated_pool_fee_validator \<Rightarrow> damm_v2_base_fee_mode \<Rightarrow> unit result" where
  "migrated_base_fee_validate v mode =
     (if mode = FeeTimeSchedulerLinear \<or> mode = FeeTimeSchedulerExponential then
        require (mpv_number_of_period v = 0 \<and> mpv_sqrt_price_step_bps v = 0
          \<and> mpv_scheduler_expiration_duration v = 0 \<and> mpv_reduction_factor v = 0) InvalidMigratedPoolFee
      else if mode = FeeMarketCapSchedulerExponential \<or> mode = FeeMarketCapSchedulerLinear then
        and_then (to_numerator (ucast (mpv_pool_fee_bps v)) (ucast DAMM_V2_FEE_DENOMINATOR))
          (\<lambda>cliff_fee_numerator.
        market_cap_scheduler_validate
          \<lparr>ms_cliff_fee_numerator = cliff_fee_numerator,
           ms_base_fee_mode = mpv_migrated_pool_base_fee_mode v,
           ms_number_of_period = mpv_number_of_period v,
           ms_sqrt_price_step_bps = ucast (mpv_sqrt_price_step_bps v),
           ms_scheduler_expiration_duration = mpv_scheduler_expiration_duration v,
           ms_reduction_factor = mpv_reduction_factor v\<rparr>)
      else err InvalidMigratedPoolFee)"

definition migrated_pool_fee_validate :: "migrated_pool_fee_validator \<Rightarrow> unit result" where
  "migrated_pool_fee_validate v =
     and_then (require (mpv_pool_fee_bps v \<ge> MIN_MIGRATED_POOL_FEE_BPS
       \<and> mpv_pool_fee_bps v \<le> MAX_MIGRATED_POOL_FEE_BPS) InvalidMigratedPoolFee) (\<lambda>_.
     and_then (ok_or (migrated_collect_fee_mode_of (mpv_collect_fee_mode v)) InvalidCollectFeeMode)
       (\<lambda>migrated_collect_fee_mode.
     and_then
       (case migrated_collect_fee_mode of
          Compounding \<Rightarrow> require (mpv_compounding_fee_bps v > 0
            \<and> mpv_compounding_fee_bps v \<le> DAMM_V2_MAX_BASIS_POINT) InvalidMigratedPoolFee
        | _ \<Rightarrow> require (mpv_compounding_fee_bps v = 0) InvalidMigratedPoolFee) (\<lambda>_.
     and_then (require (damm_v2_dynamic_fee_of (mpv_dynamic_fee v) \<noteq> None) InvalidMigratedPoolFee) (\<lambda>_.
     and_then (ok_or (damm_v2_base_fee_mode_of (mpv_migrated_pool_base_fee_mode v)) TypeCastFailed)
       (migrated_base_fee_validate v)))))"

definition default_liquidity_vesting_info_params :: liquidity_vesting_info_params where
  "default_liquidity_vesting_info_params =
     \<lparr>lvp_vesting_percentage = 0, lvp_bps_per_period = 0, lvp_number_of_periods = 0,
      lvp_cliff_duration_from_migration_time = 0, lvp_frequency = 0\<rparr>"

definition vesting_info_is_zero :: "liquidity_vesting_info_params \<Rightarrow> bool" where
  "vesting_info_is_zero v \<longleftrightarrow> v = default_liquidity_vesting_info_params"

definition to_liquidity_vesting_info :: "liquidity_vesting_info_params \<Rightarrow> liquidity_vesting_info" where
  "to_liquidity_vesting_info v =
     \<lparr>vi_is_initialized = (if vesting_info_is_zero v then 0 else 1),
      vi_vesting_percentage = lvp_vesting_percentage v, vi_bps_per_period = lvp_bps_per_period v,
      vi_number_of_periods = lvp_number_of_periods v, vi_frequency = lvp_frequency v,
      vi_cliff_duration_from_migration_time = lvp_cliff_duration_from_migration_time v\<rparr>"

definition vesting_info_validate :: "liquidity_vesting_info_params \<Rightarrow> u64 \<Rightarrow> unit result" where
  "vesting_info_validate v current_timestamp =
     (if vesting_info_is_zero v then Ok ()
      else
        let liquidity_vesting_info = to_liquidity_vesting_info v in
        and_then (safe_mul_div_cast_u128 (- 1) (ucast (lvp_vesting_percentage v)) 100 Down)
          (\<lambda>total_vested_liquidity.
        and_then (get_damm_v2_vesting_parameters liquidity_vesting_info total_vested_liquidity
          current_timestamp) (\<lambda>vesting_parameters.
        validate_vesting_parameters vesting_parameters current_timestamp
          MAX_LOCK_DURATION_IN_SECONDS)))"

datatype extension_type = MetadataPointerExtension | TokenMetadataExtension | OtherExtension nat

definition is_supported_quote_mint ::
  "'r runtime \<Rightarrow> (mint_account \<Rightarrow> extension_type list option) \<Rightarrow> pubkey \<Rightarrow> mint_account \<Rightarrow> bool result" where
  "is_supported_quote_mint rt extension_types native_mint_2022 mint =
     (if mint_program mint = rt_token_program rt then Ok True
      else if mint_key mint = native_mint_2022 then err UnsupportNativeMintToken2022
      else case extension_types mint of
             None \<Rightarrow> Inl CallFailed
           | Some extensions \<Rightarrow>
               Ok (list_all (\<lambda>e. e = MetadataPointerExtension \<or> e = TokenMetadataExtension) extensions))"

section \<open>Validation of the parameters\<close>

text \<open>The points of the curve after the first, each compared with the one before.\<close>

fun validate_curve_points :: "liquidity_point \<Rightarrow> liquidity_point list \<Rightarrow> unit result" where
  "validate_curve_points previous [] = Ok ()"
| "validate_curve_points previous (c # cs) =
     and_then (require (lp_sqrt_price c > lp_sqrt_price previous \<and> lp_liquidity c > 0) InvalidCurve)
       (\<lambda>_. validate_curve_points c cs)"

definition validate_curve :: "u128 \<Rightarrow> liquidity_point list \<Rightarrow> unit result" where
  "validate_curve sqrt_start_price curve =
     and_then (require (sqrt_start_price \<ge> MIN_SQRT_PRICE \<and> sqrt_start_price < MAX_SQRT_PRICE)
       InvalidCurve) (\<lambda>_.
     and_then (require (length curve > 0 \<and> length curve \<le> MAX_CURVE_POINT) InvalidCurve) (\<lambda>_.
     and_then (require (lp_sqrt_price (hd curve) > sqrt_start_price \<and> lp_liquidity (hd curve) > 0
       \<and> lp_sqrt_price (hd curve) \<le> MAX_SQRT_PRICE) InvalidCurve) (\<lambda>_.
     and_then (validate_curve_points (hd curve) (tl curve)) (\<lambda>_.
     require (lp_sqrt_price (last curve) \<le> MAX_SQRT_PRICE) InvalidCurve))))"

definition validate_migration ::
  "'r runtime \<Rightarrow> config_parameters \<Rightarrow> mint_account \<Rightarrow> u64 \<Rightarrow> migration_option \<Rightarrow> migration_fee_option
    \<Rightarrow> token_type \<Rightarrow> unit result" where
  "validate_migration rt cp quote_mint current_timestamp option fee_option type =
     (let validator = migrated_pool_fee_validator_new (cp_migrated_pool_fee cp)
        (cp_compounding_fee_bps cp) (cp_migrated_pool_market_cap_fee_scheduler_params cp)
        (cp_migrated_pool_base_fee_mode cp) in
      case option of
        MeteoraDamm \<Rightarrow>
          and_then (require (type = SplToken) InvalidTokenType) (\<lambda>_.
          and_then (require (mint_program quote_mint = rt_token_program rt) InvalidQuoteMint) (\<lambda>_.
          and_then (require (fee_option \<noteq> Customizable \<and> migrated_pool_fee_is_none validator)
            InvalidMigrationFeeOption) (\<lambda>_.
          and_then (require (vesting_info_is_zero (cp_partner_liquidity_vesting_info cp))
            InvalidVestingParameters) (\<lambda>_.
          require (vesting_info_is_zero (cp_creator_liquidity_vesting_info cp))
            InvalidVestingParameters))))
      | DammV2 \<Rightarrow>
          and_then
            (if fee_option = Customizable then migrated_pool_fee_validate validator
             else require (migrated_pool_fee_is_none validator) InvalidMigratedPoolFee) (\<lambda>_.
          and_then (vesting_info_validate (cp_partner_liquidity_vesting_info cp) current_timestamp) (\<lambda>_.
          vesting_info_validate (cp_creator_liquidity_vesting_info cp) current_timestamp)))"

definition sum_liquidity_percentage :: "config_parameters \<Rightarrow> u8 result" where
  "sum_liquidity_percentage cp =
     and_then (safe_add (cp_partner_liquidity_percentage cp)
       (cp_partner_permanent_locked_liquidity_percentage cp)) (\<lambda>s.
     and_then (safe_add s (cp_creator_liquidity_percentage cp)) (\<lambda>s.
     and_then (safe_add s (cp_creator_permanent_locked_liquidity_percentage cp)) (\<lambda>s.
     and_then (safe_add s (lvp_vesting_percentage (cp_partner_liquidity_vesting_info cp))) (\<lambda>s.
     safe_add s (lvp_vesting_percentage (cp_creator_liquidity_vesting_info cp))))))"

definition config_parameters_validate ::
  "'r runtime \<Rightarrow> (mint_account \<Rightarrow> extension_type list option) \<Rightarrow> pubkey \<Rightarrow> config_parameters
    \<Rightarrow> mint_account \<Rightarrow> u64 \<Rightarrow> bool \<Rightarrow> unit result" where
  "config_parameters_validate rt extension_types native_mint_2022 cp quote_mint current_timestamp
     is_transfer_hook =
     and_then (is_supported_quote_mint rt extension_types native_mint_2022 quote_mint) (\<lambda>supported.
     and_then (require supported InvalidQuoteMint) (\<lambda>_.
     and_then (ok_or (activation_type_of (cp_activation_type cp)) TypeCastFailed) (\<lambda>activation_type.
     and_then (pool_fee_validate (cp_pool_fees cp) (cp_collect_fee_mode cp) activation_type) (\<lambda>_.
     and_then (require (cp_creator_trading_fee_percentage cp = 0) InvalidCreatorTradingFeePercentage) (\<lambda>_.
     and_then (migration_fee_validate (cp_migration_fee cp)) (\<lambda>_.
     and_then (require (mfp_fee_percentage (cp_migration_fee cp) = 0) InvalidMigratorFeePercentage) (\<lambda>_.
     and_then (require (collect_fee_mode_of (cp_collect_fee_mode cp) \<noteq> None) InvalidCollectFeeMode) (\<lambda>_.
     and_then (ok_or (migration_option_of (cp_migration_option cp)) InvalidMigrationOption) (\<lambda>option.
     and_then (ok_or (migration_fee_option_of (cp_migration_fee_option cp)) InvalidMigrationFeeOption)
       (\<lambda>fee_option.
     and_then (ok_or (token_type_of (cp_token_type cp)) InvalidTokenType) (\<lambda>type.
     and_then (validate_migration rt cp quote_mint current_timestamp option fee_option type) (\<lambda>_.
     and_then (ok_or (token_authority_option_of (cp_token_update_authority cp))
       InvalidTokenAuthorityOption) (\<lambda>token_authority_option.
     and_then (require (is_transfer_hook \<or> \<not> has_mint_authority token_authority_option)
       InvalidTokenAuthorityOption) (\<lambda>_.
     and_then (require (cp_token_decimal cp \<ge> 6 \<and> cp_token_decimal cp \<le> 9) InvalidTokenDecimals) (\<lambda>_.
     and_then (sum_liquidity_percentage cp) (\<lambda>sum.
     and_then (require (sum = 100) InvalidFeePercentage) (\<lambda>_.
     and_then (require (cp_migration_quote_threshold cp > 0) InvalidQuoteThreshold) (\<lambda>_.
     and_then
       (if cp_migration_quote_amount_cap cp > 0 then
          and_then (require (cp_migration_quote_amount_cap cp \<le> cp_migration_quote_threshold cp)
            InvalidQuoteThreshold) (\<lambda>_.
          require (mfp_fee_percentage (cp_migration_fee cp) = 0
            \<and> mfp_creator_fee_percentage (cp_migration_fee cp) = 0) InvalidMigratorFeePercentage)
        else Ok ()) (\<lambda>_.
     and_then (locked_vesting_validate (cp_locked_vesting cp)) (\<lambda>_.
     and_then
       (if cp_pool_creation_fee cp > 0
        then require (cp_pool_creation_fee cp \<ge> MIN_POOL_CREATION_FEE
          \<and> cp_pool_creation_fee cp \<le> MAX_POOL_CREATION_FEE) InvalidPoolCreationFee
        else Ok ()) (\<lambda>_.
     validate_curve (cp_sqrt_start_price cp) (cp_curve cp))))))))))))))))))))))"

section \<open>The configuration account\<close>

text \<open>A new account is zeroed.\<close>

definition zero_liquidity_vesting_info :: liquidity_vesting_info where
  "zero_liquidity_vesting_info = \<lparr>vi_is_initialized = 0, vi_vesting_percentage = 0, vi_bps_per_period = 0,
     vi_number_of_periods = 0, vi_frequency = 0, vi_cliff_duration_from_migration_time = 0\<rparr>"

definition zero_pool_config :: pool_config where
  "zero_pool_config = \<lparr>cfg_quote_mint = 0, cfg_fee_claimer = 0, cfg_leftover_receiver = 0,
     cfg_pool_fees = \<lparr>pf_base_fee = \<lparr>bf_cliff_fee_numerator = 0, bf_second_factor = 0,
         bf_third_factor = 0, bf_first_factor = 0, bf_base_fee_mode = 0\<rparr>,
       pf_dynamic_fee = default_dynamic_fee_config\<rparr>,
     cfg_partner_liquidity_vesting_info = zero_liquidity_vesting_info,
     cfg_creator_liquidity_vesting_info = zero_liquidity_vesting_info,
     cfg_migration_quote_amount_cap = 0, cfg_collect_fee_mode = 0, cfg_migration_option = 0,
     cfg_activation_type = 0, cfg_token_decimal = 0, cfg_version = 0, cfg_token_type = 0,
     cfg_quote_token_flag = 0, cfg_partner_permanent_locked_liquidity_percentage = 0,
     cfg_partner_liquidity_percentage = 0, cfg_creator_permanent_locked_liquidity_percentage = 0,
     cfg_creator_liquidity_percentage = 0, cfg_migration_fee_option = 0,
     cfg_fixed_token_supply_flag = 0, cfg_creator_trading_fee_percentage = 0,
     cfg_token_update_authority = 0, cfg_migration_fee_percentage = 0,
     cfg_creator_migration_fee_percentage = 0, cfg_swap_base_amount = 0,
     cfg_migration_quote_threshold = 0, cfg_migration_base_threshold = 0,
     cfg_migration_sqrt_price = 0, cfg_locked_vesting_config = default_locked_vesting,
     cfg_pre_migration_token_supply = 0, cfg_post_migration_token_supply = 0,
     cfg_migrated_collect_fee_mode = 0, cfg_migrated_dynamic_fee = 0, cfg_migrated_pool_fee_bps = 0,
     cfg_migrated_pool_base_fee_mode = 0, cfg_enable_first_swap_with_min_fee = 0,
     cfg_migrated_compounding_fee_bps = 0, cfg_pool_creation_fee = 0,
     cfg_migrated_pool_base_fee = \<lparr>mc_number_of_period = 0, mc_sqrt_price_step_bps = 0,
       mc_scheduler_expiration_duration = 0, mc_reduction_factor = 0\<rparr>,
     cfg_sqrt_start_price = 0,
     cfg_curve = replicate MAX_CURVE_POINT_CONFIG \<lparr>lp_sqrt_price = 0, lp_liquidity = 0\<rparr>\<rparr>"

text \<open>The points are written to the array one by one; an index past its end panics.\<close>

fun store_curve :: "liquidity_point list \<Rightarrow> liquidity_point list \<Rightarrow> liquidity_point list result" where
  "store_curve stored [] = Ok stored"
| "store_curve [] (c # cs) = panic"
| "store_curve (p # stored) (c # cs) = and_then (store_curve stored cs) (\<lambda>rest. Ok (c # rest))"

definition pool_config_init ::
  "pool_config \<Rightarrow> pubkey \<Rightarrow> pubkey \<Rightarrow> pubkey \<Rightarrow> config_parameters \<Rightarrow> u8 \<Rightarrow> u64 \<Rightarrow> u64 \<Rightarrow> u128
    \<Rightarrow> u8 \<Rightarrow> u64 \<Rightarrow> u64 \<Rightarrow> pool_config result" where
  "pool_config_init cfg quote_mint fee_claimer leftover_receiver cp quote_token_flag swap_base_amount
     migration_base_threshold migration_sqrt_price fixed_token_supply_flag
     pre_migration_token_supply post_migration_token_supply =
     and_then (store_curve (cfg_curve cfg) (cp_curve cp)) (\<lambda>curve.
     Ok (cfg\<lparr>
       cfg_version := 0,
       cfg_quote_mint := quote_mint,
       cfg_fee_claimer := fee_claimer,
       cfg_leftover_receiver := leftover_receiver,
       cfg_pool_fees := to_pool_fees_config (cp_pool_fees cp),
       cfg_creator_trading_fee_percentage := cp_creator_trading_fee_percentage cp,
       cfg_token_update_authority := cp_token_update_authority cp,
       cfg_migration_fee_percentage := mfp_fee_percentage (cp_migration_fee cp),
       cfg_creator_migration_fee_percentage := mfp_creator_fee_percentage (cp_migration_fee cp),
       cfg_collect_fee_mode := cp_collect_fee_mode cp,
       cfg_migration_option := cp_migration_option cp,
       cfg_activation_type := cp_activation_type cp,
       cfg_token_decimal := cp_token_decimal cp,
       cfg_swap_base_amount := swap_base_amount,
       cfg_migration_quote_threshold := cp_migration_quote_threshold cp,
       cfg_migration_base_threshold := migration_base_threshold,
       cfg_migration_sqrt_price := migration_sqrt_price,
       cfg_sqrt_start_price := cp_sqrt_start_price cp,
       cfg_token_type := cp_token_type cp,
       cfg_quote_token_flag := quote_token_flag,
       cfg_partner_liquidity_percentage := cp_partner_liquidity_percentage cp,
       cfg_partner_permanent_locked_liquidity_percentage :=
         cp_partner_permanent_locked_liquidity_percentage cp,
       cfg_creator_liquidity_percentage := cp_creator_liquidity_percentage cp,
       cfg_creator_permanent_locked_liquidity_percentage :=
         cp_creator_permanent_locked_liquidity_percentage cp,
       cfg_locked_vesting_config := cp_locked_vesting cp,
       cfg_migration_fee_option := cp_migration_fee_option cp,
       cfg_migration_quote_amount_cap := cp_migration_quote_amount_cap cp,
       cfg_fixed_token_supply_flag := fixed_token_supply_flag,
       cfg_pre_migration_token_supply := pre_migration_token_supply,
       cfg_post_migration_token_supply := post_migration_token_supply,
       cfg_migrated_pool_fee_bps := mpf_pool_fee_bps (cp_migrated_pool_fee cp),
       cfg_migrated_collect_fee_mode := mpf_collect_fee_mode (cp_migrated_pool_fee cp),
       cfg_migrated_dynamic_fee := mpf_dynamic_fee (cp_migrated_pool_fee cp),
       cfg_migrated_compounding_fee_bps := cp_compounding_fee_bps cp,
       cfg_pool_creation_fee := cp_pool_creation_fee cp,
       cfg_creator_liquidity_vesting_info :=
         to_liquidity_vesting_info (cp_creator_liquidity_vesting_info cp),
       cfg_partner_liquidity_vesting_info :=
         to_liquidity_vesting_info (cp_partner_liquidity_vesting_info cp),
       cfg_migrated_pool_base_fee_mode := cp_migrated_pool_base_fee_mode cp,
       cfg_migrated_pool_base_fee := cp_migrated_pool_market_cap_fee_scheduler_params cp,
       cfg_enable_first_swap_with_min_fee := (if cp_enable_first_swap_with_min_fee cp then 1 else 0),
       cfg_curve := curve\<rparr>))"

section \<open>Creation\<close>

definition SECONDS_PER_DAY :: u64 where "SECONDS_PER_DAY = 86400"

definition validate_compounding_deposit :: "u128 \<Rightarrow> u64 \<Rightarrow> u64 \<Rightarrow> unit result" where
  "validate_compounding_deposit migration_sqrt_price base_amount quote_amount =
     and_then (compounding_migration_protocol_fees base_amount quote_amount
       PROTOCOL_LIQUIDITY_MIGRATION_FEE_BPS) (\<lambda>(base_fee, quote_fee).
     and_then (safe_sub base_amount base_fee) (\<lambda>base.
     and_then (safe_sub quote_amount quote_fee) (\<lambda>quote.
     validate_initial_pool_information base quote migration_sqrt_price)))"

definition token_supply_of ::
  "config_parameters \<Rightarrow> pubkey \<Rightarrow> u64 \<Rightarrow> u64 \<Rightarrow> (u8 \<times> u64 \<times> u64) result" where
  "token_supply_of cp leftover_receiver swap_base_amount migration_base_amount =
     (case cp_token_supply cp of
        None \<Rightarrow> Ok (0, 0, 0)
      | Some t \<Rightarrow>
          and_then (get_swap_amount_with_buffer swap_base_amount (cp_sqrt_start_price cp) (cp_curve cp))
            (\<lambda>swap_base_amount_buffer.
          and_then (get_total_token_supply swap_base_amount_buffer migration_base_amount
            (cp_locked_vesting cp)) (\<lambda>minimum_base_supply_with_buffer.
          and_then (get_total_token_supply swap_base_amount migration_base_amount
            (cp_locked_vesting cp)) (\<lambda>minimum_base_supply_without_buffer.
          and_then (require (leftover_receiver \<noteq> 0) InvalidLeftoverAddress) (\<lambda>_.
          and_then (require
            (minimum_base_supply_without_buffer \<le> tsp_post_migration_token_supply t
             \<and> tsp_post_migration_token_supply t \<le> tsp_pre_migration_token_supply t
             \<and> minimum_base_supply_with_buffer \<le> tsp_pre_migration_token_supply t) InvalidTokenSupply) (\<lambda>_.
          Ok (1, tsp_pre_migration_token_supply t, tsp_post_migration_token_supply t)))))))"

definition process_create_config ::
  "'r runtime \<Rightarrow> pool_config \<Rightarrow> config_parameters \<Rightarrow> mint_account \<Rightarrow> pubkey \<Rightarrow> pubkey \<Rightarrow> pool_config result" where
  "process_create_config rt cfg cp quote_mint fee_claimer leftover_receiver =
     and_then (get_migration_threshold_price (cp_migration_quote_threshold cp) (cp_sqrt_start_price cp)
       (cp_curve cp)) (\<lambda>migration_sqrt_price.
     and_then (require (migration_sqrt_price < MAX_SQRT_PRICE) InvalidCurve) (\<lambda>_.
     and_then (get_base_token_for_swap (cp_sqrt_start_price cp) migration_sqrt_price (cp_curve cp))
       (\<lambda>swap_base_amount_256.
     and_then (ok_or (try_cast swap_base_amount_256) TypeCastFailed) (\<lambda>swap_base_amount.
     and_then (ok_or (migration_option_of (cp_migration_option cp)) InvalidMigrationOption) (\<lambda>option.
     and_then (ok_or (migrated_collect_fee_mode_of (mpf_collect_fee_mode (cp_migrated_pool_fee cp)))
       TypeCastFailed) (\<lambda>mode.
     let handler = get_migration_handler option mode migration_sqrt_price;
         cap = get_effective_migration_quote_amount_cap (cp_migration_quote_threshold cp)
           (cp_migration_quote_amount_cap cp) in
     and_then (get_included_protocol_fee_migration_amounts_1 handler cap
       (mfp_fee_percentage (cp_migration_fee cp))) (\<lambda>(base_amount, quote_amount).
     and_then (require (base_amount > 0 \<and> swap_base_amount > 0) InvalidCurve) (\<lambda>_.
     and_then (if option = DammV2 \<and> mode = Compounding
       then validate_compounding_deposit migration_sqrt_price base_amount quote_amount
       else Ok ()) (\<lambda>_.
     and_then (token_supply_of cp leftover_receiver swap_base_amount base_amount)
       (\<lambda>(flag, pre_supply, post_supply).
     and_then (pool_config_init cfg (mint_key quote_mint) fee_claimer leftover_receiver cp
       (case get_token_program_flags rt quote_mint of TokenProgram \<Rightarrow> 0 | TokenProgram2022 \<Rightarrow> 1)
       swap_base_amount base_amount migration_sqrt_price flag pre_supply post_supply) (\<lambda>cfg.
     and_then (get_total_liquidity_locked_bps_at_n_seconds cfg SECONDS_PER_DAY) (\<lambda>locked_bps.
     and_then (require (locked_bps \<ge> MIN_LOCKED_LIQUIDITY_BPS) InvalidMigrationLockedLiquidity) (\<lambda>_.
     Ok cfg)))))))))))))"

definition handle_create_config ::
  "'r runtime \<Rightarrow> (mint_account \<Rightarrow> extension_type list option) \<Rightarrow> pubkey \<Rightarrow> clock \<Rightarrow> mint_account
    \<Rightarrow> pubkey \<Rightarrow> pubkey \<Rightarrow> config_parameters \<Rightarrow> pool_config result" where
  "handle_create_config rt extension_types native_mint_2022 clk quote_mint fee_claimer
     leftover_receiver cp =
     and_then (config_parameters_validate rt extension_types native_mint_2022 cp quote_mint
       (clk_unix_timestamp clk) False) (\<lambda>_.
     process_create_config rt zero_pool_config cp quote_mint fee_claimer leftover_receiver)"

record config_with_transfer_hook =
  cwh_config :: pool_config
  cwh_transfer_hook_program :: pubkey

definition handle_create_config_with_transfer_hook ::
  "'r runtime \<Rightarrow> (mint_account \<Rightarrow> extension_type list option) \<Rightarrow> pubkey \<Rightarrow> clock \<Rightarrow> mint_account
    \<Rightarrow> pubkey \<Rightarrow> pubkey \<Rightarrow> bool \<Rightarrow> pubkey \<Rightarrow> config_parameters \<Rightarrow> config_with_transfer_hook result" where
  "handle_create_config_with_transfer_hook rt extension_types native_mint_2022 clk quote_mint
     fee_claimer leftover_receiver executable transfer_hook_program cp =
     and_then (has_one executable) (\<lambda>_.
     and_then (config_parameters_validate rt extension_types native_mint_2022 cp quote_mint
       (clk_unix_timestamp clk) True) (\<lambda>_.
     and_then (ok_or (token_type_of (cp_token_type cp)) InvalidTokenType) (\<lambda>type.
     and_then (require (type = Token2022) InvalidTokenType) (\<lambda>_.
     and_then (require (transfer_hook_program \<noteq> program_id
       \<and> transfer_hook_program \<noteq> rt_token_program rt
       \<and> transfer_hook_program \<noteq> rt_token_2022_program rt) InvalidTransferHookProgram) (\<lambda>_.
     and_then (process_create_config rt zero_pool_config cp quote_mint fee_claimer leftover_receiver)
       (\<lambda>cfg.
     Ok \<lparr>cwh_config = cfg, cwh_transfer_hook_program = transfer_hook_program\<rparr>))))))"

end
