(* ===== verification/Initialize_Pool.thy ===== *)
theory Initialize_Pool
  imports Create_Config
begin

text \<open>
  The creation of a pool (\<open>instructions/initialize_pool\<close>): for a token of the token
  program with a separate metadata account, and for tokens of the 2022 program with
  and without a transfer hook.  The accounts that the framework creates (mint,
  vaults, pool) exist when the handler runs, and their derived addresses are given;
  \<open>snapshot\<close> reads an account's lamports, owner and size from the chain state.
\<close>

record initialize_pool_parameters =
  ipp_name :: string
  ipp_symbol :: string
  ipp_uri :: string
  ipp_deadline_timestamp :: u64

record initialize_pool_accounts =
  ipa_config :: account_info
  ipa_pool_authority :: pubkey
  ipa_creator :: pubkey
  ipa_base_mint :: account_info
  ipa_quote_mint :: mint_account
  ipa_pool :: pubkey
  ipa_base_vault :: pubkey
  ipa_quote_vault :: pubkey
  ipa_mint_metadata :: pubkey
  ipa_payer :: pubkey
  ipa_token_quote_program :: pubkey
  ipa_token_program :: pubkey
  ipa_system_program :: pubkey

definition initialize_pool_parameters_validate :: "initialize_pool_parameters \<Rightarrow> u64 \<Rightarrow> unit result" where
  "initialize_pool_parameters_validate p current_timestamp =
     require (ipp_deadline_timestamp p = 0 \<or> ipp_deadline_timestamp p > current_timestamp)
       InvalidDeadlineTimestamp"

definition default_volatility_tracker :: volatility_tracker where
  "default_volatility_tracker = \<lparr>vt_last_update_timestamp = 0, vt_sqrt_price_reference = 0,
     vt_volatility_accumulator = 0, vt_volatility_reference = 0\<rparr>"

section \<open>Token metadata\<close>

definition process_create_token_metadata ::
  "'r runtime \<Rightarrow> initialize_pool_accounts \<Rightarrow> initialize_pool_parameters \<Rightarrow> token_authority_option
    \<Rightarrow> pubkey \<Rightarrow> 'r \<Rightarrow> 'r result" where
  "process_create_token_metadata rt a p token_authority partner r =
     (let is_mutable = token_authority \<noteq> Immutable in
      and_then (invoke rt (CreateMetadataAccount (ipa_mint_metadata a) (ai_key (ipa_base_mint a))
        is_mutable (ipp_name p) (ipp_symbol p) (ipp_uri p)) r) (\<lambda>r.
      let token_update_authority =
        (case get_update_authority token_authority (ipa_creator a) partner of
           Some k \<Rightarrow> k
         | None \<Rightarrow> ipa_system_program a) in
      invoke rt (UpdateMetadataAuthority (ipa_mint_metadata a) token_update_authority) r))"

section \<open>Checks of the configuration\<close>

definition check_launch :: "pool_config \<Rightarrow> unit result" where
  "check_launch cfg =
     and_then (get_total_liquidity_locked_bps_at_n_seconds cfg SECONDS_PER_DAY) (\<lambda>locked_bps.
     and_then (require (locked_bps \<ge> MIN_LOCKED_LIQUIDITY_BPS) InvalidMigrationLockedLiquidity) (\<lambda>_.
     validate_min_base_fee (pf_base_fee (cfg_pool_fees cfg))))"

text \<open>
  The constraints of the three account lists.  The configuration has the type that
  the instruction asks for, its quote mint is the one given, and the quote mint and
  the pool authority are genuine.
\<close>

definition launch_accounts_ok ::
  "'r runtime \<Rightarrow> anchor_name \<Rightarrow> initialize_pool_accounts \<Rightarrow> pool_config \<Rightarrow> bool" where
  "launch_accounts_ok rt type a cfg \<longleftrightarrow>
     ai_owner (ipa_config a) = program_id
     \<and> ai_discriminator (ipa_config a) = rt_discriminator rt type
     \<and> cfg_quote_mint cfg = mint_key (ipa_quote_mint a)
     \<and> ipa_pool_authority a = rt_pool_authority rt
     \<and> mint_program (ipa_quote_mint a) = ipa_token_quote_program a"

definition charge_pool_creation_fee ::
  "'r runtime \<Rightarrow> initialize_pool_accounts \<Rightarrow> pool_config \<Rightarrow> 'r \<Rightarrow> 'r result" where
  "charge_pool_creation_fee rt a cfg r =
     (if cfg_pool_creation_fee cfg > 0
      then transfer_lamports_from_user rt (ipa_payer a) (ipa_pool a) (cfg_pool_creation_fee cfg) r
      else Ok r)"

section \<open>Tokens of the token program\<close>

definition handle_initialize_virtual_pool_with_spl_token ::
  "'r runtime \<Rightarrow> (pubkey \<Rightarrow> 'r \<Rightarrow> account_snapshot) \<Rightarrow> clock \<Rightarrow> initialize_pool_accounts \<Rightarrow> pool_config
    \<Rightarrow> initialize_pool_parameters \<Rightarrow> 'r \<Rightarrow> (pool_state \<times> 'r) result" where
  "handle_initialize_virtual_pool_with_spl_token rt snapshot clk a cfg p r =
     and_then (has_one (launch_accounts_ok rt AccountPoolConfig a cfg
       \<and> ipa_token_program a = rt_token_program rt)) (\<lambda>_.
     and_then (initialize_pool_parameters_validate p (clk_unix_timestamp clk)) (\<lambda>_.
     and_then (check_launch cfg) (\<lambda>_.
     and_then (get_initial_base_supply cfg) (\<lambda>initial_base_supply.
     and_then (ok_or (token_type_of (cfg_token_type cfg)) InvalidTokenType) (\<lambda>type.
     and_then (require (type = SplToken) InvalidTokenType) (\<lambda>_.
     and_then (get_token_authority cfg) (\<lambda>token_authority.
     and_then (require (\<not> has_mint_authority token_authority) InvalidTokenAuthorityOption) (\<lambda>_.
     and_then (cpi_with_account_lamport_and_owner_checking
       (process_create_token_metadata rt a p token_authority (cfg_fee_claimer cfg))
       (snapshot (ipa_pool_authority a)) r) (\<lambda>r.
     and_then (invoke rt (MintTo (ipa_token_program a) (ai_key (ipa_base_mint a)) (ipa_base_vault a)
       (ipa_pool_authority a) initial_base_supply) r) (\<lambda>r.
     and_then (invoke rt (SetAuthority (ipa_token_program a) (ai_key (ipa_base_mint a))
       (ipa_pool_authority a) MintTokens None) r) (\<lambda>r.
     and_then (charge_pool_creation_fee rt a cfg r) (\<lambda>r.
     and_then (get_current_point clk (cfg_activation_type cfg)) (\<lambda>activation_point.
     Ok (pool_initialize default_pool_state default_volatility_tracker (ai_key (ipa_config a))
           (ipa_creator a) (ai_key (ipa_base_mint a)) (ipa_base_vault a) (ipa_quote_vault a)
           (cfg_sqrt_start_price cfg) 0 activation_point initial_base_supply
           PROTOCOL_LIQUIDITY_MIGRATION_FEE_BPS (ipp_deadline_timestamp p), r))))))))))))))"

section \<open>Tokens of the 2022 program\<close>

record init_pool_data =
  ipd_activation_point :: u64
  ipd_initial_base_supply :: u64
  ipd_sqrt_start_price :: u128
  ipd_deadline_timestamp :: u64

definition set_token_authorities ::
  "'r runtime \<Rightarrow> initialize_pool_accounts \<Rightarrow> initialize_pool_parameters \<Rightarrow> pubkey option \<Rightarrow> 'r \<Rightarrow> 'r result" where
  "set_token_authorities rt a p token_update_authority r =
     and_then (invoke rt (SetAuthority (ipa_token_program a) (ai_key (ipa_base_mint a))
       (ipa_pool_authority a) MetadataPointer token_update_authority) r) (\<lambda>r.
     if token_update_authority = Some 0 then Inl CallFailed
     else invoke rt (TokenMetadataUpdateAuthority (ipa_token_program a) (ai_key (ipa_base_mint a))
       (ipa_creator a) token_update_authority) r)"

definition process_initialize_virtual_pool_with_token2022 ::
  "'r runtime \<Rightarrow> clock \<Rightarrow> initialize_pool_accounts \<Rightarrow> pool_config \<Rightarrow> initialize_pool_parameters
    \<Rightarrow> 'r \<Rightarrow> (init_pool_data \<times> 'r) result" where
  "process_initialize_virtual_pool_with_token2022 rt clk a cfg p r =
     and_then (initialize_pool_parameters_validate p (clk_unix_timestamp clk)) (\<lambda>_.
     and_then (load_config_account rt (ipa_config a)) (\<lambda>config_loader.
     and_then (check_launch cfg) (\<lambda>_.
     and_then (ok_or (token_type_of (cfg_token_type cfg)) InvalidTokenType) (\<lambda>type.
     and_then (require (type = Token2022) InvalidTokenType) (\<lambda>_.
     and_then (invoke rt (TokenMetadataInitialize (ipa_token_program a) (ai_key (ipa_base_mint a))
       (ipa_creator a) (ipp_name p) (ipp_symbol p) (ipp_uri p)) r) (\<lambda>r.
     and_then (update_account_lamports_to_minimum_balance rt (ipa_base_mint a) (ipa_payer a) r) (\<lambda>r.
     and_then (get_token_authority cfg) (\<lambda>token_authority.
     and_then (set_token_authorities rt a p
       (get_update_authority token_authority (ipa_creator a) (cfg_fee_claimer cfg)) r) (\<lambda>r.
     and_then (get_initial_base_supply cfg) (\<lambda>initial_base_supply.
     and_then (invoke rt (MintTo (ipa_token_program a) (ai_key (ipa_base_mint a)) (ipa_base_vault a)
       (ipa_pool_authority a) initial_base_supply) r) (\<lambda>r.
     let token_mint_authority =
       get_mint_authority token_authority (ipa_creator a) (cfg_fee_claimer cfg) in
     and_then (if al_is_transfer_hook config_loader then Ok ()
       else require (token_mint_authority = None) InvalidTokenAuthorityOption) (\<lambda>_.
     and_then (invoke rt (SetAuthority (ipa_token_program a) (ai_key (ipa_base_mint a))
       (ipa_pool_authority a) MintTokens token_mint_authority) r) (\<lambda>r.
     and_then (charge_pool_creation_fee rt a cfg r) (\<lambda>r.
     and_then (get_current_point clk (cfg_activation_type cfg)) (\<lambda>activation_point.
     Ok (\<lparr>ipd_activation_point = activation_point, ipd_initial_base_supply = initial_base_supply,
          ipd_sqrt_start_price = cfg_sqrt_start_price cfg,
          ipd_deadline_timestamp = ipp_deadline_timestamp p\<rparr>, r))))))))))))))))"

definition pool_of_init_data :: "initialize_pool_accounts \<Rightarrow> init_pool_data \<Rightarrow> pool_state" where
  "pool_of_init_data a d =
     pool_initialize default_pool_state default_volatility_tracker (ai_key (ipa_config a))
       (ipa_creator a) (ai_key (ipa_base_mint a)) (ipa_base_vault a) (ipa_quote_vault a)
       (ipd_sqrt_start_price d) 1 (ipd_activation_point d) (ipd_initial_base_supply d)
       PROTOCOL_LIQUIDITY_MIGRATION_FEE_BPS (ipd_deadline_timestamp d)"

definition handle_initialize_virtual_pool_with_token2022 ::
  "'r runtime \<Rightarrow> clock \<Rightarrow> initialize_pool_accounts \<Rightarrow> pool_config \<Rightarrow> initialize_pool_parameters
    \<Rightarrow> 'r \<Rightarrow> (pool_state \<times> 'r) result" where
  "handle_initialize_virtual_pool_with_token2022 rt clk a cfg p r =
     and_then (has_one (launch_accounts_ok rt AccountPoolConfig a cfg
       \<and> ipa_token_program a = rt_token_2022_program rt)) (\<lambda>_.
     and_then (process_initialize_virtual_pool_with_token2022 rt clk a cfg p r) (\<lambda>(d, r).
     Ok (pool_of_init_data a d, r)))"

definition handle_initialize_virtual_pool_with_token2022_transfer_hook ::
  "'r runtime \<Rightarrow> clock \<Rightarrow> initialize_pool_accounts \<Rightarrow> config_with_transfer_hook \<Rightarrow> pubkey \<Rightarrow> bool
    \<Rightarrow> initialize_pool_parameters \<Rightarrow> 'r \<Rightarrow> (pool_state \<times> 'r) result" where
  "handle_initialize_virtual_pool_with_token2022_transfer_hook rt clk a c transfer_hook_program
     executable p r =
     and_then (has_one (launch_accounts_ok rt AccountConfigWithTransferHook a (cwh_config c)
       \<and> ipa_token_program a = rt_token_2022_program rt \<and> executable
       \<and> transfer_hook_program = cwh_transfer_hook_program c)) (\<lambda>_.
     and_then (process_initialize_virtual_pool_with_token2022 rt clk a (cwh_config c) p r) (\<lambda>(d, r).
     Ok (pool_of_init_data a d, r)))"

lemmas initialize_pool_defs [eval] = initialize_pool_parameters_validate_def
  default_volatility_tracker_def process_create_token_metadata_def check_launch_def
  charge_pool_creation_fee_def handle_initialize_virtual_pool_with_spl_token_def
  set_token_authorities_def process_initialize_virtual_pool_with_token2022_def
  pool_of_init_data_def handle_initialize_virtual_pool_with_token2022_def
  handle_initialize_virtual_pool_with_token2022_transfer_hook_def

end
