(* ===== verification/Created_Config.thy ===== *)
theory Created_Config
  imports Create_Config Swap_Fair Sample_Runtime
begin

text \<open>
  What a configuration guarantees once it has been created: its curve is well
  formed, the quote threshold pays for the curve up to the migration price, and
  the base amounts it computes cover what the curve releases up to that price.
\<close>

declare of_nat_unat [simp del]

section \<open>The stored curve\<close>

lemma store_curve_Ok: "store_curve stored cs = Inr r \<Longrightarrow> r = cs @ drop (length cs) stored"
  by (induction stored cs arbitrary: r rule: store_curve.induct) auto

lemma store_curve_eq:
  "length cs \<le> length stored \<Longrightarrow> store_curve stored cs = Inr (cs @ drop (length cs) stored)"
  by (induction stored cs rule: store_curve.induct) auto

lemma validate_curve_points_ok:
  assumes "validate_curve_points c cs = Inr ()"
  shows "curve_ok (price c) (cs @ replicate n \<lparr>lp_sqrt_price = 0, lp_liquidity = 0\<rparr>)
    \<and> list_all (\<lambda>d. \<not> unused d) cs
    \<and> curve_top (price c) (cs @ replicate n \<lparr>lp_sqrt_price = 0, lp_liquidity = 0\<rparr>)
        = price (last (c # cs))"
  using assms
proof (induction c cs rule: validate_curve_points.induct)
  case (1 previous)
  show ?case by (cases n) (simp_all add: unused_iff list_all_iff)
next
  case (2 previous c cs)
  then show ?case by (auto simp: unused_iff word_less_nat_alt)
qed

lemma validate_curve_ok:
  assumes "validate_curve p cs = Inr ()"
  shows "cs \<noteq> [] \<and> 0 < unat p \<and> length cs \<le> MAX_CURVE_POINT \<and> list_all (\<lambda>d. \<not> unused d) cs
    \<and> unat (lp_sqrt_price (last cs)) \<le> unat MAX_SQRT_PRICE
    \<and> curve_ok (unat p) (cs @ replicate n \<lparr>lp_sqrt_price = 0, lp_liquidity = 0\<rparr>)
    \<and> curve_top (unat p) (cs @ replicate n \<lparr>lp_sqrt_price = 0, lp_liquidity = 0\<rparr>) = price (last cs)"
proof (cases cs)
  case Nil
  then show ?thesis using assms by (simp add: validate_curve_def)
next
  case (Cons c ds)
  then have "lp_sqrt_price c > p" "lp_liquidity c > 0" "validate_curve_points c ds = Inr ()"
    "p \<ge> MIN_SQRT_PRICE" "length cs \<le> MAX_CURVE_POINT" "lp_sqrt_price (last cs) \<le> MAX_SQRT_PRICE"
    using assms by (simp_all add: validate_curve_def)
  then show ?thesis using validate_curve_points_ok [of c ds n] Cons
    by (auto simp: unused_iff word_less_nat_alt word_le_nat_alt)
qed

lemma value_append_unused:
  assumes "list_all unused us"
  shows "quote_value lo (cs @ us) q = quote_value lo cs q"
    and "base_value lo (cs @ us) q = base_value lo cs q"
proof -
  have "quote_value l us q = 0" "base_value l us q = 0" for l
    using assms by (cases us, auto)+
  then show "quote_value lo (cs @ us) q = quote_value lo cs q"
    "base_value lo (cs @ us) q = base_value lo cs q"
    by (induction cs arbitrary: lo) auto
qed

section \<open>The migration price\<close>

lemma threshold_price_loop:
  assumes "get_migration_threshold_price t p cs = Inr q"
  shows "threshold_loop cs p t = Inr (q, 0)"
proof (cases cs)
  case Nil
  then show ?thesis using assms by (simp add: get_migration_threshold_price_def)
next
  case (Cons c ds)
  then obtain m where
    m: "get_delta_amount_quote_unsigned_256 p (lp_sqrt_price c) (lp_liquidity c) Up = Inr m"
    using assms by (auto simp: get_migration_threshold_price_def)
  show ?thesis
  proof (cases "m > ucast t")
    case True
    then show ?thesis using assms m Cons by (simp add: get_migration_threshold_price_def)
  next
    case False
    then obtain m' a where r: "try_cast m = Some (m' :: u64)" "safe_sub t m' = Inr a"
      "threshold_loop ds (lp_sqrt_price c) a = Inr (q, 0)"
      using assms m Cons unfolding get_migration_threshold_price_def
      by (auto simp del: try_cast_Some safe_sub_Ok split: prod.splits)
    then show ?thesis using m Cons False by (simp del: try_cast_Some safe_sub_Ok)
  qed
qed

lemma threshold_loop_value:
  assumes "threshold_loop cs p a = Inr (q, left)" "curve_ok (unat p) cs" "list_all (\<lambda>d. \<not> unused d) cs"
    "0 < unat p"
  shows "unat p \<le> unat q \<and> unat q \<le> curve_top (unat p) cs \<and> unat left \<le> unat a
    \<and> quote_value (unat p) cs (unat q) \<le> real (unat a) - real (unat left)"
  using assms
proof (induction cs arbitrary: p a)
  case Nil
  then show ?case by simp
next
  case (Cons c cs)
  have u: "\<not> unused c" "unat p < price c" "curve_ok (price c) cs" "list_all (\<lambda>d. \<not> unused d) cs"
    using Cons.prems by simp_all
  obtain m where m: "get_delta_amount_quote_unsigned_256 p (lp_sqrt_price c) (lp_liquidity c) Up = Inr m"
    and rest: "(if m > ucast a
        then and_then (get_next_sqrt_price_from_input p (lp_liquidity c) a False) (\<lambda>q. Inr (q, 0))
        else and_then (ok_or (try_cast m) TypeCastFailed) (\<lambda>m.
          and_then (safe_sub a m) (\<lambda>a. threshold_loop cs (lp_sqrt_price c) a))) = Inr (q, left)"
    using Cons.prems(1) by auto
  have first: "quote_value (unat p) (c # cs) (unat q) = quote_between (depth c) (unat p) (unat q)"
    if "unat p \<le> unat q" "unat q \<le> price c"
    using that u value_at_start(1) [OF u(3)] by (simp add: max_def min_def)
  have more: "quote_value (unat p) (c # cs) (unat q)
      = quote_between (depth c) (unat p) (price c) + quote_value (price c) cs (unat q)"
    if "price c \<le> unat q" using that u by (simp add: max_def min_def)
  show ?case
  proof (cases "m > ucast a")
    case True
    then have n: "get_next_sqrt_price_from_quote_amount_in_rounding_down p (lp_liquidity c) a = Inr q" "left = 0"
      using rest by (auto simp: get_next_sqrt_price_from_input_def)
    have "unat a < unat m" using True by (simp add: word_less_nat_alt)
    then have "unat q \<le> price c" using next_quote_in_target [OF m _ n(1)] by blast
    then show ?thesis using next_quote_in_bound [OF n(1)] first n(2) u curve_top_ge [OF u(3)]
      by (simp del: quote_value.simps)
  next
    case False
    then obtain m' a' where r: "unat (m' :: u64) = unat m" "unat m' \<le> unat a" "unat a' = unat a - unat m'"
      "threshold_loop cs (lp_sqrt_price c) a' = Inr (q, left)" using rest by auto
    note ih = Cons.IH [OF r(4) u(3,4)]
    have "0 < price c" using u(2) by simp
    note ih = ih [OF this]
    have "quote_between (depth c) (unat p) (price c) \<le> real (unat m')"
      using quote_up_ge [OF m] r(1) by simp
    moreover have "real (unat a') = real (unat a) - real (unat m')" using r(2,3) by (simp add: of_nat_diff)
    moreover have "unat left \<le> unat a" using ih r(2,3) by linarith
    ultimately show ?thesis using ih more u r(2,3) by (simp del: quote_value.simps)
  qed
qed

lemma base_loop_value:
  assumes "base_token_loop mp lo cs acc = Inr z" "curve_ok (unat lo) cs" "list_all (\<lambda>d. \<not> unused d) cs"
    "unat lo \<le> unat mp" "0 < unat lo"
  shows "base_value (unat lo) cs (unat mp) \<le> real (unat z) - real (unat acc)"
  using assms
proof (induction cs arbitrary: lo acc)
  case Nil
  then show ?case by simp
next
  case (Cons c cs)
  have u: "\<not> unused c" "unat lo < price c" "curve_ok (price c) cs" "list_all (\<lambda>d. \<not> unused d) cs"
    using Cons.prems by simp_all
  show ?case
  proof (cases "lp_sqrt_price c > mp")
    case True
    then obtain d where d: "get_delta_amount_base_unsigned_256 lo mp (lp_liquidity c) Up = Inr d"
      "unat z = unat acc + unat d" using Cons.prems(1) by auto
    have "base_value (unat lo) (c # cs) (unat mp) = base_between (depth c) (unat lo) (unat mp)"
      using True u Cons.prems(4) value_at_start(2) [OF u(3)] by (simp add: word_less_nat_alt max_def min_def)
    then show ?thesis using base_up_ge [OF d(1)] d(2) by simp
  next
    case False
    then obtain d t where
      d: "get_delta_amount_base_unsigned_256 lo (lp_sqrt_price c) (lp_liquidity c) Up = Inr d"
      "unat t = unat acc + unat d" "base_token_loop mp (lp_sqrt_price c) cs t = Inr z"
      using Cons.prems(1) by auto
    have le: "price c \<le> unat mp" using False by (simp add: word_less_nat_alt not_less)
    then have "base_value (unat lo) (c # cs) (unat mp)
        = base_between (depth c) (unat lo) (price c) + base_value (price c) cs (unat mp)"
      using u by (simp add: max_def min_def)
    moreover have "base_value (price c) cs (unat mp) \<le> real (unat z) - real (unat t)"
      using Cons.IH [OF d(3) u(3,4) le] u(2) by simp
    ultimately show ?thesis using base_up_ge [OF d(1)] d(2) by simp
  qed
qed

section \<open>Amounts with a buffer\<close>

lemma ceil_div_fraction_mono:
  assumes "a * b' \<le> a' * (b::nat)" "0 < b" "0 < b'"
  shows "ceil_div a b \<le> ceil_div a' b'"
proof (rule ceil_div_le [OF assms(2)])
  have "a * b' \<le> (b' * ceil_div a' b') * b"
    using assms(1) mult_le_mono1 [OF ceil_div_ge [OF assms(3), of a'], of b] by linarith
  then have "b' * a \<le> b' * (b * ceil_div a' b')" by (simp add: ac_simps)
  then show "a \<le> b * ceil_div a' b'" using assms(3) by simp
qed

lemma base_delta_mono:
  assumes "get_delta_amount_base_unsigned_256 l u L Up = Inr z"
    and "get_delta_amount_base_unsigned_256 l v L Up = Inr w" "unat u \<le> unat v"
  shows "unat z \<le> unat w"
proof -
  have r: "unat l \<le> unat u" "0 < unat l" "unat z = ceil_div (unat L * (unat u - unat l)) (unat l * unat u)"
    "unat w = ceil_div (unat L * (unat v - unat l)) (unat l * unat v)"
    using assms(1,2) by (simp_all add: base_256_Ok)
  obtain x y where x: "unat u = unat l + x" "unat v = unat l + x + y"
    using r(1) assms(3) by (metis le_iff_add)
  have "x * (unat l + x + y) \<le> (x + y) * (unat l + x)" by (simp add: algebra_simps)
  then have "unat L * x * (unat l * (unat l + x + y)) \<le> unat L * (x + y) * (unat l * (unat l + x))"
    using mult_le_mono2 [of "x * (unat l + x + y)" "(x + y) * (unat l + x)" "unat L * unat l"]
    by (simp only: ac_simps)
  then show ?thesis unfolding r(3,4) using r(1,2) x
    by (intro ceil_div_fraction_mono) (simp_all del: of_nat_mult)
qed

lemma base_loop_ge: "base_token_loop mp lo cs acc = Inr z \<Longrightarrow> unat acc \<le> unat z"
  by (induction mp lo cs acc rule: base_token_loop.induct) (fastforce split: if_splits)+

lemma base_loop_mono:
  assumes "base_token_loop mp lo cs acc = Inr z" "base_token_loop mx lo cs acc' = Inr w"
    and "unat mp \<le> unat mx" "unat acc \<le> unat acc'"
  shows "unat z \<le> unat w"
  using assms
proof (induction cs arbitrary: lo acc acc')
  case Nil
  then show ?case by simp
next
  case (Cons c cs)
  let ?e = "if lp_sqrt_price c > mx then mx else lp_sqrt_price c"
  obtain e where e: "get_delta_amount_base_unsigned_256 lo ?e (lp_liquidity c) Up = Inr e"
    "unat acc' + unat e \<le> unat w" using Cons.prems(2) base_loop_ge by (fastforce split: if_splits)
  show ?case
  proof (cases "lp_sqrt_price c > mp")
    case True
    then obtain d where d: "get_delta_amount_base_unsigned_256 lo mp (lp_liquidity c) Up = Inr d"
      "unat z = unat acc + unat d" using Cons.prems(1) by auto
    have "unat mp \<le> unat ?e" using True Cons.prems(3) by (simp add: word_less_nat_alt)
    then show ?thesis using base_delta_mono [OF d(1) e(1)] d(2) e(2) Cons.prems(4) by linarith
  next
    case False
    then have "\<not> lp_sqrt_price c > mx" using Cons.prems(3) by (simp add: word_less_nat_alt)
    then show ?thesis using False Cons.prems Cons.IH by fastforce
  qed
qed

lemma buffer_covers:
  assumes "get_swap_amount_with_buffer swap p cs = Inr w"
    and "get_base_token_for_swap p mp cs = Inr n" "unat n = unat swap" "unat mp \<le> unat MAX_SQRT_PRICE"
  shows "unat swap \<le> unat w"
proof -
  have "unat swap \<le> unat w \<or> (\<exists>x. get_base_token_for_swap p MAX_SQRT_PRICE cs = Inr x \<and> unat w = unat x)"
    using assms(1) unfolding get_swap_amount_with_buffer_def by (auto split: if_splits)
  moreover have "unat n \<le> unat x" if "get_base_token_for_swap p MAX_SQRT_PRICE cs = Inr x" for x
    using base_loop_mono [of mp p cs 0 n MAX_SQRT_PRICE 0 x] assms(2,4) that
    by (simp add: get_base_token_for_swap_def)
  ultimately show ?thesis using assms(3) by auto
qed

section \<open>Created configurations\<close>

inductive created :: "'r runtime \<Rightarrow> pool_config \<Rightarrow> bool" for rt where
  plain: "handle_create_config rt ext nm clk mint fc lr cp = Inr cfg \<Longrightarrow> created rt cfg"
| hooked: "handle_create_config_with_transfer_hook rt ext nm clk mint fc lr x h cp = Inr c \<Longrightarrow>
    created rt (cwh_config c)"

lemma created_parts:
  assumes "created rt cfg"
  shows "\<exists>cp ext nm mint now hook fc lr. config_parameters_validate rt ext nm cp mint now hook = Inr ()
    \<and> process_create_config rt zero_pool_config cp mint fc lr = Inr cfg"
  using assms
proof (cases rule: created.cases)
  case (plain ext nm clk mint fc lr cp)
  then show ?thesis unfolding handle_create_config_def and_then_Ok_iff by (metis old.unit.exhaust)
next
  case (hooked ext nm clk mint fc lr x h cp c)
  then obtain d u v where "config_parameters_validate rt ext nm cp mint (clk_unix_timestamp clk) True = Inr u"
    "process_create_config rt zero_pool_config cp mint fc lr = Inr d"
    "c = \<lparr>cwh_config = d, cwh_transfer_hook_program = v\<rparr>"
    unfolding handle_create_config_with_transfer_hook_def and_then_Ok_iff by blast
  moreover have "u = ()" by simp
  ultimately show ?thesis using hooked(1) by fastforce
qed

lemma process_create_config_parts:
  assumes "process_create_config rt cfg0 cp mint fc lr = Inr cfg"
  shows "\<exists>mp n swap option mode base quote flag pre post u.
    get_migration_threshold_price (cp_migration_quote_threshold cp) (cp_sqrt_start_price cp) (cp_curve cp) = Inr mp
    \<and> mp < MAX_SQRT_PRICE
    \<and> get_base_token_for_swap (cp_sqrt_start_price cp) mp (cp_curve cp) = Inr n \<and> unat swap = unat n
    \<and> migration_option_of (cp_migration_option cp) = Some option
    \<and> migrated_collect_fee_mode_of (mpf_collect_fee_mode (cp_migrated_pool_fee cp)) = Some mode
    \<and> get_included_protocol_fee_migration_amounts_1 (get_migration_handler option mode mp)
        (get_effective_migration_quote_amount_cap (cp_migration_quote_threshold cp)
          (cp_migration_quote_amount_cap cp)) (mfp_fee_percentage (cp_migration_fee cp)) = Inr (base, quote)
    \<and> 0 < base \<and> 0 < swap
    \<and> token_supply_of cp lr swap base = Inr (flag, pre, post)
    \<and> pool_config_init cfg0 (mint_key mint) fc lr cp
        (case get_token_program_flags rt mint of TokenProgram \<Rightarrow> 0 | TokenProgram2022 \<Rightarrow> 1)
        swap base mp flag pre post = Inr cfg
    \<and> get_total_liquidity_locked_bps_at_n_seconds cfg SECONDS_PER_DAY = Inr u \<and> MIN_LOCKED_LIQUIDITY_BPS \<le> u"
  using assms unfolding process_create_config_def Let_def and_then_Ok_iff split_paired_Ex case_prod_conv
    ok_or_Ok_iff require_Ok_iff try_cast_Some Inr_inject
  by blast

lemma config_parameters_validate_parts:
  assumes "config_parameters_validate rt ext nm cp mint now hook = Inr ()"
  shows "cp_creator_trading_fee_percentage cp = 0 \<and> mfp_fee_percentage (cp_migration_fee cp) = 0
    \<and> sum_liquidity_percentage cp = Inr 100 \<and> 0 < cp_migration_quote_threshold cp
    \<and> (0 < cp_migration_quote_amount_cap cp \<longrightarrow>
        cp_migration_quote_amount_cap cp \<le> cp_migration_quote_threshold cp)
    \<and> validate_curve (cp_sqrt_start_price cp) (cp_curve cp) = Inr ()
    \<and> (\<exists>a. pool_fee_validate (cp_pool_fees cp) (cp_collect_fee_mode cp) a = Inr ())"
  using assms unfolding config_parameters_validate_def and_then_Ok_iff ok_or_Ok_iff require_Ok_iff
  by (auto split: if_splits)

lemma pool_config_init_fields:
  assumes "pool_config_init zero_pool_config q fc lr cp fl swap base mp flag pre post = Inr cfg"
  shows "\<exists>n. cfg_curve cfg = cp_curve cp @ replicate n \<lparr>lp_sqrt_price = 0, lp_liquidity = 0\<rparr>"
    and "cfg_sqrt_start_price cfg = cp_sqrt_start_price cp" "cfg_migration_sqrt_price cfg = mp"
    and "cfg_migration_quote_threshold cfg = cp_migration_quote_threshold cp"
    and "cfg_swap_base_amount cfg = swap" "cfg_migration_base_threshold cfg = base"
    and "cfg_fixed_token_supply_flag cfg = flag" "cfg_pre_migration_token_supply cfg = pre"
    and "cfg_post_migration_token_supply cfg = post"
    and "cfg_locked_vesting_config cfg = cp_locked_vesting cp"
    and "cfg_creator_trading_fee_percentage cfg = cp_creator_trading_fee_percentage cp"
    and "cfg_migration_fee_percentage cfg = mfp_fee_percentage (cp_migration_fee cp)"
    and "cfg_pool_fees cfg = to_pool_fees_config (cp_pool_fees cp)"
    and "cfg_migration_quote_amount_cap cfg = cp_migration_quote_amount_cap cp"
    and "percentages cfg = unat (cp_partner_liquidity_percentage cp)
      + unat (cp_partner_permanent_locked_liquidity_percentage cp)
      + unat (lvp_vesting_percentage (cp_partner_liquidity_vesting_info cp))
      + unat (cp_creator_liquidity_percentage cp)
      + unat (cp_creator_permanent_locked_liquidity_percentage cp)
      + unat (lvp_vesting_percentage (cp_creator_liquidity_vesting_info cp))"
  using assms
  by (auto simp: pool_config_init_def zero_pool_config_def percentages_def to_liquidity_vesting_info_def
      dest!: store_curve_Ok)

lemma sum_liquidity_percentage_100:
  "sum_liquidity_percentage cp = Inr s \<Longrightarrow> unat s = unat (cp_partner_liquidity_percentage cp)
      + unat (cp_partner_permanent_locked_liquidity_percentage cp)
      + unat (lvp_vesting_percentage (cp_partner_liquidity_vesting_info cp))
      + unat (cp_creator_liquidity_percentage cp)
      + unat (cp_creator_permanent_locked_liquidity_percentage cp)
      + unat (lvp_vesting_percentage (cp_creator_liquidity_vesting_info cp))"
  by (auto simp: sum_liquidity_percentage_def)

lemma created_facts:
  assumes "created rt cfg"
  shows "config_ok cfg \<and> start_price cfg \<le> last_price cfg \<and> last_price cfg < unat MAX_SQRT_PRICE
    \<and> curve_quote cfg (last_price cfg) \<le> real (unat (cfg_migration_quote_threshold cfg))
    \<and> curve_base cfg (last_price cfg) \<le> real (unat (cfg_swap_base_amount cfg))
    \<and> percentages cfg = 100"
proof -
  obtain cp ext nm mint now hook fc lr where v: "config_parameters_validate rt ext nm cp mint now hook = Inr ()"
    "process_create_config rt zero_pool_config cp mint fc lr = Inr cfg"
    using created_parts [OF assms] by blast
  note cp = config_parameters_validate_parts [OF v(1)]
  obtain mp n swap base flag pre post f where p:
    "get_migration_threshold_price (cp_migration_quote_threshold cp) (cp_sqrt_start_price cp) (cp_curve cp) = Inr mp"
    "mp < MAX_SQRT_PRICE"
    "get_base_token_for_swap (cp_sqrt_start_price cp) mp (cp_curve cp) = Inr n" "unat swap = unat n"
    "pool_config_init zero_pool_config (mint_key mint) fc lr cp f swap base mp flag pre post = Inr cfg"
    using process_create_config_parts [OF v(2)] by blast
  note fields = pool_config_init_fields [OF p(5)]
  obtain k where k: "cfg_curve cfg = cp_curve cp @ replicate k \<lparr>lp_sqrt_price = 0, lp_liquidity = 0\<rparr>"
    using fields(1) by blast
  let ?p = "cp_sqrt_start_price cp" and ?cs = "cp_curve cp"
  have c: "validate_curve ?p ?cs = Inr ()" using cp by blast
  note curve = validate_curve_ok [OF c, of k] validate_curve_ok [OF c, of 0, simplified]
  have unused: "list_all unused (replicate k \<lparr>lp_sqrt_price = 0, lp_liquidity = 0\<rparr>)"
    by (simp add: list_all_iff unused_iff)
  have q: "unat ?p \<le> unat mp \<and> unat mp \<le> curve_top (unat ?p) ?cs
      \<and> quote_value (unat ?p) ?cs (unat mp) \<le> real (unat (cp_migration_quote_threshold cp))"
    using threshold_loop_value [OF threshold_price_loop [OF p(1)]] curve(2) by simp
  have b: "base_value (unat ?p) ?cs (unat mp) \<le> real (unat swap)"
    using base_loop_value [of mp ?p ?cs 0 n] p(3,4) curve(2) q by (simp add: get_base_token_for_swap_def)
  have top: "unat mp \<le> curve_top (unat ?p) (cfg_curve cfg)" using q curve k by simp
  have hd: "cfg_curve cfg \<noteq> []" "\<not> unused (hd (cfg_curve cfg))"
    using curve(2) k by (cases ?cs; simp)+
  have "percentages cfg = 100" using sum_liquidity_percentage_100 [of cp 100] cp fields(15) by simp
  moreover have "config_ok cfg"
    unfolding config_ok_def start_price_def last_price_def fields(2,3) using hd top curve k by simp
  moreover have "last_price cfg < unat MAX_SQRT_PRICE"
    using p(2) by (simp add: last_price_def fields(3) word_less_nat_alt)
  ultimately show ?thesis
    unfolding curve_quote_def curve_base_def start_price_def last_price_def fields(2-5) k
      value_append_unused [OF unused] using q b by simp
qed

text \<open>The creation of a configuration for the sample curve.\<close>

definition sample_config_parameters :: config_parameters where
  "sample_config_parameters = \<lparr>
     cp_pool_fees = \<lparr>pp_base_fee = \<lparr>bp_cliff_fee_numerator = 10000000, bp_first_factor = 0,
       bp_second_factor = 0, bp_third_factor = 0, bp_base_fee_mode = 0\<rparr>, pp_dynamic_fee = None\<rparr>,
     cp_collect_fee_mode = 0, cp_migration_option = 1, cp_activation_type = 0, cp_token_type = 0,
     cp_token_decimal = 6, cp_partner_liquidity_percentage = 30,
     cp_partner_permanent_locked_liquidity_percentage = 20, cp_creator_liquidity_percentage = 40,
     cp_creator_permanent_locked_liquidity_percentage = 10, cp_migration_quote_threshold = 2000000,
     cp_migration_quote_amount_cap = 0, cp_sqrt_start_price = 18446744073709551616,
     cp_locked_vesting = default_locked_vesting, cp_migration_fee_option = 0,
     cp_token_supply = None, cp_creator_trading_fee_percentage = 0, cp_token_update_authority = 1,
     cp_migration_fee = \<lparr>mfp_fee_percentage = 0, mfp_creator_fee_percentage = 0\<rparr>,
     cp_migrated_pool_fee = \<lparr>mpf_collect_fee_mode = 0, mpf_dynamic_fee = 0, mpf_pool_fee_bps = 0\<rparr>,
     cp_pool_creation_fee = 0,
     cp_partner_liquidity_vesting_info = default_liquidity_vesting_info_params,
     cp_creator_liquidity_vesting_info = default_liquidity_vesting_info_params,
     cp_migrated_pool_base_fee_mode = 0,
     cp_migrated_pool_market_cap_fee_scheduler_params = \<lparr>mc_number_of_period = 0,
       mc_sqrt_price_step_bps = 0, mc_scheduler_expiration_duration = 0, mc_reduction_factor = 0\<rparr>,
     cp_enable_first_swap_with_min_fee = False, cp_compounding_fee_bps = 0, cp_curve = sample_curve\<rparr>"

definition sample_quote_mint :: mint_account where
  "sample_quote_mint = \<lparr>mint_key = 1, mint_program = 101, mint_hook_program = None\<rparr>"

definition created_sample :: pool_config where
  "created_sample = sample_config\<lparr>cfg_partner_liquidity_vesting_info := zero_liquidity_vesting_info,
     cfg_creator_liquidity_vesting_info := zero_liquidity_vesting_info,
     cfg_creator_trading_fee_percentage := 0, cfg_migration_fee_percentage := 0,
     cfg_creator_migration_fee_percentage := 0, cfg_swap_base_amount := 666667,
     cfg_migration_base_threshold := 222223,
     cfg_curve := sample_curve @ replicate 18 \<lparr>lp_sqrt_price = 0, lp_liquidity = 0\<rparr>\<rparr>"

lemmas create_config_defs [eval] = migration_fee_validate_def migrated_pool_fee_validator_new_def
  migrated_pool_fee_is_none_def migrated_base_fee_validate_def migrated_pool_fee_validate_def
  default_liquidity_vesting_info_params_def vesting_info_is_zero_def to_liquidity_vesting_info_def
  vesting_info_validate_def is_supported_quote_mint_def validate_curve_def validate_migration_def
  sum_liquidity_percentage_def config_parameters_validate_def zero_liquidity_vesting_info_def
  zero_pool_config_def pool_config_init_def SECONDS_PER_DAY_def validate_compounding_deposit_def
  token_supply_of_def process_create_config_def handle_create_config_def
  handle_create_config_with_transfer_hook_def

lemma sample_amounts:
  "get_migration_threshold_price 2000000 18446744073709551616 sample_curve = Inr 55340232221128654848"
  "get_base_token_for_swap 18446744073709551616 55340232221128654848 sample_curve = Inr 666667"
  "concentrated_included_amounts_1 55340232221128654848 2000000 0 = Inr (222223, 2000000)"
  "migrated_collect_fee_mode_of 0 = Some MigratedQuoteToken"
  "migration_option_of 1 = Some DammV2"
  "(try_cast (666667 :: u256) :: u64 option) = Some 666667"
  "(55340232221128654848 < MAX_SQRT_PRICE) = True"
  by (simp_all add: eval and_then_def ok_or_def Let_def sample_curve_def)

lemma sample_stored:
  "pool_config_init zero_pool_config 1 2 3 sample_config_parameters 0 666667 222223
     55340232221128654848 0 0 0 = Inr created_sample"
  by (simp add: pool_config_init_def store_curve_eq zero_pool_config_def sample_config_parameters_def
      created_sample_def sample_defs MAX_CURVE_POINT_CONFIG_def to_pool_fees_config_def
      to_base_fee_config_def default_dynamic_fee_config_def to_liquidity_vesting_info_def
      vesting_info_is_zero_def default_liquidity_vesting_info_params_def
      zero_liquidity_vesting_info_def default_locked_vesting_def)

lemma sample_locked: "get_total_liquidity_locked_bps_at_n_seconds created_sample SECONDS_PER_DAY = Inr 3000"
  by (simp add: eval and_then_def Let_def created_sample_def sample_defs)

lemma sample_process:
  "process_create_config ledger_runtime zero_pool_config sample_config_parameters sample_quote_mint 2 3
    = Inr created_sample"
proof -
  have p: "cp_migration_quote_threshold sample_config_parameters = 2000000"
    "cp_sqrt_start_price sample_config_parameters = 18446744073709551616"
    "cp_curve sample_config_parameters = sample_curve" "cp_migration_option sample_config_parameters = 1"
    "mpf_collect_fee_mode (cp_migrated_pool_fee sample_config_parameters) = 0"
    "cp_migration_quote_amount_cap sample_config_parameters = 0"
    "mfp_fee_percentage (cp_migration_fee sample_config_parameters) = 0"
    "cp_token_supply sample_config_parameters = None" "mint_key sample_quote_mint = 1"
    "get_token_program_flags ledger_runtime sample_quote_mint = TokenProgram"
    by (simp_all add: sample_config_parameters_def sample_quote_mint_def get_token_program_flags_def
        ledger_runtime_def)
  show ?thesis
    by (simp add: process_create_config_def p sample_amounts sample_stored sample_locked
        get_migration_handler_def get_effective_migration_quote_amount_cap_def token_supply_of_def
        MIN_LOCKED_LIQUIDITY_BPS_def Let_def del: try_cast_Some)
qed

lemma sample_validated:
  "config_parameters_validate ledger_runtime (\<lambda>_. None) 0 sample_config_parameters sample_quote_mint 10 False
    = Inr ()"
  by (simp add: eval and_then_def ok_or_def require_def Let_def sample_config_parameters_def
      sample_quote_mint_def ledger_runtime_def sample_curve_def has_mint_authority_def)

lemma sample_is_created: "created ledger_runtime created_sample"
proof -
  have "handle_create_config ledger_runtime (\<lambda>_. None) 0 sample_clock sample_quote_mint 2 3
      sample_config_parameters = Inr created_sample"
    using sample_validated sample_process by (simp add: handle_create_config_def sample_clock_def)
  then show ?thesis by (rule created.plain)
qed

text \<open>
  C18: a created configuration is sound.  Its curve is well formed and the price at
  which it migrates lies on it, below the maximum price; the quote threshold is
  enough to buy the curve up to that price, and the swap amount is enough to sell
  it; the shares of the migrated liquidity add up to the whole.
\<close>

theorem created_config_is_sound:
  assumes "created rt cfg"
  shows "config_ok cfg \<and> start_price cfg \<le> last_price cfg \<and> last_price cfg < unat MAX_SQRT_PRICE
    \<and> curve_quote cfg (last_price cfg) \<le> real (unat (cfg_migration_quote_threshold cfg))
    \<and> curve_base cfg (last_price cfg) \<le> real (unat (cfg_swap_base_amount cfg))
    \<and> percentages cfg = 100"
  by (rule created_facts [OF assms])

theorem created_config_is_sound_witness:
  "config_ok created_sample \<and> percentages created_sample = 100"
  using created_config_is_sound [OF sample_is_created] by blast

lemma created_supply_covers:
  assumes "created rt cfg" "get_initial_base_supply cfg = Inr supply"
  shows "\<exists>v. locked_vesting_total_amount (cfg_locked_vesting_config cfg) = Inr v
    \<and> curve_base cfg (last_price cfg) + real (unat (cfg_migration_base_threshold cfg)) + real (unat v)
      \<le> real (unat supply)"
proof -
  obtain cp ext nm mint now hook fc lr where v: "config_parameters_validate rt ext nm cp mint now hook = Inr ()"
    "process_create_config rt zero_pool_config cp mint fc lr = Inr cfg"
    using created_parts [OF assms(1)] by blast
  note cp = config_parameters_validate_parts [OF v(1)]
  obtain mp n swap base flag pre post f where p: "mp < MAX_SQRT_PRICE"
    "get_base_token_for_swap (cp_sqrt_start_price cp) mp (cp_curve cp) = Inr n" "unat swap = unat n"
    "token_supply_of cp lr swap base = Inr (flag, pre, post)"
    "pool_config_init zero_pool_config (mint_key mint) fc lr cp f swap base mp flag pre post = Inr cfg"
    using process_create_config_parts [OF v(2)] by blast
  note fields = pool_config_init_fields [OF p(5)]
  have le: "unat mp \<le> unat MAX_SQRT_PRICE" using p(1) by (simp add: word_less_nat_alt)
  have used: "used_curve_points cfg = cp_curve cp"
  proof -
    have "list_all (\<lambda>d. \<not> unused d) (cp_curve cp)" using validate_curve_ok cp by blast
    then have "\<And>c. c \<in> set (cp_curve cp) \<Longrightarrow> lp_liquidity c \<noteq> 0" by (auto simp: list_all_iff unused_def)
    moreover have "takeWhile (\<lambda>c. lp_liquidity c \<noteq> 0) (replicate k \<lparr>lp_sqrt_price = 0, lp_liquidity = 0\<rparr>) = []" for k
      by (cases k) simp_all
    ultimately show ?thesis using fields(1) by (auto simp: used_curve_points_def)
  qed
  have "\<exists>w. get_total_token_supply w base (cp_locked_vesting cp) = Inr s \<and> unat swap \<le> unat w \<and> unat s \<le> unat supply"
    if "\<exists>w. get_swap_amount_with_buffer swap (cp_sqrt_start_price cp) (cp_curve cp) = Inr w
      \<and> get_total_token_supply w base (cp_locked_vesting cp) = Inr s \<and> unat s \<le> unat supply" for s
    using that buffer_covers [OF _ p(2) p(3) [symmetric] le] by blast
  moreover have "\<exists>s w. get_swap_amount_with_buffer swap (cp_sqrt_start_price cp) (cp_curve cp) = Inr w
      \<and> get_total_token_supply w base (cp_locked_vesting cp) = Inr s \<and> unat s \<le> unat supply"
  proof (cases "cp_token_supply cp")
    case None
    then have "flag = 0" using p(4) by (simp add: token_supply_of_def)
    then show ?thesis using assms(2) used fields
      by (auto simp: get_initial_base_supply_def is_fixed_token_supply_def Let_def)
  next
    case (Some t)
    then have "flag = 1" "\<exists>s w. get_swap_amount_with_buffer swap (cp_sqrt_start_price cp) (cp_curve cp) = Inr w
      \<and> get_total_token_supply w base (cp_locked_vesting cp) = Inr s \<and> s \<le> pre"
      using p(4) by (auto simp: token_supply_of_def)
    moreover then have "supply = pre" using assms(2) fields
      by (simp add: get_initial_base_supply_def is_fixed_token_supply_def)
    ultimately show ?thesis by (auto simp: word_le_nat_alt)
  qed
  ultimately obtain w s where w: "get_total_token_supply w base (cp_locked_vesting cp) = Inr s"
    "unat swap \<le> unat w" "unat s \<le> unat supply" by blast
  then obtain v where v: "locked_vesting_total_amount (cp_locked_vesting cp) = Inr v"
    "unat s = unat w + unat base + unat v" by (auto simp: get_total_token_supply_def)
  have "real (unat swap) + real (unat base) + real (unat v) \<le> real (unat supply)"
    using v(2) w(2,3) unfolding of_nat_add [symmetric] of_nat_le_iff by linarith
  moreover have "curve_base cfg (last_price cfg) \<le> real (unat swap)"
    using created_facts [OF assms(1)] fields(5) by simp
  ultimately show ?thesis using v(1) fields by auto
qed

text \<open>
  C20: the base supply of a created configuration is sufficient.  The supply that a
  pool starts with covers everything its curve sells up to the migration price,
  the amount reserved for the migration and the locked vesting amount.
\<close>

theorem created_supply_is_sufficient:
  assumes "created rt cfg" "get_initial_base_supply cfg = Inr supply"
  shows "\<exists>v. locked_vesting_total_amount (cfg_locked_vesting_config cfg) = Inr v
    \<and> curve_base cfg (last_price cfg) + real (unat (cfg_migration_base_threshold cfg)) + real (unat v)
      \<le> real (unat supply)"
  by (rule created_supply_covers [OF assms])

lemma sample_supply: "get_initial_base_supply created_sample = Inr 972223"
proof -
  have "used_curve_points created_sample = sample_curve"
    by (simp add: used_curve_points_def created_sample_def sample_defs takeWhile_replicate)
  moreover have "get_swap_amount_with_buffer 666667 18446744073709551616 sample_curve = Inr 750000"
    by (simp add: get_swap_amount_with_buffer_def eval and_then_def ok_or_def Let_def sample_curve_def)
  moreover have "cfg_swap_base_amount created_sample = 666667" "\<not> is_fixed_token_supply created_sample"
    "cfg_sqrt_start_price created_sample = 18446744073709551616"
    "cfg_migration_base_threshold created_sample = 222223"
    "locked_vesting_total_amount (cfg_locked_vesting_config created_sample) = Inr 0"
    by (simp_all add: created_sample_def sample_config_def is_fixed_token_supply_def eval)
  ultimately show ?thesis
    by (simp add: get_initial_base_supply_def get_total_token_supply_def)
qed

theorem created_supply_is_sufficient_witness:
  "\<exists>v. curve_base created_sample (last_price created_sample) + real (unat v) \<le> real (unat (972223 :: u64))
    \<and> locked_vesting_total_amount (cfg_locked_vesting_config created_sample) = Inr (v :: u64)"
proof -
  obtain v where "locked_vesting_total_amount (cfg_locked_vesting_config created_sample) = Inr v"
    "curve_base created_sample (last_price created_sample)
      + real (unat (cfg_migration_base_threshold created_sample)) + real (unat v) \<le> real (unat (972223 :: u64))"
    using created_supply_is_sufficient [OF sample_is_created sample_supply] by blast
  moreover have "0 \<le> real (unat (cfg_migration_base_threshold created_sample))" by simp
  ultimately show ?thesis by fastforce
qed

end
