(* ===== verification/Swap_Process.thy ===== *)
theory Swap_Process
  imports Pool_Ops
begin

text \<open>
  The swap modes (\<open>instructions/swap/swap_exact_in.rs\<close>, \<open>swap_exact_out.rs\<close>,
  \<open>swap_partial_fill.rs\<close>) with their slippage checks, and the part of
  \<open>process_swap\<close> that updates the pool: references of the dynamic fee, the swap
  result of the chosen mode, and its effect.  Solvency of the pool and the absence
  of profitable sequences of swaps are proved for this part, in both directions,
  although the instruction itself refuses sales.
\<close>

section \<open>The swap modes\<close>

datatype (plugins only: code size) swap_mode = ExactIn | PartialFill | ExactOut

definition swap_mode_of :: "u8 \<Rightarrow> swap_mode option" where
  "swap_mode_of = try_from_u8 [ExactIn, PartialFill, ExactOut]"

record swap_parameters =
  sp_amount_in :: u64
  sp_minimum_amount_out :: u64

record swap_parameters2 =
  sp2_amount_0 :: u64
  sp2_amount_1 :: u64
  sp2_swap_mode :: u8

record process_swap_params =
  psp_pool :: pool_state
  psp_config :: pool_config
  psp_fee_mode :: fee_mode
  psp_trade_direction :: trade_direction
  psp_current_point :: u64
  psp_amount_0 :: u64
  psp_amount_1 :: u64
  psp_eligible_for_first_swap_with_min_fee :: bool

record process_swap_result =
  psr_swap_result :: swap_result2
  psr_swap_in_parameters :: swap_parameters

definition process_swap_exact_in :: "process_swap_params \<Rightarrow> process_swap_result result" where
  "process_swap_exact_in p =
     and_then (get_swap_result_from_exact_input (psp_pool p) (psp_config p) (psp_amount_0 p)
        (psp_fee_mode p) (psp_trade_direction p) (psp_current_point p)
        (psp_eligible_for_first_swap_with_min_fee p)) (\<lambda>swap_result.
     and_then (require (s2_output_amount swap_result \<ge> psp_amount_1 p) ExceededSlippage) (\<lambda>_.
     Ok \<lparr>psr_swap_result = swap_result,
         psr_swap_in_parameters = \<lparr>sp_amount_in = psp_amount_0 p,
           sp_minimum_amount_out = psp_amount_1 p\<rparr>\<rparr>))"

definition process_swap_partial_fill :: "process_swap_params \<Rightarrow> process_swap_result result" where
  "process_swap_partial_fill p =
     and_then (get_swap_result_from_partial_input (psp_pool p) (psp_config p) (psp_amount_0 p)
        (psp_fee_mode p) (psp_trade_direction p) (psp_current_point p)
        (psp_eligible_for_first_swap_with_min_fee p)) (\<lambda>swap_result.
     and_then (require (s2_output_amount swap_result \<ge> psp_amount_1 p) ExceededSlippage) (\<lambda>_.
     Ok \<lparr>psr_swap_result = swap_result,
         psr_swap_in_parameters = \<lparr>sp_amount_in = s2_included_fee_input_amount swap_result,
           sp_minimum_amount_out = s2_output_amount swap_result\<rparr>\<rparr>))"

definition process_swap_exact_out :: "process_swap_params \<Rightarrow> process_swap_result result" where
  "process_swap_exact_out p =
     and_then (get_swap_result_from_exact_output (psp_pool p) (psp_config p) (psp_amount_0 p)
        (psp_fee_mode p) (psp_trade_direction p) (psp_current_point p)
        (psp_eligible_for_first_swap_with_min_fee p)) (\<lambda>swap_result.
     and_then (require (s2_included_fee_input_amount swap_result \<le> psp_amount_1 p)
        ExceededSlippage) (\<lambda>_.
     Ok \<lparr>psr_swap_result = swap_result,
         psr_swap_in_parameters = \<lparr>sp_amount_in = s2_included_fee_input_amount swap_result,
           sp_minimum_amount_out = psp_amount_0 p\<rparr>\<rparr>))"

definition process_swap_by_mode :: "swap_mode \<Rightarrow> process_swap_params \<Rightarrow> process_swap_result result" where
  "process_swap_by_mode swap_mode p =
     (case swap_mode of
        ExactIn \<Rightarrow> process_swap_exact_in p
      | PartialFill \<Rightarrow> process_swap_partial_fill p
      | ExactOut \<Rightarrow> process_swap_exact_out p)"

section \<open>The update of the pool\<close>

record swap_call =
  sc_params :: swap_parameters2
  sc_is_virtual :: bool
  sc_has_referral :: bool
  sc_current_point :: u64
  sc_current_timestamp :: u64
  sc_eligible :: bool

definition execute_swap ::
  "pool_state \<Rightarrow> pool_config \<Rightarrow> swap_mode \<Rightarrow> trade_direction \<Rightarrow> swap_call
    \<Rightarrow> (pool_state \<times> fee_mode \<times> process_swap_result) result" where
  "execute_swap s cfg swap_mode dir c =
     and_then (update_pre_swap s cfg (sc_current_timestamp c)) (\<lambda>s.
     and_then (get_fee_mode (cfg_collect_fee_mode cfg) dir (sc_has_referral c)) (\<lambda>mode.
     and_then (process_swap_by_mode swap_mode
        \<lparr>psp_pool = s, psp_config = cfg, psp_fee_mode = mode, psp_trade_direction = dir,
         psp_current_point = sc_current_point c, psp_amount_0 = sp2_amount_0 (sc_params c),
         psp_amount_1 = sp2_amount_1 (sc_params c),
         psp_eligible_for_first_swap_with_min_fee = sc_eligible c\<rparr>) (\<lambda>res.
     let swap_result = get_swap_result (psr_swap_result res) in
     and_then
       (if sc_is_virtual c
        then apply_virtual_swap_result s cfg swap_result mode (sc_current_timestamp c)
        else apply_swap_result s cfg swap_result mode dir (sc_current_timestamp c)) (\<lambda>s.
     Ok (s, mode, res)))))"

lemmas [eval] = process_swap_exact_in_def process_swap_partial_fill_def process_swap_exact_out_def
  process_swap_by_mode_def execute_swap_def

section \<open>Fairness and slippage of the modes\<close>

lemma process_swap_by_mode_fair:
  assumes "process_swap_by_mode m p = Inr res" "config_ok (psp_config p)"
    "on_curve (psp_config p) (unat (pool_sqrt_price (psp_pool p)))"
  shows "swap_fair (psp_config p) (psp_fee_mode p) (psp_trade_direction p)
    (unat (pool_sqrt_price (psp_pool p))) (psr_swap_result res)"
  using assms
  by (cases m) (auto simp: process_swap_by_mode_def process_swap_exact_in_def
      process_swap_partial_fill_def process_swap_exact_out_def
      intro: exact_input_fair partial_input_fair exact_output_fair)

lemma update_pre_swap_same:
  "update_pre_swap s cfg now = Inr s' \<Longrightarrow> pool_sqrt_price s' = pool_sqrt_price s
    \<and> pool_base_reserve s' = pool_base_reserve s \<and> pool_quote_reserve s' = pool_quote_reserve s
    \<and> pool_virtual_quote_reserve s' = pool_virtual_quote_reserve s"
  by (auto simp: update_pre_swap_def split: if_splits)

lemma update_post_swap_same:
  "update_post_swap s cfg old now = Inr s' \<Longrightarrow> pool_sqrt_price s' = pool_sqrt_price s
    \<and> pool_base_reserve s' = pool_base_reserve s \<and> pool_quote_reserve s' = pool_quote_reserve s
    \<and> pool_virtual_quote_reserve s' = pool_virtual_quote_reserve s"
  by (auto simp: update_post_swap_def Let_def split: if_splits)

lemma collect_swap_fees_same:
  "collect_swap_fees s cfg r mode virtual = Inr s' \<Longrightarrow> pool_sqrt_price s' = pool_sqrt_price s
    \<and> pool_base_reserve s' = pool_base_reserve s \<and> pool_quote_reserve s' = pool_quote_reserve s
    \<and> pool_virtual_quote_reserve s' = pool_virtual_quote_reserve s"
  by (auto simp: collect_swap_fees_def split: if_splits)

lemma get_swap_result_sel [simp]:
  "sr_actual_input_amount (get_swap_result r) = s2_excluded_fee_input_amount r"
  "sr_output_amount (get_swap_result r) = s2_output_amount r"
  "sr_next_sqrt_price (get_swap_result r) = s2_next_sqrt_price r"
  "sr_trading_fee (get_swap_result r) = s2_trading_fee r"
  "sr_protocol_fee (get_swap_result r) = s2_protocol_fee r"
  "sr_referral_fee (get_swap_result r) = s2_referral_fee r"
  by (simp_all add: get_swap_result_def)

lemma apply_swap_effect:
  assumes "apply_swap_result_internal s cfg (get_swap_result r) mode dir now virtual = Inr s'"
  shows "pool_sqrt_price s' = s2_next_sqrt_price r \<and>
    (if dir = BaseToQuote then
       unat (pool_base_reserve s') = unat (pool_base_reserve s) + pool_in r
       \<and> unat (pool_quote_reserve s') + pool_out mode r = unat (pool_quote_reserve s)
       \<and> pool_virtual_quote_reserve s' = pool_virtual_quote_reserve s
     else
       unat (pool_quote_reserve s') + unat (pool_virtual_quote_reserve s')
         = unat (pool_quote_reserve s) + unat (pool_virtual_quote_reserve s) + pool_in r
       \<and> unat (pool_base_reserve s') + pool_out mode r = unat (pool_base_reserve s))"
proof -
  let ?s = "s\<lparr>pool_sqrt_price := s2_next_sqrt_price r\<rparr>"
  obtain s1 out s2 s3 where a:
    "collect_swap_fees ?s cfg (get_swap_result r) mode virtual = Inr s1"
    "(if fees_on_input mode then Inr (s2_output_amount r)
      else and_then (safe_add (s2_output_amount r) (s2_trading_fee r)) (\<lambda>a.
        and_then (safe_add a (s2_protocol_fee r)) (\<lambda>b. safe_add b (s2_referral_fee r)))) = Inr out"
    "(if dir = BaseToQuote then
        and_then (safe_add (pool_base_reserve s1) (s2_excluded_fee_input_amount r)) (\<lambda>base.
        and_then (safe_sub (pool_quote_reserve s1) out) (\<lambda>quote.
        Inr (s1\<lparr>pool_base_reserve := base, pool_quote_reserve := quote\<rparr>)))
      else if virtual then
        and_then (safe_add (pool_virtual_quote_reserve s1) (s2_excluded_fee_input_amount r)) (\<lambda>v.
        and_then (safe_sub (pool_base_reserve s1) out) (\<lambda>base.
        Inr (s1\<lparr>pool_virtual_quote_reserve := v, pool_base_reserve := base\<rparr>)))
      else
        and_then (safe_add (pool_quote_reserve s1) (s2_excluded_fee_input_amount r)) (\<lambda>quote.
        and_then (safe_sub (pool_base_reserve s1) out) (\<lambda>base.
        Inr (s1\<lparr>pool_quote_reserve := quote, pool_base_reserve := base\<rparr>)))) = Inr s2"
    "update_post_swap s2 cfg (pool_sqrt_price s) now = Inr s3"
    "s' = s3\<lparr>pool_has_swap := 1\<rparr>"
    using assms unfolding apply_swap_result_internal_def Let_def and_then_Ok_iff get_swap_result_sel by auto
  have out: "unat out = pool_out mode r"
    using a(2) by (auto simp: pool_out_def swap_fees_def split: if_splits)
  show ?thesis
    using a(3,5) collect_swap_fees_same [OF a(1)] update_post_swap_same [OF a(4)] out
    by (auto simp: pool_in_def split: if_splits)
qed

lemma execute_swap_parts:
  assumes "execute_swap s cfg m dir c = Inr (s', mode, res)" "config_ok cfg"
    "on_curve cfg (unat (pool_sqrt_price s))" "sc_is_virtual c \<longrightarrow> dir = QuoteToBase"
  shows "swap_fair cfg mode dir (unat (pool_sqrt_price s)) (psr_swap_result res)"
    and "pool_sqrt_price s' = s2_next_sqrt_price (psr_swap_result res) \<and>
      (if dir = BaseToQuote then
         unat (pool_base_reserve s') = unat (pool_base_reserve s) + pool_in (psr_swap_result res)
         \<and> unat (pool_quote_reserve s') + pool_out mode (psr_swap_result res) = unat (pool_quote_reserve s)
         \<and> pool_virtual_quote_reserve s' = pool_virtual_quote_reserve s
       else
         unat (pool_quote_reserve s') + unat (pool_virtual_quote_reserve s')
           = unat (pool_quote_reserve s) + unat (pool_virtual_quote_reserve s) + pool_in (psr_swap_result res)
         \<and> unat (pool_base_reserve s') + pool_out mode (psr_swap_result res) = unat (pool_base_reserve s))"
proof -
  obtain s1 p where e: "update_pre_swap s cfg (sc_current_timestamp c) = Inr s1"
    "process_swap_by_mode m p = Inr res" "psp_pool p = s1" "psp_config p = cfg" "psp_fee_mode p = mode"
    "psp_trade_direction p = dir"
    "apply_swap_result_internal s1 cfg (get_swap_result (psr_swap_result res)) mode dir
      (sc_current_timestamp c) (sc_is_virtual c) = Inr s'"
    using assms(1,4)
    by (cases "sc_is_virtual c")
      (auto simp: execute_swap_def Let_def apply_swap_result_def apply_virtual_swap_result_def)
  show "swap_fair cfg mode dir (unat (pool_sqrt_price s)) (psr_swap_result res)"
    using process_swap_by_mode_fair [OF e(2)] e(3-6) assms(2,3) update_pre_swap_same [OF e(1)] by simp
  show "pool_sqrt_price s' = s2_next_sqrt_price (psr_swap_result res) \<and>
      (if dir = BaseToQuote then
         unat (pool_base_reserve s') = unat (pool_base_reserve s) + pool_in (psr_swap_result res)
         \<and> unat (pool_quote_reserve s') + pool_out mode (psr_swap_result res) = unat (pool_quote_reserve s)
         \<and> pool_virtual_quote_reserve s' = pool_virtual_quote_reserve s
       else
         unat (pool_quote_reserve s') + unat (pool_virtual_quote_reserve s')
           = unat (pool_quote_reserve s) + unat (pool_virtual_quote_reserve s) + pool_in (psr_swap_result res)
         \<and> unat (pool_base_reserve s') + pool_out mode (psr_swap_result res) = unat (pool_base_reserve s))"
    using apply_swap_effect [OF e(7)] update_pre_swap_same [OF e(1)] by simp
qed

section \<open>Solvency\<close>

text \<open>
  A solvent pool has its price on the curve, its quote reserve (real and virtual)
  covers what the curve pays for selling the price back to the start, and its base
  reserve, counted with the base token that the curve has released, is at least \<open>k\<close>.
\<close>

definition solvent :: "pool_config \<Rightarrow> real \<Rightarrow> pool_state \<Rightarrow> bool" where
  "solvent cfg k s \<longleftrightarrow> on_curve cfg (unat (pool_sqrt_price s))
     \<and> curve_quote cfg (unat (pool_sqrt_price s))
       \<le> real (unat (pool_quote_reserve s) + unat (pool_virtual_quote_reserve s))
     \<and> k \<le> real (unat (pool_base_reserve s)) + curve_base cfg (unat (pool_sqrt_price s))"

section \<open>A round trip on the sample pool\<close>

definition fresh_pool :: pool_state where
  "fresh_pool = default_pool_state\<lparr>pool_sqrt_price := 18446744073709551616,
     pool_base_reserve := 1000000\<rparr>"

definition bought_pool :: pool_state where
  "bought_pool = fresh_pool\<lparr>pool_base_reserve := 909919, pool_quote_reserve := 99000,
     pool_protocol_quote_fee := 200, pool_partner_quote_fee := 400, pool_creator_quote_fee := 400,
     pool_sqrt_price := 20272971737006797225, pool_has_swap := 1,
     pool_metrics_of := \<lparr>pm_total_protocol_base_fee = 0, pm_total_protocol_quote_fee = 200,
       pm_total_trading_base_fee = 0, pm_total_trading_quote_fee = 800\<rparr>\<rparr>"

definition sold_pool :: pool_state where
  "sold_pool = fresh_pool\<lparr>pool_quote_reserve := 1,
     pool_protocol_quote_fee := 398, pool_partner_quote_fee := 796, pool_creator_quote_fee := 796,
     pool_sqrt_price := 18446760539835201823, pool_has_swap := 1,
     pool_metrics_of := \<lparr>pm_total_protocol_base_fee = 0, pm_total_protocol_quote_fee = 398,
       pm_total_trading_base_fee = 0, pm_total_trading_quote_fee = 1592\<rparr>\<rparr>"

definition sample_call :: "u64 \<Rightarrow> u64 \<Rightarrow> swap_call" where
  "sample_call a b = \<lparr>sc_params = \<lparr>sp2_amount_0 = a, sp2_amount_1 = b, sp2_swap_mode = 0\<rparr>,
     sc_is_virtual = False, sc_has_referral = False, sc_current_point = 10,
     sc_current_timestamp = 10, sc_eligible = False\<rparr>"

lemmas pool_sample_defs = fresh_pool_def bought_pool_def sold_pool_def default_pool_state_def
  sample_defs sample_call_def

lemma sample_config_ok [simp]: "config_ok sample_config"
  by (simp add: config_ok_def start_price_def last_price_def sample_defs unused_def)

lemma fresh_pool_on_curve [simp]: "on_curve sample_config (unat (pool_sqrt_price fresh_pool))"
  by (simp add: on_curve_def start_price_def last_price_def pool_sample_defs)

lemma buy_on_sample:
  "execute_swap fresh_pool sample_config ExactIn QuoteToBase (sample_call 100000 1)
  = Inr (bought_pool, \<lparr>fees_on_input = True, fees_on_base_token = False, has_referral = False\<rparr>,
      \<lparr>psr_swap_result = \<lparr>s2_included_fee_input_amount = 100000,
         s2_excluded_fee_input_amount = 99000, s2_amount_left = 0, s2_output_amount = 90081,
         s2_next_sqrt_price = 20272971737006797225,
         s2_trading_fee = 800, s2_protocol_fee = 200, s2_referral_fee = 0\<rparr>,
       psr_swap_in_parameters = \<lparr>sp_amount_in = 100000, sp_minimum_amount_out = 1\<rparr>\<rparr>)"
  by (simp add: eval and_then_def ok_or_def Let_def pool_sample_defs)

lemma sell_on_sample:
  "execute_swap bought_pool sample_config ExactIn BaseToQuote (sample_call 90081 1)
  = Inr (sold_pool, \<lparr>fees_on_input = False, fees_on_base_token = False, has_referral = False\<rparr>,
      \<lparr>psr_swap_result = \<lparr>s2_included_fee_input_amount = 90081,
         s2_excluded_fee_input_amount = 90081, s2_amount_left = 0, s2_output_amount = 98009,
         s2_next_sqrt_price = 18446760539835201823,
         s2_trading_fee = 792, s2_protocol_fee = 198, s2_referral_fee = 0\<rparr>,
       psr_swap_in_parameters = \<lparr>sp_amount_in = 90081, sp_minimum_amount_out = 1\<rparr>\<rparr>)"
  by (simp add: eval and_then_def ok_or_def Let_def pool_sample_defs)

lemma fresh_pool_solvent: "solvent sample_config 1000000 fresh_pool"
proof -
  have "curve_ok (start_price sample_config) (cfg_curve sample_config)"
    using sample_config_ok by (simp add: config_ok_def)
  moreover have "unat (pool_sqrt_price fresh_pool) = start_price sample_config"
    by (simp add: start_price_def pool_sample_defs)
  ultimately have "curve_quote sample_config (unat (pool_sqrt_price fresh_pool)) = 0"
    "curve_base sample_config (unat (pool_sqrt_price fresh_pool)) = 0"
    by (simp_all add: curve_quote_def curve_base_def value_at_start)
  moreover have "pool_base_reserve fresh_pool = 1000000" "pool_quote_reserve fresh_pool = 0"
    "pool_virtual_quote_reserve fresh_pool = 0" by (simp_all add: fresh_pool_def default_pool_state_def)
  ultimately show ?thesis by (simp add: solvent_def)
qed

lemma execute_swap_solvent:
  assumes "execute_swap s cfg m dir c = Inr (s', mode, res)" "config_ok cfg" "solvent cfg k s"
    "sc_is_virtual c \<longrightarrow> dir = QuoteToBase"
  shows "solvent cfg k s'"
proof -
  let ?r = "psr_swap_result res" and ?p = "unat (pool_sqrt_price s)" and ?q = "unat (pool_sqrt_price s')"
  have on: "on_curve cfg ?p" using assms(3) by (simp add: solvent_def)
  note parts = execute_swap_parts [OF assms(1,2) on assms(4)]
  have t: "trade cfg dir ?p ?q (real (pool_in ?r)) (real (pool_out mode ?r))"
    using parts by (simp add: swap_fair_def)
  show ?thesis
  proof (cases dir)
    case QuoteToBase
    then have b: "on_curve cfg ?q" "curve_quote cfg ?q - curve_quote cfg ?p \<le> real (pool_in ?r)"
      "real (pool_out mode ?r) \<le> curve_base cfg ?q - curve_base cfg ?p"
      using t dbc.buys_fair by fastforce+
    have "real (unat (pool_quote_reserve s') + unat (pool_virtual_quote_reserve s'))
        = real (unat (pool_quote_reserve s) + unat (pool_virtual_quote_reserve s)) + real (pool_in ?r)"
      "real (unat (pool_base_reserve s')) + real (pool_out mode ?r) = real (unat (pool_base_reserve s))"
      using parts(2) QuoteToBase by (simp_all only: of_nat_add [symmetric] simp_thms if_False trade_direction.distinct)
    then show ?thesis using b assms(3) unfolding solvent_def by linarith
  next
    case BaseToQuote
    then have b: "on_curve cfg ?q" "curve_base cfg ?p - curve_base cfg ?q \<le> real (pool_in ?r)"
      "real (pool_out mode ?r) \<le> curve_quote cfg ?p - curve_quote cfg ?q"
      using t dbc.sells_fair by fastforce+
    have n: "unat (pool_quote_reserve s') + unat (pool_virtual_quote_reserve s') + pool_out mode ?r
        = unat (pool_quote_reserve s) + unat (pool_virtual_quote_reserve s)"
      "unat (pool_base_reserve s') = unat (pool_base_reserve s) + pool_in ?r"
      using parts(2) BaseToQuote by simp_all
    have "real (unat (pool_quote_reserve s') + unat (pool_virtual_quote_reserve s')) + real (pool_out mode ?r)
        = real (unat (pool_quote_reserve s) + unat (pool_virtual_quote_reserve s))"
      "real (unat (pool_base_reserve s')) = real (unat (pool_base_reserve s)) + real (pool_in ?r)"
      by (simp_all only: n of_nat_add [symmetric])
    then show ?thesis using b assms(3) unfolding solvent_def by linarith
  qed
qed

text \<open>
  C2: swaps keep the pool solvent.  Whatever the mode, the direction, the fee
  configuration and the amounts, if a swap succeeds on a pool whose price is on
  the curve, whose quote reserves cover the curve's quote value and whose base
  reserve covers what the curve has still to release, then the same holds after
  it.
\<close>

theorem swap_keeps_pool_solvent:
  assumes "execute_swap s cfg m dir c = Inr (s', mode, res)" "config_ok cfg" "solvent cfg k s"
    "sc_is_virtual c \<longrightarrow> dir = QuoteToBase"
  shows "solvent cfg k s'"
  by (rule execute_swap_solvent [OF assms])

theorem swap_keeps_pool_solvent_witness: "solvent sample_config 1000000 bought_pool"
  by (rule swap_keeps_pool_solvent [OF buy_on_sample sample_config_ok fresh_pool_solvent])
    (simp add: sample_call_def)

section \<open>Sequences of swaps\<close>

text \<open>
  \<open>swap_run cfg s s' x y\<close>: a sequence of successful swaps leads from \<open>s\<close> to \<open>s'\<close>; over
  all of it the traders pay \<open>x\<close> of the quote token, with all fees, and receive \<open>y\<close> of
  the base token, both net.
\<close>

inductive swap_run :: "pool_config \<Rightarrow> pool_state \<Rightarrow> pool_state \<Rightarrow> real \<Rightarrow> real \<Rightarrow> bool" for cfg s where
  run_none: "swap_run cfg s s 0 0"
| run_buy: "swap_run cfg s t x y \<Longrightarrow> execute_swap t cfg m QuoteToBase c = Inr (t', mode, res) \<Longrightarrow>
    swap_run cfg s t' (x + real (unat (s2_included_fee_input_amount (psr_swap_result res))))
      (y + real (unat (s2_output_amount (psr_swap_result res))))"
| run_sell: "swap_run cfg s t x y \<Longrightarrow> execute_swap t cfg m BaseToQuote c = Inr (t', mode, res) \<Longrightarrow>
    \<not> sc_is_virtual c \<Longrightarrow>
    swap_run cfg s t' (x - real (unat (s2_output_amount (psr_swap_result res))))
      (y - real (unat (s2_included_fee_input_amount (psr_swap_result res))))"

lemma swap_run_trades:
  assumes "swap_run cfg s s' x y" "config_ok cfg" "on_curve cfg (unat (pool_sqrt_price s))"
  shows "on_curve cfg (unat (pool_sqrt_price s')) \<and>
    (\<exists>x' y'. dbc.trades cfg (unat (pool_sqrt_price s)) (unat (pool_sqrt_price s')) x' y' \<and> x' \<le> x \<and> y \<le> y')"
  using assms(1)
proof (induction rule: swap_run.induct)
  case run_none
  then show ?case using assms(3) dbc.trades.none by blast
next
  case (run_buy t x y m c t' mode res)
  let ?r = "psr_swap_result res"
  have on: "on_curve cfg (unat (pool_sqrt_price t))" using run_buy.IH by blast
  obtain x' y' where tr: "dbc.trades cfg (unat (pool_sqrt_price s)) (unat (pool_sqrt_price t)) x' y'"
    "x' \<le> x" "y \<le> y'" using run_buy.IH by blast
  note parts = execute_swap_parts [OF run_buy.hyps(2) assms(2) on]
  have b: "buy cfg (unat (pool_sqrt_price t)) (unat (pool_sqrt_price t')) (real (pool_in ?r)) (real (pool_out mode ?r))"
    using parts by (simp add: swap_fair_def)
  have "real (pool_in ?r) \<le> real (unat (s2_included_fee_input_amount ?r))"
    "real (unat (s2_output_amount ?r)) \<le> real (pool_out mode ?r)"
    using parts(1) by (simp_all add: swap_fair_def pool_out_def)
  moreover note dbc.trades.bought [OF tr(1) b]
  moreover have "on_curve cfg (unat (pool_sqrt_price t'))" using b by (simp add: buy_def)
  ultimately show ?case using tr(2,3)
    by (intro conjI exI [of _ "x' + real (pool_in ?r)"] exI [of _ "y' + real (pool_out mode ?r)"]) auto
next
  case (run_sell t x y m c t' mode res)
  let ?r = "psr_swap_result res"
  have on: "on_curve cfg (unat (pool_sqrt_price t))" using run_sell.IH by blast
  obtain x' y' where tr: "dbc.trades cfg (unat (pool_sqrt_price s)) (unat (pool_sqrt_price t)) x' y'"
    "x' \<le> x" "y \<le> y'" using run_sell.IH by blast
  note parts = execute_swap_parts [OF run_sell.hyps(2) assms(2) on]
  have b: "sell cfg (unat (pool_sqrt_price t)) (unat (pool_sqrt_price t')) (real (pool_in ?r)) (real (pool_out mode ?r))"
    using parts run_sell.hyps(3) by (simp add: swap_fair_def)
  have "real (pool_in ?r) \<le> real (unat (s2_included_fee_input_amount ?r))"
    "real (unat (s2_output_amount ?r)) \<le> real (pool_out mode ?r)"
    using parts(1) run_sell.hyps(3) by (simp_all add: swap_fair_def pool_out_def)
  moreover note dbc.trades.sold [OF tr(1) b]
  moreover have "on_curve cfg (unat (pool_sqrt_price t'))" using b by (simp add: sell_def)
  ultimately show ?case using tr(2,3)
    by (intro conjI exI [of _ "x' - real (pool_out mode ?r)"] exI [of _ "y' - real (pool_in ?r)"]) auto
qed

text \<open>
  C1: no sequence of swaps is a money pump.  However many swaps succeed, in both
  directions and all three modes, at any times and with any fees: if the traders
  together have not given back more of the base token than they received, they
  have paid at least as much of the quote token as they received, and the price
  has not fallen.  Buying and selling the same amount of base token never gains
  quote token.
\<close>

theorem swaps_make_no_money:
  assumes "swap_run cfg s s' x y" "config_ok cfg" "on_curve cfg (unat (pool_sqrt_price s))" "0 \<le> y"
  shows "0 \<le> x \<and> pool_sqrt_price s \<le> pool_sqrt_price s'"
proof -
  obtain x' y' where "dbc.trades cfg (unat (pool_sqrt_price s)) (unat (pool_sqrt_price s')) x' y'" "x' \<le> x" "y \<le> y'"
    using swap_run_trades [OF assms(1-3)] by blast
  then show ?thesis using dbc.no_money_pump [OF assms(2) _ assms(3), of "unat (pool_sqrt_price s')" x' y'] assms(4)
    by (auto simp: word_le_nat_alt)
qed

theorem swaps_make_no_money_witness:
  "swap_run sample_config fresh_pool sold_pool 1991 0 \<and> (0::real) \<le> 1991"
proof -
  have "swap_run sample_config fresh_pool bought_pool 100000 90081"
    using run_buy [OF run_none buy_on_sample] by simp
  from run_sell [OF this sell_on_sample]
  have r: "swap_run sample_config fresh_pool sold_pool 1991 0" by (simp add: sample_call_def)
  show ?thesis
    using swaps_make_no_money [OF r sample_config_ok fresh_pool_on_curve] r by simp
qed

text \<open>
  C3: the traders' limits are honoured.  An exact-in or partial-fill swap pays out
  at least the minimum, and an exact-in swap takes exactly the amount offered with
  nothing left over; an exact-out swap pays out exactly the requested amount and
  takes no more than the maximum.
\<close>

theorem swap_limits_honoured:
  assumes "process_swap_by_mode m p = Inr res"
  shows "case m of
      ExactIn \<Rightarrow> s2_included_fee_input_amount (psr_swap_result res) = psp_amount_0 p
        \<and> psp_amount_1 p \<le> s2_output_amount (psr_swap_result res)
        \<and> s2_amount_left (psr_swap_result res) = 0
    | PartialFill \<Rightarrow> psp_amount_1 p \<le> s2_output_amount (psr_swap_result res)
    | ExactOut \<Rightarrow> s2_output_amount (psr_swap_result res) = psp_amount_0 p
        \<and> s2_included_fee_input_amount (psr_swap_result res) \<le> psp_amount_1 p"
  using assms(1)
  by (cases m) (auto simp: process_swap_by_mode_def process_swap_exact_in_def
      process_swap_partial_fill_def process_swap_exact_out_def get_swap_result_from_exact_input_def
      get_swap_result_from_exact_output_def)

theorem swap_limits_honoured_witness:
  "\<exists>res. process_swap_by_mode ExactIn \<lparr>psp_pool = fresh_pool, psp_config = sample_config,
      psp_fee_mode = \<lparr>fees_on_input = True, fees_on_base_token = False, has_referral = False\<rparr>,
      psp_trade_direction = QuoteToBase, psp_current_point = 10, psp_amount_0 = 100000,
      psp_amount_1 = 1, psp_eligible_for_first_swap_with_min_fee = False\<rparr> = Inr res
    \<and> 1 \<le> s2_output_amount (psr_swap_result res)"
proof -
  let ?p = "\<lparr>psp_pool = fresh_pool, psp_config = sample_config,
      psp_fee_mode = \<lparr>fees_on_input = True, fees_on_base_token = False, has_referral = False\<rparr>,
      psp_trade_direction = QuoteToBase, psp_current_point = 10, psp_amount_0 = 100000,
      psp_amount_1 = 1, psp_eligible_for_first_swap_with_min_fee = False\<rparr>"
  have "is_ok (process_swap_by_mode ExactIn ?p)"
    by (simp add: eval and_then_def ok_or_def Let_def pool_sample_defs)
  then obtain res where r: "process_swap_by_mode ExactIn ?p = Inr res" by (auto simp: is_ok_iff)
  show ?thesis using swap_limits_honoured [OF r] r by simp
qed

end
