(* ===== verification/Swap_Instruction.thy ===== *)
theory Swap_Instruction
  imports Swap_Process Accounts
begin

text \<open>
  The swap instruction (\<open>instructions/swap/process_swap.rs\<close>, \<open>ix_swap.rs\<close>,
  \<open>ix_swap2_with_transfer_hook.rs\<close>): the guards before a swap, the inspection of the
  transaction's other instructions, the transfers, and the completion of the curve.
  A transaction is what the instructions sysvar and the runtime show of it.
\<close>

section \<open>Instructions of the transaction\<close>

record instruction =
  ins_program_id :: pubkey
  ins_accounts :: "pubkey list"
  ins_discriminator :: "u64 option"

record transaction =
  tx_instructions :: "instruction list"
  tx_current_index :: nat
  tx_stack_height :: nat
  tx_processed_siblings :: "instruction list"

definition load_instruction_at_checked :: "nat \<Rightarrow> transaction \<Rightarrow> instruction result" where
  "load_instruction_at_checked i tx =
     (if i < length (tx_instructions tx) then Ok (tx_instructions tx ! i) else Inl CallFailed)"

text \<open>
  The first eight bytes of the data are sliced and the third account is indexed
  without a check, which panics on shorter data or fewer accounts.
\<close>

definition discriminator_of :: "instruction \<Rightarrow> u64 result" where
  "discriminator_of ins = (case ins_discriminator ins of None \<Rightarrow> panic | Some d \<Rightarrow> Ok d)"

definition swap_discriminators :: "'r runtime \<Rightarrow> u64 list" where
  "swap_discriminators rt = map (rt_discriminator rt)
     [InstructionSwap, InstructionSwap2, InstructionSwap2WithTransferHook, InstructionVirtualSwap2]"

definition is_instruction_include_pool_swap ::
  "'r runtime \<Rightarrow> instruction \<Rightarrow> pubkey \<Rightarrow> bool result" where
  "is_instruction_include_pool_swap rt ins pool =
     and_then (discriminator_of ins) (\<lambda>disc.
     if disc \<in> set (swap_discriminators rt) then
       and_then (assert_that (2 < length (ins_accounts ins))) (\<lambda>_.
       Ok (ins_accounts ins ! 2 = pool))
     else Ok False)"

fun for_each :: "('a \<Rightarrow> unit result) \<Rightarrow> 'a list \<Rightarrow> unit result" where
  "for_each f [] = Ok ()"
| "for_each f (x # xs) = and_then (f x) (\<lambda>_. for_each f xs)"

definition refuse_pool_swap :: "'r runtime \<Rightarrow> pubkey \<Rightarrow> instruction \<Rightarrow> unit result" where
  "refuse_pool_swap rt pool ins =
     and_then (is_instruction_include_pool_swap rt ins pool) (\<lambda>swap.
     require (\<not> swap) FailToValidateSingleSwapInstruction)"

definition check_sibling :: "'r runtime \<Rightarrow> pubkey \<Rightarrow> instruction \<Rightarrow> unit result" where
  "check_sibling rt pool sibling =
     (if ins_program_id sibling = program_id then refuse_pool_swap rt pool sibling else Ok ())"

definition check_preceding :: "'r runtime \<Rightarrow> pubkey \<Rightarrow> transaction \<Rightarrow> nat \<Rightarrow> unit result" where
  "check_preceding rt pool tx i =
     and_then (load_instruction_at_checked i tx) (\<lambda>ins.
     if ins_program_id ins \<noteq> program_id then
       (if pool \<in> set (ins_accounts ins) then err FailToValidateSingleSwapInstruction else Ok ())
     else refuse_pool_swap rt pool ins)"

definition validate_single_swap_instruction ::
  "'r runtime \<Rightarrow> pubkey \<Rightarrow> transaction option \<Rightarrow> unit result" where
  "validate_single_swap_instruction rt pool sysvar =
     and_then (ok_or sysvar FailToValidateSingleSwapInstruction) (\<lambda>tx.
     let current_index = tx_current_index tx in
     and_then (load_instruction_at_checked current_index tx) (\<lambda>current_instruction.
     and_then
       (if ins_program_id current_instruction \<noteq> program_id then
          and_then (require (\<not> tx_stack_height tx > 2) FailToValidateSingleSwapInstruction) (\<lambda>_.
          for_each (check_sibling rt pool) (tx_processed_siblings tx))
        else Ok ()) (\<lambda>_.
     if current_index = 0 then Ok ()
     else for_each (check_preceding rt pool tx) [0..<current_index])))"

definition initialize_discriminators :: "'r runtime \<Rightarrow> u64 list" where
  "initialize_discriminators rt = map (rt_discriminator rt)
     [InstructionInitializeVirtualPoolWithSplToken, InstructionInitializeVirtualPoolWithToken2022,
      InstructionInitializeVirtualPoolWithToken2022TransferHook]"

fun find_initialize_pool ::
  "'r runtime \<Rightarrow> pubkey \<Rightarrow> transaction \<Rightarrow> nat list \<Rightarrow> unit result" where
  "find_initialize_pool rt pool tx [] = err UndeterminedError"
| "find_initialize_pool rt pool tx (i # is) =
     and_then (load_instruction_at_checked i tx) (\<lambda>ins.
     if ins_program_id ins = program_id then
       and_then (discriminator_of ins) (\<lambda>disc.
       if disc \<in> set (initialize_discriminators rt)
          \<and> 5 < length (ins_accounts ins) \<and> ins_accounts ins ! 5 = pool
       then Ok ()
       else find_initialize_pool rt pool tx is)
     else find_initialize_pool rt pool tx is)"

definition validate_contain_initialize_pool_ix_and_no_cpi ::
  "'r runtime \<Rightarrow> pubkey \<Rightarrow> bool \<Rightarrow> transaction option \<Rightarrow> unit result" where
  "validate_contain_initialize_pool_ix_and_no_cpi rt pool has_ref sysvar =
     and_then (require (\<not> has_ref) UndeterminedError) (\<lambda>_.
     and_then (ok_or sysvar UndeterminedError) (\<lambda>tx.
     let current_index = tx_current_index tx in
     and_then (load_instruction_at_checked current_index tx) (\<lambda>current_instruction.
     and_then (require (ins_program_id current_instruction = program_id) UndeterminedError) (\<lambda>_.
     find_initialize_pool rt pool tx [0..<current_index]))))"

section \<open>The accounts of a swap\<close>

record swap_accounts =
  swa_pool_authority :: pubkey
  swa_config :: account_info
  swa_pool :: account_info
  swa_input_token_account :: token_account
  swa_output_token_account :: pubkey
  swa_base_vault :: token_account
  swa_quote_vault :: token_account
  swa_base_mint :: mint_account
  swa_quote_mint :: mint_account
  swa_payer :: pubkey
  swa_token_base_program :: pubkey
  swa_token_quote_program :: pubkey
  swa_referral_token_account :: "pubkey option"
  swa_remaining_accounts :: "account_info list"

record curve_complete_event_data =
  cc_base_reserve :: u64
  cc_quote_reserve :: u64

record swap_event_data =
  ev_trade_direction :: trade_direction
  ev_has_referral :: bool
  ev_is_virtual :: bool
  ev_swap_parameters :: swap_parameters2
  ev_swap_result_2 :: swap_result2
  ev_swap_in_parameters :: swap_parameters
  ev_quote_reserve_amount :: u64
  ev_migration_threshold :: u64
  ev_current_timestamp :: u64
  ev_curve_complete :: "curve_complete_event_data option"

section \<open>The guards of a swap\<close>

record swap_guards =
  sg_swap_mode :: swap_mode
  sg_trade_direction :: trade_direction
  sg_extra_remaining_account_count :: nat
  sg_sysvar :: "transaction option"

definition trade_direction_of :: "swap_accounts \<Rightarrow> trade_direction" where
  "trade_direction_of a =
     (if ta_mint (swa_input_token_account a) = mint_key (swa_base_mint a)
      then BaseToQuote else QuoteToBase)"

definition check_remaining_accounts ::
  "'r runtime \<Rightarrow> swap_accounts \<Rightarrow> remaining_accounts_slice list \<Rightarrow> transaction
    \<Rightarrow> (nat \<times> transaction option) result" where
  "check_remaining_accounts rt a slices tx =
     (let transfer_hook_account_count = slice_total slices in
     and_then (if transfer_hook_account_count \<le> length (swa_remaining_accounts a)
       then Ok (length (swa_remaining_accounts a) - transfer_hook_account_count)
       else err MathOverflow) (\<lambda>extra.
     and_then (require (extra \<le> 1) InvalidRemainingAccountsLength) (\<lambda>_.
     if extra = 1 then
       and_then (require (ai_key (swa_remaining_accounts a ! 0) = rt_instructions_sysvar rt)
         InvalidInstructionsSysvar) (\<lambda>_.
       Ok (extra, Some tx))
     else Ok (extra, None))))"

definition check_swap ::
  "'r runtime \<Rightarrow> swap_accounts \<Rightarrow> pool_state \<Rightarrow> swap_parameters2 \<Rightarrow> bool
    \<Rightarrow> remaining_accounts_slice list \<Rightarrow> transaction \<Rightarrow> swap_guards result" where
  "check_swap rt a s params is_virtual slices tx =
     and_then (has_one (pool_base_vault s = ta_key (swa_base_vault a))) (\<lambda>_.
     and_then (has_one (pool_quote_vault s = ta_key (swa_quote_vault a))) (\<lambda>_.
     and_then (has_one (pool_config_key s = ai_key (swa_config a))) (\<lambda>_.
     and_then (load_config_account rt (swa_config a)) (\<lambda>_.
     and_then (ok_or (swap_mode_of (sp2_swap_mode params)) TypeCastFailed) (\<lambda>mode.
     let dir = trade_direction_of a in
     and_then (require (dir = QuoteToBase) SellDisabled) (\<lambda>_.
     and_then
       (if is_virtual then
          and_then (require (ta_mint (swa_input_token_account a) = mint_key (swa_quote_mint a))
            InvalidInput) (\<lambda>_.
          require (swa_referral_token_account a = None) InvalidInput)
        else Ok ()) (\<lambda>_.
     and_then (require (sp2_amount_0 params > 0) AmountIsZero) (\<lambda>_.
     and_then (check_remaining_accounts rt a slices tx) (\<lambda>(extra, sysvar).
     Ok \<lparr>sg_swap_mode = mode, sg_trade_direction = dir,
         sg_extra_remaining_account_count = extra, sg_sysvar = sysvar\<rparr>)))))))))"

definition check_single_swap ::
  "'r runtime \<Rightarrow> pool_config \<Rightarrow> pool_state \<Rightarrow> pubkey \<Rightarrow> u64 \<Rightarrow> trade_direction
    \<Rightarrow> transaction option \<Rightarrow> unit result" where
  "check_single_swap rt cfg s pool current_point dir sysvar =
     (case get_fee_rate_limiter (pf_base_fee (cfg_pool_fees cfg)) of
        Inl _ \<Rightarrow> Ok ()
      | Inr rate_limiter \<Rightarrow>
          and_then (is_rate_limiter_applied rate_limiter current_point (pool_activation_point s) dir)
            (\<lambda>applied.
          if applied then validate_single_swap_instruction rt pool sysvar else Ok ()))"

text \<open>\<open>is_ok\<close> of a computation that may panic: the panic ends the program.\<close>

definition try_is_ok :: "'a result \<Rightarrow> bool result" where
  "try_is_ok m = (case m of Inl e \<Rightarrow> if e = Panicked then panic else Ok False | Inr _ \<Rightarrow> Ok True)"

definition check_first_swap_with_min_fee ::
  "'r runtime \<Rightarrow> pool_config \<Rightarrow> pool_state \<Rightarrow> pubkey \<Rightarrow> bool \<Rightarrow> transaction option \<Rightarrow> bool result" where
  "check_first_swap_with_min_fee rt cfg s pool has_ref sysvar =
     (if is_first_swap_with_min_fee_enabled cfg \<and> is_first_swap s
      then try_is_ok (validate_contain_initialize_pool_ix_and_no_cpi rt pool has_ref sysvar)
      else Ok False)"

section \<open>Transfers\<close>

definition transfer_swap_tokens ::
  "'r runtime \<Rightarrow> swap_accounts \<Rightarrow> remaining_accounts_slice list \<Rightarrow> swap_guards \<Rightarrow> bool
    \<Rightarrow> fee_mode \<Rightarrow> swap_result2 \<Rightarrow> 'r \<Rightarrow> 'r result" where
  "transfer_swap_tokens rt a slices g is_virtual mode res r =
     and_then (parse_transfer_hook_accounts
        (drop (sg_extra_remaining_account_count g) (swa_remaining_accounts a)) slices
        [TransferHookBase, TransferHookBaseReferral]) (\<lambda>(_, parsed).
     let (token_in_mint, token_out_mint, input_vault, output_vault, input_program, output_program,
          hook_in, hook_out) =
       (case sg_trade_direction g of
          BaseToQuote \<Rightarrow> (swa_base_mint a, swa_quote_mint a, swa_base_vault a, swa_quote_vault a,
            swa_token_base_program a, swa_token_quote_program a, transfer_hook_base parsed, None)
        | QuoteToBase \<Rightarrow> (swa_quote_mint a, swa_base_mint a, swa_quote_vault a, swa_base_vault a,
            swa_token_quote_program a, swa_token_base_program a, None, transfer_hook_base parsed)) in
     and_then
       (if \<not> is_virtual then
          transfer_token_from_user rt (swa_payer a) token_in_mint
            (ta_key (swa_input_token_account a)) (ta_key input_vault) input_program
            (s2_included_fee_input_amount res) hook_in r
        else Ok r) (\<lambda>r.
     and_then
       (transfer_token_from_pool_authority rt token_out_mint (ta_key output_vault)
          (swa_output_token_account a) output_program (s2_output_amount res) hook_out r) (\<lambda>r.
     case swa_referral_token_account a of
       Some referral \<Rightarrow>
         if \<not> is_virtual \<and> s2_referral_fee res > 0 then
           if fees_on_base_token mode then
             transfer_token_from_pool_authority rt (swa_base_mint a) (ta_key (swa_base_vault a))
               referral (swa_token_base_program a) (s2_referral_fee res)
               (transfer_hook_base_referral parsed) r
           else
             transfer_token_from_pool_authority rt (swa_quote_mint a) (ta_key (swa_quote_vault a))
               referral (swa_token_quote_program a) (s2_referral_fee res) None r
         else Ok r
     | None \<Rightarrow> Ok r)))"

section \<open>Completion of the curve\<close>

definition revoke_transfer_hook ::
  "'r runtime \<Rightarrow> pubkey \<Rightarrow> pubkey \<Rightarrow> 'r \<Rightarrow> 'r result" where
  "revoke_transfer_hook rt token_program base_mint r =
     and_then (invoke rt (UpdateTransferHook token_program base_mint (rt_pool_authority rt) None) r) (\<lambda>r.
     invoke rt (SetAuthority token_program base_mint (rt_pool_authority rt) TransferHookProgramId None) r)"

definition complete_curve ::
  "'r runtime \<Rightarrow> swap_accounts \<Rightarrow> account_loader \<Rightarrow> pool_config \<Rightarrow> u64 \<Rightarrow> pool_state \<Rightarrow> 'r
    \<Rightarrow> (pool_state \<times> curve_complete_event_data option \<times> 'r) result" where
  "complete_curve rt a loader cfg current_timestamp s r =
     (if is_curve_complete s (cfg_migration_quote_threshold cfg) then
        let base_vault_balance = rt_token_amount rt (ta_key (swa_base_vault a)) r;
            locked_vesting_params = cfg_locked_vesting_config cfg in
        and_then (get_protocol_and_trading_base_fee s) (\<lambda>base_fee.
        and_then (safe_add (cfg_migration_base_threshold cfg) base_fee) (\<lambda>required.
        and_then (locked_vesting_total_amount locked_vesting_params) (\<lambda>vesting_amount.
        and_then (safe_add required vesting_amount) (\<lambda>required_base_balance.
        and_then (require (base_vault_balance \<ge> required_base_balance)
          InsufficientLiquidityForMigration) (\<lambda>_.
        let s = s\<lparr>pool_finish_curve_timestamp := current_timestamp\<rparr>;
            s = set_migration_progress s (migration_progress_code
                  (if has_vesting locked_vesting_params then PostBondingCurve else LockedVesting)) in
        and_then
          (if al_is_transfer_hook loader
           then revoke_transfer_hook rt (swa_token_base_program a) (mint_key (swa_base_mint a)) r
           else Ok r) (\<lambda>r.
        Ok (s, Some \<lparr>cc_base_reserve = pool_base_reserve s,
                     cc_quote_reserve = total_quote_reserve s\<rparr>, r)))))))
      else Ok (s, None, r))"

section \<open>The instruction\<close>

definition process_swap ::
  "'r runtime \<Rightarrow> clock \<Rightarrow> transaction \<Rightarrow> account_loader \<Rightarrow> swap_accounts \<Rightarrow> pool_config
    \<Rightarrow> swap_parameters2 \<Rightarrow> bool \<Rightarrow> remaining_accounts_slice list \<Rightarrow> pool_state \<Rightarrow> 'r
    \<Rightarrow> (pool_state \<times> swap_event_data \<times> 'r) result" where
  "process_swap rt clk tx loader a cfg params is_virtual slices s r =
     and_then (check_swap rt a s params is_virtual slices tx) (\<lambda>g.
     let has_ref = (\<not> is_virtual \<and> swa_referral_token_account a \<noteq> None);
         pool = ai_key (al_account_info loader) in
     and_then (get_current_point clk (cfg_activation_type cfg)) (\<lambda>current_point.
     and_then (check_single_swap rt cfg s pool current_point (sg_trade_direction g) (sg_sysvar g)) (\<lambda>_.
     and_then (check_first_swap_with_min_fee rt cfg s pool has_ref (sg_sysvar g)) (\<lambda>eligible.
     let current_timestamp = clk_unix_timestamp clk in
     and_then (require (\<not> is_sale_complete s (cfg_migration_quote_threshold cfg) current_timestamp)
       PoolIsCompleted) (\<lambda>_.
     and_then (execute_swap s cfg (sg_swap_mode g) (sg_trade_direction g)
       \<lparr>sc_params = params, sc_is_virtual = is_virtual, sc_has_referral = has_ref,
        sc_current_point = current_point, sc_current_timestamp = current_timestamp,
        sc_eligible = eligible\<rparr>) (\<lambda>(s, mode, res).
     and_then (transfer_swap_tokens rt a slices g is_virtual mode (psr_swap_result res) r) (\<lambda>r.
     and_then (complete_curve rt a loader cfg current_timestamp s r) (\<lambda>(s, complete, r).
     Ok (s, \<lparr>ev_trade_direction = sg_trade_direction g, ev_has_referral = has_ref,
             ev_is_virtual = is_virtual, ev_swap_parameters = params,
             ev_swap_result_2 = psr_swap_result res,
             ev_swap_in_parameters = psr_swap_in_parameters res,
             ev_quote_reserve_amount = total_quote_reserve s,
             ev_migration_threshold = cfg_migration_quote_threshold cfg,
             ev_current_timestamp = current_timestamp,
             ev_curve_complete = complete\<rparr>, r)))))))))"

text \<open>
  What the account lists of both swap instructions declare: the pool authority's
  address, and mint and token program of the two vaults.
\<close>

definition swap_accounts_ok :: "'r runtime \<Rightarrow> swap_accounts \<Rightarrow> bool" where
  "swap_accounts_ok rt a \<longleftrightarrow>
     swa_pool_authority a = rt_pool_authority rt
     \<and> ta_program (swa_base_vault a) = swa_token_base_program a
     \<and> ta_mint (swa_base_vault a) = mint_key (swa_base_mint a)
     \<and> ta_program (swa_quote_vault a) = swa_token_quote_program a
     \<and> ta_mint (swa_quote_vault a) = mint_key (swa_quote_mint a)"

definition handle_swap_wrapper ::
  "'r runtime \<Rightarrow> clock \<Rightarrow> transaction \<Rightarrow> swap_accounts \<Rightarrow> pool_config \<Rightarrow> swap_parameters2 \<Rightarrow> bool
    \<Rightarrow> pool_state \<Rightarrow> 'r \<Rightarrow> (pool_state \<times> swap_event_data \<times> 'r) result" where
  "handle_swap_wrapper rt clk tx a cfg params is_virtual s r =
     and_then (has_one (swap_accounts_ok rt a)) (\<lambda>_.
     and_then (load_pool_account rt (swa_pool a)) (\<lambda>loader.
     and_then (require (\<not> al_is_transfer_hook loader) PoolTypeMismatch) (\<lambda>_.
     process_swap rt clk tx loader a cfg params is_virtual [] s r)))"

definition handle_swap_with_transfer_hook_wrapper ::
  "'r runtime \<Rightarrow> clock \<Rightarrow> transaction \<Rightarrow> swap_accounts \<Rightarrow> pool_config \<Rightarrow> swap_parameters2
    \<Rightarrow> remaining_accounts_slice list \<Rightarrow> pool_state \<Rightarrow> 'r
    \<Rightarrow> (pool_state \<times> swap_event_data \<times> 'r) result" where
  "handle_swap_with_transfer_hook_wrapper rt clk tx a cfg params slices s r =
     and_then (has_one (swap_accounts_ok rt a)) (\<lambda>_.
     and_then (load_pool_account rt (swa_pool a)) (\<lambda>loader.
     and_then (require (al_is_transfer_hook loader) PoolTypeMismatch) (\<lambda>_.
     process_swap rt clk tx loader a cfg params False slices s r)))"

text \<open>The four entry points.\<close>

definition swap_entry ::
  "'r runtime \<Rightarrow> clock \<Rightarrow> transaction \<Rightarrow> swap_accounts \<Rightarrow> pool_config \<Rightarrow> swap_parameters
    \<Rightarrow> pool_state \<Rightarrow> 'r \<Rightarrow> (pool_state \<times> swap_event_data \<times> 'r) result" where
  "swap_entry rt clk tx a cfg params s r =
     handle_swap_wrapper rt clk tx a cfg
       \<lparr>sp2_amount_0 = sp_amount_in params, sp2_amount_1 = sp_minimum_amount_out params,
        sp2_swap_mode = 0\<rparr> False s r"

definition swap2_entry ::
  "'r runtime \<Rightarrow> clock \<Rightarrow> transaction \<Rightarrow> swap_accounts \<Rightarrow> pool_config \<Rightarrow> swap_parameters2
    \<Rightarrow> pool_state \<Rightarrow> 'r \<Rightarrow> (pool_state \<times> swap_event_data \<times> 'r) result" where
  "swap2_entry rt clk tx a cfg params s r = handle_swap_wrapper rt clk tx a cfg params False s r"

definition virtual_swap2_entry ::
  "'r runtime \<Rightarrow> clock \<Rightarrow> transaction \<Rightarrow> swap_accounts \<Rightarrow> pool_config \<Rightarrow> swap_parameters2
    \<Rightarrow> pool_state \<Rightarrow> 'r \<Rightarrow> (pool_state \<times> swap_event_data \<times> 'r) result" where
  "virtual_swap2_entry rt clk tx a cfg params s r =
     and_then (has_one (swap_accounts_ok rt a)) (\<lambda>_.
     and_then (is_virtual_swap_authority (swa_payer a)) (\<lambda>_.
     handle_swap_wrapper rt clk tx a cfg params True s r))"

lemmas swap_instruction_evals [eval] = swap_mode_of_def load_instruction_at_checked_def discriminator_of_def
  swap_discriminators_def is_instruction_include_pool_swap_def refuse_pool_swap_def
  check_sibling_def check_preceding_def validate_single_swap_instruction_def
  initialize_discriminators_def validate_contain_initialize_pool_ix_and_no_cpi_def
  trade_direction_of_def check_remaining_accounts_def check_swap_def check_single_swap_def
  try_is_ok_def check_first_swap_with_min_fee_def transfer_swap_tokens_def
  revoke_transfer_hook_def complete_curve_def process_swap_def swap_accounts_ok_def
  handle_swap_wrapper_def handle_swap_with_transfer_hook_wrapper_def swap_entry_def
  swap2_entry_def virtual_swap2_entry_def

section \<open>What a successful swap has passed\<close>

lemma process_swap_parts:
  assumes "process_swap rt clk tx loader a cfg params is_virtual slices s r = Inr (s', ev, r')"
  shows "\<exists>g point eligible s1 mode res r1.
    check_swap rt a s params is_virtual slices tx = Inr g
    \<and> get_current_point clk (cfg_activation_type cfg) = Inr point
    \<and> check_single_swap rt cfg s (ai_key (al_account_info loader)) point (sg_trade_direction g) (sg_sysvar g)
       = Inr ()
    \<and> check_first_swap_with_min_fee rt cfg s (ai_key (al_account_info loader))
       (\<not> is_virtual \<and> swa_referral_token_account a \<noteq> None) (sg_sysvar g) = Inr eligible
    \<and> \<not> is_sale_complete s (cfg_migration_quote_threshold cfg) (clk_unix_timestamp clk)
    \<and> execute_swap s cfg (sg_swap_mode g) (sg_trade_direction g)
       \<lparr>sc_params = params, sc_is_virtual = is_virtual,
        sc_has_referral = (\<not> is_virtual \<and> swa_referral_token_account a \<noteq> None),
        sc_current_point = point, sc_current_timestamp = clk_unix_timestamp clk,
        sc_eligible = eligible\<rparr> = Inr (s1, mode, res)
    \<and> transfer_swap_tokens rt a slices g is_virtual mode (psr_swap_result res) r = Inr r1
    \<and> complete_curve rt a loader cfg (clk_unix_timestamp clk) s1 r1 = Inr (s', ev_curve_complete ev, r')
    \<and> ev_trade_direction ev = sg_trade_direction g \<and> ev_swap_result_2 ev = psr_swap_result res"
proof -
  obtain g where g: "check_swap rt a s params is_virtual slices tx = Inr g"
    using assms unfolding process_swap_def and_then_Ok_iff by blast
  show ?thesis
    using assms unfolding process_swap_def g and_then_simps Let_def and_then_Ok_iff
      split_paired_Ex case_prod_conv
    by (elim exE conjE) (intro exI conjI, rule refl, assumption+, auto)
qed

lemma check_swap_parts:
  assumes "check_swap rt a s params is_virtual slices tx = Inr g"
  shows "pool_base_vault s = ta_key (swa_base_vault a)" "pool_quote_vault s = ta_key (swa_quote_vault a)"
    "pool_config_key s = ai_key (swa_config a)" "sg_trade_direction g = QuoteToBase"
    "trade_direction_of a = QuoteToBase" "0 < sp2_amount_0 params"
    "is_virtual \<Longrightarrow> swa_referral_token_account a = None"
    "check_remaining_accounts rt a slices tx = Inr (sg_extra_remaining_account_count g, sg_sysvar g)"
    "swap_mode_of (sp2_swap_mode params) = Some (sg_swap_mode g)"
  using assms unfolding check_swap_def Let_def by (auto split: if_splits)

section \<open>What a swap leaves alone\<close>

text \<open>The fields of the pool that only other instructions change.\<close>

definition frozen :: "pool_state \<Rightarrow> (pubkey \<times> pubkey \<times> pubkey \<times> pubkey \<times> pubkey) \<times> (u64 \<times> u8 \<times> u8) \<times>
    (u8 \<times> u8 \<times> u8 \<times> u8 \<times> u8) \<times> (u8 \<times> u8) \<times> (u16 \<times> u64 \<times> u64 \<times> u64)" where
  "frozen s = ((pool_config_key s, pool_creator s, pool_base_mint s, pool_base_vault s, pool_quote_vault s),
     (pool_activation_point s, pool_pool_type s, pool_is_migrated s),
     (pool_is_partner_withdraw_surplus s, pool_is_protocol_withdraw_surplus s,
      pool_is_withdraw_leftover s, pool_is_creator_withdraw_surplus s,
      pool_migration_fee_withdraw_status s),
     (pool_legacy_creation_fee_bits s, pool_creation_fee_bits s),
     (pool_protocol_liquidity_migration_fee_bps s, pool_protocol_migration_base_fee_amount s,
      pool_protocol_migration_quote_fee_amount s, pool_deadline_timestamp s))"

definition stage :: "pool_state \<Rightarrow> u8 \<times> u64" where
  "stage s = (pool_migration_progress s, pool_finish_curve_timestamp s)"

lemma frozen_updates [simp]:
  "frozen (s\<lparr>pool_volatility_tracker := x0\<rparr>) = frozen s" "stage (s\<lparr>pool_volatility_tracker := x0\<rparr>) = stage s"
  "frozen (s\<lparr>pool_sqrt_price := x1\<rparr>) = frozen s" "stage (s\<lparr>pool_sqrt_price := x1\<rparr>) = stage s"
  "frozen (s\<lparr>pool_has_swap := x2\<rparr>) = frozen s" "stage (s\<lparr>pool_has_swap := x2\<rparr>) = stage s"
  "frozen (s\<lparr>pool_base_reserve := x3\<rparr>) = frozen s" "stage (s\<lparr>pool_base_reserve := x3\<rparr>) = stage s"
  "frozen (s\<lparr>pool_quote_reserve := x4\<rparr>) = frozen s" "stage (s\<lparr>pool_quote_reserve := x4\<rparr>) = stage s"
  "frozen (s\<lparr>pool_virtual_quote_reserve := x5\<rparr>) = frozen s" "stage (s\<lparr>pool_virtual_quote_reserve := x5\<rparr>) = stage s"
  "frozen (s\<lparr>pool_partner_base_fee := x6\<rparr>) = frozen s" "stage (s\<lparr>pool_partner_base_fee := x6\<rparr>) = stage s"
  "frozen (s\<lparr>pool_protocol_base_fee := x7\<rparr>) = frozen s" "stage (s\<lparr>pool_protocol_base_fee := x7\<rparr>) = stage s"
  "frozen (s\<lparr>pool_creator_base_fee := x8\<rparr>) = frozen s" "stage (s\<lparr>pool_creator_base_fee := x8\<rparr>) = stage s"
  "frozen (s\<lparr>pool_partner_quote_fee := x9\<rparr>) = frozen s" "stage (s\<lparr>pool_partner_quote_fee := x9\<rparr>) = stage s"
  "frozen (s\<lparr>pool_protocol_quote_fee := x10\<rparr>) = frozen s" "stage (s\<lparr>pool_protocol_quote_fee := x10\<rparr>) = stage s"
  "frozen (s\<lparr>pool_creator_quote_fee := x11\<rparr>) = frozen s" "stage (s\<lparr>pool_creator_quote_fee := x11\<rparr>) = stage s"
  "frozen (s\<lparr>pool_metrics_of := x12\<rparr>) = frozen s" "stage (s\<lparr>pool_metrics_of := x12\<rparr>) = stage s"
  by (simp_all add: frozen_def stage_def)

lemma update_pre_swap_frozen:
  "update_pre_swap s cfg now = Inr s' \<Longrightarrow> frozen s' = frozen s \<and> stage s' = stage s"
  by (auto simp: update_pre_swap_def split: if_splits)

lemma update_post_swap_frozen:
  "update_post_swap s cfg old now = Inr s' \<Longrightarrow> frozen s' = frozen s \<and> stage s' = stage s"
  by (auto simp: update_post_swap_def Let_def split: if_splits)

lemma collect_swap_fees_frozen:
  "collect_swap_fees s cfg r mode virtual = Inr s' \<Longrightarrow> frozen s' = frozen s \<and> stage s' = stage s"
  by (auto simp: collect_swap_fees_def  split: if_splits)

lemma apply_swap_result_internal_frozen:
  assumes "apply_swap_result_internal s cfg r mode dir now virtual = Inr s'"
  shows "frozen s' = frozen s \<and> stage s' = stage s"
proof -
  obtain s1 out s2 s3 where a:
    "collect_swap_fees (s\<lparr>pool_sqrt_price := sr_next_sqrt_price r\<rparr>) cfg r mode virtual = Inr s1"
    "(if dir = BaseToQuote then
        and_then (safe_add (pool_base_reserve s1) (sr_actual_input_amount r)) (\<lambda>base.
        and_then (safe_sub (pool_quote_reserve s1) out) (\<lambda>quote.
        Inr (s1\<lparr>pool_base_reserve := base, pool_quote_reserve := quote\<rparr>)))
      else if virtual then
        and_then (safe_add (pool_virtual_quote_reserve s1) (sr_actual_input_amount r)) (\<lambda>v.
        and_then (safe_sub (pool_base_reserve s1) out) (\<lambda>base.
        Inr (s1\<lparr>pool_virtual_quote_reserve := v, pool_base_reserve := base\<rparr>)))
      else
        and_then (safe_add (pool_quote_reserve s1) (sr_actual_input_amount r)) (\<lambda>quote.
        and_then (safe_sub (pool_base_reserve s1) out) (\<lambda>base.
        Inr (s1\<lparr>pool_quote_reserve := quote, pool_base_reserve := base\<rparr>)))) = Inr s2"
    "update_post_swap s2 cfg (pool_sqrt_price s) now = Inr s3"
    "s' = s3\<lparr>pool_has_swap := 1\<rparr>"
    using assms unfolding apply_swap_result_internal_def Let_def and_then_Ok_iff by auto
  have "frozen s2 = frozen s1 \<and> stage s2 = stage s1"
    using a(2) by (auto split: if_splits)
  then show ?thesis
    using collect_swap_fees_frozen [OF a(1)] update_post_swap_frozen [OF a(3)] a(4) by simp
qed

lemma execute_swap_frozen:
  assumes "execute_swap s cfg m dir c = Inr (s', mode, res)"
  shows "frozen s' = frozen s \<and> stage s' = stage s"
proof -
  obtain s1 d r md virtual where "update_pre_swap s cfg (sc_current_timestamp c) = Inr s1"
    "apply_swap_result_internal s1 cfg r md d (sc_current_timestamp c) virtual = Inr s'"
    using assms
    by (cases "sc_is_virtual c")
      (auto simp: execute_swap_def Let_def apply_swap_result_def apply_virtual_swap_result_def)
  then show ?thesis
    using update_pre_swap_frozen apply_swap_result_internal_frozen by metis
qed

text \<open>Completion changes only progress and finish time.\<close>

lemma complete_curve_open:
  assumes "\<not> is_curve_complete s (cfg_migration_quote_threshold cfg)"
  shows "complete_curve rt a loader cfg now s r = Inr (s, None, r)"
  using assms by (simp add: complete_curve_def)

lemma complete_curve_complete:
  assumes "complete_curve rt a loader cfg now s r = Inr (s', ev, r')"
    "is_curve_complete s (cfg_migration_quote_threshold cfg)"
  shows "\<exists>fee vest. get_protocol_and_trading_base_fee s = Inr fee
    \<and> locked_vesting_total_amount (cfg_locked_vesting_config cfg) = Inr vest
    \<and> unat (cfg_migration_base_threshold cfg) + unat fee + unat vest
        \<le> unat (rt_token_amount rt (ta_key (swa_base_vault a)) r)
    \<and> s' = s\<lparr>pool_finish_curve_timestamp := now, pool_migration_progress := migration_progress_code
          (if has_vesting (cfg_locked_vesting_config cfg) then PostBondingCurve else LockedVesting)\<rparr>
    \<and> ev \<noteq> None
    \<and> (if al_is_transfer_hook loader
       then revoke_transfer_hook rt (swa_token_base_program a) (mint_key (swa_base_mint a)) r = Inr r'
       else r' = r)"
proof -
  obtain fee q vest req where e: "get_protocol_and_trading_base_fee s = Inr fee"
    "safe_add (cfg_migration_base_threshold cfg) fee = Inr q"
    "locked_vesting_total_amount (cfg_locked_vesting_config cfg) = Inr vest"
    "safe_add q vest = Inr req" "req \<le> rt_token_amount rt (ta_key (swa_base_vault a)) r"
    using assms unfolding complete_curve_def Let_def by (auto simp del: safe_add_Ok)
  have "unat (cfg_migration_base_threshold cfg) + unat fee + unat vest
      \<le> unat (rt_token_amount rt (ta_key (swa_base_vault a)) r)"
    using e(2,4,5) by (auto simp: word_le_nat_alt)
  moreover have "s' = s\<lparr>pool_finish_curve_timestamp := now, pool_migration_progress := migration_progress_code
      (if has_vesting (cfg_locked_vesting_config cfg) then PostBondingCurve else LockedVesting)\<rparr> \<and> ev \<noteq> None
    \<and> (if al_is_transfer_hook loader
       then revoke_transfer_hook rt (swa_token_base_program a) (mint_key (swa_base_mint a)) r = Inr r'
       else r' = r)"
    using assms e unfolding complete_curve_def Let_def set_migration_progress_def
    by (auto simp del: safe_add_Ok split: if_splits)
  ultimately show ?thesis using e(1,3) by blast
qed

end
