(* ===== verification/Swap_Guards.thy ===== *)
theory Swap_Guards
  imports Swap_Instruction Sample_Runtime
begin

text \<open>
  What the guards of the swap instruction guarantee: sales and completed pools are
  refused, one rate limited swap per transaction, the minimum fee only after the
  initialization of the pool in the same transaction, and enough base tokens for
  the migration when the curve completes.
\<close>

section \<open>The accounts of a swap\<close>

text \<open>The accounts of a swap on the pool with key 10, with vaults 11 and 12.\<close>

definition sample_accounts :: swap_accounts where
  "sample_accounts = \<lparr>swa_pool_authority = 104, swa_config = sample_config_account,
     swa_pool = sample_pool_account,
     swa_input_token_account = \<lparr>ta_key = 31, ta_mint = 1, ta_program = 101, ta_authority = 30, ta_amount = 0\<rparr>,
     swa_output_token_account = 32,
     swa_base_vault = \<lparr>ta_key = 11, ta_mint = 5, ta_program = 101, ta_authority = 104, ta_amount = 0\<rparr>,
     swa_quote_vault = \<lparr>ta_key = 12, ta_mint = 1, ta_program = 101, ta_authority = 104, ta_amount = 0\<rparr>,
     swa_base_mint = \<lparr>mint_key = 5, mint_program = 101, mint_hook_program = None\<rparr>,
     swa_quote_mint = \<lparr>mint_key = 1, mint_program = 101, mint_hook_program = None\<rparr>,
     swa_payer = 30, swa_token_base_program = 101, swa_token_quote_program = 101,
     swa_referral_token_account = None, swa_remaining_accounts = []\<rparr>"

definition sample_loader :: account_loader where
  "sample_loader = \<lparr>al_account_info = sample_pool_account, al_is_transfer_hook = False\<rparr>"

definition sample_transaction :: transaction where
  "sample_transaction = \<lparr>tx_instructions =
     [\<lparr>ins_program_id = program_id, ins_accounts = [0, 0, 0, 0, 0, 10], ins_discriminator = Some 9\<rparr>,
      \<lparr>ins_program_id = program_id, ins_accounts = [104, 20, 10], ins_discriminator = Some 6\<rparr>],
     tx_current_index = 1, tx_stack_height = 1, tx_processed_siblings = []\<rparr>"

definition sample_params :: "u64 \<Rightarrow> u64 \<Rightarrow> swap_parameters2" where
  "sample_params a b = \<lparr>sp2_amount_0 = a, sp2_amount_1 = b, sp2_swap_mode = 1\<rparr>"

lemmas instruction_sample_defs = runtime_sample_defs sample_accounts_def sample_loader_def
  sample_transaction_def sample_params_def

section \<open>A swap that completes the curve\<close>

definition sold_out_pool :: pool_state where
  "sold_out_pool = (keyed fresh_pool)\<lparr>pool_base_reserve := 333334, pool_quote_reserve := 2000000,
     pool_protocol_quote_fee := 4040, pool_partner_quote_fee := 8082, pool_creator_quote_fee := 8081,
     pool_sqrt_price := 55340232221128654848, pool_has_swap := 1,
     pool_metrics_of := \<lparr>pm_total_protocol_base_fee = 0, pm_total_protocol_quote_fee = 4040,
       pm_total_trading_base_fee = 0, pm_total_trading_quote_fee = 16163\<rparr>\<rparr>"

definition completed_pool :: pool_state where
  "completed_pool = sold_out_pool\<lparr>pool_migration_progress := 2, pool_finish_curve_timestamp := 10\<rparr>"

definition sample_swap_result :: swap_result2 where
  "sample_swap_result = \<lparr>s2_included_fee_input_amount = 2020203,
     s2_excluded_fee_input_amount = 2000000, s2_amount_left = 79000, s2_output_amount = 666666,
     s2_next_sqrt_price = 55340232221128654848, s2_trading_fee = 16163, s2_protocol_fee = 4040,
     s2_referral_fee = 0\<rparr>"

definition sample_event :: swap_event_data where
  "sample_event = \<lparr>ev_trade_direction = QuoteToBase, ev_has_referral = False, ev_is_virtual = False,
     ev_swap_parameters = sample_params 2100000 1, ev_swap_result_2 = sample_swap_result,
     ev_swap_in_parameters = \<lparr>sp_amount_in = 2020203, sp_minimum_amount_out = 666666\<rparr>,
     ev_quote_reserve_amount = 2000000, ev_migration_threshold = 2000000,
     ev_current_timestamp = 10,
     ev_curve_complete = Some \<lparr>cc_base_reserve = 333334, cc_quote_reserve = 2000000\<rparr>\<rparr>"

lemma completing_check:
  "check_swap ledger_runtime sample_accounts (keyed fresh_pool) (sample_params 2100000 1) False []
     sample_transaction
   = Inr \<lparr>sg_swap_mode = PartialFill, sg_trade_direction = QuoteToBase,
          sg_extra_remaining_account_count = 0, sg_sysvar = None\<rparr>"
  by (simp add: eval and_then_def ok_or_def has_one_def require_def Let_def pool_sample_defs
      instruction_sample_defs)

lemma completing_execution:
  "execute_swap (keyed fresh_pool) sample_config PartialFill QuoteToBase
     \<lparr>sc_params = sample_params 2100000 1, sc_is_virtual = False, sc_has_referral = False,
      sc_current_point = 10, sc_current_timestamp = 10, sc_eligible = False\<rparr>
   = Inr (sold_out_pool, \<lparr>fees_on_input = True, fees_on_base_token = False, has_referral = False\<rparr>,
       \<lparr>psr_swap_result = sample_swap_result,
        psr_swap_in_parameters = \<lparr>sp_amount_in = 2020203, sp_minimum_amount_out = 666666\<rparr>\<rparr>)"
  by (simp add: eval and_then_def ok_or_def Let_def pool_sample_defs sold_out_pool_def
      sample_swap_result_def instruction_sample_defs)

lemma completing_guards:
  "get_current_point sample_clock (cfg_activation_type sample_config) = Inr 10"
  "check_single_swap rt sample_config s k p d v = Inr ()"
  "check_first_swap_with_min_fee rt sample_config s k b v = Inr False"
  "\<not> is_sale_complete (keyed fresh_pool) (cfg_migration_quote_threshold sample_config) 10"
  by (simp_all add: eval and_then_def ok_or_def Let_def pool_sample_defs instruction_sample_defs
      is_sale_complete_def is_curve_complete_def is_deadline_reached_def total_quote_reserve_def)

lemma sample_selectors [simp]:
  "clk_unix_timestamp sample_clock = 10" "swa_referral_token_account sample_accounts = None"
  "pool_base_reserve completed_pool = 333334" "total_quote_reserve completed_pool = 2000000"
  "cfg_migration_quote_threshold sample_config = 2000000"
  by (simp_all add: instruction_sample_defs completed_pool_def sold_out_pool_def pool_sample_defs
      total_quote_reserve_def saturating_add_def)

lemma completing_transfers:
  "transfer_swap_tokens ledger_runtime sample_accounts []
     \<lparr>sg_swap_mode = PartialFill, sg_trade_direction = QuoteToBase,
      sg_extra_remaining_account_count = 0, sg_sysvar = None\<rparr>
     False mode sample_swap_result sample_balances
   = Inr (sample_balances(31 := 2979797, 12 := 2020203, 11 := 333334, 32 := 666666))"
  by (simp add: eval and_then_def require_def sample_swap_result_def instruction_sample_defs fun_eq_iff)

lemma completing_completion:
  "complete_curve ledger_runtime sample_accounts sample_loader sample_config 10 sold_out_pool
     (sample_balances(31 := 2979797, 12 := 2020203, 11 := 333334, 32 := 666666))
   = Inr (completed_pool, Some \<lparr>cc_base_reserve = 333334, cc_quote_reserve = 2000000\<rparr>,
       sample_balances(31 := 2979797, 12 := 2020203, 11 := 333334, 32 := 666666))"
  by (simp add: eval and_then_def require_def Let_def pool_sample_defs sold_out_pool_def
      completed_pool_def instruction_sample_defs is_curve_complete_def total_quote_reserve_def
      set_migration_progress_def get_protocol_and_trading_base_fee_def saturating_add_def
      sample_config_def)

lemma completing_swap:
  "process_swap ledger_runtime sample_clock sample_transaction sample_loader sample_accounts
     sample_config (sample_params 2100000 1) False [] (keyed fresh_pool) sample_balances
   = Inr (completed_pool, sample_event,
       sample_balances(31 := 2979797, 12 := 2020203, 11 := 333334, 32 := 666666))"
  unfolding process_swap_def completing_check and_then_simps Let_def completing_guards
  using completing_guards(4)
  by (simp add: completing_execution completing_transfers completing_completion sample_event_def)

section \<open>Sales and completed pools\<close>



text \<open>
  C15: every attempt to sell is refused.  With an input account of the base token the
  instruction always fails: with a constraint on the pool's vaults and
  configuration, with an invalid configuration account or mode, and with
  \<open>SellDisabled\<close> when all of these are in order.
\<close>

theorem sales_always_refused:
  assumes "ta_mint (swa_input_token_account a) = mint_key (swa_base_mint a)"
  shows "process_swap rt clk tx loader a cfg params is_virtual slices s r
      \<in> Inl ` {ConstraintViolated, Pool InvalidConfigAccount, Pool TypeCastFailed, Pool SellDisabled}
    \<and> (pool_base_vault s = ta_key (swa_base_vault a) \<and> pool_quote_vault s = ta_key (swa_quote_vault a)
      \<and> pool_config_key s = ai_key (swa_config a) \<and> load_config_account rt (swa_config a) = Inr l
      \<and> swap_mode_of (sp2_swap_mode params) = Some m
      \<longrightarrow> process_swap rt clk tx loader a cfg params is_virtual slices s r = Inl (Pool SellDisabled))"
  using assms
  by (auto simp: process_swap_def check_swap_def has_one_def trade_direction_of_def ok_or_def
      and_then_def load_config_account_def require_def Let_def split: if_splits option.splits)

definition selling_accounts :: swap_accounts where
  "selling_accounts = sample_accounts\<lparr>swa_input_token_account :=
     \<lparr>ta_key = 31, ta_mint = 5, ta_program = 101, ta_authority = 30, ta_amount = 0\<rparr>\<rparr>"

theorem sales_always_refused_witness:
  "process_swap ledger_runtime sample_clock sample_transaction sample_loader selling_accounts
     sample_config (sample_params 100 1) False [] (keyed fresh_pool) sample_balances
   = Inl (Pool SellDisabled)"
proof -
  have "ta_mint (swa_input_token_account selling_accounts) = mint_key (swa_base_mint selling_accounts)"
    by (simp add: selling_accounts_def instruction_sample_defs)
  moreover have "pool_base_vault (keyed fresh_pool) = ta_key (swa_base_vault selling_accounts)
      \<and> pool_quote_vault (keyed fresh_pool) = ta_key (swa_quote_vault selling_accounts)
      \<and> pool_config_key (keyed fresh_pool) = ai_key (swa_config selling_accounts)
      \<and> load_config_account ledger_runtime (swa_config selling_accounts)
          = Inr \<lparr>al_account_info = sample_config_account, al_is_transfer_hook = False\<rparr>
      \<and> swap_mode_of (sp2_swap_mode (sample_params 100 1)) = Some PartialFill"
    by (simp add: selling_accounts_def instruction_sample_defs eval)
  ultimately show ?thesis by (rule sales_always_refused [THEN conjunct2, THEN mp])
qed

section \<open>Completion\<close>

lemma get_protocol_and_trading_base_fee_unat:
  "get_protocol_and_trading_base_fee s = Inr fee \<Longrightarrow> unat fee =
    unat (pool_partner_base_fee s) + unat (pool_protocol_base_fee s) + unat (pool_creator_base_fee s)"
  by (auto simp: get_protocol_and_trading_base_fee_def)

text \<open>
  C14: a swap that completes the curve leaves enough base tokens for the migration.
  When the total quote reserve after a successful swap has reached the threshold,
  the base vault holds the migration amount, all fees in base token and the locked
  vesting amount, the time is recorded, and the pool waits for the vesting escrow
  if there is one and for the migration otherwise; otherwise finish time and
  progress are unchanged.
\<close>

theorem completion_is_covered:
  assumes "process_swap rt clk tx loader a cfg params is_virtual slices s r = Inr (s', ev, r')"
    "\<And>p m k b b'. rt_invoke rt (UpdateTransferHook p m k None) b = Some b'
       \<Longrightarrow> rt_token_amount rt (ta_key (swa_base_vault a)) b' = rt_token_amount rt (ta_key (swa_base_vault a)) b"
    "\<And>p m k b b'. rt_invoke rt (SetAuthority p m k TransferHookProgramId None) b = Some b'
       \<Longrightarrow> rt_token_amount rt (ta_key (swa_base_vault a)) b' = rt_token_amount rt (ta_key (swa_base_vault a)) b"
  shows "if cfg_migration_quote_threshold cfg \<le> total_quote_reserve s' then
      unat (cfg_migration_base_threshold cfg)
        + unat (pool_partner_base_fee s') + unat (pool_protocol_base_fee s') + unat (pool_creator_base_fee s')
        + unat (lv_cliff_unlock_amount (cfg_locked_vesting_config cfg))
        + unat (lv_amount_per_period (cfg_locked_vesting_config cfg))
          * unat (lv_number_of_period (cfg_locked_vesting_config cfg))
        \<le> unat (rt_token_amount rt (ta_key (swa_base_vault a)) r')
      \<and> pool_finish_curve_timestamp s' = clk_unix_timestamp clk
      \<and> get_migration_progress s' = Inr (if has_vesting (cfg_locked_vesting_config cfg)
          then PostBondingCurve else LockedVesting)
    else pool_finish_curve_timestamp s' = pool_finish_curve_timestamp s
      \<and> pool_migration_progress s' = pool_migration_progress s"
proof -
  obtain m d c s1 mode res r1 where p: "execute_swap s cfg m d c = Inr (s1, mode, res)"
    "complete_curve rt a loader cfg (clk_unix_timestamp clk) s1 r1 = Inr (s', ev_curve_complete ev, r')"
    using process_swap_parts [OF assms(1)] by blast
  note fr = execute_swap_frozen [OF p(1)]
  show ?thesis
  proof (cases "is_curve_complete s1 (cfg_migration_quote_threshold cfg)")
    case False
    then have "s' = s1" using p(2) by (simp add: complete_curve_open)
    then show ?thesis using False fr by (auto simp: is_curve_complete_def stage_def)
  next
    case True
    obtain fee vest where f: "get_protocol_and_trading_base_fee s1 = Inr fee"
      "locked_vesting_total_amount (cfg_locked_vesting_config cfg) = Inr vest"
      "unat (cfg_migration_base_threshold cfg) + unat fee + unat vest
        \<le> unat (rt_token_amount rt (ta_key (swa_base_vault a)) r1)"
      and s': "s' = s1\<lparr>pool_finish_curve_timestamp := clk_unix_timestamp clk, pool_migration_progress :=
        migration_progress_code (if has_vesting (cfg_locked_vesting_config cfg) then PostBondingCurve
          else LockedVesting)\<rparr>"
      and r': "if al_is_transfer_hook loader
        then revoke_transfer_hook rt (swa_token_base_program a) (mint_key (swa_base_mint a)) r1 = Inr r'
        else r' = r1"
      using complete_curve_complete [OF p(2) True] by blast
    have "rt_token_amount rt (ta_key (swa_base_vault a)) r' = rt_token_amount rt (ta_key (swa_base_vault a)) r1"
      using r' assms(2,3) by (auto simp: revoke_transfer_hook_def split: if_splits)
    moreover have "total_quote_reserve s' = total_quote_reserve s1"
      by (simp add: s' total_quote_reserve_def)
    ultimately show ?thesis
      using True f(3) locked_vesting_total_amount_unat [OF f(2)] get_protocol_and_trading_base_fee_unat [OF f(1)]
      by (simp add: is_curve_complete_def get_migration_progress_def s')
  qed
qed

theorem completion_is_covered_witness:
  "get_migration_progress completed_pool = Inr LockedVesting \<and> pool_finish_curve_timestamp completed_pool = 10"
  using completion_is_covered [OF completing_swap]
  by (simp add: ledger_runtime_def ledger_invoke_def sample_config_def has_vesting_def
      default_locked_vesting_def)

section \<open>The other instructions of the transaction\<close>

lemma for_each_Ok_iff [simp]: "for_each f xs = Inr u \<longleftrightarrow> (\<forall>x\<in>set xs. f x = Inr ())"
  by (induction xs) auto

definition swaps_pool :: "'r runtime \<Rightarrow> pubkey \<Rightarrow> instruction \<Rightarrow> bool" where
  "swaps_pool rt pool ins \<longleftrightarrow> ins_program_id ins = program_id
     \<and> (\<exists>d\<in>set (swap_discriminators rt). ins_discriminator ins = Some d) \<and> ins_accounts ins ! 2 = pool"

definition initializes_pool :: "'r runtime \<Rightarrow> pubkey \<Rightarrow> instruction \<Rightarrow> bool" where
  "initializes_pool rt pool ins \<longleftrightarrow> ins_program_id ins = program_id
     \<and> (\<exists>d\<in>set (initialize_discriminators rt). ins_discriminator ins = Some d)
     \<and> 5 < length (ins_accounts ins) \<and> ins_accounts ins ! 5 = pool"

lemma swaps_pool_program: "swaps_pool rt pool ins \<Longrightarrow> ins_program_id ins = program_id"
  by (simp add: swaps_pool_def)

lemma refuse_pool_swap_Ok:
  "refuse_pool_swap rt pool ins = Inr u \<Longrightarrow> \<not> swaps_pool rt pool ins"
  by (auto simp: refuse_pool_swap_def is_instruction_include_pool_swap_def discriminator_of_def
      swaps_pool_def split: if_splits option.splits)

lemma validate_single_swap_instruction_Ok:
  assumes "validate_single_swap_instruction rt pool (Some tx) = Inr ()" "i < tx_current_index tx"
  shows "if ins_program_id (tx_instructions tx ! i) = program_id
    then \<not> swaps_pool rt pool (tx_instructions tx ! i)
    else pool \<notin> set (ins_accounts (tx_instructions tx ! i))"
proof -
  have "check_preceding rt pool tx i = Inr ()"
    using assms by (auto simp: validate_single_swap_instruction_def Let_def split: if_splits)
  then show ?thesis
    by (auto simp: check_preceding_def load_instruction_at_checked_def refuse_pool_swap_Ok
        split: if_splits)
qed

lemma validate_single_swap_instruction_cpi:
  assumes "validate_single_swap_instruction rt pool (Some tx) = Inr ()"
    "ins_program_id (tx_instructions tx ! tx_current_index tx) \<noteq> program_id"
  shows "tx_stack_height tx \<le> 2 \<and> (\<forall>sib\<in>set (tx_processed_siblings tx). \<not> swaps_pool rt pool sib)"
  using assms
  by (auto simp: validate_single_swap_instruction_def Let_def load_instruction_at_checked_def
      check_sibling_def dest!: bspec dest: refuse_pool_swap_Ok swaps_pool_program split: if_splits)


definition limited_config :: pool_config where
  "limited_config = sample_config\<lparr>cfg_pool_fees := sample_fees\<lparr>pf_base_fee :=
     \<lparr>bf_cliff_fee_numerator = 10000000, bf_second_factor = 100, bf_third_factor = 1000000,
      bf_first_factor = 100, bf_base_fee_mode = 2\<rparr>\<rparr>\<rparr>"

definition sysvar_accounts :: swap_accounts where
  "sysvar_accounts = sample_accounts\<lparr>swa_remaining_accounts :=
     [\<lparr>ai_key = 103, ai_owner = 0, ai_data_len = 0, ai_discriminator = 0\<rparr>]\<rparr>"

lemma limited_check:
  "check_swap ledger_runtime sysvar_accounts (keyed fresh_pool) (sample_params 100000 1) False []
     sample_transaction
   = Inr \<lparr>sg_swap_mode = PartialFill, sg_trade_direction = QuoteToBase,
          sg_extra_remaining_account_count = 1, sg_sysvar = Some sample_transaction\<rparr>"
  by (simp add: eval and_then_def ok_or_def has_one_def require_def Let_def pool_sample_defs
      instruction_sample_defs sysvar_accounts_def)

lemma limited_single:
  "check_single_swap ledger_runtime limited_config (keyed fresh_pool) 10 10 QuoteToBase
     (Some sample_transaction) = Inr ()"
  by (simp add: eval and_then_def ok_or_def require_def Let_def pool_sample_defs
      instruction_sample_defs limited_config_def)

definition limited_result :: swap_result2 where
  "limited_result = \<lparr>s2_included_fee_input_amount = 100000, s2_excluded_fee_input_amount = 99000,
     s2_amount_left = 0, s2_output_amount = 90081, s2_next_sqrt_price = 20272971737006797225,
     s2_trading_fee = 800, s2_protocol_fee = 200, s2_referral_fee = 0\<rparr>"

lemma limited_execution:
  "execute_swap (keyed fresh_pool) limited_config PartialFill QuoteToBase
     \<lparr>sc_params = sample_params 100000 1, sc_is_virtual = False, sc_has_referral = False,
      sc_current_point = 10, sc_current_timestamp = 10, sc_eligible = False\<rparr>
   = Inr (keyed bought_pool,
       \<lparr>fees_on_input = True, fees_on_base_token = False, has_referral = False\<rparr>,
       \<lparr>psr_swap_result = limited_result,
        psr_swap_in_parameters = \<lparr>sp_amount_in = 100000, sp_minimum_amount_out = 90081\<rparr>\<rparr>)"
  by (simp add: eval and_then_def ok_or_def Let_def pool_sample_defs limited_result_def
      instruction_sample_defs limited_config_def)

lemma limited_swap:
  "\<exists>s' ev r'. process_swap ledger_runtime sample_clock sample_transaction sample_loader sysvar_accounts
     limited_config (sample_params 100000 1) False [] (keyed fresh_pool) sample_balances = Inr (s', ev, r')"
proof -
  have pieces: "get_current_point sample_clock (cfg_activation_type limited_config) = Inr 10"
    "check_first_swap_with_min_fee rt limited_config s k b v = Inr False"
    "ai_key (al_account_info sample_loader) = 10" "swa_referral_token_account sysvar_accounts = None"
    "\<not> is_sale_complete (keyed fresh_pool) (cfg_migration_quote_threshold limited_config) 10"
    for rt :: "(pubkey \<Rightarrow> u64) runtime" and s k b v
    by (simp_all add: eval and_then_def ok_or_def Let_def pool_sample_defs instruction_sample_defs
        limited_config_def sysvar_accounts_def
        is_sale_complete_def is_curve_complete_def is_deadline_reached_def total_quote_reserve_def)
  have "\<not> is_curve_complete (keyed bought_pool) (cfg_migration_quote_threshold limited_config)"
    by (simp add: is_curve_complete_def total_quote_reserve_def saturating_add_def pool_sample_defs
        limited_config_def keyed_def)
  moreover have "\<exists>r'. transfer_swap_tokens ledger_runtime sysvar_accounts []
     \<lparr>sg_swap_mode = PartialFill, sg_trade_direction = QuoteToBase,
      sg_extra_remaining_account_count = 1, sg_sysvar = Some sample_transaction\<rparr>
     False mode limited_result sample_balances = Inr r'" for mode
    by (simp add: eval and_then_def require_def limited_result_def instruction_sample_defs
        sysvar_accounts_def)
  ultimately show ?thesis
    using pieces limited_single
    by (simp add: process_swap_def limited_check Let_def limited_execution complete_curve_open)
qed


lemma find_initialize_pool_Ok:
  "find_initialize_pool rt pool tx is = Inr u \<Longrightarrow>
    \<exists>i\<in>set is. i < length (tx_instructions tx) \<and> initializes_pool rt pool (tx_instructions tx ! i)"
  by (induction "is")
    (auto simp: load_instruction_at_checked_def discriminator_of_def initializes_pool_def
      split: if_splits option.splits)

text \<open>
  C17: the minimum fee of the first swap is granted only in the transaction that
  created the pool.  When \<open>check_first_swap_with_min_fee\<close> grants it, the configuration
  enables it, the pool has not been swapped on, no referral fee is taken, the swap
  is an instruction of the transaction itself, and an earlier one of this program
  initializes the pool.
\<close>

theorem minimum_fee_needs_initialization:
  assumes "check_first_swap_with_min_fee rt cfg s pool has_ref sysvar = Inr True"
  shows "cfg_enable_first_swap_with_min_fee cfg \<noteq> 0 \<and> pool_has_swap s = 0 \<and> \<not> has_ref
    \<and> (\<exists>tx. sysvar = Some tx \<and> ins_program_id (tx_instructions tx ! tx_current_index tx) = program_id
        \<and> (\<exists>i<tx_current_index tx. initializes_pool rt pool (tx_instructions tx ! i)))"
proof -
  have e: "is_first_swap_with_min_fee_enabled cfg" "is_first_swap s"
    "validate_contain_initialize_pool_ix_and_no_cpi rt pool has_ref sysvar = Inr ()"
    using assms by (auto simp: check_first_swap_with_min_fee_def try_is_ok_def split: if_splits sum.splits)
  then obtain tx where tx: "sysvar = Some tx" "\<not> has_ref"
    "ins_program_id (tx_instructions tx ! tx_current_index tx) = program_id"
    "find_initialize_pool rt pool tx [0..<tx_current_index tx] = Inr ()"
    by (auto simp: validate_contain_initialize_pool_ix_and_no_cpi_def Let_def
        load_instruction_at_checked_def split: if_splits)
  show ?thesis
    using e(1,2) tx(1-3) find_initialize_pool_Ok [OF tx(4)]
    by (auto simp: is_first_swap_with_min_fee_enabled_def is_first_swap_def)
qed

theorem minimum_fee_needs_initialization_witness:
  "\<exists>i<tx_current_index sample_transaction.
     initializes_pool ledger_runtime 10 (tx_instructions sample_transaction ! i)"
proof -
  have "check_first_swap_with_min_fee ledger_runtime
      (sample_config\<lparr>cfg_enable_first_swap_with_min_fee := 1\<rparr>) (keyed fresh_pool) 10 False
      (Some sample_transaction) = Inr True"
    by (simp add: eval and_then_def ok_or_def require_def Let_def pool_sample_defs
        instruction_sample_defs is_first_swap_with_min_fee_enabled_def)
  from minimum_fee_needs_initialization [OF this] show ?thesis by auto
qed

end
