(* ===== verification/Pool_Launch.thy ===== *)
theory Pool_Launch
  imports Initialize_Pool Created_Config Swap_Guards
begin

text \<open>
  A pool from its creation on.  A pool that any of the three instructions creates
  for a created configuration starts solvent with its whole supply, and no sequence
  of swaps ever spends the base tokens that the migration and the locked vesting
  will need.
\<close>

section \<open>Launched pools\<close>

text \<open>\<open>launched rt cfg s r\<close>: an instruction created the pool \<open>s\<close> for the configuration and left the
  chain in state \<open>r\<close>.\<close>

inductive launched :: "'r runtime \<Rightarrow> pool_config \<Rightarrow> pool_state \<Rightarrow> 'r \<Rightarrow> bool" for rt cfg where
  spl: "handle_initialize_virtual_pool_with_spl_token rt snapshot clk a cfg p r = Inr (s, r') \<Longrightarrow>
    launched rt cfg s r'"
| token2022: "handle_initialize_virtual_pool_with_token2022 rt clk a cfg p r = Inr (s, r') \<Longrightarrow>
    launched rt cfg s r'"
| hooked: "handle_initialize_virtual_pool_with_token2022_transfer_hook rt clk a c h x p r = Inr (s, r') \<Longrightarrow>
    cwh_config c = cfg \<Longrightarrow> launched rt cfg s r'"

definition new_pool :: "pool_config \<Rightarrow> u64 \<Rightarrow> pool_state \<Rightarrow> bool" where
  "new_pool cfg minted s \<longleftrightarrow> (\<exists>config creator mint base_vault quote_vault type point deadline.
     s = pool_initialize default_pool_state default_volatility_tracker config creator mint base_vault
       quote_vault (cfg_sqrt_start_price cfg) type point minted PROTOCOL_LIQUIDITY_MIGRATION_FEE_BPS deadline)"

lemma new_pool_simps:
  assumes "new_pool cfg minted s"
  shows "pool_sqrt_price s = cfg_sqrt_start_price cfg" "pool_base_reserve s = minted"
    "pool_quote_reserve s = 0" "pool_virtual_quote_reserve s = 0" "pool_partner_base_fee s = 0"
    "pool_protocol_base_fee s = 0" "pool_creator_base_fee s = 0" "pool_partner_quote_fee s = 0"
    "pool_protocol_quote_fee s = 0" "pool_creator_quote_fee s = 0" "pool_migration_progress s = 0"
    "pool_is_migrated s = 0" "pool_migration_fee_withdraw_status s = 0" "pool_has_swap s = 0"
    "pool_protocol_migration_base_fee_amount s = 0" "pool_protocol_migration_quote_fee_amount s = 0"
    "pool_is_withdraw_leftover s = 0" "pool_is_partner_withdraw_surplus s = 0"
  using assms by (auto simp: new_pool_def pool_initialize_def default_pool_state_def)

lemma new_pool_initialize [simp]:
  "new_pool cfg minted (pool_initialize default_pool_state default_volatility_tracker k c m b v
     (cfg_sqrt_start_price cfg) type point minted PROTOCOL_LIQUIDITY_MIGRATION_FEE_BPS deadline)"
  unfolding new_pool_def by blast

lemma token2022_state:
  assumes "process_initialize_virtual_pool_with_token2022 rt clk a cfg p r = Inr (d, r')"
  shows "check_launch cfg = Inr () \<and> get_initial_base_supply cfg = Inr (ipd_initial_base_supply d)
    \<and> new_pool cfg (ipd_initial_base_supply d) (pool_of_init_data a d)"
proof -
  obtain point minted where "check_launch cfg = Inr ()" "get_initial_base_supply cfg = Inr minted"
    "d = \<lparr>ipd_activation_point = point, ipd_initial_base_supply = minted,
          ipd_sqrt_start_price = cfg_sqrt_start_price cfg,
          ipd_deadline_timestamp = ipp_deadline_timestamp p\<rparr>"
    using assms unfolding process_initialize_virtual_pool_with_token2022_def Let_def and_then_Ok_iff
      Inr_inject Pair_inject by auto
  then show ?thesis by (simp add: pool_of_init_data_def)
qed

lemma launched_state:
  assumes "launched rt cfg s r'"
  shows "\<exists>minted. check_launch cfg = Inr () \<and> get_initial_base_supply cfg = Inr minted \<and> new_pool cfg minted s"
  using assms
proof (cases rule: launched.cases)
  case (spl snapshot clk a p r)
  then show ?thesis
    unfolding handle_initialize_virtual_pool_with_spl_token_def and_then_Ok_iff Inr_inject Pair_inject
    by auto
next
  case (token2022 clk a p r)
  then obtain d where d: "process_initialize_virtual_pool_with_token2022 rt clk a cfg p r = Inr (d, r')"
    "s = pool_of_init_data a d"
    unfolding handle_initialize_virtual_pool_with_token2022_def by auto
  then show ?thesis using token2022_state [OF d(1)] d(2) by simp
next
  case (hooked clk a c h x p r)
  then obtain d where d: "process_initialize_virtual_pool_with_token2022 rt clk a cfg p r = Inr (d, r')"
    "s = pool_of_init_data a d"
    unfolding handle_initialize_virtual_pool_with_token2022_transfer_hook_def by auto
  then show ?thesis using token2022_state [OF d(1)] d(2) by simp
qed

section \<open>A launch of the created sample\<close>

definition sample_parameters :: initialize_pool_parameters where
  "sample_parameters = \<lparr>ipp_name = ''token'', ipp_symbol = ''T'', ipp_uri = ''u'',
     ipp_deadline_timestamp = 0\<rparr>"

definition sample_launch_accounts :: initialize_pool_accounts where
  "sample_launch_accounts = \<lparr>ipa_config = sample_config_account, ipa_pool_authority = 104,
     ipa_creator = 40,
     ipa_base_mint = \<lparr>ai_key = 5, ai_owner = 101, ai_data_len = 82, ai_discriminator = 0\<rparr>,
     ipa_quote_mint = \<lparr>mint_key = 1, mint_program = 101, mint_hook_program = None\<rparr>,
     ipa_pool = 10, ipa_base_vault = 11, ipa_quote_vault = 12, ipa_mint_metadata = 13,
     ipa_payer = 30, ipa_token_quote_program = 101, ipa_token_program = 101,
     ipa_system_program = 0\<rparr>"

definition launched_pool :: pool_state where
  "launched_pool = pool_initialize default_pool_state default_volatility_tracker 20 40 5 11 12
     18446744073709551616 0 10 972223 PROTOCOL_LIQUIDITY_MIGRATION_FEE_BPS 0"

lemma sample_check_launch: "check_launch created_sample = Inr ()"
  by (simp add: eval and_then_def ok_or_def require_def Let_def created_sample_def sample_defs
      zero_liquidity_vesting_info_def)

lemma sample_is_launched: "launched ledger_runtime created_sample launched_pool (sample_balances(11 := 1972223))"
proof (rule launched.spl)
  let ?snap = "\<lambda>_ _. \<lparr>snap_lamports = 0, snap_owner = 0, snap_data_len = 0\<rparr>"
  have config: "get_token_authority created_sample = Inr Immutable"
    "token_type_of (cfg_token_type created_sample) = Some SplToken"
    "get_current_point sample_clock (cfg_activation_type created_sample) = Inr 10"
    "cfg_pool_creation_fee created_sample = 0" "cfg_quote_mint created_sample = 1"
    "cfg_sqrt_start_price created_sample = 18446744073709551616" "\<not> has_mint_authority Immutable"
    by (simp_all add: eval created_sample_def sample_config_def sample_clock_def)
  have accounts: "launch_accounts_ok ledger_runtime AccountPoolConfig sample_launch_accounts created_sample"
    by (simp add: launch_accounts_ok_def sample_launch_accounts_def runtime_sample_defs config)
  have metadata: "cpi_with_account_lamport_and_owner_checking
      (process_create_token_metadata ledger_runtime sample_launch_accounts sample_parameters Immutable k)
      (?snap q) sample_balances = Inr sample_balances" for k q
    by (simp add: cpi_with_account_lamport_and_owner_checking_def process_create_token_metadata_def Let_def
        require_def invoke_def ledger_runtime_def ledger_invoke_def)
  have calls: "invoke ledger_runtime (MintTo p m 11 k 972223) sample_balances
      = Inr (sample_balances(11 := 1972223))"
    "invoke ledger_runtime (SetAuthority p m k t x) r = Inr r" for p m k t x r
    by (simp_all add: ledger_runtime_def ledger_invoke_def sample_balances_def)
  have vault: "ipa_base_vault sample_launch_accounts = 11" by (simp add: sample_launch_accounts_def)
  show "handle_initialize_virtual_pool_with_spl_token ledger_runtime ?snap sample_clock sample_launch_accounts
      created_sample sample_parameters sample_balances = Inr (launched_pool, sample_balances(11 := 1972223))"
    using accounts by (simp add: handle_initialize_virtual_pool_with_spl_token_def sample_check_launch
        sample_supply config metadata calls charge_pool_creation_fee_def has_one_def require_def
        initialize_pool_parameters_validate_def vault)
      (simp add: sample_launch_accounts_def sample_parameters_def launched_pool_def
        sample_config_account_def ledger_runtime_def)
qed

section \<open>A new pool is solvent\<close>

lemma new_pool_solvent:
  assumes "new_pool cfg minted s" "config_ok cfg" "start_price cfg \<le> last_price cfg"
  shows "solvent cfg (real (unat minted)) s"
proof -
  have p: "unat (pool_sqrt_price s) = start_price cfg"
    by (simp add: new_pool_simps [OF assms(1)] start_price_def)
  then have "curve_quote cfg (unat (pool_sqrt_price s)) = 0" "curve_base cfg (unat (pool_sqrt_price s)) = 0"
    using assms(2) by (simp_all add: config_ok_def curve_quote_def curve_base_def value_at_start)
  moreover have "on_curve cfg (unat (pool_sqrt_price s))" using assms(3) p by (simp add: on_curve_def)
  ultimately show ?thesis
    by (simp add: solvent_def new_pool_simps [OF assms(1)])
qed



section \<open>The reserve for the migration\<close>

lemma swap_run_solvent:
  assumes "swap_run cfg s s' x y" "config_ok cfg" "solvent cfg k s"
  shows "solvent cfg k s'"
  using assms(1)
proof (induction rule: swap_run.induct)
  case run_none
  then show ?case by (rule assms(3))
next
  case (run_buy t x y m c t' mode res)
  then show ?case using execute_swap_solvent [OF run_buy.hyps(2) assms(2)] by simp
next
  case (run_sell t x y m c t' mode res)
  then show ?case using execute_swap_solvent [OF run_sell.hyps(2) assms(2)] by simp
qed

lemma solvent_reserve:
  assumes "solvent cfg k s" "config_ok cfg" "curve_base cfg (last_price cfg) + n \<le> k"
  shows "n \<le> real (unat (pool_base_reserve s))"
proof -
  have "curve_base cfg (unat (pool_sqrt_price s)) \<le> curve_base cfg (last_price cfg)"
    using assms(1,2) unfolding curve_base_def
    by (intro base_value_mono) (auto simp: solvent_def on_curve_def config_ok_def)
  then show ?thesis using assms(1,3) by (simp add: solvent_def)
qed

text \<open>
  C22: the base tokens reserved for the migration and the locked vesting are never
  sold.  Whatever swaps follow the launch of a pool for a created configuration, in
  any mode and direction, the base reserve holds at least the migration amount and
  the vesting amount together.
\<close>

theorem migration_reserve_is_never_sold:
  assumes "launched rt cfg s r'" "created rt' cfg" "swap_run cfg s s' x y"
  shows "unat (cfg_migration_base_threshold cfg)
      + unat (lv_cliff_unlock_amount (cfg_locked_vesting_config cfg))
      + unat (lv_amount_per_period (cfg_locked_vesting_config cfg))
        * unat (lv_number_of_period (cfg_locked_vesting_config cfg))
    \<le> unat (pool_base_reserve s')"
proof -
  obtain minted where s: "get_initial_base_supply cfg = Inr minted" "new_pool cfg minted s"
    using launched_state [OF assms(1)] by blast
  have cfg: "config_ok cfg" "start_price cfg \<le> last_price cfg" using created_facts [OF assms(2)] by simp_all
  obtain v where v: "locked_vesting_total_amount (cfg_locked_vesting_config cfg) = Inr v"
    "curve_base cfg (last_price cfg) + (real (unat (cfg_migration_base_threshold cfg)) + real (unat v))
      \<le> real (unat minted)"
    using created_supply_covers [OF assms(2) s(1)] by fastforce
  have "solvent cfg (real (unat minted)) s'"
    by (rule swap_run_solvent [OF assms(3) cfg(1) new_pool_solvent [OF s(2) cfg]])
  then have "real (unat (cfg_migration_base_threshold cfg)) + real (unat v) \<le> real (unat (pool_base_reserve s'))"
    by (rule solvent_reserve [OF _ cfg(1) v(2)])
  then show ?thesis
    using locked_vesting_total_amount_unat [OF v(1)]
    unfolding of_nat_add [symmetric] of_nat_le_iff by linarith
qed

definition launched_and_bought :: pool_state where
  "launched_and_bought = launched_pool\<lparr>pool_base_reserve := 882142, pool_quote_reserve := 99000,
     pool_protocol_quote_fee := 200, pool_partner_quote_fee := 800,
     pool_sqrt_price := 20272971737006797225, pool_has_swap := 1,
     pool_metrics_of := \<lparr>pm_total_protocol_base_fee = 0, pm_total_protocol_quote_fee = 200,
       pm_total_trading_base_fee = 0, pm_total_trading_quote_fee = 800\<rparr>\<rparr>"

lemma buy_after_launch:
  "execute_swap launched_pool created_sample ExactIn QuoteToBase (sample_call 100000 1)
  = Inr (launched_and_bought, \<lparr>fees_on_input = True, fees_on_base_token = False, has_referral = False\<rparr>,
      \<lparr>psr_swap_result = \<lparr>s2_included_fee_input_amount = 100000,
         s2_excluded_fee_input_amount = 99000, s2_amount_left = 0, s2_output_amount = 90081,
         s2_next_sqrt_price = 20272971737006797225,
         s2_trading_fee = 800, s2_protocol_fee = 200, s2_referral_fee = 0\<rparr>,
       psr_swap_in_parameters = \<lparr>sp_amount_in = 100000, sp_minimum_amount_out = 1\<rparr>\<rparr>)"
  by (simp add: eval and_then_def ok_or_def Let_def pool_sample_defs launched_and_bought_def
      launched_pool_def pool_initialize_def created_sample_def)

theorem migration_reserve_is_never_sold_witness:
  "unat (cfg_migration_base_threshold created_sample) \<le> unat (pool_base_reserve launched_and_bought)"
  using migration_reserve_is_never_sold [OF sample_is_launched sample_is_created
      run_buy [OF run_none buy_after_launch]] by simp

end
