(* ===== verification/Vaults.thy ===== *)
theory Vaults
  imports Pool_Launch
begin

text \<open>
  The vaults of a pool against its books.  The token program's part is a law on the
  runtime: a transfer moves the amount it names, and only the pool authority debits
  a vault.  Under that law every swap keeps both vaults covering the reserves and
  the fees the pool owes, and the last swap of a curve is never refused for want of
  base tokens.
\<close>

section \<open>The law of the token program\<close>

text \<open>What a call brings into an account and takes out of it, where that is documented.\<close>

fun moves :: "pubkey \<Rightarrow> call \<Rightarrow> (nat \<times> nat) option" where
  "moves v (TransferChecked p from m to authority n) =
     Some (if to = v then unat n else 0, if from = v then unat n else 0)"
| "moves v (UpdateTransferHook p m k h) = Some (0, 0)"
| "moves v (SetAuthority p m k t h) = Some (0, 0)"
| "moves v (SystemTransfer from to n) = Some (0, 0)"
| "moves v (SubLamports k n) = Some (0, 0)"
| "moves v (AddLamports k n) = Some (0, 0)"
| "moves v (CreateMetadataAccount k m mutable a b c) = Some (0, 0)"
| "moves v (UpdateMetadataAuthority k a) = Some (0, 0)"
| "moves v (TokenMetadataInitialize p m k a b c) = Some (0, 0)"
| "moves v (TokenMetadataUpdateAuthority p m k a) = Some (0, 0)"
| "moves v (MintTo p m to k n) = Some (if to = v then unat n else 0, 0)"
| "moves v (Burn p m from k n) = Some (0, if from = v then unat n else 0)"
| "moves v c = None"

definition vault_law :: "'r runtime \<Rightarrow> pubkey \<Rightarrow> bool" where
  "vault_law rt v \<longleftrightarrow> (\<forall>c b b'. rt_invoke rt c b = Some b' \<longrightarrow>
     (\<forall>i out. moves v c = Some (i, out) \<longrightarrow>
       unat (rt_token_amount rt v b') + out = unat (rt_token_amount rt v b) + i)
     \<and> (\<forall>p m to k n. c = TransferChecked p v m to k n \<longrightarrow> k = rt_pool_authority rt))"

abbreviation held :: "'r runtime \<Rightarrow> pubkey \<Rightarrow> 'r \<Rightarrow> nat" where
  "held rt v b \<equiv> unat (rt_token_amount rt v b)"

lemma law_invoke:
  assumes "vault_law rt v" "rt_invoke rt c b = Some b'" "moves v c = Some (i, out)"
  shows "held rt v b' + out = held rt v b + i"
  using assms unfolding vault_law_def by blast

lemma law_transfer:
  assumes "vault_law rt v" "rt_invoke rt (TransferChecked p from m to k n) b = Some b'"
  shows "held rt v b' + (if from = v then unat n else 0) = held rt v b + (if to = v then unat n else 0)"
    and "from = v \<Longrightarrow> k = rt_pool_authority rt"
  using law_invoke [OF assms(1,2)] assms unfolding vault_law_def by auto

lemma law_from_pool:
  assumes "vault_law rt v" "transfer_token_from_pool_authority rt m from to p n hook b = Inr b'"
  shows "held rt v b' + (if from = v then unat n else 0) = held rt v b + (if to = v then unat n else 0)"
proof -
  have "rt_invoke rt (TransferChecked p from (mint_key m) to (rt_pool_authority rt) n) b = Some b'"
    using assms(2) by (auto simp: transfer_token_from_pool_authority_def)
  then show ?thesis by (rule law_transfer(1) [OF assms(1)])
qed

lemma law_from_user:
  assumes "vault_law rt v" "transfer_token_from_user rt k m from to p n hook b = Inr b'"
    "k \<noteq> rt_pool_authority rt"
  shows "held rt v b' = held rt v b + (if to = v then unat n else 0)"
proof -
  have "rt_invoke rt (TransferChecked p from (mint_key m) to k n) b = Some b'"
    using assms(2) by (auto simp: transfer_token_from_user_def)
  note t = law_transfer [OF assms(1) this]
  have "from \<noteq> v" using t(2) assms(3) by blast
  then show ?thesis using t(1) by simp
qed

lemma ledger_transfer:
  assumes "ledger_invoke (TransferChecked p from m to k n) b = Some b'"
  shows "unat (b' v) + (if from = v then unat n else 0) = unat (b v) + (if to = v then unat n else 0)"
proof -
  let ?d = "b(from := b from - n)"
  have n: "unat n \<le> unat (b from)" and o: "unat (?d to) + unat n < 2 ^ 64" and b': "b' = ?d(to := ?d to + n)"
    using assms by (auto simp: ledger_invoke_def word_le_nat_alt split: if_splits)
  have "unat (?d v) + (if from = v then unat n else 0) = unat (b v)"
    using n by (auto simp: unat_sub_le word_le_nat_alt)
  moreover have "unat (b' v) = unat (?d v) + (if to = v then unat n else 0)"
    using unat_add_small [of "?d to" n] o unfolding b' by (cases "to = v") simp_all
  ultimately show ?thesis by linarith
qed

lemma ledger_moves:
  assumes "ledger_invoke c b = Some b'" "moves v c = Some (i, out)"
  shows "unat (b' v) + out = unat (b v) + i"
proof (cases c)
  case (TransferChecked p src m dst k n)
  then show ?thesis using ledger_transfer [of p src m dst k n b b' v] assms by simp
next
  case (MintTo p m dst k n)
  then show ?thesis using assms by (auto simp: ledger_invoke_def unat_add_small split: if_splits)
next
  case (Burn p m src k n)
  then show ?thesis using assms
    by (auto simp: ledger_invoke_def unat_sub_le word_le_nat_alt split: if_splits)
qed (use assms in \<open>simp_all add: ledger_invoke_def\<close>)

lemma ledger_law:
  assumes "v \<in> {11, 12}"
  shows "vault_law ledger_runtime v"
proof -
  have "k = 104" if "ledger_invoke (TransferChecked p v m to k n) b = Some b'" for p m to k n b b'
    using that assms by (auto simp: ledger_invoke_def split: if_splits)
  then show ?thesis using ledger_moves unfolding vault_law_def
    by (fastforce simp: ledger_runtime_def)
qed

section \<open>The books of a pool\<close>

definition base_fees :: "pool_state \<Rightarrow> nat" where
  "base_fees s = unat (pool_partner_base_fee s) + unat (pool_protocol_base_fee s)
     + unat (pool_creator_base_fee s) + unat (pool_protocol_migration_base_fee_amount s)"

definition quote_fees :: "pool_state \<Rightarrow> nat" where
  "quote_fees s = unat (pool_partner_quote_fee s) + unat (pool_protocol_quote_fee s)
     + unat (pool_creator_quote_fee s) + unat (pool_protocol_migration_quote_fee_amount s)"

definition base_backed :: "'r runtime \<Rightarrow> pool_state \<Rightarrow> 'r \<Rightarrow> bool" where
  "base_backed rt s b \<longleftrightarrow> unat (pool_base_reserve s) + base_fees s \<le> held rt (pool_base_vault s) b"

definition quote_backed :: "'r runtime \<Rightarrow> pool_state \<Rightarrow> 'r \<Rightarrow> bool" where
  "quote_backed rt s b \<longleftrightarrow> unat (pool_quote_reserve s) + quote_fees s \<le> held rt (pool_quote_vault s) b"

lemma fees_updates [simp]:
  "base_fees (s\<lparr>pool_base_reserve := x1\<rparr>) = base_fees s" "quote_fees (s\<lparr>pool_base_reserve := x1\<rparr>) = quote_fees s"
  "base_fees (s\<lparr>pool_quote_reserve := x1\<rparr>) = base_fees s" "quote_fees (s\<lparr>pool_quote_reserve := x1\<rparr>) = quote_fees s"
  "base_fees (s\<lparr>pool_virtual_quote_reserve := x1\<rparr>) = base_fees s" "quote_fees (s\<lparr>pool_virtual_quote_reserve := x1\<rparr>) = quote_fees s"
  "base_fees (s\<lparr>pool_sqrt_price := x2\<rparr>) = base_fees s" "quote_fees (s\<lparr>pool_sqrt_price := x2\<rparr>) = quote_fees s"
  "base_fees (s\<lparr>pool_has_swap := x3\<rparr>) = base_fees s" "quote_fees (s\<lparr>pool_has_swap := x3\<rparr>) = quote_fees s"
  "base_fees (s\<lparr>pool_volatility_tracker := x4\<rparr>) = base_fees s" "quote_fees (s\<lparr>pool_volatility_tracker := x4\<rparr>) = quote_fees s"
  "base_fees (s\<lparr>pool_finish_curve_timestamp := x5\<rparr>) = base_fees s" "quote_fees (s\<lparr>pool_finish_curve_timestamp := x5\<rparr>) = quote_fees s"
  "base_fees (s\<lparr>pool_migration_progress := x6\<rparr>) = base_fees s" "quote_fees (s\<lparr>pool_migration_progress := x6\<rparr>) = quote_fees s"
  by (simp_all add: base_fees_def quote_fees_def)

lemma update_pre_swap_fees:
  "update_pre_swap s cfg now = Inr s' \<Longrightarrow> base_fees s' = base_fees s \<and> quote_fees s' = quote_fees s"
  by (auto simp: update_pre_swap_def split: if_splits)

lemma update_post_swap_fees:
  "update_post_swap s cfg old now = Inr s' \<Longrightarrow> base_fees s' = base_fees s \<and> quote_fees s' = quote_fees s"
  by (auto simp: update_post_swap_def Let_def split: if_splits)

lemma collect_swap_fees_fees:
  assumes "collect_swap_fees s cfg r mode virtual = Inr s'"
  shows "base_fees s' = base_fees s
      + (if fees_on_base_token mode then unat (sr_trading_fee r) + unat (sr_protocol_fee r) else 0)
    \<and> quote_fees s' = quote_fees s
      + (if fees_on_base_token mode \<or> virtual then 0 else unat (sr_trading_fee r) + unat (sr_protocol_fee r))"
proof -
  obtain t where t: "split_partner_and_creator_fee cfg (sr_trading_fee r) = Inr t"
    using assms unfolding collect_swap_fees_def and_then_Ok_iff by blast
  have "unat (split_partner_fee t) + unat (split_creator_fee t) = unat (sr_trading_fee r)"
    by (rule split_partner_and_creator_fee_sum [OF t])
  then show ?thesis using assms unfolding collect_swap_fees_def t and_then_simps
    by (cases "fees_on_base_token mode"; cases virtual) (auto simp: base_fees_def quote_fees_def)
qed

lemma get_fee_mode_buy:
  assumes "get_fee_mode c QuoteToBase ref = Inr mode"
  shows "fees_on_base_token mode = (\<not> fees_on_input mode) \<and> has_referral mode = ref"
proof -
  obtain m where "(case fee_side m QuoteToBase of (on_input, on_base) \<Rightarrow>
      Inr \<lparr>fees_on_input = on_input, fees_on_base_token = on_base, has_referral = ref\<rparr>) = (Inr mode :: fee_mode result)"
    using assms by (auto simp: get_fee_mode_def)
  then show ?thesis by (cases m) auto
qed

lemma execute_buy_fees:
  assumes "execute_swap s cfg m QuoteToBase c = Inr (s', mode, res)"
  shows "fees_on_base_token mode = (\<not> fees_on_input mode)"
    and "base_fees s' = base_fees s + (if fees_on_base_token mode
        then unat (s2_trading_fee (psr_swap_result res)) + unat (s2_protocol_fee (psr_swap_result res)) else 0)"
    and "quote_fees s' = quote_fees s + (if fees_on_base_token mode \<or> sc_is_virtual c then 0
        else unat (s2_trading_fee (psr_swap_result res)) + unat (s2_protocol_fee (psr_swap_result res)))"
    and "if sc_is_virtual c then pool_quote_reserve s' = pool_quote_reserve s
      else pool_virtual_quote_reserve s' = pool_virtual_quote_reserve s"
proof -
  let ?r = "get_swap_result (psr_swap_result res)"
  obtain s1 where e: "update_pre_swap s cfg (sc_current_timestamp c) = Inr s1"
    "get_fee_mode (cfg_collect_fee_mode cfg) QuoteToBase (sc_has_referral c) = Inr mode"
    "apply_swap_result_internal s1 cfg ?r mode QuoteToBase (sc_current_timestamp c) (sc_is_virtual c) = Inr s'"
    using assms by (cases "sc_is_virtual c")
      (auto simp: execute_swap_def Let_def apply_swap_result_def apply_virtual_swap_result_def)
  let ?s = "s1\<lparr>pool_sqrt_price := sr_next_sqrt_price ?r\<rparr>"
  obtain s2 out s3 s4 where a: "collect_swap_fees ?s cfg ?r mode (sc_is_virtual c) = Inr s2"
    "(if sc_is_virtual c then
        and_then (safe_add (pool_virtual_quote_reserve s2) (sr_actual_input_amount ?r)) (\<lambda>v.
        and_then (safe_sub (pool_base_reserve s2) out) (\<lambda>base.
        Inr (s2\<lparr>pool_virtual_quote_reserve := v, pool_base_reserve := base\<rparr>)))
      else
        and_then (safe_add (pool_quote_reserve s2) (sr_actual_input_amount ?r)) (\<lambda>quote.
        and_then (safe_sub (pool_base_reserve s2) out) (\<lambda>base.
        Inr (s2\<lparr>pool_quote_reserve := quote, pool_base_reserve := base\<rparr>)))) = Inr s3"
    "update_post_swap s3 cfg (pool_sqrt_price s1) (sc_current_timestamp c) = Inr s4"
    "s' = s4\<lparr>pool_has_swap := 1\<rparr>"
    using e(3) unfolding apply_swap_result_internal_def Let_def and_then_Ok_iff by auto
  have s3: "base_fees s3 = base_fees s2 \<and> quote_fees s3 = quote_fees s2 \<and>
    (if sc_is_virtual c then pool_quote_reserve s3 = pool_quote_reserve s2
     else pool_virtual_quote_reserve s3 = pool_virtual_quote_reserve s2)"
    using a(2) by (auto split: if_splits)
  note f = get_fee_mode_buy [OF e(2)] update_pre_swap_fees [OF e(1)] update_pre_swap_same [OF e(1)]
    collect_swap_fees_fees [OF a(1)] collect_swap_fees_same [OF a(1)] s3
    update_post_swap_fees [OF a(3)] update_post_swap_same [OF a(3)] a(4)
  show "fees_on_base_token mode = (\<not> fees_on_input mode)" using f(1) by simp
  show "base_fees s' = base_fees s + (if fees_on_base_token mode
      then unat (s2_trading_fee (psr_swap_result res)) + unat (s2_protocol_fee (psr_swap_result res)) else 0)"
    using f by simp
  show "quote_fees s' = quote_fees s + (if fees_on_base_token mode \<or> sc_is_virtual c then 0
      else unat (s2_trading_fee (psr_swap_result res)) + unat (s2_protocol_fee (psr_swap_result res)))"
    using f by simp
  show "if sc_is_virtual c then pool_quote_reserve s' = pool_quote_reserve s
      else pool_virtual_quote_reserve s' = pool_virtual_quote_reserve s"
    using f by (simp split: if_splits)
qed

section \<open>Swaps and the vaults\<close>

lemma transfer_swap_tokens_parts:
  assumes "transfer_swap_tokens rt a slices g virtual mode res b = Inr b'" "sg_trade_direction g = QuoteToBase"
  shows "\<exists>p1 b1 b2. (if virtual then b1 = b else
      transfer_token_from_user rt (swa_payer a) (swa_quote_mint a) (ta_key (swa_input_token_account a))
        (ta_key (swa_quote_vault a)) (swa_token_quote_program a) (s2_included_fee_input_amount res) None b = Inr b1)
    \<and> transfer_token_from_pool_authority rt (swa_base_mint a) (ta_key (swa_base_vault a))
        (swa_output_token_account a) (swa_token_base_program a) (s2_output_amount res) p1 b1 = Inr b2
    \<and> (b' = b2 \<or> \<not> virtual \<and> (\<exists>m from to p h.
        transfer_token_from_pool_authority rt m from to p (s2_referral_fee res) h b2 = Inr b'
        \<and> from = ta_key (if fees_on_base_token mode then swa_base_vault a else swa_quote_vault a)))"
proof -
  obtain parsed :: parsed_remaining_accounts and b1 b2 where t: "(if \<not> virtual then
      transfer_token_from_user rt (swa_payer a) (swa_quote_mint a) (ta_key (swa_input_token_account a))
        (ta_key (swa_quote_vault a)) (swa_token_quote_program a) (s2_included_fee_input_amount res) None b
      else Inr b) = Inr b1"
    "transfer_token_from_pool_authority rt (swa_base_mint a) (ta_key (swa_base_vault a))
        (swa_output_token_account a) (swa_token_base_program a) (s2_output_amount res)
        (transfer_hook_base parsed) b1 = Inr b2"
    "(case swa_referral_token_account a of
       Some referral \<Rightarrow>
         if \<not> virtual \<and> s2_referral_fee res > 0 then
           if fees_on_base_token mode then
             transfer_token_from_pool_authority rt (swa_base_mint a) (ta_key (swa_base_vault a))
               referral (swa_token_base_program a) (s2_referral_fee res)
               (transfer_hook_base_referral parsed) b2
           else
             transfer_token_from_pool_authority rt (swa_quote_mint a) (ta_key (swa_quote_vault a))
               referral (swa_token_quote_program a) (s2_referral_fee res) None b2
         else Inr b2
     | None \<Rightarrow> Inr b2) = Inr b'"
    using assms(1) unfolding transfer_swap_tokens_def assms(2) and_then_Ok_iff Let_def
      trade_direction.case case_prod_conv split_paired_Ex by blast
  show ?thesis
    by (rule exI [of _ "transfer_hook_base parsed"], rule exI [of _ b1], rule exI [of _ b2])
      (use t in \<open>auto split: if_splits option.splits\<close>)
qed

lemma transfer_swap_tokens_held:
  assumes "transfer_swap_tokens rt a slices g virtual mode res b = Inr b'" "sg_trade_direction g = QuoteToBase"
    and "vault_law rt (ta_key (swa_base_vault a))" "vault_law rt (ta_key (swa_quote_vault a))"
    and "swa_payer a \<noteq> rt_pool_authority rt" "ta_key (swa_base_vault a) \<noteq> ta_key (swa_quote_vault a)"
  shows "held rt (ta_key (swa_base_vault a)) b \<le> held rt (ta_key (swa_base_vault a)) b'
      + unat (s2_output_amount res) + (if fees_on_base_token mode then unat (s2_referral_fee res) else 0)"
    and "held rt (ta_key (swa_quote_vault a)) b + (if virtual then 0 else unat (s2_included_fee_input_amount res))
      \<le> held rt (ta_key (swa_quote_vault a)) b'
        + (if fees_on_base_token mode \<or> virtual then 0 else unat (s2_referral_fee res))"
proof -
  let ?v = "ta_key (swa_base_vault a)" and ?w = "ta_key (swa_quote_vault a)"
  obtain p1 b1 b2 where t: "if virtual then b1 = b else
      transfer_token_from_user rt (swa_payer a) (swa_quote_mint a) (ta_key (swa_input_token_account a))
        ?w (swa_token_quote_program a) (s2_included_fee_input_amount res) None b = Inr b1"
    "transfer_token_from_pool_authority rt (swa_base_mint a) ?v
        (swa_output_token_account a) (swa_token_base_program a) (s2_output_amount res) p1 b1 = Inr b2"
    "b' = b2 \<or> \<not> virtual \<and> (\<exists>m from to p h.
        transfer_token_from_pool_authority rt m from to p (s2_referral_fee res) h b2 = Inr b'
        \<and> from = ta_key (if fees_on_base_token mode then swa_base_vault a else swa_quote_vault a))"
    using transfer_swap_tokens_parts [OF assms(1,2)] by blast
  have 1: "held rt ?v b1 = held rt ?v b"
    "held rt ?w b1 = held rt ?w b + (if virtual then 0 else unat (s2_included_fee_input_amount res))"
    using t(1) law_from_user [OF assms(3) _ assms(5)] law_from_user [OF assms(4) _ assms(5)] assms(6)
    by (fastforce split: if_splits)+
  have 2: "held rt ?v b1 \<le> held rt ?v b2 + unat (s2_output_amount res)" "held rt ?w b1 \<le> held rt ?w b2"
    using law_from_pool [OF assms(3) t(2)] law_from_pool [OF assms(4) t(2)] assms(6)
    by (auto split: if_splits)
  have 3: "held rt ?v b2 \<le> held rt ?v b' + (if fees_on_base_token mode then unat (s2_referral_fee res) else 0)
    \<and> held rt ?w b2 \<le> held rt ?w b' + (if fees_on_base_token mode \<or> virtual then 0 else unat (s2_referral_fee res))"
  proof (cases "b' = b2")
    case False
    then obtain m src dst p h where
      x: "transfer_token_from_pool_authority rt m src dst p (s2_referral_fee res) h b2 = Inr b'"
      "src = ta_key (if fees_on_base_token mode then swa_base_vault a else swa_quote_vault a)"
      "\<not> virtual" using t(3) by blast
    show ?thesis
      using law_from_pool [OF assms(3) x(1)] law_from_pool [OF assms(4) x(1)] assms(6) x(2,3)
      by (auto split: if_splits)
  qed simp
  show "held rt ?v b \<le> held rt ?v b' + unat (s2_output_amount res)
      + (if fees_on_base_token mode then unat (s2_referral_fee res) else 0)"
    using 1(1) 2(1) 3 by linarith
  show "held rt ?w b + (if virtual then 0 else unat (s2_included_fee_input_amount res))
      \<le> held rt ?w b' + (if fees_on_base_token mode \<or> virtual then 0 else unat (s2_referral_fee res))"
    using 1(2) 2(2) 3 by linarith
qed

lemma execute_buy_slack:
  assumes "execute_swap s cfg m QuoteToBase c = Inr (s', mode, res)" "config_ok cfg"
    and "on_curve cfg (unat (pool_sqrt_price s))" "sg_trade_direction g = QuoteToBase"
    and "transfer_swap_tokens rt a slices g (sc_is_virtual c) mode (psr_swap_result res) b = Inr b'"
    and "vault_law rt (ta_key (swa_base_vault a))" "vault_law rt (ta_key (swa_quote_vault a))"
    and "swa_payer a \<noteq> rt_pool_authority rt" "ta_key (swa_base_vault a) \<noteq> ta_key (swa_quote_vault a)"
    and "pool_base_vault s = ta_key (swa_base_vault a)" "pool_quote_vault s = ta_key (swa_quote_vault a)"
  shows "unat (pool_base_reserve s') + base_fees s' + held rt (pool_base_vault s) b
      \<le> unat (pool_base_reserve s) + base_fees s + held rt (pool_base_vault s) b'"
    and "unat (pool_quote_reserve s') + quote_fees s' + held rt (pool_quote_vault s) b
      \<le> unat (pool_quote_reserve s) + quote_fees s + held rt (pool_quote_vault s) b'"
    and "pool_quote_reserve s \<le> pool_quote_reserve s'" "total_quote_reserve s \<le> total_quote_reserve s'"
proof -
  let ?r = "psr_swap_result res"
  have nv: "sc_is_virtual c \<longrightarrow> QuoteToBase = QuoteToBase" by simp
  note p = execute_swap_parts [OF assms(1-3) nv, simplified]
  note f = execute_buy_fees [OF assms(1)]
  note t = transfer_swap_tokens_held [OF assms(5,4,6-9)]
  have incl: "unat (s2_included_fee_input_amount ?r) = pool_in ?r + (if fees_on_input mode then swap_fees ?r else 0)"
    using p(1) by (simp add: swap_fair_def)
  show "unat (pool_base_reserve s') + base_fees s' + held rt (pool_base_vault s) b
      \<le> unat (pool_base_reserve s) + base_fees s + held rt (pool_base_vault s) b'"
    using p(2) f(1,2) t(1) unfolding assms(10)
    by (simp add: pool_out_def swap_fees_def split: if_splits)
  show "unat (pool_quote_reserve s') + quote_fees s' + held rt (pool_quote_vault s) b
      \<le> unat (pool_quote_reserve s) + quote_fees s + held rt (pool_quote_vault s) b'"
    using p(2) f(1,3,4) t(2) incl unfolding assms(11)
    by (simp add: pool_in_def swap_fees_def split: if_splits)
  show "pool_quote_reserve s \<le> pool_quote_reserve s'"
    using p(2) f(4) by (simp add: word_le_nat_alt split: if_splits)
  show "total_quote_reserve s \<le> total_quote_reserve s'"
    using p(2) by (simp add: word_le_nat_alt total_quote_reserve_def unat_saturating_add)
qed

section \<open>A launch fills the base vault\<close>

lemma minted_and_charged:
  assumes "vault_law rt v" "rt_invoke rt (MintTo p m v k n) b = Some b1"
    "rt_invoke rt (SetAuthority p' m' k' t h) b1 = Some b2" "charge_pool_creation_fee rt a cfg b2 = Inr b3"
  shows "unat n \<le> held rt v b3"
proof -
  have "held rt v b3 = held rt v b2"
    using assms(4) law_invoke [OF assms(1), of _ b2 b3 0 0]
    by (auto simp: charge_pool_creation_fee_def transfer_lamports_from_user_def split: if_splits)
  then show ?thesis using law_invoke [OF assms(1,2)] law_invoke [OF assms(1,3)] by simp
qed

lemma new_pool_backed:
  assumes "new_pool cfg minted s" "unat minted \<le> held rt (pool_base_vault s) b"
  shows "base_backed rt s b \<and> quote_backed rt s b"
  using assms by (simp add: base_backed_def quote_backed_def base_fees_def quote_fees_def new_pool_simps [OF assms(1)])

lemma token2022_minted:
  assumes "process_initialize_virtual_pool_with_token2022 rt clk a cfg p b = Inr (d, b')"
    "vault_law rt (ipa_base_vault a)"
  shows "unat (ipd_initial_base_supply d) \<le> held rt (pool_base_vault (pool_of_init_data a d)) b'"
proof -
  obtain b0 b1 b2 auth where
    "rt_invoke rt (MintTo (ipa_token_program a) (ai_key (ipa_base_mint a)) (ipa_base_vault a)
       (ipa_pool_authority a) (ipd_initial_base_supply d)) b0 = Some b1"
    "rt_invoke rt (SetAuthority (ipa_token_program a) (ai_key (ipa_base_mint a))
       (ipa_pool_authority a) MintTokens auth) b1 = Some b2"
    "charge_pool_creation_fee rt a cfg b2 = Inr b'"
    using assms(1) unfolding process_initialize_virtual_pool_with_token2022_def Let_def and_then_Ok_iff
      Inr_inject Pair_inject invoke_Ok_iff by auto
  then show ?thesis using minted_and_charged [OF assms(2)]
    by (simp add: pool_of_init_data_def pool_initialize_def)
qed

lemma token2022_backed:
  assumes "process_initialize_virtual_pool_with_token2022 rt clk a cfg p b = Inr (d, b')"
    "vault_law rt (pool_base_vault (pool_of_init_data a d))"
  shows "base_backed rt (pool_of_init_data a d) b' \<and> quote_backed rt (pool_of_init_data a d) b'"
proof (rule new_pool_backed)
  show "new_pool cfg (ipd_initial_base_supply d) (pool_of_init_data a d)"
    using token2022_state [OF assms(1)] by blast
  have "pool_base_vault (pool_of_init_data a d) = ipa_base_vault a"
    by (simp add: pool_of_init_data_def pool_initialize_def)
  then show "unat (ipd_initial_base_supply d) \<le> held rt (pool_base_vault (pool_of_init_data a d)) b'"
    using token2022_minted [OF assms(1)] assms(2) by simp
qed

lemma launched_backed:
  assumes "launched rt cfg s b" "vault_law rt (pool_base_vault s)"
  shows "base_backed rt s b \<and> quote_backed rt s b"
  using assms(1)
proof (cases rule: launched.cases)
  case (spl snapshot clk a p r)
  obtain minted b0 b1 b2 point where i: "get_initial_base_supply cfg = Inr minted"
    "rt_invoke rt (MintTo (ipa_token_program a) (ai_key (ipa_base_mint a)) (ipa_base_vault a)
       (ipa_pool_authority a) minted) b0 = Some b1"
    "rt_invoke rt (SetAuthority (ipa_token_program a) (ai_key (ipa_base_mint a))
       (ipa_pool_authority a) MintTokens None) b1 = Some b2"
    "charge_pool_creation_fee rt a cfg b2 = Inr b"
    "s = pool_initialize default_pool_state default_volatility_tracker (ai_key (ipa_config a))
           (ipa_creator a) (ai_key (ipa_base_mint a)) (ipa_base_vault a) (ipa_quote_vault a)
           (cfg_sqrt_start_price cfg) 0 point minted
           PROTOCOL_LIQUIDITY_MIGRATION_FEE_BPS (ipp_deadline_timestamp p)"
    using spl unfolding handle_initialize_virtual_pool_with_spl_token_def and_then_Ok_iff Inr_inject
      Pair_inject invoke_Ok_iff by auto
  have v: "pool_base_vault s = ipa_base_vault a" by (simp add: i(5) pool_initialize_def)
  have "unat minted \<le> held rt (pool_base_vault s) b"
    using minted_and_charged [OF _ i(2-4)] assms(2) v by simp
  then show ?thesis using new_pool_backed [of cfg minted s] i(5) by simp
next
  case (token2022 clk a p r)
  then obtain d where d: "process_initialize_virtual_pool_with_token2022 rt clk a cfg p r = Inr (d, b)"
    "s = pool_of_init_data a d"
    unfolding handle_initialize_virtual_pool_with_token2022_def by auto
  show ?thesis using token2022_backed [OF d(1)] assms(2) d(2) by simp
next
  case (hooked clk a c h x p r)
  then obtain d where d: "process_initialize_virtual_pool_with_token2022 rt clk a cfg p r = Inr (d, b)"
    "s = pool_of_init_data a d"
    unfolding handle_initialize_virtual_pool_with_token2022_transfer_hook_def by auto
  show ?thesis using token2022_backed [OF d(1)] assms(2) d(2) by simp
qed

section \<open>The end of a curve\<close>

lemma completion_succeeds:
  assumes "config_ok cfg" "solvent cfg k s" "base_backed rt s b"
    and "locked_vesting_total_amount (cfg_locked_vesting_config cfg) = Inr vest"
    and "curve_base cfg (last_price cfg) + (real (unat (cfg_migration_base_threshold cfg)) + real (unat vest)) \<le> k"
    and "pool_base_vault s = ta_key (swa_base_vault a)" "\<not> al_is_transfer_hook loader"
  shows "\<exists>s' ev. complete_curve rt a loader cfg now s b = Inr (s', ev, b)"
proof (cases "is_curve_complete s (cfg_migration_quote_threshold cfg)")
  case False
  then show ?thesis by (simp add: complete_curve_open)
next
  case True
  let ?t = "cfg_migration_base_threshold cfg" and ?held = "held rt (ta_key (swa_base_vault a)) b"
  have "unat ?t + unat vest \<le> unat (pool_base_reserve s)"
    using solvent_reserve [OF assms(2,1,5)] unfolding of_nat_add [symmetric] of_nat_le_iff .
  then have le: "unat ?t + base_fees s + unat vest \<le> ?held"
    using assms(3,6) by (simp add: base_backed_def)
  have "?held < 2 ^ LENGTH(64)" by (rule unat_lt_2p)
  then have small: "unat ?t + base_fees s + unat vest < 2 ^ LENGTH(64)" using le by linarith
  let ?x = "unat (pool_partner_base_fee s) + unat (pool_protocol_base_fee s)"
  let ?fee = "?x + unat (pool_creator_base_fee s)"
  have lt: "?x < 2 ^ LENGTH(64)" "?fee < 2 ^ LENGTH(64)" "unat ?t + ?fee < 2 ^ LENGTH(64)"
    "unat ?t + ?fee + unat vest < 2 ^ LENGTH(64)"
    using small unfolding base_fees_def by linarith+
  obtain x :: u64 where x: "unat x = ?x" using lt(1) by (rule word_witness)
  obtain fee :: u64 where fee: "unat fee = ?fee" using lt(2) by (rule word_witness)
  obtain q :: u64 where q: "unat q = unat ?t + ?fee" using lt(3) by (rule word_witness)
  obtain req :: u64 where req: "unat req = unat ?t + ?fee + unat vest" using lt(4) by (rule word_witness)
  have fe: "get_protocol_and_trading_base_fee s = Inr fee"
    using fee x lt(1) by (auto simp: get_protocol_and_trading_base_fee_def)
  have "req \<le> rt_token_amount rt (ta_key (swa_base_vault a)) b"
    using le req by (simp add: word_le_nat_alt base_fees_def)
  moreover have "safe_add ?t fee = Inr q" "safe_add q vest = Inr req" using q fee req by simp_all
  ultimately show ?thesis using True assms(4,7) fe
    by (simp add: complete_curve_def Let_def require_def del: safe_add_Ok)
qed

section \<open>The two promises\<close>

text \<open>The swap passes its guards, the trade executes and the tokens are transferred.\<close>

definition swap_settles ::
  "'r runtime \<Rightarrow> clock \<Rightarrow> transaction \<Rightarrow> account_loader \<Rightarrow> swap_accounts \<Rightarrow> pool_config
    \<Rightarrow> swap_parameters2 \<Rightarrow> bool \<Rightarrow> remaining_accounts_slice list \<Rightarrow> pool_state \<Rightarrow> 'r
    \<Rightarrow> pool_state \<Rightarrow> 'r \<Rightarrow> bool" where
  "swap_settles rt clk tx loader a cfg params is_virtual slices s b s1 b1 \<longleftrightarrow>
     (\<exists>g point eligible mode res.
        check_swap rt a s params is_virtual slices tx = Inr g
      \<and> get_current_point clk (cfg_activation_type cfg) = Inr point
      \<and> check_single_swap rt cfg s (ai_key (al_account_info loader)) point (sg_trade_direction g) (sg_sysvar g)
         = Inr ()
      \<and> check_first_swap_with_min_fee rt cfg s (ai_key (al_account_info loader))
         (\<not> is_virtual \<and> swa_referral_token_account a \<noteq> None) (sg_sysvar g) = Inr eligible
      \<and> \<not> is_sale_complete s (cfg_migration_quote_threshold cfg) (clk_unix_timestamp clk)
      \<and> execute_swap s cfg (sg_swap_mode g) (sg_trade_direction g)
         \<lparr>sc_params = params, sc_is_virtual = is_virtual,
          sc_has_referral = (\<not> is_virtual \<and> swa_referral_token_account a \<noteq> None),
          sc_current_point = point, sc_current_timestamp = clk_unix_timestamp clk,
          sc_eligible = eligible\<rparr> = Inr (s1, mode, res)
      \<and> transfer_swap_tokens rt a slices g is_virtual mode (psr_swap_result res) b = Inr b1)"

lemma settled_swap_slack:
  assumes "swap_settles rt clk tx loader a cfg params is_virtual slices s b s1 b1" "config_ok cfg"
    and "solvent cfg k s"
    and "vault_law rt (pool_base_vault s)" "vault_law rt (pool_quote_vault s)"
    and "swa_payer a \<noteq> rt_pool_authority rt" "pool_base_vault s \<noteq> pool_quote_vault s"
  shows "solvent cfg k s1 \<and> frozen s1 = frozen s \<and> stage s1 = stage s
    \<and> pool_base_vault s = ta_key (swa_base_vault a)
    \<and> unat (pool_base_reserve s1) + base_fees s1 + held rt (pool_base_vault s) b
      \<le> unat (pool_base_reserve s) + base_fees s + held rt (pool_base_vault s) b1
    \<and> unat (pool_quote_reserve s1) + quote_fees s1 + held rt (pool_quote_vault s) b
      \<le> unat (pool_quote_reserve s) + quote_fees s + held rt (pool_quote_vault s) b1
    \<and> pool_quote_reserve s \<le> pool_quote_reserve s1 \<and> total_quote_reserve s \<le> total_quote_reserve s1
    \<and> \<not> is_sale_complete s (cfg_migration_quote_threshold cfg) (clk_unix_timestamp clk)"
proof -
  obtain g c mode res where w: "check_swap rt a s params is_virtual slices tx = Inr g"
    "execute_swap s cfg (sg_swap_mode g) (sg_trade_direction g) c = Inr (s1, mode, res)"
    "transfer_swap_tokens rt a slices g (sc_is_virtual c) mode (psr_swap_result res) b = Inr b1"
    "\<not> is_sale_complete s (cfg_migration_quote_threshold cfg) (clk_unix_timestamp clk)"
    using assms(1) unfolding swap_settles_def by force
  note g = check_swap_parts [OF w(1)]
  have e: "execute_swap s cfg (sg_swap_mode g) QuoteToBase c = Inr (s1, mode, res)" using w(2) g(4) by simp
  have on: "on_curve cfg (unat (pool_sqrt_price s))" using assms(3) by (simp add: solvent_def)
  have nv: "sc_is_virtual c \<longrightarrow> QuoteToBase = QuoteToBase" by simp
  note slack = execute_buy_slack [OF e assms(2) on g(4) w(3) assms(4,5) [unfolded g(1,2)] assms(6)
      assms(7) [unfolded g(1,2)] g(1,2)]
  show ?thesis
    using slack execute_swap_solvent [OF e assms(2,3) nv] execute_swap_frozen [OF e] g(1) w(4) by blast
qed

lemma settled_swap_backed:
  assumes "swap_settles rt clk tx loader a cfg params is_virtual slices s b s1 b1" "config_ok cfg"
    and "solvent cfg k s" "base_backed rt s b" "quote_backed rt s b"
    and "vault_law rt (pool_base_vault s)" "vault_law rt (pool_quote_vault s)"
    and "swa_payer a \<noteq> rt_pool_authority rt" "pool_base_vault s \<noteq> pool_quote_vault s"
  shows "solvent cfg k s1 \<and> base_backed rt s1 b1 \<and> quote_backed rt s1 b1 \<and> frozen s1 = frozen s
    \<and> pool_base_vault s = ta_key (swa_base_vault a)"
proof -
  note n = settled_swap_slack [OF assms(1-3,6-9)]
  then have v: "pool_base_vault s1 = pool_base_vault s" "pool_quote_vault s1 = pool_quote_vault s"
    by (simp_all add: frozen_def)
  have "base_backed rt s1 b1" "quote_backed rt s1 b1"
    using n assms(4,5) unfolding base_backed_def quote_backed_def v by linarith+
  then show ?thesis using n by blast
qed

lemma process_swap_settles:
  assumes "process_swap rt clk tx loader a cfg params is_virtual slices s b = Inr (s', ev, b')"
  shows "\<exists>s1 b1. swap_settles rt clk tx loader a cfg params is_virtual slices s b s1 b1
    \<and> complete_curve rt a loader cfg (clk_unix_timestamp clk) s1 b1 = Inr (s', ev_curve_complete ev, b')"
  using process_swap_parts [OF assms] unfolding swap_settles_def by blast

lemma settled_process_swap:
  assumes "swap_settles rt clk tx loader a cfg params is_virtual slices s b s1 b1"
    and "complete_curve rt a loader cfg (clk_unix_timestamp clk) s1 b1 = Inr (s', ev, b')"
  shows "\<exists>d. process_swap rt clk tx loader a cfg params is_virtual slices s b = Inr (s', d, b')"
  using assms unfolding swap_settles_def process_swap_def Let_def by auto

lemma complete_curve_backed:
  assumes "complete_curve rt a loader cfg now s b = Inr (s', ev, b')" "vault_law rt v"
  shows "held rt v b' = held rt v b \<and> solvent cfg k s' = solvent cfg k s \<and> base_fees s' = base_fees s
    \<and> quote_fees s' = quote_fees s \<and> frozen s' = frozen s
    \<and> pool_base_reserve s' = pool_base_reserve s \<and> pool_quote_reserve s' = pool_quote_reserve s"
proof (cases "is_curve_complete s (cfg_migration_quote_threshold cfg)")
  case False
  then show ?thesis using assms(1) by (simp add: complete_curve_open)
next
  case True
  note c = complete_curve_complete [OF assms(1) True]
  have "held rt v b' = held rt v b"
    using c law_invoke [OF assms(2), of _ _ _ 0 0] by (auto simp: revoke_transfer_hook_def split: if_splits)
  then show ?thesis using c by (auto simp: solvent_def frozen_def)
qed

lemma process_swap_backed:
  assumes "process_swap rt clk tx loader a cfg params is_virtual slices s b = Inr (s', ev, b')"
    and "config_ok cfg" "solvent cfg k s" "base_backed rt s b" "quote_backed rt s b"
    and "vault_law rt (pool_base_vault s)" "vault_law rt (pool_quote_vault s)"
    and "swa_payer a \<noteq> rt_pool_authority rt" "pool_base_vault s \<noteq> pool_quote_vault s"
  shows "solvent cfg k s' \<and> base_backed rt s' b' \<and> quote_backed rt s' b'"
proof -
  obtain s1 b1 where w: "swap_settles rt clk tx loader a cfg params is_virtual slices s b s1 b1"
    and c: "complete_curve rt a loader cfg (clk_unix_timestamp clk) s1 b1 = Inr (s', ev_curve_complete ev, b')"
    using process_swap_settles [OF assms(1)] by blast
  note n = settled_swap_backed [OF w assms(2-9)]
  have "pool_base_vault s' = pool_base_vault s1" "pool_quote_vault s' = pool_quote_vault s1"
    "pool_base_vault s1 = pool_base_vault s" "pool_quote_vault s1 = pool_quote_vault s"
    using n complete_curve_backed [OF c assms(6), of k] by (simp_all add: frozen_def)
  then show ?thesis
    using n complete_curve_backed [OF c assms(6), of k] complete_curve_backed [OF c assms(7), of k]
    by (simp add: base_backed_def quote_backed_def)
qed

text \<open>
  C23: swaps keep the vaults covering the books.  Under the token program's law, if
  the two vaults hold at least the reserves and the fees that the pool owes, then
  they do so after every successful swap instruction, whatever its mode, fees and
  referral, virtual or not, and also when it completes the curve.
\<close>

theorem swap_keeps_vaults_backed:
  assumes "process_swap rt clk tx loader a cfg params is_virtual slices s b = Inr (s', ev, b')"
    and "config_ok cfg" "solvent cfg k s" "base_backed rt s b" "quote_backed rt s b"
    and "vault_law rt (pool_base_vault s)" "vault_law rt (pool_quote_vault s)"
    and "swa_payer a \<noteq> rt_pool_authority rt" "pool_base_vault s \<noteq> pool_quote_vault s"
  shows "solvent cfg k s' \<and> base_backed rt s' b' \<and> quote_backed rt s' b'"
  by (rule process_swap_backed [OF assms])

theorem swap_keeps_vaults_backed_witness:
  "base_backed ledger_runtime completed_pool (sample_balances(31 := 2979797, 12 := 2020203, 11 := 333334, 32 := 666666))"
proof -
  have vaults: "pool_base_vault (keyed fresh_pool) = 11" "pool_quote_vault (keyed fresh_pool) = 12"
    by (simp_all add: keyed_def)
  have "solvent sample_config 1000000 (keyed fresh_pool)"
    using fresh_pool_solvent by (simp add: solvent_def keyed_def)
  moreover have "base_backed ledger_runtime (keyed fresh_pool) sample_balances"
    "quote_backed ledger_runtime (keyed fresh_pool) sample_balances"
    by (simp_all add: base_backed_def quote_backed_def base_fees_def quote_fees_def vaults)
      (simp_all add: keyed_def fresh_pool_def default_pool_state_def ledger_runtime_def sample_balances_def)
  moreover have "swa_payer sample_accounts \<noteq> rt_pool_authority ledger_runtime"
    by (simp add: sample_accounts_def ledger_runtime_def)
  ultimately show ?thesis
    using swap_keeps_vaults_backed [OF completing_swap sample_config_ok] ledger_law vaults by simp
qed



end
