(* ===== verification/Payouts.thy ===== *)
theory Payouts
  imports Claims Vaults
begin

text \<open>
  What the instructions that pay money out do to the books and the vaults.  Each
  keeps the \<open>core\<close> of the pool, and what leaves a vault for a fee is taken off the
  fees that the pool owes; only surplus and migration fee come out of the quote
  reserve.
\<close>

section \<open>The core of a pool\<close>

definition core :: "pool_state \<Rightarrow> (u64 \<times> u64 \<times> u64 \<times> u128) \<times> (u8 \<times> pubkey \<times> pubkey \<times> u64)" where
  "core s = ((pool_base_reserve s, pool_quote_reserve s, pool_virtual_quote_reserve s, pool_sqrt_price s),
     (pool_migration_progress s, pool_base_vault s, pool_quote_vault s, pool_deadline_timestamp s))"

text \<open>
  \<open>pays rt s b s' b' extra\<close>: the base vault's holdings over the base fees do not fall,
  and those of the quote vault fall by at most \<open>extra\<close>.
\<close>

definition pays :: "'r runtime \<Rightarrow> pool_state \<Rightarrow> 'r \<Rightarrow> pool_state \<Rightarrow> 'r \<Rightarrow> nat \<Rightarrow> bool" where
  "pays rt s b s' b' extra \<longleftrightarrow> core s' = core s
     \<and> base_fees s' + held rt (pool_base_vault s) b \<le> base_fees s + held rt (pool_base_vault s) b'
     \<and> quote_fees s' + held rt (pool_quote_vault s) b
       \<le> quote_fees s + held rt (pool_quote_vault s) b' + extra"

text \<open>The marks of the payouts that happen once.\<close>

definition flags :: "pool_state \<Rightarrow> (u8 \<times> u8 \<times> u8) \<times> (u8 \<times> u8 \<times> u8) \<times> u16" where
  "flags s = ((pool_is_partner_withdraw_surplus s, pool_is_creator_withdraw_surplus s, pool_is_withdraw_leftover s),
     (pool_migration_fee_withdraw_status s, pool_legacy_creation_fee_bits s, pool_creation_fee_bits s),
     pool_protocol_liquidity_migration_fee_bps s)"

definition settles :: "pool_state \<Rightarrow> pool_state \<Rightarrow> nat \<Rightarrow> nat \<Rightarrow> bool" where
  "settles s s' x y \<longleftrightarrow> core s' = core s \<and> base_fees s' + x = base_fees s \<and> quote_fees s' + y = quote_fees s
     \<and> flags s' = flags s"

section \<open>The pool operations\<close>

lemma claim_creator_trading_fee_settles:
  "claim_creator_trading_fee s mb mq = Inr (x, y, s') \<Longrightarrow> settles s s' (unat x) (unat y)"
  by (auto simp: claim_creator_trading_fee_def settles_def core_def flags_def base_fees_def quote_fees_def Let_def
      word_le_nat_alt)

lemma claim_partner_trading_fee_settles:
  "claim_partner_trading_fee s mb mq = Inr (x, y, s') \<Longrightarrow> settles s s' (unat x) (unat y)"
  by (auto simp: claim_partner_trading_fee_def settles_def core_def flags_def base_fees_def quote_fees_def Let_def
      word_le_nat_alt)

lemma safe_sub_sum: "safe_sub a v = Inr r \<Longrightarrow> unat r + unat v = unat (a :: u64)"
  by auto

lemma safe_add_sum: "safe_add a v = Inr r \<Longrightarrow> unat r = unat (a :: u64) + unat v"
  by auto

lemma claim_protocol_base_fee_settles:
  assumes "claim_protocol_base_fee s mx = Inr (x, s')"
  shows "settles s s' (unat x) 0"
proof -
  let ?t = "min (pool_protocol_base_fee s) mx"
  obtain f m e t where c: "safe_sub (pool_protocol_base_fee s) ?t = Inr f"
    "safe_sub (pool_protocol_migration_base_fee_amount s) (min (pool_protocol_migration_base_fee_amount s) m) = Inr e"
    "safe_add ?t (min (pool_protocol_migration_base_fee_amount s) m) = Inr t"
    "x = t" "s' = s\<lparr>pool_protocol_base_fee := f, pool_protocol_migration_base_fee_amount := e\<rparr>"
    using assms unfolding claim_protocol_base_fee_def Let_def and_then_Ok_iff Inr_inject Pair_inject by blast
  have "unat f + unat e + unat t
      = unat (pool_protocol_base_fee s) + unat (pool_protocol_migration_base_fee_amount s)"
    using safe_sub_sum [OF c(1)] safe_sub_sum [OF c(2)] safe_add_sum [OF c(3)] by linarith
  then show ?thesis using c(4,5) by (simp add: settles_def core_def flags_def base_fees_def quote_fees_def)
qed

lemma claim_protocol_quote_fee_settles:
  assumes "claim_protocol_quote_fee s mx = Inr (x, s')"
  shows "settles s s' 0 (unat x)"
proof -
  let ?t = "min (pool_protocol_quote_fee s) mx"
  obtain f m e t where c: "safe_sub (pool_protocol_quote_fee s) ?t = Inr f"
    "safe_sub (pool_protocol_migration_quote_fee_amount s) (min (pool_protocol_migration_quote_fee_amount s) m) = Inr e"
    "safe_add ?t (min (pool_protocol_migration_quote_fee_amount s) m) = Inr t"
    "x = t" "s' = s\<lparr>pool_protocol_quote_fee := f, pool_protocol_migration_quote_fee_amount := e\<rparr>"
    using assms unfolding claim_protocol_quote_fee_def Let_def and_then_Ok_iff Inr_inject Pair_inject by blast
  have "unat f + unat e + unat t
      = unat (pool_protocol_quote_fee s) + unat (pool_protocol_migration_quote_fee_amount s)"
    using safe_sub_sum [OF c(1)] safe_sub_sum [OF c(2)] safe_add_sum [OF c(3)] by linarith
  then show ?thesis using c(4,5) by (simp add: settles_def core_def flags_def base_fees_def quote_fees_def)
qed

lemma claim_protocol_quote_fee_and_surplus_settles:
  assumes "claim_protocol_quote_fee_and_surplus s mx cfg = Inr (x, s')"
  shows "settles s s' 0 (unat x)"
proof -
  obtain y s1 where c: "claim_protocol_quote_fee s mx = Inr (y, s1)"
    using assms unfolding claim_protocol_quote_fee_and_surplus_def and_then_Ok_iff by auto
  have same: "get_protocol_surplus (update_protocol_withdraw_surplus s1) t = get_protocol_surplus s1 t" for t
    by (simp add: get_protocol_surplus_def get_total_surplus_def update_protocol_withdraw_surplus_def)
  note assms [unfolded claim_protocol_quote_fee_and_surplus_def c and_then_simps Let_def case_prod_conv]
  then have "x = y \<and> (s' = s1 \<or> s' = update_protocol_withdraw_surplus s1)"
    by (auto simp: word_unat_eq_iff same protocol_surplus_zero split: if_splits)
  then show ?thesis using claim_protocol_quote_fee_settles [OF c]
    by (auto simp: settles_def core_def flags_def base_fees_def quote_fees_def update_protocol_withdraw_surplus_def)
qed

section \<open>Transfers out of the vaults\<close>

definition lawful :: "'r runtime \<Rightarrow> pool_state \<Rightarrow> bool" where
  "lawful rt s \<longleftrightarrow> vault_law rt (pool_base_vault s) \<and> vault_law rt (pool_quote_vault s)
     \<and> pool_base_vault s \<noteq> pool_quote_vault s"

lemma transfer_out:
  assumes "lawful rt s" "transfer_token_from_pool_authority rt m src dst p n hook b = Inr b'"
  shows "held rt (pool_base_vault s) b \<le> held rt (pool_base_vault s) b'
      + (if src = pool_base_vault s then unat n else 0)"
    and "held rt (pool_quote_vault s) b \<le> held rt (pool_quote_vault s) b'
      + (if src = pool_quote_vault s then unat n else 0)"
  using law_from_pool [OF _ assms(2), of "pool_base_vault s"]
    law_from_pool [OF _ assms(2), of "pool_quote_vault s"] assms(1)
  unfolding lawful_def by (metis (no_types, lifting) le_add1 le_add2)+

lemma pay_base_out:
  assumes "lawful rt s" "ta_key (cla_base_vault a) = pool_base_vault s"
    and "if unat n > 0 then pay_base rt a n hook b = Inr b' else b' = b"
  shows "held rt (pool_base_vault s) b \<le> held rt (pool_base_vault s) b' + unat n
    \<and> held rt (pool_quote_vault s) b \<le> held rt (pool_quote_vault s) b'"
  using assms(2,3) transfer_out [OF assms(1), of _ "ta_key (cla_base_vault a)"] assms(1)
  by (auto simp: pay_base_def lawful_def split: if_splits)

lemma pay_quote_out:
  assumes "lawful rt s" "ta_key (cla_quote_vault a) = pool_quote_vault s"
    and "if unat n > 0 then pay_quote rt a n b = Inr b' else b' = b"
  shows "held rt (pool_base_vault s) b \<le> held rt (pool_base_vault s) b'
    \<and> held rt (pool_quote_vault s) b \<le> held rt (pool_quote_vault s) b' + unat n"
  using assms(2,3) transfer_out [OF assms(1), of _ "ta_key (cla_quote_vault a)"] assms(1)
  by (auto simp: pay_quote_def lawful_def split: if_splits)

lemma settles_pays:
  assumes "settles s s' x y" "held rt (pool_base_vault s) b \<le> held rt (pool_base_vault s) b' + x
    \<and> held rt (pool_quote_vault s) b \<le> held rt (pool_quote_vault s) b' + y"
  shows "pays rt s b s' b' 0 \<and> flags s' = flags s"
proof -
  have "base_fees s' + held rt (pool_base_vault s) b \<le> base_fees s + held rt (pool_base_vault s) b'"
    "quote_fees s' + held rt (pool_quote_vault s) b \<le> quote_fees s + held rt (pool_quote_vault s) b'"
    using assms unfolding settles_def by linarith+
  then show ?thesis using assms(1) by (simp add: settles_def pays_def)
qed

lemma settles_core:
  "settles s s' x y \<Longrightarrow> pool_base_vault s' = pool_base_vault s \<and> pool_quote_vault s' = pool_quote_vault s"
  by (simp add: settles_def core_def)

lemma settles_trans:
  "settles s s1 x y \<Longrightarrow> settles s1 s' x' y' \<Longrightarrow> settles s s' (x + x') (y + y')"
  by (simp add: settles_def)

section \<open>Fee claims\<close>

lemma pay_trading_fee_out:
  assumes "lawful rt s" "ta_key (cla_base_vault a) = pool_base_vault s"
    "ta_key (cla_quote_vault a) = pool_quote_vault s" "pay_trading_fee rt a parsed x y b = Inr b'"
  shows "held rt (pool_base_vault s) b \<le> held rt (pool_base_vault s) b' + unat x
    \<and> held rt (pool_quote_vault s) b \<le> held rt (pool_quote_vault s) b' + unat y"
proof -
  obtain b1 where "if unat x > 0 then pay_base rt a x (transfer_hook_base parsed) b = Inr b1 else b1 = b"
    "if unat y > 0 then pay_quote rt a y b1 = Inr b' else b' = b1"
    using assms(4) by (auto simp: pay_trading_fee_def word_less_nat_alt split: if_splits)
  then show ?thesis using pay_base_out [OF assms(1,2)] pay_quote_out [OF assms(1,3)] by fastforce
qed

lemma creator_fee_pays:
  assumes "handle_claim_creator_trading_fee rt a mb mq slices s b = Inr (x, y, s', b')" "lawful rt s"
  shows "pays rt s b s' b' 0 \<and> flags s' = flags s"
proof -
  obtain parsed where h: "pool_base_vault s = ta_key (cla_base_vault a)" "pool_quote_vault s = ta_key (cla_quote_vault a)"
    "claim_creator_trading_fee s mb mq = Inr (x, y, s')" "pay_trading_fee rt a parsed x y b = Inr b'"
    using assms(1) unfolding handle_claim_creator_trading_fee_def and_then_Ok_iff has_one_Ok_iff
      split_paired_Ex case_prod_conv Inr_inject Pair_inject by blast
  show ?thesis
    by (rule settles_pays [OF claim_creator_trading_fee_settles [OF h(3)]
          pay_trading_fee_out [OF assms(2) h(1) [symmetric] h(2) [symmetric] h(4)]])
qed

lemma partner_fee_pays:
  assumes "handle_claim_trading_fee rt a cfg mb mq slices s b = Inr (x, y, s', b')" "lawful rt s"
  shows "pays rt s b s' b' 0 \<and> flags s' = flags s"
proof -
  obtain parsed where h: "pool_base_vault s = ta_key (cla_base_vault a)" "pool_quote_vault s = ta_key (cla_quote_vault a)"
    "claim_partner_trading_fee s mb mq = Inr (x, y, s')" "pay_trading_fee rt a parsed x y b = Inr b'"
    using assms(1) unfolding handle_claim_trading_fee_def and_then_Ok_iff has_one_Ok_iff
      split_paired_Ex case_prod_conv Inr_inject Pair_inject by blast
  show ?thesis
    by (rule settles_pays [OF claim_partner_trading_fee_settles [OF h(3)]
          pay_trading_fee_out [OF assms(2) h(1) [symmetric] h(2) [symmetric] h(4)]])
qed

lemma protocol_fee_pays:
  assumes "claim_protocol_fee_entry rt a op cfg mb mq s b = Inr (x, y, s', b')" "lawful rt s"
  shows "pays rt s b s' b' 0 \<and> flags s' = flags s"
proof -
  obtain s1 b1 where h: "protocol_fee_accounts_ok rt a cfg s"
    "claim_protocol_base_fee s mb = Inr (x, s1)"
    "(if x > 0 then and_then (validate_ata_token rt (cla_base_receiver a) treasury_id
        (mint_key (cla_base_mint a)) (cla_token_base_program a)) (\<lambda>_. pay_base rt a x None b)
      else Inr b) = Inr b1"
    "claim_protocol_quote_fee_and_surplus s1 mq cfg = Inr (y, s')"
    "(if y > 0 then and_then (validate_ata_token rt (cla_quote_receiver a) treasury_id
        (mint_key (cla_quote_mint a)) (cla_token_quote_program a)) (\<lambda>_. pay_quote rt a y b1)
      else Inr b1) = Inr b'"
    using assms(1) unfolding claim_protocol_fee_entry_def handle_claim_protocol_fee_def and_then_Ok_iff
      has_one_Ok_iff split_paired_Ex case_prod_conv Inr_inject Pair_inject by blast
  have v: "ta_key (cla_base_vault a) = pool_base_vault s" "ta_key (cla_quote_vault a) = pool_quote_vault s"
    using h(1) by (simp_all add: protocol_fee_accounts_ok_def)
  have "if unat x > 0 then pay_base rt a x None b = Inr b1 else b1 = b"
    "if unat y > 0 then pay_quote rt a y b1 = Inr b' else b' = b1"
    using h(3,5) by (auto simp: word_less_nat_alt split: if_splits)
  then have out: "held rt (pool_base_vault s) b \<le> held rt (pool_base_vault s) b' + unat x
    \<and> held rt (pool_quote_vault s) b \<le> held rt (pool_quote_vault s) b' + unat y"
    using pay_base_out [OF assms(2) v(1)] pay_quote_out [OF assms(2) v(2)] by fastforce
  have "settles s s' (unat x) (unat y)"
    using settles_trans [OF claim_protocol_base_fee_settles [OF h(2)]
        claim_protocol_quote_fee_and_surplus_settles [OF h(4)]] by simp
  then show ?thesis using out by (rule settles_pays)
qed

text \<open>Only one side is paid.\<close>

definition side :: "bool \<Rightarrow> u64 \<Rightarrow> nat \<times> nat" where
  "side is_base x = (if is_base then (unat x, 0) else (0, unat x))"

lemma claim_side_settles:
  assumes "if is_base then claim_protocol_base_fee s mx = Inr (x, s')
    else claim_protocol_quote_fee_and_surplus s mx cfg = Inr (x, s')"
  shows "settles s s' (fst (side is_base x)) (snd (side is_base x))"
  using assms claim_protocol_base_fee_settles claim_protocol_quote_fee_and_surplus_settles
  by (simp add: side_def split: if_splits)

lemma pay_side_out:
  assumes "lawful rt s" "transfer_token_from_pool_authority rt m
      (if is_base then pool_base_vault s else pool_quote_vault s) dst p x hook b = Inr b'"
  shows "held rt (pool_base_vault s) b \<le> held rt (pool_base_vault s) b' + fst (side is_base x)
    \<and> held rt (pool_quote_vault s) b \<le> held rt (pool_quote_vault s) b' + snd (side is_base x)"
  using transfer_out [OF assms] assms(1) by (simp add: side_def lawful_def split: if_splits)

lemma protocol_fee2_pays:
  assumes "handle_claim_protocol_fee2 rt a cfg mx s b = Inr (x, s', b')" "lawful rt s"
  shows "pays rt s b s' b' 0 \<and> flags s' = flags s"
proof -
  obtain is_base amt s1 and loader :: account_loader where h: "pool_base_vault s = ta_key (cla_base_vault a)"
    "pool_quote_vault s = ta_key (cla_quote_vault a)"
    "(if is_base then
        and_then
          (if al_is_transfer_hook loader
           then require (is_curve_complete s (cfg_migration_quote_threshold cfg)) PoolIsIncompleted
           else Inr ()) (\<lambda>_.
        claim_protocol_base_fee s mx)
      else claim_protocol_quote_fee_and_surplus s mx cfg) = Inr (amt, s1)"
    "(if amt = 0 then Inr (amt, s1, b)
     else
       let (token_vault, token_mint, token_program) =
         (if is_base then (cla_base_vault a, cla_base_mint a, cla_token_base_program a)
          else (cla_quote_vault a, cla_quote_mint a, cla_token_quote_program a)) in
       and_then (transfer_token_from_pool_authority rt token_mint (ta_key token_vault)
         (ta_key (cla_base_receiver a)) token_program amt None b) (\<lambda>r.
       Inr (amt, s1, r))) = Inr (x, s', b')"
    using assms(1) unfolding handle_claim_protocol_fee2_def and_then_Ok_iff has_one_Ok_iff
      split_paired_Ex case_prod_conv by blast
  have set: "settles s s' (fst (side is_base x)) (snd (side is_base x))"
  proof (rule claim_side_settles)
    have "x = amt" "s' = s1" using h(4) by (auto simp: Let_def split: if_splits)
    then show "if is_base then claim_protocol_base_fee s mx = Inr (x, s')
      else claim_protocol_quote_fee_and_surplus s mx cfg = Inr (x, s')"
      using h(3) by (simp split: if_splits)
  qed
  have "held rt (pool_base_vault s) b \<le> held rt (pool_base_vault s) b' + fst (side is_base x)
    \<and> held rt (pool_quote_vault s) b \<le> held rt (pool_quote_vault s) b' + snd (side is_base x)"
  proof (cases "amt = 0")
    case True
    then show ?thesis using h(4) by simp
  next
    case False
    then have "\<exists>m p. transfer_token_from_pool_authority rt m (if is_base then pool_base_vault s
        else pool_quote_vault s) (ta_key (cla_base_receiver a)) p x None b = Inr b'"
      using h(1,2,4) by (cases is_base) (auto simp: Let_def)
    then show ?thesis using pay_side_out [OF assms(2)] by blast
  qed
  with set show ?thesis by (rule settles_pays)
qed

lemma zap_pays:
  assumes "handle_zap_protocol_fee rt z a cfg mx s b = Inr (x, s', b')" "lawful rt s"
  shows "pays rt s b s' b' 0 \<and> flags s' = flags s"
proof -
  obtain is_base dst where h: "validate_accounts_and_return_withdraw_direction cfg s a = Inr is_base"
    "(if is_base then
        and_then (claim_protocol_base_fee s mx) (\<lambda>(amt, s).
        and_then (get_token_program_from_flag rt (cfg_quote_token_flag cfg)) (\<lambda>token_program.
        Inr (amt, s, rt_associated_token_address rt treasury_id (cfg_quote_mint cfg) token_program)))
      else
        and_then (claim_protocol_quote_fee_and_surplus s mx cfg) (\<lambda>(amt, s).
        and_then (get_token_program_from_pool_type rt (pool_pool_type s)) (\<lambda>token_program.
        Inr (amt, s, rt_associated_token_address rt treasury_id (pool_base_mint s) token_program))))
     = Inr (x, s', dst)"
    "transfer_token_from_pool_authority rt (zpa_token_mint a) (ta_key (zpa_token_vault a))
        (ta_key (zpa_receiver_token a)) (zpa_token_program a) x None b = Inr b'"
    using assms(1) unfolding handle_zap_protocol_fee_def and_then_Ok_iff
      split_paired_Ex case_prod_conv Inr_inject Pair_inject by blast
  have v: "ta_key (zpa_token_vault a) = (if is_base then pool_base_vault s else pool_quote_vault s)"
    using h(1) by (auto simp: validate_accounts_and_return_withdraw_direction_def Let_def)
  have "if is_base then claim_protocol_base_fee s mx = Inr (x, s')
      else claim_protocol_quote_fee_and_surplus s mx cfg = Inr (x, s')"
    using h(2) by (auto split: if_splits)
  note set = claim_side_settles [OF this]
  show ?thesis by (rule settles_pays [OF set pay_side_out [OF assms(2) h(3) [unfolded v]]])
qed

section \<open>Surplus and migration fee\<close>

text \<open>
  What the pool keeps of its quote reserve once the partner has taken the surplus,
  and what the quote vault owes altogether.
\<close>

definition quote_kept :: "pool_config \<Rightarrow> pool_state \<Rightarrow> nat" where
  "quote_kept cfg s = (if pool_is_partner_withdraw_surplus s = 0 then unat (pool_quote_reserve s)
     else min (unat (pool_quote_reserve s)) (unat (get_migration_quote_amount_cap cfg)))"

text \<open>The books after a payout are covered as much as before.\<close>

definition balanced :: "pool_config \<Rightarrow> 'r runtime \<Rightarrow> pool_state \<Rightarrow> 'r \<Rightarrow> pool_state \<Rightarrow> 'r \<Rightarrow> bool" where
  "balanced cfg rt s b s' b' \<longleftrightarrow> core s' = core s
     \<and> base_fees s' + held rt (pool_base_vault s) b \<le> base_fees s + held rt (pool_base_vault s) b'
     \<and> quote_kept cfg s' + quote_fees s' + held rt (pool_quote_vault s) b
       \<le> quote_kept cfg s + quote_fees s + held rt (pool_quote_vault s) b'"

lemma pays_balanced:
  assumes "pays rt s b s' b' 0 \<and> flags s' = flags s"
  shows "balanced cfg rt s b s' b'"
  using assms by (simp add: pays_def balanced_def quote_kept_def core_def flags_def)

lemma created_shares:
  assumes "created rt cfg"
  shows "cfg_creator_trading_fee_percentage cfg = 0 \<and> cfg_migration_fee_percentage cfg = 0
    \<and> 0 < cfg_migration_quote_threshold cfg
    \<and> get_migration_quote_amount_cap cfg \<le> cfg_migration_quote_threshold cfg"
proof -
  obtain cp ext nm mint now hook fc lr where v: "config_parameters_validate rt ext nm cp mint now hook = Inr ()"
    "process_create_config rt zero_pool_config cp mint fc lr = Inr cfg"
    using created_parts [OF assms] by blast
  obtain f swap base mp flag pre post where
    "pool_config_init zero_pool_config (mint_key mint) fc lr cp f swap base mp flag pre post = Inr cfg"
    using process_create_config_parts [OF v(2)] by blast
  note fields = pool_config_init_fields [OF this]
  show ?thesis using config_parameters_validate_parts [OF v(1)] fields(4,11,12,14)
    by (simp add: get_migration_quote_amount_cap_def get_effective_migration_quote_amount_cap_def)
qed

lemma whole_surplus:
  assumes "cfg_creator_trading_fee_percentage cfg = 0"
  shows "get_partner_surplus cfg n = Inr x \<Longrightarrow> x = n" and "get_creator_surplus cfg n = Inr y \<Longrightarrow> y = 0"
  using assms
  by (auto simp: get_partner_surplus_def get_creator_surplus_def split_partner_and_creator_fee_def
      split: if_splits)

lemma pay_quote_held:
  assumes "lawful rt s" "ta_key (cla_quote_vault a) = pool_quote_vault s" "pay_quote rt a n b = Inr b'"
  shows "held rt (pool_base_vault s) b \<le> held rt (pool_base_vault s) b'"
    and "held rt (pool_quote_vault s) b \<le> held rt (pool_quote_vault s) b' + unat n"
  using assms(2) transfer_out [OF assms(1) assms(3) [unfolded pay_quote_def]] assms(1)
  by (auto simp: lawful_def)

lemma creator_surplus_balanced:
  assumes "handle_creator_withdraw_surplus rt a cfg s b = Inr (x, s', b')" "lawful rt s"
    and "cfg_creator_trading_fee_percentage cfg = 0"
  shows "balanced cfg rt s b s' b' \<and> x = 0"
proof -
  obtain n where h: "pool_quote_vault s = ta_key (cla_quote_vault a)"
    "get_creator_surplus cfg n = Inr x" "pay_quote rt a x b = Inr b'"
    "s' = update_creator_withdraw_surplus s"
    using assms(1) unfolding handle_creator_withdraw_surplus_def and_then_Ok_iff has_one_Ok_iff
      Inr_inject Pair_inject by blast
  show ?thesis using h(4) whole_surplus(2) [OF assms(3) h(2)] pay_quote_held [OF assms(2) h(1) [symmetric] h(3)]
    by (simp add: balanced_def core_def base_fees_def quote_fees_def quote_kept_def
        update_creator_withdraw_surplus_def)
qed

lemma partner_surplus_balanced:
  assumes "handle_partner_withdraw_surplus rt a cfg s b = Inr (x, s', b')" "lawful rt s"
    and "cfg_creator_trading_fee_percentage cfg = 0"
  shows "balanced cfg rt s b s' b'
    \<and> unat x + unat (get_migration_quote_amount_cap cfg) = unat (pool_quote_reserve s)"
proof -
  let ?cap = "get_migration_quote_amount_cap cfg"
  obtain n where h: "pool_quote_vault s = ta_key (cla_quote_vault a)"
    "pool_is_partner_withdraw_surplus s = 0"
    "get_total_surplus s ?cap = Inr n"
    "get_partner_surplus cfg n = Inr x" "pay_quote rt a x b = Inr b'"
    "s' = update_partner_withdraw_surplus s"
    using assms(1) unfolding handle_partner_withdraw_surplus_def and_then_Ok_iff has_one_Ok_iff
      require_Ok_iff Inr_inject Pair_inject by blast
  have n: "unat x + unat ?cap = unat (pool_quote_reserve s)"
    using safe_sub_sum [OF h(3) [unfolded get_total_surplus_def]] whole_surplus(1) [OF assms(3) h(4)] by simp
  have k: "quote_kept cfg s' = unat ?cap" "quote_kept cfg s = unat (pool_quote_reserve s)"
    using n h(2) unfolding h(6) by (simp_all add: quote_kept_def update_partner_withdraw_surplus_def)
  have "base_fees s' = base_fees s" "quote_fees s' = quote_fees s" "core s' = core s"
    unfolding h(6) by (simp_all add: core_def base_fees_def quote_fees_def update_partner_withdraw_surplus_def)
  then show ?thesis
    using n k pay_quote_held [OF assms(2) h(1) [symmetric] h(5)] unfolding balanced_def by simp
qed

lemma no_migration_fee:
  assumes "cfg_migration_fee_percentage cfg = 0" "get_migration_fee_distribution_for_threshold cfg t = Inr d"
  shows "mf_partner_migration_fee d = 0 \<and> mf_creator_migration_fee d = 0"
proof -
  have "ceil_div (n * 100) 100 = n" for n by (simp add: ceil_div_def)
  then show ?thesis using assms
    by (auto simp: get_migration_fee_distribution_for_threshold_def calculate_post_fee_migration_quote_amount_def
        word_unat_eq_iff)
qed

lemma migration_fee_balanced:
  assumes "handle_withdraw_migration_fee rt a cfg flag s b = Inr (x, s', b')" "lawful rt s"
    and "cfg_migration_fee_percentage cfg = 0"
  shows "balanced cfg rt s b s' b' \<and> x = 0"
proof -
  obtain d f where h: "pool_quote_vault s = ta_key (cla_quote_vault a)"
    "get_migration_fee_distribution_for_threshold cfg
       (effective_migration_quote_threshold s (get_migration_quote_amount_cap cfg)) = Inr d"
    "(if f = SenderPartner then
          and_then (require (cla_signer a = cfg_fee_claimer cfg) NotPermitToDoThisAction) (\<lambda>_.
          and_then (require (eligible_to_withdraw_migration_fee s PARTNER_MIGRATION_FEE_MASK)
            MigrationFeeHasBeenWithdraw) (\<lambda>_.
          Inr (mf_partner_migration_fee d, update_withdraw_migration_fee s PARTNER_MIGRATION_FEE_MASK)))
        else
          and_then (require (cla_signer a = pool_creator s) NotPermitToDoThisAction) (\<lambda>_.
          and_then (require (eligible_to_withdraw_migration_fee s CREATOR_MIGRATION_FEE_MASK)
            MigrationFeeHasBeenWithdraw) (\<lambda>_.
          Inr (mf_creator_migration_fee d, update_withdraw_migration_fee s CREATOR_MIGRATION_FEE_MASK)))) = Inr (x, s')"
    "pay_quote rt a x b = Inr b'"
    using assms(1) unfolding handle_withdraw_migration_fee_def Let_def and_then_Ok_iff has_one_Ok_iff
      split_paired_Ex case_prod_conv Inr_inject Pair_inject by blast
  obtain mask where "x = 0" "s' = update_withdraw_migration_fee s mask"
    using h(3) no_migration_fee [OF assms(3) h(2)] by (auto split: if_splits)
  then show ?thesis using pay_quote_held [OF assms(2) h(1) [symmetric] h(4)]
    by (simp add: balanced_def core_def base_fees_def quote_fees_def quote_kept_def
        update_withdraw_migration_fee_def)
qed

section \<open>Pool creation fees, leftover and creator\<close>

lemma lamports_held:
  assumes "vault_law rt v" "transfer_lamports_from_pool_account rt from to n b = Inr b'"
  shows "held rt v b' = held rt v b"
proof -
  obtain b1 where "rt_invoke rt (SubLamports from n) b = Some b1" "rt_invoke rt (AddLamports to n) b1 = Some b'"
    using assms(2) by (auto simp: transfer_lamports_from_pool_account_def)
  then show ?thesis using law_invoke [OF assms(1), of _ _ _ 0 0] by fastforce
qed

lemma untouched_balanced:
  assumes "core s' = core s" "base_fees s' = base_fees s" "quote_fees s' = quote_fees s"
    "pool_is_partner_withdraw_surplus s' = pool_is_partner_withdraw_surplus s"
    "held rt (pool_base_vault s) b \<le> held rt (pool_base_vault s) b'"
    "held rt (pool_quote_vault s) b \<le> held rt (pool_quote_vault s) b'"
  shows "balanced cfg rt s b s' b'"
  using assms by (simp add: balanced_def quote_kept_def core_def)

lemma partner_creation_fee_balanced:
  assumes "handle_claim_partner_pool_creation_fee rt a cfg s b = Inr (x, s', b')" "lawful rt s"
  shows "balanced cfg rt s b s' b'"
proof -
  have h: "s' = update_partner_pool_creation_fee_claimed s"
    "transfer_lamports_from_pool_account rt (ai_key (cla_pool a)) (cla_receiver a) x b = Inr b'"
    using assms(1) unfolding handle_claim_partner_pool_creation_fee_def by (auto simp: Let_def)
  show ?thesis using lamports_held [OF _ h(2)] assms(2) unfolding h(1) lawful_def
    by (intro untouched_balanced)
      (simp_all add: core_def base_fees_def quote_fees_def update_partner_pool_creation_fee_claimed_def)
qed

lemma protocol_creation_fee_balanced:
  assumes "handle_claim_protocol_pool_creation_fee rt a cfg s b = Inr (x, s', b')" "lawful rt s"
  shows "balanced cfg rt s b s' b'"
proof -
  obtain n s1 where h: "(if eligible_to_claim_protocol_pool_creation_fee s then
          and_then (split_pool_creation_fee cfg) (\<lambda>(protocol, _).
          Inr (protocol, update_protocol_pool_creation_fee_claimed s))
        else Inr (0, s)) = Inr (n, s1)"
     "(if has_legacy_creation_fee s1 \<and> eligible_to_claim_legacy_creation_fee s1 then
          and_then (safe_add n TOKEN_2022_POOL_WITH_OUTPUT_FEE_COLLECTION_CREATION_FEE) (\<lambda>protocol.
          Inr (protocol, update_legacy_creation_fee_claimed s1))
        else Inr (n, s1)) = Inr (x, s')"
     "(if x > 0 then
          transfer_lamports_from_pool_account rt (ai_key (cla_pool a)) (cla_receiver a) x b
        else Inr b) = Inr b'"
    using assms(1) unfolding handle_claim_protocol_pool_creation_fee_def and_then_Ok_iff
      split_paired_Ex case_prod_conv Inr_inject Pair_inject by blast
  have a: "s1 = s \<or> s1 = update_protocol_pool_creation_fee_claimed s" using h(1) by (auto split: if_splits)
  have "s' = s1 \<or> s' = update_legacy_creation_fee_claimed s1" using h(2) by (auto split: if_splits)
  then have e: "core s' = core s \<and> base_fees s' = base_fees s \<and> quote_fees s' = quote_fees s
      \<and> pool_is_partner_withdraw_surplus s' = pool_is_partner_withdraw_surplus s"
    using a by (elim disjE) (simp_all add: core_def base_fees_def quote_fees_def
        update_protocol_pool_creation_fee_claimed_def update_legacy_creation_fee_claimed_def)
  have "held rt v b' = held rt v b" if "vault_law rt v" for v
    using h(3) lamports_held [OF that] by (auto split: if_splits)
  then show ?thesis using e assms(2) unfolding lawful_def by (intro untouched_balanced) simp_all
qed

lemma transfer_creator_balanced:
  assumes "handle_transfer_pool_creator rt a cfg m c s = Inr s'"
  shows "balanced cfg rt s b s' b"
proof -
  have "s' = s\<lparr>pool_creator := c\<rparr>"
    using assms unfolding handle_transfer_pool_creator_def and_then_Ok_iff Inr_inject by blast
  then show ?thesis by (intro untouched_balanced) (simp_all add: core_def base_fees_def quote_fees_def)
qed

lemma fee_sum:
  "get_protocol_and_trading_base_fee s = Inr f \<Longrightarrow>
    unat f + unat (pool_protocol_migration_base_fee_amount s) = base_fees s"
  by (auto simp: get_protocol_and_trading_base_fee_def base_fees_def)

text \<open>The leftover is what the vault holds beyond the fees.\<close>

lemma leftover_leaves_fees:
  assumes "handle_withdraw_leftover rt a cfg s b = Inr (x, s', b')" "lawful rt s"
    and "ta_amount (cla_base_vault a) = rt_token_amount rt (ta_key (cla_base_vault a)) b"
  shows "core s' = core s \<and> get_migration_progress s = Inr CreatedPool
    \<and> base_fees s' = base_fees s \<and> base_fees s \<le> held rt (pool_base_vault s) b'"
proof -
  obtain f n where h: "pool_base_vault s = ta_key (cla_base_vault a)"
    "get_migration_progress s = Inr CreatedPool"
    "get_protocol_and_trading_base_fee s = Inr f"
    "safe_sub (ta_amount (cla_base_vault a)) f = Inr n"
    "safe_sub n (pool_protocol_migration_base_fee_amount s) = Inr x"
    "pay_base rt a x None b = Inr b'" "s' = update_withdraw_leftover s"
    using assms(1) unfolding handle_withdraw_leftover_def and_then_Ok_iff has_one_Ok_iff require_Ok_iff
      Inr_inject Pair_inject by blast
  have "held rt (pool_base_vault s) b \<le> held rt (pool_base_vault s) b' + unat x"
    using transfer_out(1) [OF assms(2) h(6) [unfolded pay_base_def]] h(1) by simp
  moreover have "unat x + base_fees s = held rt (pool_base_vault s) b"
    using safe_sub_sum [OF h(4)] safe_sub_sum [OF h(5)] fee_sum [OF h(3)] assms(3) h(1) by simp
  ultimately have "base_fees s \<le> held rt (pool_base_vault s) b'" by linarith
  then show ?thesis using h(2) unfolding h(7)
    by (simp add: core_def base_fees_def update_withdraw_leftover_def)
qed

end
