(* ===== verification/Create_Locker.thy ===== *)
theory Create_Locker
  imports Migration_Handler Accounts
begin

text \<open>
  The first step of a migration with locked vesting
  (\<open>instructions/migration/create_locker.rs\<close>): the vesting amount leaves the base vault
  for an escrow of the locker program.  The rent that the pool authority advances
  is paid back by the payer (\<open>instructions/migration/flash_rent.rs\<close>).  A pool whose
  deadline has passed may take this step although its curve is not complete.
\<close>

declare of_nat_unat [simp del]

section \<open>Rent paid back\<close>

definition flash_rent ::
  "'r runtime \<Rightarrow> pubkey \<Rightarrow> pubkey \<Rightarrow> ('r \<Rightarrow> 'r result) \<Rightarrow> 'r \<Rightarrow> 'r result" where
  "flash_rent rt lender borrower oper r =
     (let before_lamports = rt_lamports rt lender r in
     and_then (oper r) (\<lambda>r.
     let after_lamports = rt_lamports rt lender r;
         consumed_lamports = saturating_sub before_lamports after_lamports in
     if consumed_lamports > 0 then invoke rt (SystemTransfer borrower lender consumed_lamports) r
     else Ok r))"

section \<open>The instruction\<close>

record locker_accounts =
  loa_virtual_pool :: account_info
  loa_config :: account_info
  loa_pool_authority :: pubkey
  loa_base_vault :: token_account
  loa_base_mint :: pubkey
  loa_base :: pubkey
  loa_creator :: pubkey
  loa_escrow :: pubkey
  loa_escrow_token :: pubkey
  loa_payer :: pubkey
  loa_token_program :: pubkey

definition locker_accounts_ok :: "'r runtime \<Rightarrow> locker_accounts \<Rightarrow> bool" where
  "locker_accounts_ok rt a \<longleftrightarrow> loa_pool_authority a = rt_pool_authority rt
     \<and> ta_mint (loa_base_vault a) = loa_base_mint a
     \<and> ta_program (loa_base_vault a) = loa_token_program a"

text \<open>
  After the deadline the pool must still hold what the migration at its price will
  deposit; \<open>base_held\<close> is the balance of the base vault.
\<close>

definition check_migration_after_deadline :: "pool_config \<Rightarrow> pool_state \<Rightarrow> u64 \<Rightarrow> unit result" where
  "check_migration_after_deadline cfg s base_held =
     and_then (ok_or (migration_option_of (cfg_migration_option cfg)) InvalidMigrationOption) (\<lambda>option.
     and_then (ok_or (migrated_collect_fee_mode_of (cfg_migrated_collect_fee_mode cfg)) TypeCastFailed)
       (\<lambda>mode.
     let handler = get_migration_handler option mode (pool_sqrt_price s) in
     and_then (require (pool_quote_reserve s > 0) InsufficientLiquidityForMigration) (\<lambda>_.
     and_then (get_included_protocol_fee_migration_amounts_1 handler
        (effective_migration_quote_threshold s (get_migration_quote_amount_cap cfg))
        (cfg_migration_fee_percentage cfg)) (\<lambda>(migration_base_amount, migration_quote_amount).
     and_then (get_protocol_and_trading_base_fee s) (\<lambda>base_fee.
     and_then (safe_sub base_held base_fee) (\<lambda>rest.
     require (rest \<ge> migration_base_amount \<and> migration_base_amount > 0 \<and> migration_quote_amount > 0)
       InsufficientLiquidityForMigration))))))"

text \<open>The finish time of a pool that the deadline has closed.\<close>

definition close_at_deadline :: "bool \<Rightarrow> pool_state \<Rightarrow> pool_state" where
  "close_at_deadline after_deadline s =
     (if pool_finish_curve_timestamp s = 0 \<and> after_deadline
      then s\<lparr>pool_finish_curve_timestamp := pool_deadline_timestamp s\<rparr> else s)"

definition handle_create_locker ::
  "'r runtime \<Rightarrow> (pubkey \<Rightarrow> 'r \<Rightarrow> account_snapshot) \<Rightarrow> clock \<Rightarrow> locker_accounts \<Rightarrow> pool_config
    \<Rightarrow> pool_state \<Rightarrow> 'r \<Rightarrow> (pool_state \<times> 'r) result" where
  "handle_create_locker rt snapshot clk a cfg s r =
     and_then (has_one (locker_accounts_ok rt a)) (\<lambda>_.
     and_then (load_pool_account rt (loa_virtual_pool a)) (\<lambda>_.
     and_then (has_one (pool_config_key s = ai_key (loa_config a))) (\<lambda>_.
     and_then (has_one (pool_creator s = loa_creator a)) (\<lambda>_.
     and_then (has_one (pool_base_vault s = ta_key (loa_base_vault a))) (\<lambda>_.
     and_then (has_one (pool_base_mint s = loa_base_mint a)) (\<lambda>_.
     and_then (load_config_account rt (loa_config a)) (\<lambda>_.
     let locked_vesting_params = cfg_locked_vesting_config cfg;
         current_timestamp = clk_unix_timestamp clk in
     and_then (get_migration_progress s) (\<lambda>progress.
     let can_create_locker_after_deadline = (progress = PreBondingCurve
           \<and> has_vesting locked_vesting_params \<and> is_deadline_reached s current_timestamp) in
     and_then (require (progress = PostBondingCurve \<or> can_create_locker_after_deadline)
       NotPermitToDoThisAction) (\<lambda>_.
     and_then
       (if can_create_locker_after_deadline
        then check_migration_after_deadline cfg s (rt_token_amount rt (ta_key (loa_base_vault a)) r)
        else Ok ()) (\<lambda>_.
     let s = close_at_deadline can_create_locker_after_deadline s in
     and_then (to_create_vesting_escrow_params locked_vesting_params (pool_finish_curve_timestamp s))
       (\<lambda>vesting_params.
     and_then (cpi_with_account_lamport_and_owner_checking
       (flash_rent rt (loa_pool_authority a) (loa_payer a)
         (invoke rt (CreateVestingEscrow (loa_base a) (loa_escrow a) (loa_escrow_token a)
            (ta_key (loa_base_vault a)) (loa_creator a) vesting_params)))
       (snapshot (loa_pool_authority a)) r) (\<lambda>r.
     Ok (set_migration_progress s (migration_progress_code LockedVesting), r)))))))))))))"

section \<open>What the step has passed\<close>

lemma flash_rent_Ok:
  "flash_rent rt l b oper r = Inr r' \<Longrightarrow> \<exists>r1. oper r = Inr r1 \<and>
     (r' = r1 \<or> (\<exists>n. rt_invoke rt (SystemTransfer b l n) r1 = Some r'))"
  by (auto simp: flash_rent_def Let_def split: if_splits)

lemma cpi_check_Ok:
  "cpi_with_account_lamport_and_owner_checking oper acc r = Inr r' \<Longrightarrow> oper r = Inr r'"
  by (auto simp: cpi_with_account_lamport_and_owner_checking_def Let_def)

lemma close_at_deadline_simps [simp]:
  "pool_migration_progress (close_at_deadline d s) = pool_migration_progress s"
  "pool_base_reserve (close_at_deadline d s) = pool_base_reserve s"
  "pool_quote_reserve (close_at_deadline d s) = pool_quote_reserve s"
  "pool_virtual_quote_reserve (close_at_deadline d s) = pool_virtual_quote_reserve s"
  "pool_sqrt_price (close_at_deadline d s) = pool_sqrt_price s"
  "pool_deadline_timestamp (close_at_deadline d s) = pool_deadline_timestamp s"
  "pool_base_vault (close_at_deadline d s) = pool_base_vault s"
  "pool_quote_vault (close_at_deadline d s) = pool_quote_vault s"
  "pool_creator (close_at_deadline d s) = pool_creator s"
  by (simp_all add: close_at_deadline_def)

lemma handle_create_locker_parts:
  assumes "handle_create_locker rt snapshot clk a cfg s r = Inr (s', r')"
  shows "\<exists>progress after params. get_migration_progress s = Inr progress
    \<and> after = (progress = PreBondingCurve \<and> has_vesting (cfg_locked_vesting_config cfg)
        \<and> is_deadline_reached s (clk_unix_timestamp clk))
    \<and> (progress = PostBondingCurve \<or> after)
    \<and> (after \<longrightarrow> check_migration_after_deadline cfg s (rt_token_amount rt (pool_base_vault s) r) = Inr ())
    \<and> to_create_vesting_escrow_params (cfg_locked_vesting_config cfg)
        (pool_finish_curve_timestamp (close_at_deadline after s)) = Inr params
    \<and> (\<exists>r1. rt_invoke rt (CreateVestingEscrow (loa_base a) (loa_escrow a) (loa_escrow_token a)
            (pool_base_vault s) (pool_creator s) params) r = Some r1
        \<and> (r' = r1 \<or> (\<exists>n. rt_invoke rt (SystemTransfer (loa_payer a) (loa_pool_authority a) n) r1 = Some r')))
    \<and> s' = set_migration_progress (close_at_deadline after s) (migration_progress_code LockedVesting)
    \<and> loa_pool_authority a = rt_pool_authority rt"
proof -
  obtain progress params and u :: unit where p: "get_migration_progress s = Inr progress"
    and c: "pool_creator s = loa_creator a" "pool_base_vault s = ta_key (loa_base_vault a)"
      "locker_accounts_ok rt a"
    and q: "let after = (progress = PreBondingCurve \<and> has_vesting (cfg_locked_vesting_config cfg)
          \<and> is_deadline_reached s (clk_unix_timestamp clk)) in
        (progress = PostBondingCurve \<or> after)
      \<and> (if after then check_migration_after_deadline cfg s (rt_token_amount rt (ta_key (loa_base_vault a)) r)
         else Inr ()) = Inr u
      \<and> to_create_vesting_escrow_params (cfg_locked_vesting_config cfg)
          (pool_finish_curve_timestamp (close_at_deadline after s)) = Inr params
      \<and> cpi_with_account_lamport_and_owner_checking
         (flash_rent rt (loa_pool_authority a) (loa_payer a)
           (invoke rt (CreateVestingEscrow (loa_base a) (loa_escrow a) (loa_escrow_token a)
              (ta_key (loa_base_vault a)) (loa_creator a) params)))
         (snapshot (loa_pool_authority a)) r = Inr r'
      \<and> s' = set_migration_progress (close_at_deadline after s) (migration_progress_code LockedVesting)"
    using assms unfolding handle_create_locker_def Let_def and_then_Ok_iff require_Ok_iff has_one_Ok_iff
      Inr_inject Pair_inject by blast
  define after where "after = (progress = PreBondingCurve \<and> has_vesting (cfg_locked_vesting_config cfg)
    \<and> is_deadline_reached s (clk_unix_timestamp clk))"
  have q': "progress = PostBondingCurve \<or> after"
    "(if after then check_migration_after_deadline cfg s (rt_token_amount rt (pool_base_vault s) r) else Inr ()) = Inr u"
    "to_create_vesting_escrow_params (cfg_locked_vesting_config cfg)
      (pool_finish_curve_timestamp (close_at_deadline after s)) = Inr params"
    "cpi_with_account_lamport_and_owner_checking
      (flash_rent rt (loa_pool_authority a) (loa_payer a)
        (invoke rt (CreateVestingEscrow (loa_base a) (loa_escrow a) (loa_escrow_token a)
           (pool_base_vault s) (pool_creator s) params)))
      (snapshot (loa_pool_authority a)) r = Inr r'"
    "s' = set_migration_progress (close_at_deadline after s) (migration_progress_code LockedVesting)"
    using q unfolding Let_def after_def [symmetric] c by blast+
  obtain r1 where r1: "rt_invoke rt (CreateVestingEscrow (loa_base a) (loa_escrow a) (loa_escrow_token a)
      (pool_base_vault s) (pool_creator s) params) r = Some r1"
    "r' = r1 \<or> (\<exists>n. rt_invoke rt (SystemTransfer (loa_payer a) (loa_pool_authority a) n) r1 = Some r')"
    using flash_rent_Ok [OF cpi_check_Ok [OF q'(4)]] by auto
  have "after \<longrightarrow> check_migration_after_deadline cfg s (rt_token_amount rt (pool_base_vault s) r) = Inr ()"
    using q'(2) by auto
  moreover have "loa_pool_authority a = rt_pool_authority rt" using c(3) by (simp add: locker_accounts_ok_def)
  ultimately show ?thesis
    using p after_def q'(1,3,5) r1 by blast
qed

end
