(* ===== verification/Damm_V1_Migration.thy ===== *)
theory Damm_V1_Migration
  imports Create_Locker Lp_Tokens
begin

text \<open>
  The migration of a pool whose curve is complete, or whose deadline has passed, to a
  constant product pool of the DAMM v1 program
  (\<open>instructions/migration/meteora_damm/migrate_meteora_damm_initialize_pool.rs\<close>),
  and the parts of it that the migration to DAMM v2 repeats.
\<close>

section \<open>Admission and amounts\<close>

text \<open>
  Who may migrate, and when: after the vesting step, or after the deadline when
  there is nothing to vest, and only with a complete curve or after the deadline.
  The pool is returned with its finish time.
\<close>

definition admit_migration :: "pool_config \<Rightarrow> migration_option \<Rightarrow> u64 \<Rightarrow> pool_state \<Rightarrow> pool_state result" where
  "admit_migration cfg wanted current_timestamp s =
     and_then (get_migration_progress s) (\<lambda>progress.
     let deadline_reached = is_deadline_reached s current_timestamp;
         sale_complete = is_curve_complete s (cfg_migration_quote_threshold cfg);
         can_migrate_after_deadline = (progress = PreBondingCurve \<and> deadline_reached
           \<and> \<not> has_vesting (cfg_locked_vesting_config cfg)) in
     and_then (require (progress = LockedVesting \<or> can_migrate_after_deadline) NotPermitToDoThisAction) (\<lambda>_.
     and_then (require (sale_complete \<or> deadline_reached) PoolIsIncompleted) (\<lambda>_.
     let s = close_at_deadline can_migrate_after_deadline s in
     and_then (ok_or (migration_option_of (cfg_migration_option cfg)) InvalidMigrationOption) (\<lambda>option.
     and_then (require (option = wanted) InvalidMigrationOption) (\<lambda>_.
     Ok s)))))"

record migration_amounts =
  mga_protocol_base_fee :: u64
  mga_protocol_quote_fee :: u64
  mga_base_amount :: u64
  mga_quote_amount :: u64

text \<open>
  The amounts with the protocol's fee, the check that the base vault holds them, and
  the amounts to deposit without the fee.
\<close>

definition get_migration_amounts ::
  "migration_handler \<Rightarrow> pool_config \<Rightarrow> pool_state \<Rightarrow> u64 \<Rightarrow> u64 \<Rightarrow> migration_amounts result" where
  "get_migration_amounts handler cfg s initial_base_vault_amount protocol_and_partner_base_fee =
     (let effective_threshold = effective_migration_quote_threshold s (get_migration_quote_amount_cap cfg) in
     and_then (require (effective_threshold > 0) InsufficientLiquidityForMigration) (\<lambda>_.
     and_then (get_included_protocol_fee_migration_amounts_1 handler effective_threshold
       (cfg_migration_fee_percentage cfg)) (\<lambda>(included_base_amount, included_quote_amount).
     and_then (safe_sub initial_base_vault_amount protocol_and_partner_base_fee) (\<lambda>rest.
     and_then (require (rest \<ge> included_base_amount \<and> included_base_amount > 0
       \<and> included_quote_amount > 0) InsufficientLiquidityForMigration) (\<lambda>_.
     and_then (get_migration_protocol_fees handler included_base_amount included_quote_amount
       (pool_protocol_liquidity_migration_fee_bps s)) (\<lambda>(protocol_base_fee, protocol_quote_fee).
     and_then (safe_sub included_base_amount protocol_base_fee) (\<lambda>base_amount.
     and_then (safe_sub included_quote_amount protocol_quote_fee) (\<lambda>quote_amount.
     Ok \<lparr>mga_protocol_base_fee = protocol_base_fee, mga_protocol_quote_fee = protocol_quote_fee,
         mga_base_amount = base_amount, mga_quote_amount = quote_amount\<rparr>))))))))"

definition burn_leftover ::
  "'r runtime \<Rightarrow> pubkey \<Rightarrow> pubkey \<Rightarrow> pubkey \<Rightarrow> pool_config \<Rightarrow> u64 \<Rightarrow> 'r \<Rightarrow> 'r result" where
  "burn_leftover rt token_program base_mint base_vault cfg non_burnable_amount r =
     and_then (safe_sub (rt_token_amount rt base_vault r) non_burnable_amount) (\<lambda>left_base_token.
     and_then (get_burnable_amount_post_migration cfg left_base_token) (\<lambda>burnable_amount.
     if burnable_amount > 0 then
       invoke rt (Burn token_program base_mint base_vault (rt_pool_authority rt) burnable_amount) r
     else Ok r))"

section \<open>The configuration of the other program\<close>

record damm_v1_config =
  d1_key :: pubkey
  d1_trade_fee_numerator :: u64
  d1_trade_fee_denominator :: u64
  d1_pool_creator_authority :: pubkey
  d1_activation_duration :: u64
  d1_partner_fee_numerator :: u64
  d1_vault_config_key :: pubkey

definition damm_v1_validate_config_key :: "damm_v1_config \<Rightarrow> pubkey \<Rightarrow> u8 \<Rightarrow> unit result" where
  "damm_v1_validate_config_key d pool_authority fee_option =
     and_then (ok_or (migration_fee_option_of fee_option) InvalidMigrationFeeOption) (\<lambda>mfo.
     and_then (to_bps (ucast (d1_trade_fee_numerator d)) (ucast (d1_trade_fee_denominator d)))
       (\<lambda>base_fee_bps.
     and_then (validate_base_fee mfo base_fee_bps) (\<lambda>_.
     and_then (require (d1_pool_creator_authority d = pool_authority) InvalidConfigAccount) (\<lambda>_.
     and_then (require (d1_activation_duration d = 0) InvalidConfigAccount) (\<lambda>_.
     and_then (require (d1_partner_fee_numerator d = 0) InvalidConfigAccount) (\<lambda>_.
     require (d1_vault_config_key d = 0) InvalidConfigAccount))))))"

section \<open>The instruction\<close>

record damm_v1_accounts =
  d1a_virtual_pool :: account_info
  d1a_migration_metadata :: account_info
  d1a_config :: account_info
  d1a_pool_authority :: pubkey
  d1a_pool :: pubkey
  d1a_damm_config :: damm_v1_config
  d1a_lp_mint :: pubkey
  d1a_token_a_mint :: pubkey
  d1a_base_vault :: pubkey
  d1a_quote_vault :: pubkey
  d1a_virtual_pool_lp :: pubkey
  d1a_payer :: pubkey
  d1a_token_program :: pubkey

definition damm_v1_accounts_ok ::
  "'r runtime \<Rightarrow> damm_v1_accounts \<Rightarrow> pool_state \<Rightarrow> migration_metadata \<Rightarrow> bool" where
  "damm_v1_accounts_ok rt a s m \<longleftrightarrow>
     ai_owner (d1a_virtual_pool a) = program_id
     \<and> ai_discriminator (d1a_virtual_pool a) = rt_discriminator rt AccountVirtualPool
     \<and> pool_base_vault s = d1a_base_vault a \<and> pool_quote_vault s = d1a_quote_vault a
     \<and> pool_config_key s = ai_key (d1a_config a)
     \<and> ai_owner (d1a_migration_metadata a) = program_id
     \<and> ai_discriminator (d1a_migration_metadata a) = rt_discriminator rt AccountMigrationMetadata
     \<and> mm_virtual_pool m = ai_key (d1a_virtual_pool a)
     \<and> ai_owner (d1a_config a) = program_id
     \<and> ai_discriminator (d1a_config a) = rt_discriminator rt AccountPoolConfig
     \<and> d1a_pool_authority a = rt_pool_authority rt
     \<and> d1a_token_program a = rt_token_program rt"

definition damm_v1_create_pool ::
  "'r runtime \<Rightarrow> (pubkey \<Rightarrow> 'r \<Rightarrow> account_snapshot) \<Rightarrow> damm_v1_accounts \<Rightarrow> u64 \<Rightarrow> u64 \<Rightarrow> 'r \<Rightarrow> 'r result" where
  "damm_v1_create_pool rt snapshot a initial_base_amount initial_quote_amount r =
     cpi_with_account_lamport_and_owner_checking
       (flash_rent rt (d1a_pool_authority a) (d1a_payer a)
         (invoke rt (DammV1InitializePool (d1a_pool a) (d1_key (d1a_damm_config a)) (d1a_base_vault a)
           (d1a_quote_vault a) (d1a_virtual_pool_lp a) initial_base_amount initial_quote_amount)))
       (snapshot (d1a_pool_authority a)) r"

definition handle_migrate_meteora_damm ::
  "'r runtime \<Rightarrow> (pubkey \<Rightarrow> 'r \<Rightarrow> account_snapshot) \<Rightarrow> clock \<Rightarrow> damm_v1_accounts \<Rightarrow> pool_config
    \<Rightarrow> pool_state \<Rightarrow> migration_metadata \<Rightarrow> 'r \<Rightarrow> (pool_state \<times> migration_metadata \<times> 'r) result" where
  "handle_migrate_meteora_damm rt snapshot clk a cfg s m r =
     and_then (has_one (damm_v1_accounts_ok rt a s m)) (\<lambda>_.
     and_then (damm_v1_validate_config_key (d1a_damm_config a) (d1a_pool_authority a)
       (cfg_migration_fee_option cfg)) (\<lambda>_.
     and_then (admit_migration cfg MeteoraDamm (clk_unix_timestamp clk) s) (\<lambda>s.
     let handler = CompoundingLiquidity (pool_sqrt_price s);
         initial_base_vault_amount = rt_token_amount rt (d1a_base_vault a) r in
     and_then (get_protocol_and_trading_base_fee s) (\<lambda>protocol_and_partner_base_fee.
     and_then (get_migration_amounts handler cfg s initial_base_vault_amount
       protocol_and_partner_base_fee) (\<lambda>g.
     let s = save_protocol_liquidity_migration_fee s (mga_protocol_base_fee g) (mga_protocol_quote_fee g) in
     and_then (damm_v1_create_pool rt snapshot a (mga_base_amount g) (mga_quote_amount g) r) (\<lambda>r.
     let s = update_after_create_pool s in
     and_then (get_protocol_and_trading_base_fee s) (\<lambda>base_fee.
     and_then (safe_add base_fee (mga_protocol_base_fee g)) (\<lambda>non_burnable_amount.
     and_then (burn_leftover rt (d1a_token_program a) (d1a_token_a_mint a) (d1a_base_vault a) cfg
       non_burnable_amount r) (\<lambda>r.
     let lp_minted_amount = rt_token_amount rt (d1a_virtual_pool_lp a) r in
     and_then (get_liquidity_distribution cfg (ucast lp_minted_amount)) (\<lambda>d.
     and_then (to_liquidity_distribution_damm_v1 d) (\<lambda>d1.
     Ok (set_migration_progress s (migration_progress_code CreatedPool),
         set_liquidity_token_minted m (d1a_lp_mint a) d1, r))))))))))))"

end
