(* ===== verification/Damm_V2_Migration.thy ===== *)
theory Damm_V2_Migration
  imports Damm_V1_Migration
begin

text \<open>
  The migration of a pool to the DAMM v2 program
  (\<open>instructions/migration/dynamic_amm_v2/migrate_damm_v2_initialize_pool.rs\<close>): the
  first position holds the larger share of the liquidity, and what the deposit of
  the new pool leaves over goes into a second position for the other holder.
\<close>

section \<open>The accounts of the other program\<close>

text \<open>
  The configuration of the other program; its time scheduler is absent when the
  stored bytes cannot be read as one.
\<close>

record fee_time_scheduler =
  fts_cliff_fee_numerator :: u64
  fts_base_fee_mode :: u8
  fts_number_of_period :: u16
  fts_period_frequency :: u64
  fts_reduction_factor :: u64

record damm_v2_config =
  d2_fee_scheduler :: "fee_time_scheduler option"
  d2_sqrt_min_price :: u128
  d2_sqrt_max_price :: u128
  d2_vault_config_key :: pubkey
  d2_activation_type :: u8
  d2_pool_creator_authority :: pubkey

record damm_v2_pool =
  d2p_token_a_amount :: u64
  d2p_token_b_amount :: u64
  d2p_liquidity :: u128

definition damm_v2_validate_config_key :: "damm_v2_config \<Rightarrow> pubkey \<Rightarrow> migration_fee_option \<Rightarrow> unit result" where
  "damm_v2_validate_config_key d pool_authority mfo =
     and_then
       (if mfo = Customizable then Ok ()
        else
          and_then (ok_or (d2_fee_scheduler d) UndeterminedError) (\<lambda>sched.
          and_then (ok_or (damm_v2_base_fee_mode_of (fts_base_fee_mode sched)) TypeCastFailed) (\<lambda>mode.
          and_then (require (mode = FeeTimeSchedulerLinear \<or> mode = FeeTimeSchedulerExponential)
            InvalidConfigAccount) (\<lambda>_.
          and_then (to_bps (ucast (fts_cliff_fee_numerator sched)) (ucast DAMM_V2_FEE_DENOMINATOR))
            (\<lambda>base_fee_bps.
          and_then (require (fts_period_frequency sched = 0 \<and> fts_reduction_factor sched = 0
            \<and> fts_number_of_period sched = 0) InvalidConfigAccount) (\<lambda>_.
          and_then (validate_base_fee mfo base_fee_bps) (\<lambda>_.
          and_then (require (d2_sqrt_min_price d = MIN_SQRT_PRICE) InvalidConfigAccount) (\<lambda>_.
          and_then (require (d2_sqrt_max_price d = MAX_SQRT_PRICE) InvalidConfigAccount) (\<lambda>_.
          and_then (require (d2_vault_config_key d = 0) InvalidConfigAccount) (\<lambda>_.
          and_then (ok_or (activation_type_of (d2_activation_type d)) TypeCastFailed) (\<lambda>activation.
          require (activation = Timestamp) InvalidConfigAccount))))))))))) (\<lambda>_.
     require (d2_pool_creator_authority d = pool_authority) InvalidConfigAccount)"

section \<open>Positions\<close>

record damm_v2_accounts =
  d2a_virtual_pool :: account_info
  d2a_config :: account_info
  d2a_pool_authority :: pubkey
  d2a_pool :: pubkey
  d2a_first_position_nft_mint :: pubkey
  d2a_first_position_nft_account :: pubkey
  d2a_first_position :: pubkey
  d2a_second_position_nft_mint :: "pubkey option"
  d2a_second_position_nft_account :: "pubkey option"
  d2a_second_position :: "pubkey option"
  d2a_base_mint :: pubkey
  d2a_quote_mint :: pubkey
  d2a_base_vault :: token_account
  d2a_quote_vault :: token_account
  d2a_payer :: pubkey
  d2a_token_base_program :: pubkey
  d2a_token_quote_program :: pubkey
  d2a_token_2022_program :: pubkey
  d2a_remaining_accounts :: "account_info list"

definition damm_v2_accounts_ok :: "'r runtime \<Rightarrow> damm_v2_accounts \<Rightarrow> bool" where
  "damm_v2_accounts_ok rt a \<longleftrightarrow> d2a_pool_authority a = rt_pool_authority rt
     \<and> (case d2a_second_position_nft_mint a of None \<Rightarrow> True
        | Some mint \<Rightarrow> d2a_first_position_nft_mint a \<noteq> mint)
     \<and> ta_mint (d2a_base_vault a) = d2a_base_mint a
     \<and> ta_program (d2a_base_vault a) = d2a_token_base_program a
     \<and> ta_mint (d2a_quote_vault a) = d2a_quote_mint a
     \<and> ta_program (d2a_quote_vault a) = d2a_token_quote_program a"

definition damm_v2_create_pool ::
  "'r runtime \<Rightarrow> (pubkey \<Rightarrow> 'r \<Rightarrow> account_snapshot) \<Rightarrow> damm_v2_accounts \<Rightarrow> pubkey \<Rightarrow> u128 \<Rightarrow> u128
    \<Rightarrow> migration_fee_option \<Rightarrow> migrated_collect_fee_mode \<Rightarrow> pool_config \<Rightarrow> 'r \<Rightarrow> 'r result" where
  "damm_v2_create_pool rt snapshot a damm_config liquidity sqrt_price mfo collect_mode cfg r =
     cpi_with_account_lamport_and_owner_checking
       (flash_rent rt (d2a_pool_authority a) (d2a_payer a) (\<lambda>r.
         if mfo = Customizable then
           and_then (build_damm_v2_pool_fee_params cfg) (\<lambda>pool_fees.
           invoke rt (DammV2InitializePoolWithDynamicConfig damm_config (d2a_pool a) (d2a_first_position a)
             (ta_key (d2a_base_vault a)) (ta_key (d2a_quote_vault a))
             \<lparr>dcp_pool_fees = pool_fees, dcp_sqrt_min_price = MIN_SQRT_PRICE,
              dcp_sqrt_max_price = MAX_SQRT_PRICE, dcp_has_alpha_vault = False,
              dcp_liquidity = liquidity, dcp_sqrt_price = sqrt_price, dcp_activation_type = 1,
              dcp_collect_fee_mode = to_dammv2_collect_fee_mode collect_mode,
              dcp_activation_point = None\<rparr>) r)
         else
           invoke rt (DammV2InitializePool damm_config (d2a_pool a) (d2a_first_position a)
             (ta_key (d2a_base_vault a)) (ta_key (d2a_quote_vault a)) liquidity sqrt_price) r))
       (snapshot (d2a_pool_authority a)) r"

definition lock_liquidity_position ::
  "'r runtime \<Rightarrow> (pubkey \<Rightarrow> 'r \<Rightarrow> account_snapshot) \<Rightarrow> damm_v2_accounts \<Rightarrow> liquidity_distribution_item
    \<Rightarrow> pubkey \<Rightarrow> u64 \<Rightarrow> 'r \<Rightarrow> 'r result" where
  "lock_liquidity_position rt snapshot a it position current_timestamp r =
     and_then
       (if li_vested_liquidity it > 0
        then and_then (item_vesting_parameters it current_timestamp) (\<lambda>p. Ok (Some p))
        else Ok None) (\<lambda>vesting_params.
     cpi_with_account_lamport_and_owner_checking
       (flash_rent rt (d2a_pool_authority a) (d2a_payer a) (\<lambda>r.
         and_then
           (if li_permanent_locked_liquidity it > 0
            then invoke rt (DammV2PermanentLockPosition (d2a_pool a) position
              (li_permanent_locked_liquidity it)) r
            else Ok r) (\<lambda>r.
         case vesting_params of
           Some p \<Rightarrow> invoke rt (DammV2LockInnerPosition (d2a_pool a) position p) r
         | None \<Rightarrow> Ok r)))
       (snapshot (d2a_pool_authority a)) r)"

definition set_authority_for_position ::
  "'r runtime \<Rightarrow> damm_v2_accounts \<Rightarrow> pubkey \<Rightarrow> pubkey \<Rightarrow> 'r \<Rightarrow> 'r result" where
  "set_authority_for_position rt a position_nft_account new_authority r =
     invoke rt (SetAuthority (d2a_token_2022_program a) position_nft_account (d2a_pool_authority a)
       AccountOwner (Some new_authority)) r"

text \<open>Missing accounts of the second position abort the program here.\<close>

definition create_second_position ::
  "'r runtime \<Rightarrow> (pubkey \<Rightarrow> 'r \<Rightarrow> account_snapshot) \<Rightarrow> damm_v2_accounts \<Rightarrow> u128 \<Rightarrow> 'r \<Rightarrow> 'r result" where
  "create_second_position rt snapshot a total_liquidity r =
     (case (d2a_second_position_nft_mint a, d2a_second_position_nft_account a, d2a_second_position a) of
        (Some _, Some _, Some second_position) \<Rightarrow>
          and_then (invoke rt (DammV2CreatePosition (d2a_pool a) second_position) r) (\<lambda>r.
          cpi_with_account_lamport_and_owner_checking
            (invoke rt (DammV2AddLiquidity (d2a_pool a) second_position (ta_key (d2a_base_vault a))
               (ta_key (d2a_quote_vault a)) total_liquidity (- 1) (- 1)))
            (snapshot (d2a_pool_authority a)) r)
      | _ \<Rightarrow> panic)"

definition lock_and_hand_over ::
  "'r runtime \<Rightarrow> (pubkey \<Rightarrow> 'r \<Rightarrow> account_snapshot) \<Rightarrow> damm_v2_accounts \<Rightarrow> liquidity_distribution_item
    \<Rightarrow> pubkey \<Rightarrow> pubkey \<Rightarrow> pubkey \<Rightarrow> u64 \<Rightarrow> 'r \<Rightarrow> 'r result" where
  "lock_and_hand_over rt snapshot a it position nft_account owner current_timestamp r =
     and_then (item_total_locked_liquidity it) (\<lambda>locked.
     and_then
       (if locked > 0 then lock_liquidity_position rt snapshot a it position current_timestamp r
        else Ok r) (\<lambda>r.
     set_authority_for_position rt a nft_account owner r))"

text \<open>The larger share comes first, and its owner with it.\<close>

definition order_positions ::
  "liquidity_distribution \<Rightarrow> pubkey \<Rightarrow> pubkey
    \<Rightarrow> (liquidity_distribution_item \<times> liquidity_distribution_item \<times> pubkey \<times> pubkey) result" where
  "order_positions d partner creator =
     and_then (item_total_liquidity (ld_partner d)) (\<lambda>p.
     and_then (item_total_liquidity (ld_creator d)) (\<lambda>c.
     Ok (if p > c then (ld_partner d, ld_creator d, partner, creator)
         else (ld_creator d, ld_partner d, creator, partner))))"

section \<open>The instruction\<close>

text \<open>
  \<open>read_pool\<close> reads the account of the new pool; \<open>damm_config\<close> is the content of the
  first remaining account, or the error of loading it.
\<close>

definition migrate_second_position ::
  "'r runtime \<Rightarrow> (pubkey \<Rightarrow> 'r \<Rightarrow> account_snapshot) \<Rightarrow> damm_v2_accounts \<Rightarrow> liquidity_distribution_item
    \<Rightarrow> pubkey \<Rightarrow> u128 \<Rightarrow> u64 \<Rightarrow> 'r \<Rightarrow> 'r result" where
  "migrate_second_position rt snapshot a it owner liquidity current_timestamp r =
     (if liquidity > 0 then
        and_then (adjust_liquidity it liquidity) (\<lambda>it.
        and_then (create_second_position rt snapshot a liquidity r) (\<lambda>r.
        and_then (ok_or (d2a_second_position a) InvalidAccount) (\<lambda>second_position.
        and_then (ok_or (d2a_second_position_nft_account a) InvalidAccount) (\<lambda>second_nft_account.
        lock_and_hand_over rt snapshot a it second_position second_nft_account owner
          current_timestamp r))))
      else Ok r)"

definition leftover_liquidity ::
  "'r runtime \<Rightarrow> ('r \<Rightarrow> damm_v2_pool result) \<Rightarrow> damm_v2_accounts \<Rightarrow> migration_handler
    \<Rightarrow> migration_amounts \<Rightarrow> u64 \<Rightarrow> u64 \<Rightarrow> 'r \<Rightarrow> u128 result" where
  "leftover_liquidity rt read_pool a handler g initial_base_vault_amount initial_quote_vault_amount r =
     and_then (safe_sub initial_base_vault_amount (rt_token_amount rt (ta_key (d2a_base_vault a)) r))
       (\<lambda>deposited_base_amount.
     and_then (safe_sub initial_quote_vault_amount (rt_token_amount rt (ta_key (d2a_quote_vault a)) r))
       (\<lambda>deposited_quote_amount.
     and_then (safe_sub (mga_base_amount g) deposited_base_amount) (\<lambda>leftover_base_amount.
     and_then (safe_sub (mga_quote_amount g) deposited_quote_amount) (\<lambda>leftover_quote_amount.
     and_then (read_pool r) (\<lambda>p.
     calculate_liquidity_delta handler leftover_base_amount leftover_quote_amount
       (d2p_token_a_amount p) (d2p_token_b_amount p) (d2p_liquidity p))))))"

definition handle_migrate_damm_v2 ::
  "'r runtime \<Rightarrow> (pubkey \<Rightarrow> 'r \<Rightarrow> account_snapshot) \<Rightarrow> ('r \<Rightarrow> damm_v2_pool result)
    \<Rightarrow> damm_v2_config result \<Rightarrow> clock \<Rightarrow> damm_v2_accounts \<Rightarrow> pool_config \<Rightarrow> pool_state \<Rightarrow> 'r
    \<Rightarrow> (pool_state \<times> 'r) result" where
  "handle_migrate_damm_v2 rt snapshot read_pool damm_config clk a cfg s r =
     and_then (has_one (damm_v2_accounts_ok rt a)) (\<lambda>_.
     let current_timestamp = clk_unix_timestamp clk in
     and_then (load_config_account rt (d2a_config a)) (\<lambda>_.
     and_then (ok_or (migration_fee_option_of (cfg_migration_fee_option cfg)) InvalidMigrationFeeOption)
       (\<lambda>mfo.
     and_then (require (length (d2a_remaining_accounts a) \<ge> 1) MissingPoolConfigInRemainingAccount) (\<lambda>_.
     and_then damm_config (\<lambda>d.
     and_then (damm_v2_validate_config_key d (rt_pool_authority rt) mfo) (\<lambda>_.
     and_then (load_pool_account rt (d2a_virtual_pool a)) (\<lambda>_.
     and_then (has_one (pool_base_vault s = ta_key (d2a_base_vault a))) (\<lambda>_.
     and_then (has_one (pool_quote_vault s = ta_key (d2a_quote_vault a))) (\<lambda>_.
     and_then (has_one (pool_config_key s = ai_key (d2a_config a))) (\<lambda>_.
     and_then (admit_migration cfg DammV2 current_timestamp s) (\<lambda>s.
     let initial_quote_vault_amount = rt_token_amount rt (ta_key (d2a_quote_vault a)) r;
         initial_base_vault_amount = rt_token_amount rt (ta_key (d2a_base_vault a)) r in
     and_then (get_protocol_and_trading_base_fee s) (\<lambda>protocol_and_partner_base_fee.
     and_then (ok_or (migrated_collect_fee_mode_of (cfg_migrated_collect_fee_mode cfg)) TypeCastFailed)
       (\<lambda>collect_mode.
     let handler = get_migration_handler DammV2 collect_mode (pool_sqrt_price s) in
     and_then (get_migration_amounts handler cfg s initial_base_vault_amount
       protocol_and_partner_base_fee) (\<lambda>g.
     let s = save_protocol_liquidity_migration_fee s (mga_protocol_base_fee g) (mga_protocol_quote_fee g) in
     and_then (get_initial_pool_information handler (mga_base_amount g) (mga_quote_amount g)) (\<lambda>info.
     and_then (get_liquidity_distribution cfg (ipi_distributable_liquidity info)) (\<lambda>dist.
     and_then (order_positions dist (cfg_fee_claimer cfg) (pool_creator s))
       (\<lambda>(first, second, first_owner, second_owner).
     and_then (item_total_liquidity first) (\<lambda>first_total.
     and_then (safe_add first_total (ipi_dead_liquidity info)) (\<lambda>first_liquidity.
     and_then (damm_v2_create_pool rt snapshot a (ai_key (d2a_remaining_accounts a ! 0)) first_liquidity
       (ipi_sqrt_price info) mfo collect_mode cfg r) (\<lambda>r.
     and_then (lock_and_hand_over rt snapshot a first (d2a_first_position a)
       (d2a_first_position_nft_account a) first_owner current_timestamp r) (\<lambda>r.
     and_then (leftover_liquidity rt read_pool a handler g initial_base_vault_amount
       initial_quote_vault_amount r) (\<lambda>liquidity_for_second_position.
     and_then (migrate_second_position rt snapshot a second second_owner liquidity_for_second_position
       current_timestamp r) (\<lambda>r.
     let s = update_after_create_pool s in
     and_then (safe_add protocol_and_partner_base_fee (mga_protocol_base_fee g)) (\<lambda>non_burnable_amount.
     and_then (burn_leftover rt (d2a_token_base_program a) (d2a_base_mint a) (ta_key (d2a_base_vault a)) cfg
       non_burnable_amount r) (\<lambda>r.
     Ok (set_migration_progress s (migration_progress_code CreatedPool), r))))))))))))))))))))))))))"

end
