(* ===== verification/Lifecycle.thy ===== *)
theory Lifecycle
  imports Payouts Damm_V2_Migration
begin

text \<open>
  The life of a pool: every instruction that changes its state as a step of one
  relation, from the launch through swaps, claims, vesting and migration to the
  withdrawal of what is left.  The invariant over the reachable states says that the
  vaults cover what the pool owes at each stage of the migration.
\<close>

section \<open>Steps\<close>

text \<open>The pool, the chain, and the time.\<close>

type_synonym 'r world = "pool_state \<times> 'r \<times> u64"

text \<open>
  \<open>wait\<close> is the passing of time together with the transactions of others, which may
  pay into the vaults but not out of them.
\<close>

inductive pool_step :: "'r runtime \<Rightarrow> pool_config \<Rightarrow> 'r world \<Rightarrow> 'r world \<Rightarrow> bool" for rt cfg where
  trade: "process_swap rt clk tx loader a cfg params virtual slices s b = Inr (s', ev, b') \<Longrightarrow>
    clk_unix_timestamp clk = t \<Longrightarrow> swa_payer a \<noteq> rt_pool_authority rt \<Longrightarrow>
    pool_step rt cfg (s, b, t) (s', b', t)"
| creator_fee: "handle_claim_creator_trading_fee rt ca mb mq opt s b = Inr (x, y, s', b') \<Longrightarrow>
    pool_step rt cfg (s, b, t) (s', b', t)"
| partner_fee: "handle_claim_trading_fee rt ca cfg mb mq opt s b = Inr (x, y, s', b') \<Longrightarrow>
    pool_step rt cfg (s, b, t) (s', b', t)"
| protocol_fee: "claim_protocol_fee_entry rt ca op cfg mb mq s b = Inr (x, y, s', b') \<Longrightarrow>
    pool_step rt cfg (s, b, t) (s', b', t)"
| protocol_fee2: "handle_claim_protocol_fee2 rt ca cfg mx s b = Inr (x, s', b') \<Longrightarrow>
    pool_step rt cfg (s, b, t) (s', b', t)"
| zap: "handle_zap_protocol_fee rt z za cfg mx s b = Inr (x, s', b') \<Longrightarrow>
    pool_step rt cfg (s, b, t) (s', b', t)"
| creator_surplus: "handle_creator_withdraw_surplus rt ca cfg s b = Inr (x, s', b') \<Longrightarrow>
    pool_step rt cfg (s, b, t) (s', b', t)"
| partner_surplus: "handle_partner_withdraw_surplus rt ca cfg s b = Inr (x, s', b') \<Longrightarrow>
    pool_step rt cfg (s, b, t) (s', b', t)"
| migration_fee: "handle_withdraw_migration_fee rt ca cfg flag s b = Inr (x, s', b') \<Longrightarrow>
    pool_step rt cfg (s, b, t) (s', b', t)"
| partner_creation_fee: "handle_claim_partner_pool_creation_fee rt ca cfg s b = Inr (x, s', b') \<Longrightarrow>
    pool_step rt cfg (s, b, t) (s', b', t)"
| protocol_creation_fee: "handle_claim_protocol_pool_creation_fee rt ca cfg s b = Inr (x, s', b') \<Longrightarrow>
    pool_step rt cfg (s, b, t) (s', b', t)"
| transfer_creator: "handle_transfer_pool_creator rt ca cfg md key s = Inr s' \<Longrightarrow>
    pool_step rt cfg (s, b, t) (s', b, t)"
| leftover: "handle_withdraw_leftover rt ca cfg s b = Inr (x, s', b') \<Longrightarrow>
    ta_amount (cla_base_vault ca) = rt_token_amount rt (ta_key (cla_base_vault ca)) b \<Longrightarrow>
    pool_step rt cfg (s, b, t) (s', b', t)"
| locker: "handle_create_locker rt snapshot clk la cfg s b = Inr (s', b') \<Longrightarrow>
    clk_unix_timestamp clk = t \<Longrightarrow> pool_step rt cfg (s, b, t) (s', b', t)"
| damm_v1: "handle_migrate_meteora_damm rt snapshot clk a1 cfg s m b = Inr (s', m', b') \<Longrightarrow>
    clk_unix_timestamp clk = t \<Longrightarrow> pool_step rt cfg (s, b, t) (s', b', t)"
| damm_v2: "handle_migrate_damm_v2 rt snapshot read dc clk a2 cfg s b = Inr (s', b') \<Longrightarrow>
    clk_unix_timestamp clk = t \<Longrightarrow> pool_step rt cfg (s, b, t) (s', b', t)"
| wait: "t \<le> t' \<Longrightarrow> held rt (pool_base_vault s) b \<le> held rt (pool_base_vault s) b' \<Longrightarrow>
    held rt (pool_quote_vault s) b \<le> held rt (pool_quote_vault s) b' \<Longrightarrow>
    pool_step rt cfg (s, b, t) (s, b', t')"

text \<open>An escrow takes its whole amount from the account it names, and nothing from others.\<close>

definition locker_law :: "'r runtime \<Rightarrow> pubkey \<Rightarrow> bool" where
  "locker_law rt v \<longleftrightarrow> (\<forall>base escrow token w creator params b b'.
     rt_invoke rt (CreateVestingEscrow base escrow token w creator params) b = Some b' \<longrightarrow>
     held rt v b \<le> held rt v b' + (if w = v then escrow_total params else 0))"

section \<open>The invariant\<close>

definition accounted :: "'r runtime \<Rightarrow> pool_config \<Rightarrow> real \<Rightarrow> 'r world \<Rightarrow> bool" where
  "accounted rt cfg k w \<longleftrightarrow> (case w of (s, b, t) \<Rightarrow>
     lawful rt s \<and> locker_law rt (pool_base_vault s) \<and> locker_law rt (pool_quote_vault s)
   \<and> solvent cfg k s
   \<and> pool_migration_progress s \<in> {0, 1, 2, 3}
   \<and> (pool_migration_progress s \<in> {0, 1} \<longrightarrow> base_backed rt s b)
   \<and> (pool_migration_progress s = 2 \<longrightarrow>
        unat (cfg_migration_base_threshold cfg) + base_fees s \<le> held rt (pool_base_vault s) b)
   \<and> base_fees s \<le> held rt (pool_base_vault s) b
   \<and> (pool_migration_progress s \<noteq> 3 \<longrightarrow>
        quote_kept cfg s + quote_fees s \<le> held rt (pool_quote_vault s) b)
   \<and> (pool_migration_progress s \<noteq> 0 \<longrightarrow>
        is_sale_complete s (cfg_migration_quote_threshold cfg) t))"

lemma core_same:
  assumes "core s' = core s"
  shows "pool_base_vault s' = pool_base_vault s" "pool_quote_vault s' = pool_quote_vault s"
    "pool_migration_progress s' = pool_migration_progress s" "pool_base_reserve s' = pool_base_reserve s"
    "solvent cfg k s' = solvent cfg k s" "lawful rt s' = lawful rt s"
    "is_sale_complete s' n t = is_sale_complete s n t"
  using assms by (simp_all add: core_def solvent_def lawful_def is_sale_complete_def is_curve_complete_def
      total_quote_reserve_def is_deadline_reached_def)

lemma balanced_accounted:
  assumes "balanced cfg rt s b s' b'" "accounted rt cfg k (s, b, t)"
  shows "accounted rt cfg k (s', b', t)"
proof -
  have c: "core s' = core s" using assms(1) by (simp add: balanced_def)
  show ?thesis using assms unfolding accounted_def balanced_def base_backed_def prod.case core_same [OF c]
    by (intro conjI impI) (simp_all, linarith+)
qed

lemma later_sale_complete:
  "is_sale_complete s n t \<Longrightarrow> t \<le> t' \<Longrightarrow> is_sale_complete s n t'"
  by (auto simp: is_sale_complete_def is_deadline_reached_def)

lemma wait_accounted:
  assumes "accounted rt cfg k (s, b, t)" "t \<le> t'" "held rt (pool_base_vault s) b \<le> held rt (pool_base_vault s) b'"
    "held rt (pool_quote_vault s) b \<le> held rt (pool_quote_vault s) b'"
  shows "accounted rt cfg k (s, b', t')"
  using assms later_sale_complete [OF _ assms(2)] unfolding accounted_def base_backed_def prod.case
  by (intro conjI impI) (simp_all, linarith+)

section \<open>Each step keeps it\<close>

lemma reserve_covers:
  assumes "config_ok cfg" "solvent cfg k s"
    and "curve_base cfg (last_price cfg) + (real (unat (cfg_migration_base_threshold cfg)) + real (unat (v :: u64))) \<le> k"
  shows "unat (cfg_migration_base_threshold cfg) + unat v \<le> unat (pool_base_reserve s)"
  using solvent_reserve [OF assms(2,1,3)] unfolding of_nat_add [symmetric] of_nat_le_iff .

lemma complete_curve_stage:
  assumes "complete_curve rt a loader cfg now s b = Inr (s', ev, b')"
  shows "if is_curve_complete s (cfg_migration_quote_threshold cfg)
    then pool_migration_progress s' = (if has_vesting (cfg_locked_vesting_config cfg) then 1 else 2)
    else pool_migration_progress s' = pool_migration_progress s"
  using complete_curve_complete [OF assms] complete_curve_open [of s cfg rt a loader now b] assms by auto

lemma trade_accounted:
  assumes "process_swap rt clk tx loader a cfg params virtual slices s b = Inr (s', ev, b')"
    and "clk_unix_timestamp clk = t" "swa_payer a \<noteq> rt_pool_authority rt" "accounted rt cfg k (s, b, t)"
    and "config_ok cfg"
    and "curve_base cfg (last_price cfg) + (real (unat (cfg_migration_base_threshold cfg)) + real (unat (v :: u64))) \<le> k"
  shows "accounted rt cfg k (s', b', t) \<and> pool_migration_progress s = 0"
proof -
  obtain s1 b1 where w: "swap_settles rt clk tx loader a cfg params virtual slices s b s1 b1"
    and c: "complete_curve rt a loader cfg t s1 b1 = Inr (s', ev_curve_complete ev, b')"
    using process_swap_settles [OF assms(1)] assms(2) by blast
  have a: "lawful rt s" "solvent cfg k s" "vault_law rt (pool_base_vault s)" "vault_law rt (pool_quote_vault s)"
    "pool_base_vault s \<noteq> pool_quote_vault s" "locker_law rt (pool_base_vault s)" "locker_law rt (pool_quote_vault s)"
    using assms(4) by (simp_all add: accounted_def lawful_def)
  note n = settled_swap_slack [OF w assms(5) a(2-4) assms(3) a(5)]
  have p0: "pool_migration_progress s = 0" using n assms(2,4) by (auto simp: accounted_def)
  have f: "pool_base_vault s1 = pool_base_vault s" "pool_quote_vault s1 = pool_quote_vault s"
    "pool_is_partner_withdraw_surplus s1 = pool_is_partner_withdraw_surplus s"
    "pool_migration_progress s1 = 0"
    using n p0 by (simp_all add: frozen_def stage_def)
  have q: "quote_kept cfg s1 + unat (pool_quote_reserve s) \<le> quote_kept cfg s + unat (pool_quote_reserve s1)"
    using n by (auto simp: quote_kept_def f(3) word_le_nat_alt)
  have bb: "base_backed rt s b" and qb: "quote_kept cfg s + quote_fees s \<le> held rt (pool_quote_vault s) b"
    using assms(4) p0 by (simp_all add: accounted_def)
  have b1: "unat (pool_base_reserve s1) + base_fees s1 \<le> held rt (pool_base_vault s) b1"
    using n bb unfolding base_backed_def by linarith
  have q1: "quote_kept cfg s1 + quote_fees s1 \<le> held rt (pool_quote_vault s) b1"
    using n q qb by linarith
  note e = complete_curve_backed [OF c a(3), of k] complete_curve_backed [OF c a(4), of k]
  have g: "pool_base_vault s' = pool_base_vault s" "pool_quote_vault s' = pool_quote_vault s"
    "pool_is_partner_withdraw_surplus s' = pool_is_partner_withdraw_surplus s1"
    using e f by (simp_all add: frozen_def)
  have k': "quote_kept cfg s' = quote_kept cfg s1" using e g(3) by (simp add: quote_kept_def)
  have sol: "solvent cfg k s'" using e n by simp
  have lawful: "lawful rt s'" using a g by (simp add: lawful_def)
  have thr: "unat (cfg_migration_base_threshold cfg) \<le> unat (pool_base_reserve s')"
    using reserve_covers [OF assms(5) sol assms(6)] by linarith
  have b2: "base_backed rt s' b'" "base_fees s' \<le> held rt (pool_base_vault s') b'"
    "unat (cfg_migration_base_threshold cfg) + base_fees s' \<le> held rt (pool_base_vault s') b'"
    using e b1 thr unfolding base_backed_def g by simp_all
  have q2: "quote_kept cfg s' + quote_fees s' \<le> held rt (pool_quote_vault s') b'"
    using e q1 k' unfolding g by simp
  have st: "pool_migration_progress s' \<in> {0, 1, 2}"
    "pool_migration_progress s' \<noteq> 0 \<Longrightarrow> is_curve_complete s1 (cfg_migration_quote_threshold cfg)"
    using complete_curve_stage [OF c] f(4) by (auto split: if_splits)
  have "is_sale_complete s' (cfg_migration_quote_threshold cfg) t" if "pool_migration_progress s' \<noteq> 0"
  proof -
    have "total_quote_reserve s' = total_quote_reserve s1"
      using complete_curve_complete [OF c] st(2) [OF that] by (auto simp: total_quote_reserve_def)
    then show ?thesis using st(2) [OF that] by (simp add: is_sale_complete_def is_curve_complete_def)
  qed
  then show ?thesis using lawful sol b2 q2 st(1) p0 a(6,7) by (auto simp: accounted_def g)
qed

lemma leftover_accounted:
  assumes "handle_withdraw_leftover rt a cfg s b = Inr (x, s', b')"
    "ta_amount (cla_base_vault a) = rt_token_amount rt (ta_key (cla_base_vault a)) b"
    "accounted rt cfg k (s, b, t)"
  shows "accounted rt cfg k (s', b', t)"
proof -
  note l = leftover_leaves_fees [OF assms(1) _ assms(2)]
  have a: "lawful rt s" using assms(3) by (simp add: accounted_def)
  have c: "core s' = core s" using l [OF a] by blast
  have "pool_migration_progress s = 3"
    using l [OF a] migration_progress_of_code [of "pool_migration_progress s"]
    by (auto simp: get_migration_progress_def)
  then show ?thesis using assms(3) l [OF a]
    unfolding accounted_def prod.case core_same [OF c] by simp
qed

lemma get_migration_progress_code:
  "get_migration_progress s = Inr p \<Longrightarrow> pool_migration_progress s = migration_progress_code p"
  using migration_progress_of_code [of "pool_migration_progress s"] by (auto simp: get_migration_progress_def)

lemma close_at_deadline_more [simp]:
  "base_fees (close_at_deadline d s) = base_fees s" "quote_fees (close_at_deadline d s) = quote_fees s"
  "pool_is_partner_withdraw_surplus (close_at_deadline d s) = pool_is_partner_withdraw_surplus s"
  "core (close_at_deadline d s) = core s"
  by (simp_all add: close_at_deadline_def base_fees_def quote_fees_def core_def)

lemma locker_accounted:
  assumes "handle_create_locker rt snapshot clk a cfg s b = Inr (s', b')"
    and "clk_unix_timestamp clk = t" "accounted rt cfg k (s, b, t)" "config_ok cfg"
    and "locked_vesting_total_amount (cfg_locked_vesting_config cfg) = Inr v"
    and "curve_base cfg (last_price cfg) + (real (unat (cfg_migration_base_threshold cfg)) + real (unat (v :: u64))) \<le> k"
  shows "accounted rt cfg k (s', b', t) \<and> pool_migration_progress s \<in> {0, 1} \<and> pool_migration_progress s' = 2"
proof -
  obtain progress after params b1 where h: "get_migration_progress s = Inr progress"
    "after = (progress = PreBondingCurve \<and> has_vesting (cfg_locked_vesting_config cfg)
        \<and> is_deadline_reached s t)"
    "progress = PostBondingCurve \<or> after"
    "to_create_vesting_escrow_params (cfg_locked_vesting_config cfg)
        (pool_finish_curve_timestamp (close_at_deadline after s)) = Inr params"
    "rt_invoke rt (CreateVestingEscrow (loa_base a) (loa_escrow a) (loa_escrow_token a)
            (pool_base_vault s) (pool_creator s) params) b = Some b1"
    "b' = b1 \<or> (\<exists>n. rt_invoke rt (SystemTransfer (loa_payer a) (loa_pool_authority a) n) b1 = Some b')"
    "s' = set_migration_progress (close_at_deadline after s) (migration_progress_code LockedVesting)"
    using handle_create_locker_parts [OF assms(1)] assms(2) by blast
  have a: "lawful rt s" "solvent cfg k s" "vault_law rt (pool_base_vault s)" "vault_law rt (pool_quote_vault s)"
    "pool_base_vault s \<noteq> pool_quote_vault s" "locker_law rt (pool_base_vault s)" "locker_law rt (pool_quote_vault s)"
    using assms(3) by (simp_all add: accounted_def lawful_def)
  have p: "pool_migration_progress s \<in> {0, 1}"
    using get_migration_progress_code [OF h(1)] h(2,3) by auto
  have rent: "held rt w b' = held rt w b1" if "vault_law rt w" for w
    using h(6) law_invoke [OF that, of _ _ _ 0 0] by fastforce
  have taken: "held rt (pool_base_vault s) b \<le> held rt (pool_base_vault s) b' + unat v"
    using a(3,6) h(5) rent to_create_vesting_escrow_params_total [OF assms(5) h(4)]
    unfolding locker_law_def by fastforce
  have kept: "held rt (pool_quote_vault s) b \<le> held rt (pool_quote_vault s) b'"
    using a(4,5,7) h(5) rent unfolding locker_law_def by fastforce
  have s': "pool_base_vault s' = pool_base_vault s" "pool_quote_vault s' = pool_quote_vault s"
    "base_fees s' = base_fees s" "quote_fees s' = quote_fees s" "quote_kept cfg s' = quote_kept cfg s"
    "solvent cfg k s' = solvent cfg k s" "lawful rt s' = lawful rt s" "pool_migration_progress s' = 2"
    "is_sale_complete s' n t = is_sale_complete s n t" for n
    unfolding h(7) by (simp_all add: set_migration_progress_def base_fees_def quote_fees_def quote_kept_def
        solvent_def lawful_def is_sale_complete_def is_curve_complete_def total_quote_reserve_def
        is_deadline_reached_def close_at_deadline_def)
  have "base_backed rt s b" using assms(3) p unfolding accounted_def by blast
  then have base: "unat (cfg_migration_base_threshold cfg) + base_fees s \<le> held rt (pool_base_vault s) b'"
    using taken reserve_covers [OF assms(4) a(2) assms(6)] unfolding base_backed_def by linarith
  have "quote_kept cfg s + quote_fees s \<le> held rt (pool_quote_vault s) b"
    using assms(3) p unfolding accounted_def by auto
  then have quote: "quote_kept cfg s + quote_fees s \<le> held rt (pool_quote_vault s) b'" using kept by linarith
  have sale: "is_sale_complete s (cfg_migration_quote_threshold cfg) t"
    using assms(3) p h(2,3) get_migration_progress_code [OF h(1)] by (auto simp: accounted_def is_sale_complete_def)
  show ?thesis using a base quote sale p by (simp add: accounted_def s')
qed

section \<open>Migration\<close>

lemma burn_leaves:
  assumes "burn_leftover rt p m v cfg n b = Inr b'" "vault_law rt v"
  shows "unat n \<le> held rt v b'"
proof -
  obtain left x where h: "safe_sub (rt_token_amount rt v b) n = Inr left" "x \<le> left"
    "(if x > 0 then invoke rt (Burn p m v (rt_pool_authority rt) x) b else Inr b) = Inr b'"
  proof -
    obtain left x where "safe_sub (rt_token_amount rt v b) n = Inr left"
      "get_burnable_amount_post_migration cfg left = Inr x"
      "(if x > 0 then invoke rt (Burn p m v (rt_pool_authority rt) x) b else Inr b) = Inr b'"
      using assms(1) unfolding burn_leftover_def and_then_Ok_iff by blast
    moreover from this(2) have "x \<le> left" by (auto simp: get_burnable_amount_post_migration_def)
    ultimately show thesis using that by blast
  qed
  have "held rt v b \<le> held rt v b' + unat x"
    using h(3) law_invoke [OF assms(2), of "Burn p m v (rt_pool_authority rt) x" b b' 0 "unat x"]
    by (auto split: if_splits)
  then show ?thesis using safe_sub_sum [OF h(1)] h(2) by (simp add: word_le_nat_alt)
qed

lemma admit_migration_Ok:
  assumes "admit_migration cfg wanted t s = Inr s1"
  shows "\<exists>d. s1 = close_at_deadline d s \<and> is_sale_complete s (cfg_migration_quote_threshold cfg) t
    \<and> pool_migration_progress s \<in> {0, 2}"
proof -
  obtain progress where h: "get_migration_progress s = Inr progress"
    "progress = LockedVesting \<or> progress = PreBondingCurve \<and> is_deadline_reached s t
       \<and> \<not> has_vesting (cfg_locked_vesting_config cfg)"
    "is_curve_complete s (cfg_migration_quote_threshold cfg) \<or> is_deadline_reached s t"
    "s1 = close_at_deadline (progress = PreBondingCurve \<and> is_deadline_reached s t
       \<and> \<not> has_vesting (cfg_locked_vesting_config cfg)) s"
    using assms unfolding admit_migration_def Let_def and_then_Ok_iff require_Ok_iff Inr_inject by blast
  then show ?thesis using get_migration_progress_code [OF h(1)] by (auto simp: is_sale_complete_def)
qed

text \<open>The pool after a migration that saved the fees \<open>x\<close> and \<open>y\<close>.\<close>

definition migrated :: "bool \<Rightarrow> u64 \<Rightarrow> u64 \<Rightarrow> pool_state \<Rightarrow> pool_state" where
  "migrated d x y s = set_migration_progress (update_after_create_pool
     (save_protocol_liquidity_migration_fee (close_at_deadline d s) x y)) (migration_progress_code CreatedPool)"

lemma fees_of_close [simp]:
  "get_protocol_and_trading_base_fee (close_at_deadline d s) = get_protocol_and_trading_base_fee s"
  "get_protocol_and_trading_base_fee (save_protocol_liquidity_migration_fee s x y)
     = get_protocol_and_trading_base_fee s"
  "get_protocol_and_trading_base_fee (update_after_create_pool s) = get_protocol_and_trading_base_fee s"
  by (simp_all add: get_protocol_and_trading_base_fee_def close_at_deadline_def
      save_protocol_liquidity_migration_fee_def update_after_create_pool_def)

lemma damm_v1_parts:
  assumes "handle_migrate_meteora_damm rt snapshot clk a cfg s m b = Inr (s', m', b')"
  shows "\<exists>d x y f n b1. s' = migrated d x y s
    \<and> is_sale_complete s (cfg_migration_quote_threshold cfg) (clk_unix_timestamp clk)
    \<and> pool_migration_progress s \<in> {0, 2}
    \<and> get_protocol_and_trading_base_fee s = Inr f \<and> safe_add f x = Inr n
    \<and> (\<exists>p q. burn_leftover rt p q (pool_base_vault s) cfg n b1 = Inr b')"
proof -
  obtain s1 f f' n b1 and g :: migration_amounts where h: "damm_v1_accounts_ok rt a s m"
    "admit_migration cfg MeteoraDamm (clk_unix_timestamp clk) s = Inr s1"
    "get_protocol_and_trading_base_fee (update_after_create_pool (save_protocol_liquidity_migration_fee s1
       (mga_protocol_base_fee g) (mga_protocol_quote_fee g))) = Inr f'"
    "safe_add f' (mga_protocol_base_fee g) = Inr n"
    "burn_leftover rt (d1a_token_program a) (d1a_token_a_mint a) (d1a_base_vault a) cfg n b1 = Inr b'"
    "s' = set_migration_progress (update_after_create_pool (save_protocol_liquidity_migration_fee s1
       (mga_protocol_base_fee g) (mga_protocol_quote_fee g))) (migration_progress_code CreatedPool)"
    using assms unfolding handle_migrate_meteora_damm_def Let_def and_then_Ok_iff has_one_Ok_iff
      Inr_inject Pair_inject by blast
  obtain d where d: "s1 = close_at_deadline d s"
    "is_sale_complete s (cfg_migration_quote_threshold cfg) (clk_unix_timestamp clk)"
    "pool_migration_progress s \<in> {0, 2}"
    using admit_migration_Ok [OF h(2)] by blast
  have "get_protocol_and_trading_base_fee s = Inr f'" using h(3) unfolding d(1) by simp
  moreover have "pool_base_vault s = d1a_base_vault a" using h(1) by (simp add: damm_v1_accounts_ok_def)
  moreover have "s' = migrated d (mga_protocol_base_fee g) (mga_protocol_quote_fee g) s"
    using h(6) unfolding d(1) migrated_def .
  ultimately show ?thesis using d(2,3) h(4,5) by metis
qed

lemma damm_v2_parts:
  assumes "handle_migrate_damm_v2 rt snapshot read dc clk a cfg s b = Inr (s', b')"
  shows "\<exists>d x y f n b1. s' = migrated d x y s
    \<and> is_sale_complete s (cfg_migration_quote_threshold cfg) (clk_unix_timestamp clk)
    \<and> pool_migration_progress s \<in> {0, 2}
    \<and> get_protocol_and_trading_base_fee s = Inr f \<and> safe_add f x = Inr n
    \<and> (\<exists>p q. burn_leftover rt p q (pool_base_vault s) cfg n b1 = Inr b')"
proof -
  obtain s1 f n b1 and g :: migration_amounts where h: "pool_base_vault s = ta_key (d2a_base_vault a)"
    "admit_migration cfg DammV2 (clk_unix_timestamp clk) s = Inr s1"
    "get_protocol_and_trading_base_fee s1 = Inr f"
    "safe_add f (mga_protocol_base_fee g) = Inr n"
    "burn_leftover rt (d2a_token_base_program a) (d2a_base_mint a) (ta_key (d2a_base_vault a)) cfg n b1 = Inr b'"
    "s' = set_migration_progress (update_after_create_pool (save_protocol_liquidity_migration_fee s1
       (mga_protocol_base_fee g) (mga_protocol_quote_fee g))) (migration_progress_code CreatedPool)"
    using assms unfolding handle_migrate_damm_v2_def Let_def and_then_Ok_iff has_one_Ok_iff
      split_paired_Ex case_prod_conv Inr_inject Pair_inject by blast
  obtain d where d: "s1 = close_at_deadline d s"
    "is_sale_complete s (cfg_migration_quote_threshold cfg) (clk_unix_timestamp clk)"
    "pool_migration_progress s \<in> {0, 2}"
    using admit_migration_Ok [OF h(2)] by blast
  have "get_protocol_and_trading_base_fee s = Inr f" using h(3) unfolding d(1) by simp
  moreover have "s' = migrated d (mga_protocol_base_fee g) (mga_protocol_quote_fee g) s"
    using h(6) unfolding d(1) migrated_def .
  ultimately show ?thesis using d(2,3) h(1,4,5) by metis
qed

lemma migrated_accounted:
  assumes "accounted rt cfg k (s, b, t)" "s' = migrated d x y s"
    and "is_sale_complete s (cfg_migration_quote_threshold cfg) t"
    and "get_protocol_and_trading_base_fee s = Inr f" "safe_add f x = Inr n"
    and "burn_leftover rt p q (pool_base_vault s) cfg n b1 = Inr b'"
  shows "accounted rt cfg k (s', b', t)"
proof -
  have a: "lawful rt s" "solvent cfg k s" "locker_law rt (pool_base_vault s)" "locker_law rt (pool_quote_vault s)"
    using assms(1) by (simp_all add: accounted_def)
  have s': "pool_base_vault s' = pool_base_vault s" "pool_quote_vault s' = pool_quote_vault s"
    "solvent cfg k s' = solvent cfg k s" "lawful rt s' = lawful rt s" "pool_migration_progress s' = 3"
    "is_sale_complete s' i t = is_sale_complete s i t"
    "base_fees s' = unat (pool_partner_base_fee s) + unat (pool_protocol_base_fee s)
      + unat (pool_creator_base_fee s) + unat x" for i
    unfolding assms(2) migrated_def set_migration_progress_def update_after_create_pool_def
      save_protocol_liquidity_migration_fee_def close_at_deadline_def
    by (simp_all add: base_fees_def solvent_def lawful_def is_sale_complete_def is_curve_complete_def
        total_quote_reserve_def is_deadline_reached_def)
  have "base_fees s' = unat n"
    using s'(7) fee_sum [OF assms(4)] safe_add_sum [OF assms(5)] unfolding base_fees_def [of s] by linarith
  then have "base_fees s' \<le> held rt (pool_base_vault s) b'"
    using burn_leaves [OF assms(6)] a(1) by (simp add: lawful_def)
  then show ?thesis using a assms(3) by (simp add: accounted_def s')
qed

section \<open>Progress\<close>

text \<open>What the sale has fixed once it is over.\<close>

definition sale_result :: "pool_state \<Rightarrow> u64 \<times> u64 \<times> u64 \<times> u128" where
  "sale_result s = (pool_base_reserve s, pool_quote_reserve s, pool_virtual_quote_reserve s, pool_sqrt_price s)"

text \<open>Progress only grows, and only while it is 0 does a step change what the sale fixes.\<close>

definition onward :: "pool_state \<Rightarrow> pool_state \<Rightarrow> bool" where
  "onward s s' \<longleftrightarrow> pool_migration_progress s \<le> pool_migration_progress s'
     \<and> (pool_migration_progress s \<noteq> 0 \<longrightarrow> sale_result s' = sale_result s)"

lemma onward_refl [simp]: "onward s s" by (simp add: onward_def)

lemma onward_trans: "onward s s1 \<Longrightarrow> onward s1 s' \<Longrightarrow> onward s s'"
  by (auto simp: onward_def)

lemma core_onward: "core s' = core s \<Longrightarrow> onward s s'"
  by (simp add: onward_def core_def sale_result_def)

lemma first_stage_onward: "pool_migration_progress s = 0 \<Longrightarrow> onward s s'"
  by (simp add: onward_def)

lemma migrated_onward:
  assumes "s' = migrated d x y s" "pool_migration_progress s \<in> {0, 1, 2, 3}"
  shows "onward s s'"
  using assms(2) unfolding assms(1) migrated_def
  by (auto simp: onward_def set_migration_progress_def update_after_create_pool_def
      save_protocol_liquidity_migration_fee_def sale_result_def)

lemma locker_onward:
  assumes "s' = set_migration_progress (close_at_deadline d s) (migration_progress_code LockedVesting)"
    and "pool_migration_progress s \<in> {0, 1}"
  shows "onward s s'"
  using assms(2) unfolding assms(1) by (auto simp: onward_def set_migration_progress_def sale_result_def)

section \<open>The whole life\<close>

lemma balanced_step:
  assumes "balanced cfg rt s b s' b'" "accounted rt cfg k (s, b, t)"
  shows "accounted rt cfg k (s', b', t) \<and> onward s s'"
  using balanced_accounted [OF assms] assms(1) core_onward by (auto simp: balanced_def)

lemma migrated_step:
  assumes "accounted rt cfg k (s, b, t)" "\<exists>d x y f n b1. s' = migrated d x y s
    \<and> is_sale_complete s (cfg_migration_quote_threshold cfg) t \<and> pool_migration_progress s \<in> {0, 2}
    \<and> get_protocol_and_trading_base_fee s = Inr f \<and> safe_add f x = Inr n
    \<and> (\<exists>p q. burn_leftover rt p q (pool_base_vault s) cfg n b1 = Inr b')"
  shows "accounted rt cfg k (s', b', t) \<and> onward s s'"
proof -
  obtain d x y f n b1 p q where h: "s' = migrated d x y s"
    "is_sale_complete s (cfg_migration_quote_threshold cfg) t" "pool_migration_progress s \<in> {0, 2}"
    "get_protocol_and_trading_base_fee s = Inr f" "safe_add f x = Inr n"
    "burn_leftover rt p q (pool_base_vault s) cfg n b1 = Inr b'"
    using assms(2) by blast
  show ?thesis using migrated_accounted [OF assms(1) h(1,2,4,5,6)] migrated_onward [OF h(1)] h(3) by blast
qed

lemma step_accounted:
  assumes "pool_step rt cfg w w'" "accounted rt cfg k w" "config_ok cfg"
    and "cfg_creator_trading_fee_percentage cfg = 0" "cfg_migration_fee_percentage cfg = 0"
    and "locked_vesting_total_amount (cfg_locked_vesting_config cfg) = Inr v"
    and "curve_base cfg (last_price cfg) + (real (unat (cfg_migration_base_threshold cfg)) + real (unat v)) \<le> k"
  shows "accounted rt cfg k w' \<and> onward (fst w) (fst w')"
proof -
  have law: "lawful rt (fst w)" using assms(2) by (cases w) (simp add: accounted_def)
  show ?thesis
    using assms(1)
  proof cases
    case (trade clk tx loader a params virtual slices s b s' ev b' t)
    show ?thesis using trade_accounted [OF trade(3,4,5) _ assms(3,7)] assms(2) first_stage_onward
      unfolding trade(1,2) fst_conv by blast
  next
    case (leftover ca s b x s' b' t)
    show ?thesis using leftover_accounted [OF leftover(3,4)] leftover_leaves_fees [OF leftover(3) _ leftover(4)]
        core_onward assms(2) law unfolding leftover(1,2) fst_conv by blast
  next
    case (locker snapshot clk la s b s' b' t)
    show ?thesis using locker_accounted [OF locker(3,4) _ assms(3,6,7)] assms(2)
        handle_create_locker_parts [OF locker(3)] locker_onward unfolding locker(1,2) fst_conv by blast
  next
    case (damm_v1 snapshot clk a1 s m b s' m' b' t)
    show ?thesis
      using migrated_step [OF assms(2) [unfolded damm_v1(1)]] damm_v1_parts [OF damm_v1(3)] unfolding damm_v1(1,2,4) fst_conv by blast
  next
    case (damm_v2 snapshot read dc clk a2 s b s' b' t)
    show ?thesis
      using migrated_step [OF assms(2) [unfolded damm_v2(1)]] damm_v2_parts [OF damm_v2(3)] unfolding damm_v2(1,2,4) fst_conv by blast
  next
    case (wait t t' s b b')
    show ?thesis using wait_accounted [OF _ wait(3,4,5)] assms(2) unfolding wait(1,2) by simp
  next
    case (creator_fee ca mb mq opt s b x y s' b' t)
    then show ?thesis
      using balanced_step [OF pays_balanced [OF creator_fee_pays [OF creator_fee(3)]]] law assms(2) by auto
  next
    case (partner_fee ca mb mq opt s b x y s' b' t)
    then show ?thesis
      using balanced_step [OF pays_balanced [OF partner_fee_pays [OF partner_fee(3)]]] law assms(2) by auto
  next
    case (protocol_fee ca op mb mq s b x y s' b' t)
    then show ?thesis
      using balanced_step [OF pays_balanced [OF protocol_fee_pays [OF protocol_fee(3)]]] law assms(2) by auto
  next
    case (protocol_fee2 ca mx s b x s' b' t)
    then show ?thesis
      using balanced_step [OF pays_balanced [OF protocol_fee2_pays [OF protocol_fee2(3)]]] law assms(2) by auto
  next
    case (zap z za mx s b x s' b' t)
    then show ?thesis
      using balanced_step [OF pays_balanced [OF zap_pays [OF zap(3)]]] law assms(2) by auto
  next
    case (creator_surplus ca s b x s' b' t)
    then show ?thesis
      using balanced_step [OF conjunct1 [OF creator_surplus_balanced [OF creator_surplus(3) _ assms(4)]]] law assms(2) by auto
  next
    case (partner_surplus ca s b x s' b' t)
    then show ?thesis
      using balanced_step [OF conjunct1 [OF partner_surplus_balanced [OF partner_surplus(3) _ assms(4)]]] law assms(2) by auto
  next
    case (migration_fee ca flag s b x s' b' t)
    then show ?thesis
      using balanced_step [OF conjunct1 [OF migration_fee_balanced [OF migration_fee(3) _ assms(5)]]] law assms(2) by auto
  next
    case (partner_creation_fee ca s b x s' b' t)
    then show ?thesis
      using balanced_step [OF partner_creation_fee_balanced [OF partner_creation_fee(3)]] law assms(2) by auto
  next
    case (protocol_creation_fee ca s b x s' b' t)
    then show ?thesis
      using balanced_step [OF protocol_creation_fee_balanced [OF protocol_creation_fee(3)]] law assms(2) by auto
  next
    case (transfer_creator ca md key s s' b t)
    then show ?thesis
      using balanced_step [OF transfer_creator_balanced [OF transfer_creator(3)]] assms(2) by auto
  qed
qed

end
