(* ===== verification/Pool_Life.thy ===== *)
theory Pool_Life
  imports Lifecycle
begin

text \<open>
  What holds throughout the life of a pool that was launched for a created
  configuration, and one such life from the launch to the migration.
\<close>

section \<open>From the launch on\<close>

text \<open>The laws of the token program and the locker for the vaults of a pool.\<close>

definition vaults_lawful :: "'r runtime \<Rightarrow> pool_state \<Rightarrow> bool" where
  "vaults_lawful rt s \<longleftrightarrow> lawful rt s \<and> locker_law rt (pool_base_vault s) \<and> locker_law rt (pool_quote_vault s)"

lemma launched_accounted:
  assumes "launched rt cfg s b" "created rt' cfg" "vaults_lawful rt s"
  shows "\<exists>k v. accounted rt cfg k (s, b, t)
    \<and> locked_vesting_total_amount (cfg_locked_vesting_config cfg) = Inr v
    \<and> curve_base cfg (last_price cfg) + (real (unat (cfg_migration_base_threshold cfg)) + real (unat v)) \<le> k"
proof -
  obtain minted where m: "get_initial_base_supply cfg = Inr minted" "new_pool cfg minted s"
    using launched_state [OF assms(1)] by blast
  note cfg = created_facts [OF assms(2)]
  obtain v where v: "locked_vesting_total_amount (cfg_locked_vesting_config cfg) = Inr v"
    "curve_base cfg (last_price cfg) + (real (unat (cfg_migration_base_threshold cfg)) + real (unat v))
      \<le> real (unat minted)"
    using created_supply_covers [OF assms(2) m(1)] by fastforce
  have law: "lawful rt s" "vault_law rt (pool_base_vault s)" using assms(3) by (simp_all add: vaults_lawful_def lawful_def)
  have sol: "solvent cfg (real (unat minted)) s" using new_pool_solvent [OF m(2)] cfg by blast
  have b: "base_backed rt s b" "quote_backed rt s b" using launched_backed [OF assms(1) law(2)] by simp_all
  have "accounted rt cfg (real (unat minted)) (s, b, t)"
    using assms(3) law(1) sol b new_pool_simps [OF m(2)]
    by (simp add: accounted_def vaults_lawful_def quote_kept_def quote_backed_def base_backed_def)
  then show ?thesis using v by blast
qed

lemma reached_accounted:
  assumes "(pool_step rt cfg)\<^sup>*\<^sup>* w w'" "accounted rt cfg k w" "created rt' cfg"
    and "locked_vesting_total_amount (cfg_locked_vesting_config cfg) = Inr v"
    and "curve_base cfg (last_price cfg) + (real (unat (cfg_migration_base_threshold cfg)) + real (unat v)) \<le> k"
  shows "accounted rt cfg k w' \<and> onward (fst w) (fst w')"
  using assms(1)
proof (induction rule: rtranclp_induct)
  case base
  then show ?case using assms(2) by simp
next
  case (step w1 w2)
  have "config_ok cfg" using created_facts [OF assms(3)] by simp
  then have "accounted rt cfg k w2 \<and> onward (fst w1) (fst w2)"
    using step_accounted [OF step(2) _ _ _ _ assms(4,5)] step.IH created_shares [OF assms(3)] by blast
  then show ?case using step.IH onward_trans by blast
qed

text \<open>\<open>lives rt cfg w\<close>: the world \<open>w\<close> is reached from the launch of a pool for the created configuration.\<close>

definition lives :: "'r runtime \<Rightarrow> pool_config \<Rightarrow> 'r world \<Rightarrow> bool" where
  "lives rt cfg w \<longleftrightarrow> (\<exists>s0 b0 t0. launched rt cfg s0 b0 \<and> vaults_lawful rt s0
     \<and> (pool_step rt cfg)\<^sup>*\<^sup>* (s0, b0, t0) w)"

lemma lives_accounted:
  assumes "lives rt cfg w" "created rt' cfg"
  shows "\<exists>k v. accounted rt cfg k w
    \<and> locked_vesting_total_amount (cfg_locked_vesting_config cfg) = Inr v
    \<and> curve_base cfg (last_price cfg) + (real (unat (cfg_migration_base_threshold cfg)) + real (unat v)) \<le> k"
proof -
  obtain s0 b0 t0 where l: "launched rt cfg s0 b0" "vaults_lawful rt s0" "(pool_step rt cfg)\<^sup>*\<^sup>* (s0, b0, t0) w"
    using assms(1) unfolding lives_def by blast
  obtain k v where k: "accounted rt cfg k (s0, b0, t0)"
    "locked_vesting_total_amount (cfg_locked_vesting_config cfg) = Inr v"
    "curve_base cfg (last_price cfg) + (real (unat (cfg_migration_base_threshold cfg)) + real (unat v)) \<le> k"
    using launched_accounted [OF l(1) assms(2) l(2)] by blast
  then show ?thesis using reached_accounted [OF l(3) k(1) assms(2) k(2,3)] by blast
qed

lemma lives_onward:
  assumes "lives rt cfg w" "created rt' cfg" "(pool_step rt cfg)\<^sup>*\<^sup>* w w'"
  shows "onward (fst w) (fst w')"
  using lives_accounted [OF assms(1,2)] reached_accounted [OF assms(3) _ assms(2)] by blast

section \<open>A life\<close>

definition sold_pool :: pool_state where
  "sold_pool = launched_pool\<lparr>pool_base_reserve := 305557, pool_quote_reserve := 2000000,
     pool_protocol_quote_fee := 4040, pool_partner_quote_fee := 16163,
     pool_sqrt_price := 55340232221128654848, pool_has_swap := 1,
     pool_metrics_of := \<lparr>pm_total_protocol_base_fee = 0, pm_total_protocol_quote_fee = 4040,
       pm_total_trading_base_fee = 0, pm_total_trading_quote_fee = 16163\<rparr>\<rparr>"

definition closed_pool :: pool_state where
  "closed_pool = sold_pool\<lparr>pool_migration_progress := 2, pool_finish_curve_timestamp := 10\<rparr>"

definition closed_balances :: "pubkey \<Rightarrow> u64" where
  "closed_balances = sample_balances(31 := 2979797, 12 := 2020203, 11 := 1305557, 32 := 666666)"

lemmas launched_sample_defs = launched_pool_def pool_initialize_def created_sample_def pool_sample_defs
  instruction_sample_defs

lemma last_buy_check:
  "check_swap ledger_runtime sample_accounts launched_pool (sample_params 2100000 1) False []
     sample_transaction
   = Inr \<lparr>sg_swap_mode = PartialFill, sg_trade_direction = QuoteToBase,
          sg_extra_remaining_account_count = 0, sg_sysvar = None\<rparr>"
  by (simp add: eval and_then_def ok_or_def has_one_def require_def Let_def launched_sample_defs)

lemma last_buy_execution:
  "execute_swap launched_pool created_sample PartialFill QuoteToBase
     \<lparr>sc_params = sample_params 2100000 1, sc_is_virtual = False, sc_has_referral = False,
      sc_current_point = 10, sc_current_timestamp = 10, sc_eligible = False\<rparr>
   = Inr (sold_pool, \<lparr>fees_on_input = True, fees_on_base_token = False, has_referral = False\<rparr>,
       \<lparr>psr_swap_result = sample_swap_result,
        psr_swap_in_parameters = \<lparr>sp_amount_in = 2020203, sp_minimum_amount_out = 666666\<rparr>\<rparr>)"
  by (simp add: eval and_then_def ok_or_def Let_def launched_sample_defs sold_pool_def
      sample_swap_result_def)

lemma last_buy_guards:
  "get_current_point sample_clock (cfg_activation_type created_sample) = Inr 10"
  "check_single_swap rt created_sample s k p d v = Inr ()"
  "check_first_swap_with_min_fee rt created_sample s k b v = Inr False"
  "\<not> is_sale_complete launched_pool (cfg_migration_quote_threshold created_sample) 10"
  by (simp_all add: eval and_then_def ok_or_def Let_def launched_sample_defs
      is_sale_complete_def is_curve_complete_def is_deadline_reached_def total_quote_reserve_def)

lemma last_buy_transfers:
  "transfer_swap_tokens ledger_runtime sample_accounts []
     \<lparr>sg_swap_mode = PartialFill, sg_trade_direction = QuoteToBase,
      sg_extra_remaining_account_count = 0, sg_sysvar = None\<rparr>
     False mode sample_swap_result (sample_balances(11 := 1972223))
   = Inr closed_balances"
  by (simp add: eval and_then_def require_def sample_swap_result_def instruction_sample_defs fun_eq_iff
      closed_balances_def)

lemma last_buy_completion:
  "complete_curve ledger_runtime sample_accounts sample_loader created_sample 10 sold_pool closed_balances
   = Inr (closed_pool, Some \<lparr>cc_base_reserve = 305557, cc_quote_reserve = 2000000\<rparr>, closed_balances)"
  by (simp add: eval and_then_def require_def Let_def launched_sample_defs sold_pool_def closed_balances_def
      closed_pool_def is_curve_complete_def total_quote_reserve_def
      set_migration_progress_def get_protocol_and_trading_base_fee_def saturating_add_def
      sample_config_def)

lemma last_buy:
  "\<exists>ev. process_swap ledger_runtime sample_clock sample_transaction sample_loader sample_accounts
     created_sample (sample_params 2100000 1) False [] launched_pool (sample_balances(11 := 1972223))
   = Inr (closed_pool, ev, closed_balances)"
  unfolding process_swap_def last_buy_check and_then_simps Let_def last_buy_guards
  using last_buy_guards(4)
  by (simp add: last_buy_execution last_buy_transfers last_buy_completion)

text \<open>The partner claims the trading fees.\<close>

definition sample_claim :: claim_accounts where
  "sample_claim = \<lparr>cla_pool_authority = 104, cla_config = sample_config_account, cla_pool = sample_pool_account,
     cla_base_receiver = \<lparr>ta_key = 41, ta_mint = 5, ta_program = 101, ta_authority = 2, ta_amount = 0\<rparr>,
     cla_quote_receiver = \<lparr>ta_key = 42, ta_mint = 1, ta_program = 101, ta_authority = 2, ta_amount = 0\<rparr>,
     cla_base_vault = \<lparr>ta_key = 11, ta_mint = 5, ta_program = 101, ta_authority = 104, ta_amount = 0\<rparr>,
     cla_quote_vault = \<lparr>ta_key = 12, ta_mint = 1, ta_program = 101, ta_authority = 104, ta_amount = 0\<rparr>,
     cla_base_mint = \<lparr>mint_key = 5, mint_program = 101, mint_hook_program = None\<rparr>,
     cla_quote_mint = \<lparr>mint_key = 1, mint_program = 101, mint_hook_program = None\<rparr>,
     cla_signer = 2, cla_receiver = 2, cla_token_base_program = 101, cla_token_quote_program = 101,
     cla_remaining_accounts = []\<rparr>"

definition paid_pool :: pool_state where
  "paid_pool = closed_pool\<lparr>pool_partner_quote_fee := 0\<rparr>"

definition paid_balances :: "pubkey \<Rightarrow> u64" where
  "paid_balances = closed_balances(12 := 2004040, 42 := 16163)"

lemma fees_claimed:
  "handle_claim_trading_fee ledger_runtime sample_claim created_sample (- 1) (- 1) None closed_pool closed_balances
   = Inr (0, 16163, paid_pool, paid_balances)"
  by (simp add: eval and_then_def has_one_def require_def launched_sample_defs sample_claim_def closed_pool_def
      sold_pool_def paid_pool_def claim_partner_trading_fee_def safe_sub_def Let_def closed_balances_def
      paid_balances_def fun_eq_iff)

text \<open>The pool migrates.\<close>

definition damm_sample :: damm_v2_config where
  "damm_sample = \<lparr>d2_fee_scheduler = Some \<lparr>fts_cliff_fee_numerator = 2500000, fts_base_fee_mode = 0,
       fts_number_of_period = 0, fts_period_frequency = 0, fts_reduction_factor = 0\<rparr>,
     d2_sqrt_min_price = MIN_SQRT_PRICE, d2_sqrt_max_price = MAX_SQRT_PRICE, d2_vault_config_key = 0,
     d2_activation_type = 1, d2_pool_creator_authority = 104\<rparr>"

definition damm_accounts :: damm_v2_accounts where
  "damm_accounts = \<lparr>d2a_virtual_pool = sample_pool_account, d2a_config = sample_config_account,
     d2a_pool_authority = 104, d2a_pool = 60, d2a_first_position_nft_mint = 61,
     d2a_first_position_nft_account = 62, d2a_first_position = 63, d2a_second_position_nft_mint = Some 64,
     d2a_second_position_nft_account = Some 65, d2a_second_position = Some 66, d2a_base_mint = 5,
     d2a_quote_mint = 1,
     d2a_base_vault = \<lparr>ta_key = 11, ta_mint = 5, ta_program = 101, ta_authority = 104, ta_amount = 0\<rparr>,
     d2a_quote_vault = \<lparr>ta_key = 12, ta_mint = 1, ta_program = 101, ta_authority = 104, ta_amount = 0\<rparr>,
     d2a_payer = 30, d2a_token_base_program = 101, d2a_token_quote_program = 101,
     d2a_token_2022_program = 102,
     d2a_remaining_accounts = [\<lparr>ai_key = 70, ai_owner = 0, ai_data_len = 0, ai_discriminator = 13\<rparr>]\<rparr>"

definition still :: "pubkey \<Rightarrow> (pubkey \<Rightarrow> u64) \<Rightarrow> account_snapshot" where
  "still k b = \<lparr>snap_lamports = 0, snap_owner = 0, snap_data_len = 0\<rparr>"

definition gone_pool :: pool_state where
  "gone_pool = migrated False 0 0 paid_pool"

definition gone_balances :: "pubkey \<Rightarrow> u64" where
  "gone_balances = paid_balances(11 := 0, 12 := 4040)"

lemma migration_config:
  "damm_v2_validate_config_key damm_sample 104 FixedBps25 = Inr ()"
  "migration_fee_option_of (cfg_migration_fee_option created_sample) = Some FixedBps25"
  "migrated_collect_fee_mode_of (cfg_migrated_collect_fee_mode created_sample) = Some MigratedQuoteToken"
  by (simp_all add: eval and_then_def ok_or_def require_def damm_v2_validate_config_key_def damm_sample_def
      created_sample_def sample_config_def)

lemma migration_admitted:
  "admit_migration created_sample DammV2 10 paid_pool = Inr paid_pool"
  by (simp add: eval and_then_def ok_or_def require_def admit_migration_def Let_def paid_pool_def closed_pool_def
      sold_pool_def launched_sample_defs get_migration_progress_def is_curve_complete_def
      total_quote_reserve_def close_at_deadline_def)

lemma migration_amounts_sample:
  "get_migration_amounts (ConcentratedLiquidity 55340232221128654848) created_sample paid_pool 1305557 0
   = Inr \<lparr>mga_protocol_base_fee = 0, mga_protocol_quote_fee = 0, mga_base_amount = 222223, mga_quote_amount = 2000000\<rparr>"
  by (simp add: eval and_then_def ok_or_def require_def get_migration_amounts_def Let_def paid_pool_def
      closed_pool_def sold_pool_def launched_sample_defs effective_migration_quote_threshold_def)

lemma migration_liquidity:
  "get_initial_pool_information (ConcentratedLiquidity 55340232221128654848) 222223 2000000
   = Inr \<lparr>ipi_sqrt_price = 55340232221128654848, ipi_distributable_liquidity = 12297829383427489525407410,
       ipi_dead_liquidity = 0\<rparr>"
  by (simp add: eval Let_def)

definition creator_share :: liquidity_distribution_item where
  "creator_share = \<lparr>li_unlocked_liquidity = 4919131753370995810162964,
     li_permanent_locked_liquidity = 1229782938342748952540741, li_vested_liquidity = 0,
     li_permanent_locked_liquidity_percentage = 10, li_liquidity_vesting_info = zero_liquidity_vesting_info\<rparr>"

definition partner_share :: liquidity_distribution_item where
  "partner_share = \<lparr>li_unlocked_liquidity = 3689348815028246857622223,
     li_permanent_locked_liquidity = 2459565876685497905081482, li_vested_liquidity = 0,
     li_permanent_locked_liquidity_percentage = 20, li_liquidity_vesting_info = zero_liquidity_vesting_info\<rparr>"

definition adjusted_share :: liquidity_distribution_item where
  "adjusted_share = partner_share\<lparr>li_permanent_locked_liquidity := 2459559731588622835145998\<rparr>"

lemma migration_shares:
  "get_liquidity_distribution created_sample 12297829383427489525407410
   = Inr \<lparr>ld_partner = partner_share, ld_creator = creator_share\<rparr>"
  "item_total_liquidity partner_share = Inr 6148914691713744762703705"
  "item_total_liquidity creator_share = Inr 6148914691713744762703705"
  "item_total_locked_liquidity creator_share = Inr 1229782938342748952540741"
  "adjust_liquidity partner_share 6148908546616869692768221 = Inr adjusted_share"
  "item_total_locked_liquidity adjusted_share = Inr 2459559731588622835145998"
  by (simp_all add: eval and_then_def ok_or_def require_def Let_def created_sample_def sample_config_def
      partner_share_def creator_share_def adjusted_share_def zero_liquidity_vesting_info_def)

text \<open>The calls to the other program.\<close>

definition half_balances :: "pubkey \<Rightarrow> u64" where
  "half_balances = paid_balances(11 := 1194445, 12 := 1004040)"

definition full_balances :: "pubkey \<Rightarrow> u64" where
  "full_balances = paid_balances(11 := 1083334, 12 := 4040)"

lemma balances_read:
  "paid_balances 11 = 1305557" "paid_balances 12 = 2004040" "half_balances 11 = 1194445"
  "half_balances 12 = 1004040" "full_balances 11 = 1083334"
  by (simp_all add: paid_balances_def closed_balances_def half_balances_def full_balances_def)

lemma positions_paid:
  "take_liquidity 11 12 6148914691713744762703705 55340232221128654848 paid_balances = Some half_balances"
  "take_liquidity 11 12 6148908546616869692768221 55340232221128654848 half_balances = Some full_balances"
  by (simp_all add: take_liquidity_def balances_read ceil_div_def)
    (simp_all add: half_balances_def full_balances_def fun_eq_iff)

lemma checked_call:
  "cpi_with_account_lamport_and_owner_checking oper (still k) r = oper r"
  by (cases "oper r") (auto simp: cpi_with_account_lamport_and_owner_checking_def still_def Let_def require_def)

lemma ledger_rent:
  "flash_rent ledger_runtime k p oper r = oper r"
  by (cases "oper r") (auto simp: flash_rent_def ledger_runtime_def Let_def saturating_sub_def)

lemma ledger_call:
  "invoke ledger_runtime c b = (case ledger_invoke c b of None \<Rightarrow> Inl CallFailed | Some r \<Rightarrow> Inr r)"
  by (simp add: invoke_def ledger_runtime_def)

lemma ledger_reads:
  "rt_token_amount ledger_runtime k b = b k" "rt_pool_authority ledger_runtime = 104"
  by (simp_all add: ledger_runtime_def)

lemma first_position:
  "damm_v2_create_pool ledger_runtime still damm_accounts 70 6148914691713744762703705 55340232221128654848
     FixedBps25 MigratedQuoteToken created_sample paid_balances = Inr half_balances"
  by (simp add: damm_v2_create_pool_def checked_call ledger_rent ledger_call ledger_reads ledger_invoke_def
      damm_accounts_def positions_paid)

lemma handed_over:
  assumes "item_total_locked_liquidity it = Inr n" "0 < n" "li_vested_liquidity it = 0"
  shows "lock_and_hand_over ledger_runtime still damm_accounts it k a owner t r = Inr r"
  using assms by (simp add: lock_and_hand_over_def lock_liquidity_position_def checked_call ledger_rent
      set_authority_for_position_def ledger_call ledger_reads ledger_invoke_def)

lemma rest_of_liquidity:
  "leftover_liquidity ledger_runtime (\<lambda>_. Inr p) damm_accounts (ConcentratedLiquidity 55340232221128654848)
     \<lparr>mga_protocol_base_fee = 0, mga_protocol_quote_fee = 0, mga_base_amount = 222223, mga_quote_amount = 2000000\<rparr>
     1305557 2004040 half_balances = Inr 6148908546616869692768221"
  by (simp add: leftover_liquidity_def damm_accounts_def ledger_reads balances_read eval and_then_def ok_or_def
      Let_def)

lemma second_position:
  "migrate_second_position ledger_runtime still damm_accounts partner_share 2 6148908546616869692768221 t half_balances
   = Inr full_balances"
proof -
  have "li_vested_liquidity adjusted_share = 0" by (simp add: adjusted_share_def partner_share_def)
  note h = handed_over [OF migration_shares(6) _ this]
  have "create_second_position ledger_runtime still damm_accounts 6148908546616869692768221 half_balances
      = Inr full_balances"
    by (simp add: create_second_position_def damm_accounts_def checked_call ledger_call ledger_invoke_def positions_paid)
  then show ?thesis
    by (simp add: migrate_second_position_def migration_shares h) (simp add: damm_accounts_def h)
qed

lemma rest_burnt:
  "burn_leftover ledger_runtime p m 11 created_sample 0 full_balances = Inr gone_balances"
  by (simp add: burn_leftover_def ledger_call ledger_reads ledger_invoke_def balances_read
      get_burnable_amount_post_migration_def get_max_burnable_amount_post_migration_def
      is_fixed_token_supply_def created_sample_def sample_config_def and_then_def safe_sub_def)
    (simp add: gone_balances_def full_balances_def fun_eq_iff)

lemma migrates:
  "handle_migrate_damm_v2 ledger_runtime still (\<lambda>_. Inr \<lparr>d2p_token_a_amount = 111112,
     d2p_token_b_amount = 1000000, d2p_liquidity = 6148914691713744762703705\<rparr>) (Inr damm_sample) sample_clock
     damm_accounts created_sample paid_pool paid_balances = Inr (gone_pool, gone_balances)"
proof -
  have accounts: "damm_v2_accounts_ok ledger_runtime damm_accounts"
    "load_config_account ledger_runtime (d2a_config damm_accounts)
      = Inr \<lparr>al_account_info = sample_config_account, al_is_transfer_hook = False\<rparr>"
    "load_pool_account ledger_runtime (d2a_virtual_pool damm_accounts)
      = Inr \<lparr>al_account_info = sample_pool_account, al_is_transfer_hook = False\<rparr>"
    "1 \<le> length (d2a_remaining_accounts damm_accounts)" "ai_key (d2a_remaining_accounts damm_accounts ! 0) = 70"
    "ta_key (d2a_base_vault damm_accounts) = 11" "ta_key (d2a_quote_vault damm_accounts) = 12"
    "ai_key (d2a_config damm_accounts) = 20"
    by (simp_all add: eval damm_v2_accounts_ok_def damm_accounts_def runtime_sample_defs and_then_def require_def)
  have pool: "pool_base_vault paid_pool = 11" "pool_quote_vault paid_pool = 12" "pool_config_key paid_pool = 20"
    "pool_sqrt_price paid_pool = 55340232221128654848" "pool_creator paid_pool = 40"
    "get_protocol_and_trading_base_fee paid_pool = Inr 0"
    by (simp_all add: paid_pool_def closed_pool_def sold_pool_def launched_pool_def pool_initialize_def
        get_protocol_and_trading_base_fee_def safe_add_def and_then_def default_pool_state_def)
  have owner: "cfg_fee_claimer created_sample = 2" by (simp add: created_sample_def sample_config_def)
  have creator: "li_vested_liquidity creator_share = 0" by (simp add: creator_share_def)
  have handler: "get_migration_handler DammV2 MigratedQuoteToken p = ConcentratedLiquidity p" for p
    by (simp add: get_migration_handler_def)
  have sum: "safe_add (6148914691713744762703705 :: u128) 0 = Inr 6148914691713744762703705"
    "safe_add (0 :: u64) 0 = Inr 0"
    by (simp_all add: safe_add_def)
  have order: "order_positions \<lparr>ld_partner = partner_share, ld_creator = creator_share\<rparr> 2 40
      = Inr (creator_share, partner_share, 40, 2)"
    by (simp add: order_positions_def migration_shares)
  note hand = handed_over [OF migration_shares(4) _ creator]
  show ?thesis
    unfolding handle_migrate_damm_v2_def Let_def
    using accounts(4)
    by (simp add: accounts pool has_one_def ledger_reads migration_config migration_admitted balances_read handler
        migration_amounts_sample migration_liquidity migration_shares order sum first_position hand
        rest_of_liquidity second_position rest_burnt owner gone_pool_def migrated_def close_at_deadline_def
        save_protocol_liquidity_migration_fee_def del: safe_add_Ok get_initial_pool_information.simps)
qed

lemma sample_life:
  "lives ledger_runtime created_sample (closed_pool, closed_balances, 10)"
  "(pool_step ledger_runtime created_sample)\<^sup>*\<^sup>* (closed_pool, closed_balances, 10) (gone_pool, gone_balances, 10)"
proof -
  have vaults: "pool_base_vault launched_pool = 11" "pool_quote_vault launched_pool = 12"
    by (simp_all add: launched_pool_def pool_initialize_def)
  have locker: "locker_law ledger_runtime v" for v
    by (simp add: locker_law_def ledger_runtime_def ledger_invoke_def)
  have law: "vaults_lawful ledger_runtime launched_pool"
    using ledger_law locker vaults by (simp add: vaults_lawful_def lawful_def)
  have payer: "clk_unix_timestamp sample_clock = 10" "swa_payer sample_accounts \<noteq> rt_pool_authority ledger_runtime"
    by (simp_all add: sample_clock_def sample_accounts_def ledger_runtime_def)
  have "pool_step ledger_runtime created_sample (launched_pool, sample_balances(11 := 1972223), 10)
      (closed_pool, closed_balances, 10)"
    using last_buy pool_step.trade [OF _ payer] by blast
  then show "lives ledger_runtime created_sample (closed_pool, closed_balances, 10)"
    using sample_is_launched law unfolding lives_def by blast
  have "pool_step ledger_runtime created_sample (closed_pool, closed_balances, 10) (paid_pool, paid_balances, 10)"
    by (rule pool_step.partner_fee [OF fees_claimed])
  moreover have "pool_step ledger_runtime created_sample (paid_pool, paid_balances, 10) (gone_pool, gone_balances, 10)"
    by (rule pool_step.damm_v2 [OF migrates payer(1)])
  ultimately show "(pool_step ledger_runtime created_sample)\<^sup>*\<^sup>* (closed_pool, closed_balances, 10)
      (gone_pool, gone_balances, 10)"
    by (rule converse_rtranclp_into_rtranclp [OF _ r_into_rtranclp])
qed

section \<open>Promises for life\<close>





section \<open>Claims on demand\<close>

text \<open>
  A transfer that the pool authority signs succeeds when the vault holds the amount
  and the receiving account can take it.
\<close>

definition transfers_succeed :: "'r runtime \<Rightarrow> pubkey \<Rightarrow> pubkey \<Rightarrow> pubkey \<Rightarrow> pubkey \<Rightarrow> bool" where
  "transfers_succeed rt p v m dst \<longleftrightarrow> (\<forall>n b. unat n \<le> held rt v b \<longrightarrow> held rt dst b + unat n < 2 ^ 64
     \<longrightarrow> (\<exists>b'. rt_invoke rt (TransferChecked p v m dst (rt_pool_authority rt) n) b = Some b'))"

text \<open>The accounts of a claim of trading fees are in order.\<close>

definition claim_in_order ::
  "'r runtime \<Rightarrow> claim_accounts \<Rightarrow> pool_config \<Rightarrow> remaining_accounts_slice list option \<Rightarrow> pool_state \<Rightarrow> bool" where
  "claim_in_order rt a cfg slices s \<longleftrightarrow> is_ok (load_config_account rt (cla_config a))
     \<and> cfg_quote_mint cfg = mint_key (cla_quote_mint a)
     \<and> (\<exists>l. load_pool_account rt (cla_pool a) = Inr l \<and> (slices \<noteq> None \<or> \<not> al_is_transfer_hook l))
     \<and> pool_base_vault s = ta_key (cla_base_vault a) \<and> pool_quote_vault s = ta_key (cla_quote_vault a)
     \<and> pool_base_mint s = mint_key (cla_base_mint a) \<and> pool_config_key s = ai_key (cla_config a)
     \<and> (\<exists>parsed. parse_claim_accounts a slices = Inr parsed
         \<and> check_transfer_hook rt (cla_base_mint a) (transfer_hook_base parsed) = Inr ())
     \<and> check_transfer_hook rt (cla_quote_mint a) None = Inr ()"

lemma pay_succeeds:
  assumes "transfers_succeed rt p v (mint_key m) dst" "check_transfer_hook rt m hook = Inr ()"
    and "unat n \<le> held rt v b" "held rt dst b + unat n < 2 ^ 64"
  shows "\<exists>b'. transfer_token_from_pool_authority rt m v dst p n hook b = Inr b'"
  using assms unfolding transfers_succeed_def transfer_token_from_pool_authority_def by simp

lemma partner_claim_amounts:
  "\<exists>s'. claim_partner_trading_fee s mb mq = Inr (min (pool_partner_base_fee s) mb, min (pool_partner_quote_fee s) mq, s')"
  by (simp add: claim_partner_trading_fee_def safe_sub_def Let_def)

lemma partner_claim_succeeds:
  assumes "claim_in_order rt a cfg slices s" "mb = 0 \<or> mq = 0"
    and "transfers_succeed rt (cla_token_base_program a) (ta_key (cla_base_vault a)) (mint_key (cla_base_mint a))
        (ta_key (cla_base_receiver a))"
    and "transfers_succeed rt (cla_token_quote_program a) (ta_key (cla_quote_vault a)) (mint_key (cla_quote_mint a))
        (ta_key (cla_quote_receiver a))"
    and "held rt (ta_key (cla_base_receiver a)) b + unat (pool_partner_base_fee s) < 2 ^ 64"
    and "held rt (ta_key (cla_quote_receiver a)) b + unat (pool_partner_quote_fee s) < 2 ^ 64"
    and "unat (pool_partner_base_fee s) \<le> held rt (pool_base_vault s) b"
    and "mq = 0 \<or> unat (pool_partner_quote_fee s) \<le> held rt (pool_quote_vault s) b"
  shows "\<exists>s' b'. handle_claim_trading_fee rt a cfg mb mq slices s b
    = Inr (min (pool_partner_base_fee s) mb, min (pool_partner_quote_fee s) mq, s', b')"
proof -
  let ?x = "min (pool_partner_base_fee s) mb" and ?y = "min (pool_partner_quote_fee s) mq"
  obtain lc l parsed where o: "load_config_account rt (cla_config a) = Inr lc"
    "load_pool_account rt (cla_pool a) = Inr l" "slices \<noteq> None \<or> \<not> al_is_transfer_hook l"
    "parse_claim_accounts a slices = Inr parsed"
    "check_transfer_hook rt (cla_base_mint a) (transfer_hook_base parsed) = Inr ()"
    "check_transfer_hook rt (cla_quote_mint a) None = Inr ()"
    using assms(1) unfolding claim_in_order_def is_ok_iff by blast
  have v: "pool_base_vault s = ta_key (cla_base_vault a)" "pool_quote_vault s = ta_key (cla_quote_vault a)"
    "cfg_quote_mint cfg = mint_key (cla_quote_mint a)"
    "pool_base_mint s = mint_key (cla_base_mint a)" "pool_config_key s = ai_key (cla_config a)"
    using assms(1) by (simp_all add: claim_in_order_def)
  obtain s' where s': "claim_partner_trading_fee s mb mq = Inr (?x, ?y, s')" using partner_claim_amounts by blast
  have le: "unat ?x \<le> unat (pool_partner_base_fee s)" "unat ?y \<le> unat (pool_partner_quote_fee s)"
    by (simp_all add: unat_min)
  have x: "unat ?x \<le> held rt (ta_key (cla_base_vault a)) b"
    "held rt (ta_key (cla_base_receiver a)) b + unat ?x < 2 ^ 64"
    using le(1) assms(5,7) unfolding v by linarith+
  obtain b1 where b1: "pay_base rt a ?x (transfer_hook_base parsed) b = Inr b1"
    using pay_succeeds [OF assms(3) o(5) x] unfolding pay_base_def by blast
  have "\<exists>b'. pay_trading_fee rt a parsed ?x ?y b = Inr b'"
  proof (cases "mq = 0")
    case True
    then show ?thesis using b1 by (simp add: pay_trading_fee_def min_def)
  next
    case False
    then have mb: "mb = 0" and q: "unat (pool_partner_quote_fee s) \<le> held rt (ta_key (cla_quote_vault a)) b"
      using assms(2,8) by (auto simp: v)
    have y: "unat ?y \<le> held rt (ta_key (cla_quote_vault a)) b"
      "held rt (ta_key (cla_quote_receiver a)) b + unat ?y < 2 ^ 64"
      using le(2) q assms(6) by linarith+
    obtain b2 where "pay_quote rt a ?y b = Inr b2"
      using pay_succeeds [OF assms(4) o(6) y] unfolding pay_quote_def by blast
    then show ?thesis using mb by (simp add: pay_trading_fee_def min_def)
  qed
  then show ?thesis using o s' v
    by (auto simp: handle_claim_trading_fee_def has_one_def require_def)
qed



section \<open>Stored bytes\<close>

lemma created_bytes:
  assumes "created rt cfg"
  shows "activation_type_of (cfg_activation_type cfg) \<noteq> None \<and> collect_fee_mode_of (cfg_collect_fee_mode cfg) \<noteq> None
    \<and> migration_option_of (cfg_migration_option cfg) \<noteq> None
    \<and> migration_fee_option_of (cfg_migration_fee_option cfg) \<noteq> None
    \<and> token_type_of (cfg_token_type cfg) \<noteq> None
    \<and> token_authority_option_of (cfg_token_update_authority cfg) \<noteq> None
    \<and> migrated_collect_fee_mode_of (cfg_migrated_collect_fee_mode cfg) \<noteq> None
    \<and> 6 \<le> cfg_token_decimal cfg \<and> cfg_token_decimal cfg \<le> 9"
proof -
  obtain cp ext nm mint now hook fc lr where v: "config_parameters_validate rt ext nm cp mint now hook = Inr ()"
    "process_create_config rt zero_pool_config cp mint fc lr = Inr cfg"
    using created_parts [OF assms] by blast
  obtain f swap base mp flag pre post where
    i: "pool_config_init zero_pool_config (mint_key mint) fc lr cp f swap base mp flag pre post = Inr cfg"
    and m: "migrated_collect_fee_mode_of (mpf_collect_fee_mode (cp_migrated_pool_fee cp)) \<noteq> None"
    using process_create_config_parts [OF v(2)] by blast
  have "cfg_activation_type cfg = cp_activation_type cp" "cfg_collect_fee_mode cfg = cp_collect_fee_mode cp"
    "cfg_migration_option cfg = cp_migration_option cp" "cfg_migration_fee_option cfg = cp_migration_fee_option cp"
    "cfg_token_type cfg = cp_token_type cp" "cfg_token_update_authority cfg = cp_token_update_authority cp"
    "cfg_token_decimal cfg = cp_token_decimal cp"
    "cfg_migrated_collect_fee_mode cfg = mpf_collect_fee_mode (cp_migrated_pool_fee cp)"
    using i by (auto simp: pool_config_init_def)
  then show ?thesis
    using v(1) m unfolding config_parameters_validate_def and_then_Ok_iff ok_or_Ok_iff require_Ok_iff by auto
qed

text \<open>
  C19: stored bytes are well typed.  In a created configuration every byte that stands
  for an enumeration decodes, and so does the progress byte of every pool throughout
  its life: no instruction on such accounts can fail to read its own state.
\<close>

theorem stored_bytes_decode:
  assumes "lives rt cfg (s, b, t)" "created rt' cfg"
  shows "is_ok (get_migration_progress s)
    \<and> activation_type_of (cfg_activation_type cfg) \<noteq> None \<and> collect_fee_mode_of (cfg_collect_fee_mode cfg) \<noteq> None
    \<and> migration_option_of (cfg_migration_option cfg) \<noteq> None
    \<and> migration_fee_option_of (cfg_migration_fee_option cfg) \<noteq> None
    \<and> token_type_of (cfg_token_type cfg) \<noteq> None
    \<and> token_authority_option_of (cfg_token_update_authority cfg) \<noteq> None
    \<and> migrated_collect_fee_mode_of (cfg_migrated_collect_fee_mode cfg) \<noteq> None
    \<and> 6 \<le> cfg_token_decimal cfg \<and> cfg_token_decimal cfg \<le> 9"
proof -
  obtain k where "accounted rt cfg k (s, b, t)" using lives_accounted [OF assms] by blast
  then have "pool_migration_progress s \<in> {0, 1, 2, 3}" by (simp add: accounted_def)
  then have "\<exists>p. pool_migration_progress s = migration_progress_code p"
    by (metis empty_iff insert_iff migration_progress_code.simps)
  then have "is_ok (get_migration_progress s)" by (auto simp: get_migration_progress_def is_ok_iff)
  then show ?thesis using created_bytes [OF assms(2)] by blast
qed

theorem stored_bytes_decode_witness:
  "is_ok (get_migration_progress closed_pool) \<and> activation_type_of (cfg_activation_type created_sample) \<noteq> None"
  using stored_bytes_decode [OF sample_life(1) sample_is_created] by blast

end
