(* ===== verification/One_Time.thy ===== *)
theory One_Time
  imports Pool_Life
begin

text \<open>
  The payouts that happen once: surplus of partner and creator, their shares of the
  migration fee, leftover, and the partner's pool creation fee.  The mark that each
  leaves in the pool survives everything that can happen later.
\<close>

section \<open>Marks\<close>

definition marks :: "pool_state \<Rightarrow> pool_state \<Rightarrow> bool" where
  "marks s s' \<longleftrightarrow> (pool_is_partner_withdraw_surplus s \<noteq> 0 \<longrightarrow> pool_is_partner_withdraw_surplus s' \<noteq> 0)
     \<and> (pool_is_creator_withdraw_surplus s \<noteq> 0 \<longrightarrow> pool_is_creator_withdraw_surplus s' \<noteq> 0)
     \<and> (pool_is_withdraw_leftover s \<noteq> 0 \<longrightarrow> pool_is_withdraw_leftover s' \<noteq> 0)
     \<and> (\<not> eligible_to_withdraw_migration_fee s PARTNER_MIGRATION_FEE_MASK \<longrightarrow>
         \<not> eligible_to_withdraw_migration_fee s' PARTNER_MIGRATION_FEE_MASK)
     \<and> (\<not> eligible_to_withdraw_migration_fee s CREATOR_MIGRATION_FEE_MASK \<longrightarrow>
         \<not> eligible_to_withdraw_migration_fee s' CREATOR_MIGRATION_FEE_MASK)
     \<and> (\<not> eligible_to_claim_partner_pool_creation_fee s \<longrightarrow> \<not> eligible_to_claim_partner_pool_creation_fee s')
     \<and> pool_protocol_liquidity_migration_fee_bps s' = pool_protocol_liquidity_migration_fee_bps s"

lemma marks_refl [simp]: "marks s s" by (simp add: marks_def)

lemma marks_trans: "marks s s1 \<Longrightarrow> marks s1 s' \<Longrightarrow> marks s s'"
  by (simp add: marks_def)

lemma flags_marks: "flags s' = flags s \<Longrightarrow> marks s s'"
  by (simp add: flags_def marks_def eligible_to_withdraw_migration_fee_def
      eligible_to_claim_partner_pool_creation_fee_def)

lemma update_marks:
  "marks s (update_partner_withdraw_surplus s)" "marks s (update_creator_withdraw_surplus s)"
  "marks s (update_withdraw_leftover s)" "marks s (update_protocol_pool_creation_fee_claimed s)"
  "marks s (update_legacy_creation_fee_claimed s)"
  "eligible_to_claim_partner_pool_creation_fee s \<Longrightarrow> marks s (update_partner_pool_creation_fee_claimed s)"
  by (simp_all add: marks_def update_partner_withdraw_surplus_def update_creator_withdraw_surplus_def
      update_withdraw_leftover_def update_protocol_pool_creation_fee_claimed_def
      update_legacy_creation_fee_claimed_def update_partner_pool_creation_fee_claimed_def
      eligible_to_withdraw_migration_fee_def eligible_to_claim_partner_pool_creation_fee_def
      mask_defs bit.conj_xor_distrib2)

section \<open>What each payout has checked and marked\<close>

lemma partner_surplus_marks:
  assumes "handle_partner_withdraw_surplus rt a cfg s b = Inr (x, s', b')"
  shows "pool_is_partner_withdraw_surplus s = 0 \<and> s' = update_partner_withdraw_surplus s"
  using assms unfolding handle_partner_withdraw_surplus_def and_then_Ok_iff has_one_Ok_iff require_Ok_iff
    Inr_inject Pair_inject by blast

lemma creator_surplus_marks:
  assumes "handle_creator_withdraw_surplus rt a cfg s b = Inr (x, s', b')"
  shows "pool_is_creator_withdraw_surplus s = 0 \<and> s' = update_creator_withdraw_surplus s"
  using assms unfolding handle_creator_withdraw_surplus_def and_then_Ok_iff has_one_Ok_iff require_Ok_iff
    Inr_inject Pair_inject by blast

lemma leftover_marks:
  assumes "handle_withdraw_leftover rt a cfg s b = Inr (x, s', b')"
  shows "pool_is_withdraw_leftover s = 0 \<and> s' = update_withdraw_leftover s"
  using assms unfolding handle_withdraw_leftover_def and_then_Ok_iff has_one_Ok_iff require_Ok_iff
    Inr_inject Pair_inject by blast

lemma partner_creation_marks:
  assumes "handle_claim_partner_pool_creation_fee rt a cfg s b = Inr (x, s', b')"
  shows "eligible_to_claim_partner_pool_creation_fee s \<and> s' = update_partner_pool_creation_fee_claimed s"
  using assms unfolding handle_claim_partner_pool_creation_fee_def by (auto simp: Let_def)

fun sender_mask :: "sender_flag \<Rightarrow> u8" where
  "sender_mask SenderPartner = PARTNER_MIGRATION_FEE_MASK"
| "sender_mask SenderCreator = CREATOR_MIGRATION_FEE_MASK"

lemma migration_fee_marks:
  assumes "handle_withdraw_migration_fee rt a cfg flag s b = Inr (x, s', b')"
  shows "\<exists>f. sender_flag_of flag = Some f \<and> eligible_to_withdraw_migration_fee s (sender_mask f)
    \<and> s' = update_withdraw_migration_fee s (sender_mask f)"
proof -
  obtain f and d :: migration_fee_distribution where h: "sender_flag_of flag = Some f"
    "(if f = SenderPartner then
          and_then (require (cla_signer a = cfg_fee_claimer cfg) NotPermitToDoThisAction) (\<lambda>_.
          and_then (require (eligible_to_withdraw_migration_fee s PARTNER_MIGRATION_FEE_MASK)
            MigrationFeeHasBeenWithdraw) (\<lambda>_.
          Inr (mf_partner_migration_fee d, update_withdraw_migration_fee s PARTNER_MIGRATION_FEE_MASK)))
        else
          and_then (require (cla_signer a = pool_creator s) NotPermitToDoThisAction) (\<lambda>_.
          and_then (require (eligible_to_withdraw_migration_fee s CREATOR_MIGRATION_FEE_MASK)
            MigrationFeeHasBeenWithdraw) (\<lambda>_.
          Inr (mf_creator_migration_fee d, update_withdraw_migration_fee s CREATOR_MIGRATION_FEE_MASK)))) = Inr (x, s')"
    using assms(1) unfolding handle_withdraw_migration_fee_def Let_def and_then_Ok_iff has_one_Ok_iff ok_or_Ok_iff
      split_paired_Ex case_prod_conv Inr_inject Pair_inject by blast
  then show ?thesis by (cases f) (auto split: if_splits)
qed

lemma migration_fee_update_marks:
  assumes "eligible_to_withdraw_migration_fee s (sender_mask f)"
  shows "marks s (update_withdraw_migration_fee s (sender_mask f))
    \<and> \<not> eligible_to_withdraw_migration_fee (update_withdraw_migration_fee s (sender_mask f)) (sender_mask f)"
  using assms by (cases f) (simp_all add: marks_def eligible_to_withdraw_migration_fee_def
      update_withdraw_migration_fee_def eligible_to_claim_partner_pool_creation_fee_def mask_defs
      bit.conj_xor_distrib2)

lemma protocol_creation_updates:
  assumes "handle_claim_protocol_pool_creation_fee rt a cfg s b = Inr (x, s', b')"
  shows "\<exists>s1. (s1 = s \<or> s1 = update_protocol_pool_creation_fee_claimed s)
    \<and> (s' = s1 \<or> s' = update_legacy_creation_fee_claimed s1)"
proof -
  obtain n s1 where h: "(if eligible_to_claim_protocol_pool_creation_fee s then
          and_then (split_pool_creation_fee cfg) (\<lambda>(protocol, _).
          Inr (protocol, update_protocol_pool_creation_fee_claimed s))
        else Inr (0, s)) = Inr (n, s1)"
     "(if has_legacy_creation_fee s1 \<and> eligible_to_claim_legacy_creation_fee s1 then
          and_then (safe_add n TOKEN_2022_POOL_WITH_OUTPUT_FEE_COLLECTION_CREATION_FEE) (\<lambda>protocol.
          Inr (protocol, update_legacy_creation_fee_claimed s1))
        else Inr (n, s1)) = Inr (x, s')"
    using assms unfolding handle_claim_protocol_pool_creation_fee_def and_then_Ok_iff
      split_paired_Ex case_prod_conv Inr_inject Pair_inject by blast
  have "s1 = s \<or> s1 = update_protocol_pool_creation_fee_claimed s" using h(1) by (auto split: if_splits)
  moreover have "s' = s1 \<or> s' = update_legacy_creation_fee_claimed s1" using h(2) by (auto split: if_splits)
  ultimately show ?thesis by blast
qed

lemma protocol_creation_marks:
  assumes "handle_claim_protocol_pool_creation_fee rt a cfg s b = Inr (x, s', b')"
  shows "marks s s'"
  using protocol_creation_updates [OF assms] update_marks(4,5) marks_refl marks_trans by metis

lemma trade_marks:
  assumes "process_swap rt clk tx loader a cfg params virtual slices s b = Inr (s', ev, b')"
  shows "marks s s'"
proof -
  obtain s1 mode res b1 and g :: swap_guards and c :: swap_call where p: "execute_swap s cfg (sg_swap_mode g) (sg_trade_direction g) c = Inr (s1, mode, res)"
    "complete_curve rt a loader cfg (clk_unix_timestamp clk) s1 b1 = Inr (s', ev_curve_complete ev, b')"
    using process_swap_parts [OF assms] by blast
  have "flags s' = flags s1"
    using complete_curve_complete [OF p(2)] complete_curve_open [of s1 cfg rt a loader "clk_unix_timestamp clk" b1] p(2)
    by (cases "is_curve_complete s1 (cfg_migration_quote_threshold cfg)") (auto simp: flags_def)
  moreover have "flags s1 = flags s" using execute_swap_frozen [OF p(1)] by (simp add: frozen_def flags_def)
  ultimately show ?thesis by (intro flags_marks) simp
qed

lemma stage_change_flags:
  "flags (migrated d x y s) = flags s" "flags (set_migration_progress (close_at_deadline d s) n) = flags s"
  "flags (s\<lparr>pool_creator := k\<rparr>) = flags s"
  by (simp_all add: migrated_def set_migration_progress_def update_after_create_pool_def
      save_protocol_liquidity_migration_fee_def close_at_deadline_def flags_def)

lemma step_marks:
  assumes "pool_step rt cfg w w'" "lawful rt (fst w)"
  shows "marks (fst w) (fst w')"
  using assms(1)
proof cases
  case (trade clk tx loader a params virtual slices s b s' ev b' t)
  then show ?thesis using trade_marks [OF trade(3)] by simp
next
  case (leftover ca s b x s' b' t)
  then show ?thesis using leftover_marks [OF leftover(3)] update_marks(3) by fastforce
next
  case (locker snapshot clk la s b s' b' t)
  then show ?thesis using handle_create_locker_parts [OF locker(3)] stage_change_flags(2) flags_marks by fastforce
next
  case (damm_v1 snapshot clk a1 s m b s' m' b' t)
  then show ?thesis using damm_v1_parts [OF damm_v1(3)] stage_change_flags(1) flags_marks by fastforce
next
  case (damm_v2 snapshot read dc clk a2 s b s' b' t)
  then show ?thesis using damm_v2_parts [OF damm_v2(3)] stage_change_flags(1) flags_marks by fastforce
next
  case (wait t t' s b b')
  then show ?thesis by simp
next
  case (creator_fee ca mb mq opt s b x y s' b' t)
  then show ?thesis using creator_fee_pays [OF creator_fee(3)] assms(2) flags_marks by simp
next
  case (partner_fee ca mb mq opt s b x y s' b' t)
  then show ?thesis using partner_fee_pays [OF partner_fee(3)] assms(2) flags_marks by simp
next
  case (protocol_fee ca op mb mq s b x y s' b' t)
  then show ?thesis using protocol_fee_pays [OF protocol_fee(3)] assms(2) flags_marks by simp
next
  case (protocol_fee2 ca mx s b x s' b' t)
  then show ?thesis using protocol_fee2_pays [OF protocol_fee2(3)] assms(2) flags_marks by simp
next
  case (zap z za mx s b x s' b' t)
  then show ?thesis using zap_pays [OF zap(3)] assms(2) flags_marks by simp
next
  case (creator_surplus ca s b x s' b' t)
  then show ?thesis using creator_surplus_marks [OF creator_surplus(3)] update_marks(2) by fastforce
next
  case (partner_surplus ca s b x s' b' t)
  then show ?thesis using partner_surplus_marks [OF partner_surplus(3)] update_marks(1) by fastforce
next
  case (migration_fee ca flag s b x s' b' t)
  then show ?thesis using migration_fee_marks [OF migration_fee(3)] migration_fee_update_marks by fastforce
next
  case (partner_creation_fee ca s b x s' b' t)
  then show ?thesis using partner_creation_marks [OF partner_creation_fee(3)] update_marks(6) by fastforce
next
  case (protocol_creation_fee ca s b x s' b' t)
  then show ?thesis using protocol_creation_marks [OF protocol_creation_fee(3)] by simp
next
  case (transfer_creator ca md key s s' b t)
  have "s' = s\<lparr>pool_creator := key\<rparr>"
    using transfer_creator(3) unfolding handle_transfer_pool_creator_def and_then_Ok_iff Inr_inject by blast
  then show ?thesis using transfer_creator(1,2) stage_change_flags(3) flags_marks by simp
qed

lemma run_marks:
  assumes "(pool_step rt cfg)\<^sup>*\<^sup>* w w'" "lives rt cfg w" "created rt' cfg"
  shows "marks (fst w) (fst w')"
  using assms(1)
proof (induction rule: rtranclp_induct)
  case base
  then show ?case by simp
next
  case (step w1 w2)
  have "lives rt cfg w1" using assms(2) step(1) unfolding lives_def by (meson rtranclp_trans)
  then obtain k where "accounted rt cfg k w1" using lives_accounted [OF _ assms(3)] by blast
  then have "lawful rt (fst w1)" by (cases w1) (simp add: accounted_def)
  then show ?case using step_marks [OF step(2)] step.IH marks_trans by blast
qed

section \<open>Once for life\<close>

text \<open>The two withdrawals whose marks are bits of a mask.\<close>

lemma partner_creation_once:
  assumes "handle_claim_partner_pool_creation_fee rt a cfg s b = Inr (x, s1, b1)" "marks s1 s'"
  shows "\<not> is_ok (handle_claim_partner_pool_creation_fee rt a' cfg s' b')"
proof -
  have "\<not> eligible_to_claim_partner_pool_creation_fee s1"
    using partner_creation_marks [OF assms(1)]
    by (simp add: eligible_to_claim_partner_pool_creation_fee_def
        update_partner_pool_creation_fee_claimed_def mask_defs bit.conj_xor_distrib2)
  then have "\<not> eligible_to_claim_partner_pool_creation_fee s'" using assms(2) unfolding marks_def by blast
  then show ?thesis using partner_creation_marks by (fastforce simp: is_ok_iff)
qed

lemma migration_fee_once:
  assumes "handle_withdraw_migration_fee rt a cfg flag s b = Inr (x, s1, b1)" "marks s1 s'"
  shows "\<not> is_ok (handle_withdraw_migration_fee rt a' cfg flag s' b')"
proof -
  obtain f where f: "sender_flag_of flag = Some f" "eligible_to_withdraw_migration_fee s (sender_mask f)"
    "s1 = update_withdraw_migration_fee s (sender_mask f)"
    using migration_fee_marks [OF assms(1)] by blast
  have "\<not> eligible_to_withdraw_migration_fee s1 (sender_mask f)"
    using migration_fee_update_marks [OF f(2)] f(3) by blast
  then have "\<not> eligible_to_withdraw_migration_fee s' (sender_mask f)"
    using assms(2) unfolding marks_def by (cases f) simp_all
  then show ?thesis using f(1) migration_fee_marks by (fastforce simp: is_ok_iff)
qed


lemma surplus_taken:
  "handle_partner_withdraw_surplus ledger_runtime sample_claim created_sample closed_pool closed_balances
   = Inr (0, update_partner_withdraw_surplus closed_pool, closed_balances)"
  by (simp add: eval and_then_def has_one_def require_def launched_sample_defs sample_claim_def closed_pool_def
      sold_pool_def safe_sub_def Let_def closed_balances_def has_real_quote_surplus_def get_total_surplus_def
      get_partner_surplus_def get_partner_and_creator_surplus_def fun_eq_iff)


end
