(* ===== verification/Instructions.thy ===== *)
theory Instructions
  imports One_Time
begin

text \<open>
  The instructions of the program that act on a pool (\<open>lib.rs\<close>), each with the check of
  its signer and the accounts it names, and their execution one after the other.
  Every execution is a step in the life of the pool, and what is owed to somebody
  leaves the pool only in an instruction that this party has signed.
\<close>

section \<open>The instructions\<close>

text \<open>
  The content of accounts that belong to other programs, and the snapshots that the
  check around the flash rent takes, come with the instruction.
\<close>

datatype 'r pool_instruction =
    Swap transaction swap_accounts swap_parameters
  | Swap2 transaction swap_accounts swap_parameters2
  | Swap2WithTransferHook transaction swap_accounts swap_parameters2 "remaining_accounts_slice list"
  | VirtualSwap2 transaction swap_accounts swap_parameters2
  | ClaimTradingFee claim_accounts u64 u64
  | ClaimTradingFee2 claim_accounts u64 u64 "remaining_accounts_slice list"
  | ClaimCreatorTradingFee claim_accounts u64 u64
  | ClaimCreatorTradingFee2 claim_accounts u64 u64 "remaining_accounts_slice list"
  | ClaimProtocolFees claim_accounts operator u64 u64
  | ClaimProtocolFee2 claim_accounts u64
  | ZapProtocolFees zap_rules zap_accounts operator u64
  | PartnerWithdrawSurplus claim_accounts
  | CreatorWithdrawSurplus claim_accounts
  | WithdrawMigrationFee claim_accounts u8
  | ClaimPartnerPoolCreationFee claim_accounts
  | ClaimProtocolPoolCreationFee claim_accounts operator
  | TransferPoolCreator claim_accounts "migration_metadata result option" pubkey
  | WithdrawLeftover claim_accounts
  | CreateLocker "pubkey \<Rightarrow> 'r \<Rightarrow> account_snapshot" locker_accounts
  | MigrateMeteoraDamm "pubkey \<Rightarrow> 'r \<Rightarrow> account_snapshot" damm_v1_accounts migration_metadata
  | MigrationDammV2 "pubkey \<Rightarrow> 'r \<Rightarrow> account_snapshot" "'r \<Rightarrow> damm_v2_pool result"
      "damm_v2_config result" damm_v2_accounts

text \<open>What an instruction returns beside pool and chain is dropped.\<close>

definition after_swap :: "(pool_state \<times> swap_event_data \<times> 'r) result \<Rightarrow> (pool_state \<times> 'r) result" where
  "after_swap m = and_then m (\<lambda>(s, _, r). Ok (s, r))"

definition after_claim :: "(u64 \<times> u64 \<times> pool_state \<times> 'r) result \<Rightarrow> (pool_state \<times> 'r) result" where
  "after_claim m = and_then m (\<lambda>(_, _, s, r). Ok (s, r))"

definition after_payout :: "(u64 \<times> pool_state \<times> 'r) result \<Rightarrow> (pool_state \<times> 'r) result" where
  "after_payout m = and_then m (\<lambda>(_, s, r). Ok (s, r))"

lemma after_Ok [simp]:
  "after_swap m = Inr (s, r) \<longleftrightarrow> (\<exists>ev. m = Inr (s, ev, r))"
  "after_claim n = Inr (s, r) \<longleftrightarrow> (\<exists>x y. n = Inr (x, y, s, r))"
  "after_payout k = Inr (s, r) \<longleftrightarrow> (\<exists>x. k = Inr (x, s, r))"
  by (auto simp: after_swap_def after_claim_def after_payout_def)

fun execute :: "'r runtime \<Rightarrow> clock \<Rightarrow> pool_config \<Rightarrow> 'r pool_instruction \<Rightarrow> pool_state \<Rightarrow> 'r \<Rightarrow> (pool_state \<times> 'r) result" where
  "execute rt clk cfg (Swap tx a p) s r = after_swap (swap_entry rt clk tx a cfg p s r)"
| "execute rt clk cfg (Swap2 tx a p) s r = after_swap (swap2_entry rt clk tx a cfg p s r)"
| "execute rt clk cfg (Swap2WithTransferHook tx a p slices) s r =
     after_swap (handle_swap_with_transfer_hook_wrapper rt clk tx a cfg p slices s r)"
| "execute rt clk cfg (VirtualSwap2 tx a p) s r = after_swap (virtual_swap2_entry rt clk tx a cfg p s r)"
| "execute rt clk cfg (ClaimTradingFee a mb mq) s r = after_claim (claim_trading_fee_entry rt a cfg mb mq s r)"
| "execute rt clk cfg (ClaimTradingFee2 a mb mq slices) s r =
     after_claim (claim_trading_fee2_entry rt a cfg mb mq slices s r)"
| "execute rt clk cfg (ClaimCreatorTradingFee a mb mq) s r =
     after_claim (claim_creator_trading_fee_entry rt a mb mq s r)"
| "execute rt clk cfg (ClaimCreatorTradingFee2 a mb mq slices) s r =
     after_claim (claim_creator_trading_fee2_entry rt a mb mq slices s r)"
| "execute rt clk cfg (ClaimProtocolFees a op mb mq) s r =
     after_claim (claim_protocol_fee_entry rt a op cfg mb mq s r)"
| "execute rt clk cfg (ClaimProtocolFee2 a mx) s r = after_payout (handle_claim_protocol_fee2 rt a cfg mx s r)"
| "execute rt clk cfg (ZapProtocolFees z a op mx) s r = after_payout (zap_protocol_fee_entry rt z a op cfg mx s r)"
| "execute rt clk cfg (PartnerWithdrawSurplus a) s r = after_payout (partner_withdraw_surplus_entry rt a cfg s r)"
| "execute rt clk cfg (CreatorWithdrawSurplus a) s r = after_payout (creator_withdraw_surplus_entry rt a cfg s r)"
| "execute rt clk cfg (WithdrawMigrationFee a flag) s r =
     after_payout (handle_withdraw_migration_fee rt a cfg flag s r)"
| "execute rt clk cfg (ClaimPartnerPoolCreationFee a) s r =
     after_payout (claim_partner_pool_creation_fee_entry rt a cfg s r)"
| "execute rt clk cfg (ClaimProtocolPoolCreationFee a op) s r =
     after_payout (claim_protocol_pool_creation_fee_entry rt a op cfg s r)"
| "execute rt clk cfg (TransferPoolCreator a m new) s r =
     and_then (transfer_pool_creator_entry rt a cfg m new s) (\<lambda>s. Ok (s, r))"
| "execute rt clk cfg (WithdrawLeftover a) s r = after_payout (handle_withdraw_leftover rt a cfg s r)"
| "execute rt clk cfg (CreateLocker snapshot a) s r = handle_create_locker rt snapshot clk a cfg s r"
| "execute rt clk cfg (MigrateMeteoraDamm snapshot a m) s r =
     and_then (handle_migrate_meteora_damm rt snapshot clk a cfg s m r) (\<lambda>(s, _, r). Ok (s, r))"
| "execute rt clk cfg (MigrationDammV2 snapshot read_pool damm_config a) s r =
     handle_migrate_damm_v2 rt snapshot read_pool damm_config clk a cfg s r"

section \<open>Executions and the life of a pool\<close>

text \<open>
  What the chain guarantees of an instruction it hands to the program: the account of
  the pool authority, which has no key, signs nothing, and the token account a
  leftover withdrawal names is shown as it is.
\<close>

fun presented :: "'r runtime \<Rightarrow> 'r pool_instruction \<Rightarrow> 'r \<Rightarrow> bool" where
  "presented rt (Swap tx a p) r \<longleftrightarrow> swa_payer a \<noteq> rt_pool_authority rt"
| "presented rt (Swap2 tx a p) r \<longleftrightarrow> swa_payer a \<noteq> rt_pool_authority rt"
| "presented rt (Swap2WithTransferHook tx a p slices) r \<longleftrightarrow> swa_payer a \<noteq> rt_pool_authority rt"
| "presented rt (VirtualSwap2 tx a p) r \<longleftrightarrow> swa_payer a \<noteq> rt_pool_authority rt"
| "presented rt (WithdrawLeftover a) r \<longleftrightarrow>
     ta_amount (cla_base_vault a) = rt_token_amount rt (ta_key (cla_base_vault a)) r"
| "presented rt i r \<longleftrightarrow> True"

lemma swap_wrappers_Ok:
  "handle_swap_wrapper rt clk tx a cfg p v s r = Inr x \<Longrightarrow>
     \<exists>loader. process_swap rt clk tx loader a cfg p v [] s r = Inr x"
  "handle_swap_with_transfer_hook_wrapper rt clk tx a cfg p slices s r = Inr x \<Longrightarrow>
     \<exists>loader. process_swap rt clk tx loader a cfg p False slices s r = Inr x"
  unfolding handle_swap_wrapper_def handle_swap_with_transfer_hook_wrapper_def and_then_Ok_iff by blast+

text \<open>The four kinds of swaps are one kind of step.\<close>

fun swap_of :: "'r pool_instruction \<Rightarrow> bool" where
  "swap_of (Swap tx a p) = True"
| "swap_of (Swap2 tx a p) = True"
| "swap_of (Swap2WithTransferHook tx a p slices) = True"
| "swap_of (VirtualSwap2 tx a p) = True"
| "swap_of i = False"

lemma executed_swap:
  assumes "execute rt clk cfg i s r = Inr (s', r')" "swap_of i"
  shows "\<exists>tx loader a p v slices ev. process_swap rt clk tx loader a cfg p v slices s r = Inr (s', ev, r')
    \<and> (presented rt i r \<longrightarrow> swa_payer a \<noteq> rt_pool_authority rt)"
  using assms swap_wrappers_Ok
  by (cases i) (fastforce simp: swap_entry_def swap2_entry_def virtual_swap2_entry_def)+

lemma execute_step:
  assumes "execute rt clk cfg i s r = Inr (s', r')" "presented rt i r"
  shows "pool_step rt cfg (s, r, clk_unix_timestamp clk) (s', r', clk_unix_timestamp clk)"
proof (cases "swap_of i")
  case True
  then obtain tx loader a p v slices ev where "process_swap rt clk tx loader a cfg p v slices s r = Inr (s', ev, r')"
    "swa_payer a \<noteq> rt_pool_authority rt"
    using executed_swap [OF assms(1)] assms(2) by blast
  then show ?thesis by (rule pool_step.trade [OF _ refl])
next
  case False
  with assms show ?thesis
    by (cases i) (auto simp: claim_trading_fee_entry_def claim_trading_fee2_entry_def
        claim_creator_trading_fee_entry_def claim_creator_trading_fee2_entry_def zap_protocol_fee_entry_def
        partner_withdraw_surplus_entry_def creator_withdraw_surplus_entry_def
        claim_partner_pool_creation_fee_entry_def claim_protocol_pool_creation_fee_entry_def
        transfer_pool_creator_entry_def intro: pool_step.intros)
qed

text \<open>
  Instructions executed one after the other, each at its time.  One that fails leaves no
  trace, as the chain undoes it.
\<close>

fun execute_all :: "'r runtime \<Rightarrow> pool_config \<Rightarrow> (clock \<times> 'r pool_instruction) list \<Rightarrow> pool_state \<times> 'r \<Rightarrow> pool_state \<times> 'r" where
  "execute_all rt cfg [] w = w"
| "execute_all rt cfg ((clk, i) # is) w =
     execute_all rt cfg is (case execute rt clk cfg i (fst w) (snd w) of Inl e \<Rightarrow> w | Inr w' \<Rightarrow> w')"

text \<open>Every instruction is presented as the chain does, at times that never go back.\<close>

fun presented_all :: "'r runtime \<Rightarrow> pool_config \<Rightarrow> u64 \<Rightarrow> (clock \<times> 'r pool_instruction) list \<Rightarrow> pool_state \<times> 'r \<Rightarrow> bool" where
  "presented_all rt cfg t [] w \<longleftrightarrow> True"
| "presented_all rt cfg t ((clk, i) # is) w \<longleftrightarrow> t \<le> clk_unix_timestamp clk \<and> presented rt i (snd w)
     \<and> presented_all rt cfg (clk_unix_timestamp clk) is
         (case execute rt clk cfg i (fst w) (snd w) of Inl e \<Rightarrow> w | Inr w' \<Rightarrow> w')"

fun end_time :: "u64 \<Rightarrow> (clock \<times> 'r pool_instruction) list \<Rightarrow> u64" where
  "end_time t [] = t"
| "end_time t ((clk, i) # is) = end_time (clk_unix_timestamp clk) is"

lemma execute_all_steps:
  "presented_all rt cfg t is w \<Longrightarrow>
     (pool_step rt cfg)\<^sup>*\<^sup>* (fst w, snd w, t) (fst (execute_all rt cfg is w), snd (execute_all rt cfg is w), end_time t is)"
proof (induction "is" arbitrary: t w)
  case Nil
  then show ?case by simp
next
  case (Cons x "is")
  obtain clk i where x: "x = (clk, i)" by (cases x)
  let ?t = "clk_unix_timestamp clk" and ?w = "case execute rt clk cfg i (fst w) (snd w) of Inl e \<Rightarrow> w | Inr w' \<Rightarrow> w'"
  have p: "t \<le> ?t" "presented rt i (snd w)" "presented_all rt cfg ?t is ?w" using Cons.prems by (simp_all add: x)
  have "pool_step rt cfg (fst w, snd w, t) (fst w, snd w, ?t)" using p(1) by (rule pool_step.wait) simp_all
  moreover have "(pool_step rt cfg)\<^sup>*\<^sup>* (fst w, snd w, ?t) (fst ?w, snd ?w, ?t)"
  proof (cases "execute rt clk cfg i (fst w) (snd w)")
    case (Inr w')
    then have "pool_step rt cfg (fst w, snd w, ?t) (fst w', snd w', ?t)"
      using execute_step [OF _ p(2), of clk cfg "fst w" "fst w'" "snd w'"] by simp
    then show ?thesis using Inr by simp
  qed simp
  ultimately have "(pool_step rt cfg)\<^sup>*\<^sup>* (fst w, snd w, t) (fst ?w, snd ?w, ?t)"
    by (rule converse_rtranclp_into_rtranclp)
  with Cons.IH [OF p(3)] show ?case by (simp add: x)
qed


definition sample_instructions :: "(clock \<times> (pubkey \<Rightarrow> u64) pool_instruction) list" where
  "sample_instructions = [(sample_clock, PartnerWithdrawSurplus sample_claim),
     (\<lparr>clk_slot = 20, clk_unix_timestamp = 20\<rparr>, CreatorWithdrawSurplus sample_claim)]"


end
