(* ===== verification/Authority.thy ===== *)
theory Authority
  imports Instructions
begin

text \<open>
  Who may take what a pool owes.  Fees, surplus and the role of the creator only
  change hands in an instruction signed by the party that gives them up: the
  partner named by the configuration, the creator of the pool, or an operator of
  the protocol.
\<close>

section \<open>What a party can lose\<close>

definition partner_loses :: "pool_state \<Rightarrow> pool_state \<Rightarrow> bool" where
  "partner_loses s s' \<longleftrightarrow> pool_partner_base_fee s' < pool_partner_base_fee s
     \<or> pool_partner_quote_fee s' < pool_partner_quote_fee s
     \<or> pool_is_partner_withdraw_surplus s' \<noteq> pool_is_partner_withdraw_surplus s"

definition creator_loses :: "pool_state \<Rightarrow> pool_state \<Rightarrow> bool" where
  "creator_loses s s' \<longleftrightarrow> pool_creator_base_fee s' < pool_creator_base_fee s
     \<or> pool_creator_quote_fee s' < pool_creator_quote_fee s
     \<or> pool_is_creator_withdraw_surplus s' \<noteq> pool_is_creator_withdraw_surplus s
     \<or> pool_creator s' \<noteq> pool_creator s"

definition protocol_loses :: "pool_state \<Rightarrow> pool_state \<Rightarrow> bool" where
  "protocol_loses s s' \<longleftrightarrow> pool_protocol_base_fee s' < pool_protocol_base_fee s
     \<or> pool_protocol_quote_fee s' < pool_protocol_quote_fee s"

lemmas loses_defs = partner_loses_def creator_loses_def protocol_loses_def

definition grows :: "pool_state \<Rightarrow> pool_state \<Rightarrow> bool" where
  "grows s s' \<longleftrightarrow> pool_partner_base_fee s \<le> pool_partner_base_fee s'
     \<and> pool_partner_quote_fee s \<le> pool_partner_quote_fee s'
     \<and> pool_creator_base_fee s \<le> pool_creator_base_fee s'
     \<and> pool_creator_quote_fee s \<le> pool_creator_quote_fee s'
     \<and> pool_protocol_base_fee s \<le> pool_protocol_base_fee s'
     \<and> pool_protocol_quote_fee s \<le> pool_protocol_quote_fee s'"

lemma grows_refl [simp]: "grows s s" by (simp add: grows_def)

lemma grows_trans: "grows s s1 \<Longrightarrow> grows s1 s' \<Longrightarrow> grows s s'"
  unfolding grows_def by (meson order_trans)

lemma grows_loses_nothing:
  assumes "grows s s'" "pool_is_partner_withdraw_surplus s' = pool_is_partner_withdraw_surplus s"
    "pool_is_creator_withdraw_surplus s' = pool_is_creator_withdraw_surplus s" "pool_creator s' = pool_creator s"
  shows "\<not> partner_loses s s' \<and> \<not> creator_loses s s' \<and> \<not> protocol_loses s s'"
  using assms unfolding grows_def loses_defs by (simp add: not_less)

section \<open>Swaps add to what is owed\<close>

lemma collect_swap_fees_grows:
  assumes "collect_swap_fees s cfg r mode virtual = Inr s'"
  shows "grows s s'"
  using assms unfolding collect_swap_fees_def and_then_Ok_iff
  by (cases "fees_on_base_token mode"; cases virtual) (auto simp: grows_def word_le_nat_alt)

lemma grows_updates [simp]:
  "grows s (s1\<lparr>pool_base_reserve := x1\<rparr>) = grows s s1" "grows s (s1\<lparr>pool_quote_reserve := x1\<rparr>) = grows s s1"
  "grows s (s1\<lparr>pool_virtual_quote_reserve := x1\<rparr>) = grows s s1" "grows s (s1\<lparr>pool_has_swap := x2\<rparr>) = grows s s1"
  "grows s (s1\<lparr>pool_volatility_tracker := x3\<rparr>) = grows s s1" "grows s (s1\<lparr>pool_sqrt_price := x4\<rparr>) = grows s s1"
  "grows (s\<lparr>pool_sqrt_price := x4\<rparr>) s1 = grows s s1"
  by (simp_all add: grows_def)

lemma apply_swap_result_internal_grows:
  assumes "apply_swap_result_internal s cfg r mode dir now virtual = Inr s'"
  shows "grows s s'"
proof -
  obtain s2 a s3 s4 where h: "collect_swap_fees (s\<lparr>pool_sqrt_price := sr_next_sqrt_price r\<rparr>) cfg r mode virtual = Inr s2"
    "(if dir = BaseToQuote then
          and_then (safe_add (pool_base_reserve s2) (sr_actual_input_amount r)) (\<lambda>base.
          and_then (safe_sub (pool_quote_reserve s2) a) (\<lambda>quote.
          Inr (s2\<lparr>pool_base_reserve := base, pool_quote_reserve := quote\<rparr>)))
        else if virtual then
          and_then (safe_add (pool_virtual_quote_reserve s2) (sr_actual_input_amount r)) (\<lambda>virtual.
          and_then (safe_sub (pool_base_reserve s2) a) (\<lambda>base.
          Inr (s2\<lparr>pool_virtual_quote_reserve := virtual, pool_base_reserve := base\<rparr>)))
        else
          and_then (safe_add (pool_quote_reserve s2) (sr_actual_input_amount r)) (\<lambda>quote.
          and_then (safe_sub (pool_base_reserve s2) a) (\<lambda>base.
          Inr (s2\<lparr>pool_quote_reserve := quote, pool_base_reserve := base\<rparr>)))) = Inr s3"
    "update_post_swap s3 cfg (pool_sqrt_price s) now = Inr s4" "s' = s4\<lparr>pool_has_swap := 1\<rparr>"
    using assms unfolding apply_swap_result_internal_def Let_def and_then_Ok_iff Inr_inject by blast
  have "grows s s2" using collect_swap_fees_grows [OF h(1)] by simp
  moreover have "grows s2 s3" using h(2) by (auto split: if_splits)
  moreover have "grows s3 s4" using h(3) by (auto simp: update_post_swap_def Let_def split: if_splits)
  ultimately show ?thesis using h(4) by (metis grows_trans grows_updates(4))
qed

lemma execute_swap_grows:
  assumes "execute_swap s cfg m dir c = Inr (s', mode, res)"
  shows "grows s s'"
proof -
  obtain s1 where h: "update_pre_swap s cfg (sc_current_timestamp c) = Inr s1"
    "\<exists>r d. apply_swap_result_internal s1 cfg r mode d (sc_current_timestamp c) (sc_is_virtual c) = Inr s'"
    using assms by (cases "sc_is_virtual c")
      (auto simp: execute_swap_def Let_def apply_swap_result_def apply_virtual_swap_result_def)
  have "grows s s1" using h(1) by (auto simp: update_pre_swap_def split: if_splits)
  then show ?thesis using h(2) apply_swap_result_internal_grows grows_trans by blast
qed

lemma complete_curve_grows:
  assumes "complete_curve rt a loader cfg now s r = Inr (s', ev, r')"
  shows "grows s s' \<and> flags s' = flags s \<and> pool_creator s' = pool_creator s"
  using complete_curve_complete [OF assms] complete_curve_open [of s cfg rt a loader now r] assms
  by (cases "is_curve_complete s (cfg_migration_quote_threshold cfg)") (auto simp: grows_def flags_def)

lemma process_swap_grows:
  assumes "process_swap rt clk tx loader a cfg params virtual slices s b = Inr (s', ev, b')"
  shows "grows s s' \<and> flags s' = flags s \<and> pool_creator s' = pool_creator s"
proof -
  obtain s1 mode res b1 and g :: swap_guards and c :: swap_call
    where p: "execute_swap s cfg (sg_swap_mode g) (sg_trade_direction g) c = Inr (s1, mode, res)"
      "complete_curve rt a loader cfg (clk_unix_timestamp clk) s1 b1 = Inr (s', ev_curve_complete ev, b')"
    using process_swap_parts [OF assms] by blast
  have "flags s1 = flags s \<and> pool_creator s1 = pool_creator s"
    using execute_swap_frozen [OF p(1)] by (simp add: frozen_def flags_def)
  then show ?thesis
    using complete_curve_grows [OF p(2)] execute_swap_grows [OF p(1)] grows_trans by metis
qed

lemma executed_swap_loses_nothing:
  assumes "execute rt clk cfg i s r = Inr (s', r')" "swap_of i"
  shows "\<not> partner_loses s s' \<and> \<not> creator_loses s s' \<and> \<not> protocol_loses s s'"
proof -
  obtain tx loader a p v slices ev where "process_swap rt clk tx loader a cfg p v slices s r = Inr (s', ev, r')"
    using executed_swap [OF assms] by blast
  then have "grows s s' \<and> flags s' = flags s \<and> pool_creator s' = pool_creator s" by (rule process_swap_grows)
  then show ?thesis using grows_loses_nothing [of s s'] by (simp add: flags_def)
qed

section \<open>Claims take from one party\<close>

lemma claims_take:
  "claim_partner_trading_fee s mb mq = Inr (x, y, s') \<Longrightarrow> \<not> creator_loses s s' \<and> \<not> protocol_loses s s'"
  "claim_creator_trading_fee s mb mq = Inr (x, y, s') \<Longrightarrow> \<not> partner_loses s s' \<and> \<not> protocol_loses s s'"
  by (auto simp: claim_partner_trading_fee_def claim_creator_trading_fee_def Let_def loses_defs)

text \<open>What the claims of the protocol leave alone.\<close>

definition outside ::
  "pool_state \<Rightarrow> (u64 \<times> u64 \<times> u64 \<times> u64) \<times> (u64 \<times> u64 \<times> u64) \<times> u8 \<times> u8 \<times> pubkey" where
  "outside s = ((pool_partner_base_fee s, pool_partner_quote_fee s, pool_creator_base_fee s, pool_creator_quote_fee s),
     (pool_base_reserve s, pool_quote_reserve s, pool_virtual_quote_reserve s),
     pool_is_partner_withdraw_surplus s, pool_is_creator_withdraw_surplus s, pool_creator s)"

lemma outside_loses: "outside s' = outside s \<Longrightarrow> \<not> partner_loses s s' \<and> \<not> creator_loses s s'"
  by (simp add: outside_def loses_defs)

lemma protocol_claims_outside:
  "claim_protocol_base_fee s mx = Inr (x, s') \<Longrightarrow> outside s' = outside s"
  "claim_protocol_quote_fee s mx = Inr (x, s') \<Longrightarrow> outside s' = outside s"
  by (auto simp: claim_protocol_base_fee_def claim_protocol_quote_fee_def Let_def outside_def)

lemma protocol_quote_claim_outside:
  assumes "claim_protocol_quote_fee_and_surplus s mx cfg = Inr (x, s')"
  shows "outside s' = outside s"
proof -
  obtain y s1 where c: "claim_protocol_quote_fee s mx = Inr (y, s1)"
    using assms unfolding claim_protocol_quote_fee_and_surplus_def and_then_Ok_iff by auto
  note assms [unfolded claim_protocol_quote_fee_and_surplus_def c and_then_simps Let_def case_prod_conv]
  then have "s' = s1 \<or> s' = update_protocol_withdraw_surplus s1" by (auto split: if_splits)
  then show ?thesis using protocol_claims_outside(2) [OF c] by (auto simp: outside_def update_protocol_withdraw_surplus_def)
qed

lemma protocol_handlers_outside:
  "handle_claim_protocol_fee rt a cfg mb mq s r = Inr (x, y, s', r') \<Longrightarrow> outside s' = outside s"
  "handle_claim_protocol_fee2 rt a cfg mx s r = Inr (x, s', r') \<Longrightarrow> outside s' = outside s"
  "handle_zap_protocol_fee rt z za cfg mx s r = Inr (x, s', r') \<Longrightarrow> outside s' = outside s"
proof -
  assume "handle_claim_protocol_fee rt a cfg mb mq s r = Inr (x, y, s', r')"
  then obtain s1 where "claim_protocol_base_fee s mb = Inr (x, s1)"
    "claim_protocol_quote_fee_and_surplus s1 mq cfg = Inr (y, s')"
    unfolding handle_claim_protocol_fee_def and_then_Ok_iff split_paired_Ex case_prod_conv Inr_inject Pair_inject
    by blast
  then show "outside s' = outside s"
    using protocol_claims_outside(1) [of s mb x s1] protocol_quote_claim_outside by metis
next
  assume "handle_claim_protocol_fee2 rt a cfg mx s r = Inr (x, s', r')"
  then obtain b amt s1 and loader :: account_loader where h: "(if b then
        and_then
          (if al_is_transfer_hook loader
           then require (is_curve_complete s (cfg_migration_quote_threshold cfg)) PoolIsIncompleted
           else Inr ()) (\<lambda>_.
        claim_protocol_base_fee s mx)
      else claim_protocol_quote_fee_and_surplus s mx cfg) = Inr (amt, s1)"
    "(if amt = 0 then Inr (amt, s1, r)
     else
       let (token_vault, token_mint, token_program) =
         (if b then (cla_base_vault a, cla_base_mint a, cla_token_base_program a)
          else (cla_quote_vault a, cla_quote_mint a, cla_token_quote_program a)) in
       and_then (transfer_token_from_pool_authority rt token_mint (ta_key token_vault)
         (ta_key (cla_base_receiver a)) token_program amt None r) (\<lambda>r.
       Inr (amt, s1, r))) = Inr (x, s', r')"
    unfolding handle_claim_protocol_fee2_def and_then_Ok_iff has_one_Ok_iff split_paired_Ex case_prod_conv by blast
  have "s' = s1" using h(2) by (auto simp: Let_def split: if_splits)
  then show "outside s' = outside s"
    using h(1) protocol_claims_outside(1) protocol_quote_claim_outside by (auto split: if_splits)
next
  assume "handle_zap_protocol_fee rt z za cfg mx s r = Inr (x, s', r')"
  then obtain b dst where "(if b then
        and_then (claim_protocol_base_fee s mx) (\<lambda>(amt, s).
        and_then (get_token_program_from_flag rt (cfg_quote_token_flag cfg)) (\<lambda>token_program.
        Inr (amt, s, rt_associated_token_address rt treasury_id (cfg_quote_mint cfg) token_program)))
      else
        and_then (claim_protocol_quote_fee_and_surplus s mx cfg) (\<lambda>(amt, s).
        and_then (get_token_program_from_pool_type rt (pool_pool_type s)) (\<lambda>token_program.
        Inr (amt, s, rt_associated_token_address rt treasury_id (pool_base_mint s) token_program))))
     = Inr (x, s', dst)"
    unfolding handle_zap_protocol_fee_def and_then_Ok_iff split_paired_Ex case_prod_conv Inr_inject Pair_inject by blast
  then show "outside s' = outside s"
    using protocol_claims_outside(1) protocol_quote_claim_outside by (auto split: if_splits)
qed

section \<open>Other instructions\<close>

definition unharmed :: "pool_state \<Rightarrow> pool_state \<Rightarrow> bool" where
  "unharmed s s' \<longleftrightarrow> \<not> partner_loses s s' \<and> \<not> creator_loses s s' \<and> \<not> protocol_loses s s'"

lemma stage_changes_unharmed:
  "unharmed s (migrated d x y s)" "unharmed s (set_migration_progress (close_at_deadline d s) n)"
  "unharmed s (update_withdraw_leftover s)" "unharmed s (update_withdraw_migration_fee s fm)"
  "unharmed s (update_partner_pool_creation_fee_claimed s)"
  "unharmed s s" "unharmed s (update_protocol_pool_creation_fee_claimed s)"
  "unharmed s (update_legacy_creation_fee_claimed s)"
  "unharmed s (update_legacy_creation_fee_claimed (update_protocol_pool_creation_fee_claimed s))"
  by (simp_all add: unharmed_def loses_defs migrated_def set_migration_progress_def close_at_deadline_def
      update_after_create_pool_def save_protocol_liquidity_migration_fee_def update_withdraw_leftover_def
      update_withdraw_migration_fee_def update_partner_pool_creation_fee_claimed_def
      update_protocol_pool_creation_fee_claimed_def update_legacy_creation_fee_claimed_def)

lemma payouts_unharmed:
  "handle_withdraw_leftover rt a cfg s r = Inr (x, s', r') \<Longrightarrow> unharmed s s'"
  "handle_withdraw_migration_fee rt a cfg flag s r = Inr (x, s', r') \<Longrightarrow> unharmed s s'"
  "handle_claim_partner_pool_creation_fee rt a cfg s r = Inr (x, s', r') \<Longrightarrow> unharmed s s'"
  "handle_claim_protocol_pool_creation_fee rt a cfg s r = Inr (x, s', r') \<Longrightarrow> unharmed s s'"
  "handle_create_locker rt snapshot clk la cfg s r = Inr (s', r') \<Longrightarrow> unharmed s s'"
  "handle_migrate_meteora_damm rt snapshot clk a1 cfg s m r = Inr (s', m', r') \<Longrightarrow> unharmed s s'"
  "handle_migrate_damm_v2 rt snapshot read dc clk a2 cfg s r = Inr (s', r') \<Longrightarrow> unharmed s s'"
  using stage_changes_unharmed
  by (auto dest!: leftover_marks migration_fee_marks partner_creation_marks protocol_creation_updates
      handle_create_locker_parts damm_v1_parts damm_v2_parts)

lemma surplus_unharmed:
  "handle_partner_withdraw_surplus rt a cfg s r = Inr (x, s', r') \<Longrightarrow> \<not> creator_loses s s' \<and> \<not> protocol_loses s s'"
  "handle_creator_withdraw_surplus rt a cfg s r = Inr (x, s', r') \<Longrightarrow> \<not> partner_loses s s' \<and> \<not> protocol_loses s s'"
  by (auto simp: loses_defs update_partner_withdraw_surplus_def update_creator_withdraw_surplus_def
      dest!: partner_surplus_marks creator_surplus_marks)

lemma trading_fee_claims:
  "handle_claim_trading_fee rt a cfg mb mq sl s r = Inr (x, y, s', r') \<Longrightarrow> \<not> creator_loses s s' \<and> \<not> protocol_loses s s'"
  "handle_claim_creator_trading_fee rt a mb mq sl s r = Inr (x, y, s', r') \<Longrightarrow> \<not> partner_loses s s' \<and> \<not> protocol_loses s s'"
proof -
  assume "handle_claim_trading_fee rt a cfg mb mq sl s r = Inr (x, y, s', r')"
  then have "claim_partner_trading_fee s mb mq = Inr (x, y, s')"
    unfolding handle_claim_trading_fee_def and_then_Ok_iff has_one_Ok_iff
      split_paired_Ex case_prod_conv Inr_inject Pair_inject by blast
  then show "\<not> creator_loses s s' \<and> \<not> protocol_loses s s'" by (rule claims_take)
next
  assume "handle_claim_creator_trading_fee rt a mb mq sl s r = Inr (x, y, s', r')"
  then have "claim_creator_trading_fee s mb mq = Inr (x, y, s')"
    unfolding handle_claim_creator_trading_fee_def and_then_Ok_iff has_one_Ok_iff
      split_paired_Ex case_prod_conv Inr_inject Pair_inject by blast
  then show "\<not> partner_loses s s' \<and> \<not> protocol_loses s s'" by (rule claims_take)
qed

lemma transfer_unharmed:
  "handle_transfer_pool_creator rt a cfg m new s = Inr s' \<Longrightarrow> \<not> partner_loses s s' \<and> \<not> protocol_loses s s'"
  unfolding handle_transfer_pool_creator_def and_then_Ok_iff by (auto simp: loses_defs)

lemma protocol_fee2_signer:
  "handle_claim_protocol_fee2 rt a cfg mx s r = Inr (x, s', r') \<Longrightarrow> cla_signer a = rt_protocol_fee_authority rt"
  unfolding handle_claim_protocol_fee2_def and_then_Ok_iff has_one_Ok_iff by blast

section \<open>Signatures\<close>

fun signed_by :: "'r pool_instruction \<Rightarrow> pubkey \<Rightarrow> bool" where
  "signed_by (ClaimTradingFee a mb mq) k \<longleftrightarrow> cla_signer a = k"
| "signed_by (ClaimTradingFee2 a mb mq slices) k \<longleftrightarrow> cla_signer a = k"
| "signed_by (ClaimCreatorTradingFee a mb mq) k \<longleftrightarrow> cla_signer a = k"
| "signed_by (ClaimCreatorTradingFee2 a mb mq slices) k \<longleftrightarrow> cla_signer a = k"
| "signed_by (ClaimProtocolFees a op mb mq) k \<longleftrightarrow> cla_signer a = k"
| "signed_by (ClaimProtocolFee2 a mx) k \<longleftrightarrow> cla_signer a = k"
| "signed_by (ZapProtocolFees z a op mx) k \<longleftrightarrow> zpa_signer a = k"
| "signed_by (PartnerWithdrawSurplus a) k \<longleftrightarrow> cla_signer a = k"
| "signed_by (CreatorWithdrawSurplus a) k \<longleftrightarrow> cla_signer a = k"
| "signed_by (TransferPoolCreator a m new) k \<longleftrightarrow> cla_signer a = k"
| "signed_by i k \<longleftrightarrow> False"

text \<open>The protocol signs through its own authority or through an operator it has admitted.\<close>

fun signed_for_protocol :: "'r runtime \<Rightarrow> 'r pool_instruction \<Rightarrow> bool" where
  "signed_for_protocol rt (ClaimProtocolFees a op mb mq) \<longleftrightarrow>
     cla_signer a = op_whitelisted_address op \<and> is_permission_allow op ClaimProtocolFee"
| "signed_for_protocol rt (ClaimProtocolFee2 a mx) \<longleftrightarrow> cla_signer a = rt_protocol_fee_authority rt"
| "signed_for_protocol rt (ZapProtocolFees z a op mx) \<longleftrightarrow>
     zpa_signer a = op_whitelisted_address op \<and> is_permission_allow op ZapProtocolFee"
| "signed_for_protocol rt i \<longleftrightarrow> False"

text \<open>
  C5: nobody takes what is owed to somebody else.  When an instruction lowers the fees
  the pool owes to the partner, or uses up the partner's right to the surplus, the
  fee claimer of the configuration has signed it; when it lowers the creator's fees,
  uses up the creator's surplus or names another creator, the creator has signed it;
  when it lowers the fees of the protocol, the protocol's authority or an operator
  with the permission has signed it.
\<close>

theorem dues_leave_only_to_their_owner:
  assumes "execute rt clk cfg i s r = Inr (s', r')"
  shows "(partner_loses s s' \<longrightarrow> signed_by i (cfg_fee_claimer cfg))
    \<and> (creator_loses s s' \<longrightarrow> signed_by i (pool_creator s))
    \<and> (protocol_loses s s' \<longrightarrow> signed_for_protocol rt i)"
proof (cases "swap_of i")
  case True
  then show ?thesis using executed_swap_loses_nothing [OF assms] by blast
next
  case False
  with assms show ?thesis
    by (cases i) (auto simp: claim_trading_fee_entry_def claim_trading_fee2_entry_def
        claim_creator_trading_fee_entry_def claim_creator_trading_fee2_entry_def zap_protocol_fee_entry_def
        partner_withdraw_surplus_entry_def creator_withdraw_surplus_entry_def
        claim_partner_pool_creation_fee_entry_def claim_protocol_pool_creation_fee_entry_def
        claim_protocol_fee_entry_def
        transfer_pool_creator_entry_def is_partner_fee_claimer_def is_pool_creator_def is_valid_operator_role_def
        dest: payouts_unharmed [unfolded unharmed_def] surplus_unharmed trading_fee_claims transfer_unharmed
          protocol_fee2_signer
          protocol_handlers_outside [THEN outside_loses] split: if_splits)
qed

lemma partner_claim_executes:
  "execute ledger_runtime sample_clock created_sample (ClaimTradingFee sample_claim (- 1) (- 1))
     closed_pool closed_balances = Inr (paid_pool, paid_balances)"
proof -
  have "cla_pool_authority sample_claim = rt_pool_authority ledger_runtime" "base_vault_ok sample_claim"
    "quote_vault_ok sample_claim" "is_partner_fee_claimer ledger_runtime (cla_config sample_claim) created_sample
      (cla_signer sample_claim) = Inr ()"
    by (simp_all add: eval and_then_def require_def launched_sample_defs sample_claim_def)
  then show ?thesis
    by (simp add: claim_trading_fee_entry_def has_one_def authority_ok_def fees_claimed after_claim_def)
qed

theorem dues_leave_only_to_their_owner_witness:
  "partner_loses closed_pool paid_pool \<and> signed_by (ClaimTradingFee sample_claim (- 1) (- 1)
     :: (pubkey \<Rightarrow> u64) pool_instruction) (cfg_fee_claimer created_sample)"
proof -
  have "partner_loses closed_pool paid_pool"
    by (simp add: partner_loses_def paid_pool_def closed_pool_def sold_pool_def launched_pool_def pool_initialize_def)
  then show ?thesis using dues_leave_only_to_their_owner [OF partner_claim_executes] by blast
qed

end
