(* ===== verification/Metadata.thy ===== *)
theory Metadata
  imports Accounts
begin

text \<open>
  The accounts that only describe: the metadata of partners and pools
  (\<open>state/partner_metadata.rs\<close>, \<open>state/virtual_pool_metadata.rs\<close> and the instructions
  that create them), and the administration of operator accounts
  (\<open>instructions/admin\<close>, \<open>state/claim_fee_operator.rs\<close>).  A \<open>string\<close> is a list of
  bytes, so its length is the length of its UTF-8 form.
\<close>

section \<open>Metadata\<close>

record metadata_parameters =
  mdp_name :: string
  mdp_website :: string
  mdp_logo :: string

record partner_metadata =
  pmd_fee_claimer :: pubkey
  pmd_name :: string
  pmd_website :: string
  pmd_logo :: string

record virtual_pool_metadata =
  vmd_virtual_pool :: pubkey
  vmd_name :: string
  vmd_website :: string
  vmd_logo :: string

text \<open>The space of an account of either kind, after its discriminator.\<close>

definition partner_metadata_space :: "metadata_parameters \<Rightarrow> nat" where
  "partner_metadata_space m = 32 + 16 * 6 + 4 + length (mdp_name m) + 4 + length (mdp_website m)
     + 4 + length (mdp_logo m)"

definition virtual_pool_metadata_space :: "metadata_parameters \<Rightarrow> nat" where
  "virtual_pool_metadata_space m = 32 + 16 * 6 + 4 + length (mdp_name m) + 4 + length (mdp_website m)
     + 4 + length (mdp_logo m)"

text \<open>The new account with its length.\<close>

definition handle_create_partner_metadata ::
  "pubkey \<Rightarrow> metadata_parameters \<Rightarrow> partner_metadata \<times> nat" where
  "handle_create_partner_metadata fee_claimer m =
     (\<lparr>pmd_fee_claimer = fee_claimer, pmd_name = mdp_name m, pmd_website = mdp_website m, pmd_logo = mdp_logo m\<rparr>,
      8 + partner_metadata_space m)"

definition handle_create_virtual_pool_metadata ::
  "account_info \<Rightarrow> metadata_parameters \<Rightarrow> virtual_pool_metadata \<times> nat" where
  "handle_create_virtual_pool_metadata pool m =
     (\<lparr>vmd_virtual_pool = ai_key pool, vmd_name = mdp_name m, vmd_website = mdp_website m, vmd_logo = mdp_logo m\<rparr>,
      8 + virtual_pool_metadata_space m)"

definition create_virtual_pool_metadata_entry ::
  "'r runtime \<Rightarrow> account_info \<Rightarrow> pool_state \<Rightarrow> pubkey \<Rightarrow> metadata_parameters
    \<Rightarrow> (virtual_pool_metadata \<times> nat) result" where
  "create_virtual_pool_metadata_entry rt pool s creator m =
     and_then (is_pool_creator rt pool s creator) (\<lambda>_.
     Ok (handle_create_virtual_pool_metadata pool m))"

section \<open>Operators\<close>

record claim_fee_operator =
  cfo_operator :: pubkey

definition claim_fee_operator_initialize :: "claim_fee_operator \<Rightarrow> pubkey \<Rightarrow> claim_fee_operator result" where
  "claim_fee_operator_initialize c operator = Ok (c\<lparr>cfo_operator := operator\<rparr>)"

definition create_operator_account_entry :: "pubkey \<Rightarrow> operator \<Rightarrow> pubkey \<Rightarrow> u128 \<Rightarrow> operator result" where
  "create_operator_account_entry signer op whitelisted_address permission =
     and_then (is_admin signer) (\<lambda>_. handle_create_operator_account op whitelisted_address permission)"

text \<open>The framework closes the account named; the instruction itself has nothing to do.\<close>

definition close_operator_account_entry :: "pubkey \<Rightarrow> unit result" where
  "close_operator_account_entry signer = is_admin signer"

text \<open>The operator of the closed account is reported.\<close>

definition close_claim_protocol_fee_operator_entry :: "pubkey \<Rightarrow> claim_fee_operator \<Rightarrow> pubkey result" where
  "close_claim_protocol_fee_operator_entry signer c = and_then (is_admin signer) (\<lambda>_. Ok (cfo_operator c))"

section \<open>Who may do it\<close>

lemma pool_metadata_by_creator:
  assumes "create_virtual_pool_metadata_entry rt pool s creator m = Inr (d, n)"
  shows "creator = pool_creator s \<and> vmd_virtual_pool d = ai_key pool
    \<and> n = 8 + 32 + 96 + 12 + length (vmd_name d) + length (vmd_website d) + length (vmd_logo d)"
  using assms by (auto simp: create_virtual_pool_metadata_entry_def is_pool_creator_def
      handle_create_virtual_pool_metadata_def virtual_pool_metadata_space_def)

text \<open>
  An operator is created by an administrator, and with at least one of the two
  permissions there are.
\<close>

lemma created_operator_may_act:
  assumes "create_operator_account_entry signer op whitelisted_address permission = Inr op'"
  shows "assert_eq_admin signer \<and> op_whitelisted_address op' = whitelisted_address
    \<and> (is_permission_allow op' ClaimProtocolFee \<or> is_permission_allow op' ZapProtocolFee)"
proof -
  have p: "assert_eq_admin signer" "0 < permission" "permission < 4" "op' = operator_initialize op whitelisted_address permission"
    using assms by (auto simp: create_operator_account_entry_def handle_create_operator_account_def is_admin_def
        MAX_OPERATION_def)
  have "unat permission < 4" "unat permission \<noteq> 0"
    using p(2,3) by (simp_all add: word_less_nat_alt)
  then have "permission = 1 \<or> permission = 2 \<or> permission = 3"
    by (auto simp: word_unat_eq_iff)
  then show ?thesis using p(1,4)
    by (elim disjE) (simp_all add: operator_initialize_def is_permission_allow_def)
qed

end
