(* ===== verification/Events.thy ===== *)
theory Events
  imports Authority Metadata
begin

text \<open>
  What the program tells the world: the events of \<open>event.rs\<close>, the places where the
  instructions emit them, and what can be learnt from them.  The events of the
  instructions that act on a pool form a log; whoever replays it knows the reserves
  of the pool and what it owes to partner and creator.
\<close>

section \<open>The events\<close>

record evt_create_config =
  ecc_config :: pubkey
  ecc_quote_mint :: pubkey
  ecc_fee_claimer :: pubkey
  ecc_owner :: pubkey
  ecc_pool_fees :: pool_fee_parameters
  ecc_collect_fee_mode :: u8
  ecc_migration_option :: u8
  ecc_activation_type :: u8
  ecc_token_decimal :: u8
  ecc_token_type :: u8
  ecc_partner_permanent_locked_liquidity_percentage :: u8
  ecc_partner_liquidity_percentage :: u8
  ecc_creator_permanent_locked_liquidity_percentage :: u8
  ecc_creator_liquidity_percentage :: u8
  ecc_swap_base_amount :: u64
  ecc_migration_quote_threshold :: u64
  ecc_migration_base_amount :: u64
  ecc_sqrt_start_price :: u128
  ecc_locked_vesting :: locked_vesting
  ecc_migration_fee_option :: u8
  ecc_fixed_token_supply_flag :: u8
  ecc_pre_migration_token_supply :: u64
  ecc_post_migration_token_supply :: u64
  ecc_curve :: "liquidity_point list"

record evt_initialize_pool =
  eip_pool :: pubkey
  eip_config :: pubkey
  eip_creator :: pubkey
  eip_base_mint :: pubkey
  eip_pool_type :: u8
  eip_activation_point :: u64

record evt_swap =
  esw_pool :: pubkey
  esw_config :: pubkey
  esw_trade_direction :: u8
  esw_has_referral :: bool
  esw_params :: swap_parameters
  esw_swap_result :: swap_result
  esw_amount_in :: u64
  esw_current_timestamp :: u64
  esw_is_virtual :: bool
  esw_payer :: pubkey
  esw_recipient :: pubkey

record evt_swap2 =
  es2_pool :: pubkey
  es2_config :: pubkey
  es2_trade_direction :: u8
  es2_has_referral :: bool
  es2_swap_parameters :: swap_parameters2
  es2_swap_result :: swap_result2
  es2_quote_reserve_amount :: u64
  es2_migration_threshold :: u64
  es2_current_timestamp :: u64
  es2_is_virtual :: bool
  es2_payer :: pubkey
  es2_recipient :: pubkey

record evt_swap2_with_transfer_hook =
  esh_pool :: pubkey
  esh_config :: pubkey
  esh_trade_direction :: u8
  esh_has_referral :: bool
  esh_swap_parameters :: swap_parameters2
  esh_swap_result :: swap_result2
  esh_quote_reserve_amount :: u64
  esh_migration_threshold :: u64
  esh_current_timestamp :: u64
  esh_payer :: pubkey
  esh_recipient :: pubkey

text \<open>The fields of the smaller events are in the order of the source.\<close>

datatype (plugins only: code size) event =
    EvtPartnerMetadata pubkey pubkey
  | EvtVirtualPoolMetadata pubkey pubkey
  | EvtCreateConfig evt_create_config
  | EvtCreateConfigV2 pubkey pubkey pubkey pubkey config_parameters
  | EvtCreateConfigV2WithTransferHook pubkey pubkey pubkey pubkey config_parameters pubkey
  | EvtCreateClaimFeeOperator pubkey
  | EvtCloseClaimFeeOperator pubkey pubkey
  | EvtInitializePool evt_initialize_pool
  | EvtInitializePoolWithTransferHook evt_initialize_pool
  | EvtSwap evt_swap
  | EvtSwap2 evt_swap2
  | EvtSwap2WithTransferHook evt_swap2_with_transfer_hook
  | EvtCurveComplete pubkey pubkey u64 u64
  | EvtCurveCompleteWithTransferHook pubkey pubkey u64 u64
  | EvtClaimProtocolFee pubkey u64 u64
  | EvtClaimProtocolFee2 pubkey pubkey pubkey u64
  | EvtClaimTradingFee pubkey u64 u64
  | EvtClaimCreatorTradingFee pubkey u64 u64
  | EvtCreateMeteoraMigrationMetadata pubkey
  | EvtPartnerWithdrawSurplus pubkey u64
  | EvtCreatorWithdrawSurplus pubkey u64
  | EvtWithdrawLeftover pubkey pubkey u64
  | EvtUpdatePoolCreator pubkey pubkey pubkey
  | EvtWithdrawMigrationFee pubkey u64 u8
  | EvtClaimPoolCreationFee pubkey pubkey u64
  | EvtPartnerClaimPoolCreationFee pubkey pubkey u64 pubkey

section \<open>Events of configurations, pools and metadata\<close>

definition partner_metadata_event :: "pubkey \<Rightarrow> pubkey \<Rightarrow> event" where
  "partner_metadata_event account fee_claimer = EvtPartnerMetadata account fee_claimer"

definition virtual_pool_metadata_event :: "pubkey \<Rightarrow> account_info \<Rightarrow> event" where
  "virtual_pool_metadata_event account pool = EvtVirtualPoolMetadata account (ai_key pool)"

definition close_claim_fee_operator_event :: "pubkey \<Rightarrow> claim_fee_operator \<Rightarrow> event" where
  "close_claim_fee_operator_event account c = EvtCloseClaimFeeOperator account (cfo_operator c)"

definition create_meteora_migration_metadata_event :: "pubkey \<Rightarrow> event" where
  "create_meteora_migration_metadata_event virtual_pool = EvtCreateMeteoraMigrationMetadata virtual_pool"

text \<open>The results of the computation are the fields of the new configuration.\<close>

definition create_config_events ::
  "pubkey \<Rightarrow> mint_account \<Rightarrow> pubkey \<Rightarrow> pubkey \<Rightarrow> config_parameters \<Rightarrow> pool_config \<Rightarrow> event list" where
  "create_config_events config quote_mint fee_claimer leftover_receiver cp cfg =
     [EvtCreateConfig \<lparr>ecc_config = config, ecc_quote_mint = mint_key quote_mint,
        ecc_fee_claimer = fee_claimer, ecc_owner = leftover_receiver, ecc_pool_fees = cp_pool_fees cp,
        ecc_collect_fee_mode = cp_collect_fee_mode cp, ecc_migration_option = cp_migration_option cp,
        ecc_activation_type = cp_activation_type cp, ecc_token_decimal = cp_token_decimal cp,
        ecc_token_type = cp_token_type cp,
        ecc_partner_permanent_locked_liquidity_percentage = cp_partner_permanent_locked_liquidity_percentage cp,
        ecc_partner_liquidity_percentage = cp_partner_liquidity_percentage cp,
        ecc_creator_permanent_locked_liquidity_percentage = cp_creator_permanent_locked_liquidity_percentage cp,
        ecc_creator_liquidity_percentage = cp_creator_liquidity_percentage cp,
        ecc_swap_base_amount = cfg_swap_base_amount cfg,
        ecc_migration_quote_threshold = cp_migration_quote_threshold cp,
        ecc_migration_base_amount = cfg_migration_base_threshold cfg,
        ecc_sqrt_start_price = cp_sqrt_start_price cp, ecc_locked_vesting = cp_locked_vesting cp,
        ecc_migration_fee_option = cp_migration_fee_option cp,
        ecc_fixed_token_supply_flag = cfg_fixed_token_supply_flag cfg,
        ecc_pre_migration_token_supply = cfg_pre_migration_token_supply cfg,
        ecc_post_migration_token_supply = cfg_post_migration_token_supply cfg,
        ecc_curve = cp_curve cp\<rparr>,
      EvtCreateConfigV2 config (mint_key quote_mint) fee_claimer leftover_receiver cp]"

definition create_config_with_transfer_hook_event ::
  "pubkey \<Rightarrow> mint_account \<Rightarrow> pubkey \<Rightarrow> pubkey \<Rightarrow> config_parameters \<Rightarrow> pubkey \<Rightarrow> event" where
  "create_config_with_transfer_hook_event config quote_mint fee_claimer leftover_receiver cp program =
     EvtCreateConfigV2WithTransferHook config (mint_key quote_mint) fee_claimer leftover_receiver cp program"

text \<open>The three launches differ in the type of the pool and in the kind of the event.\<close>

definition initialize_pool_fields :: "initialize_pool_accounts \<Rightarrow> u8 \<Rightarrow> u64 \<Rightarrow> evt_initialize_pool" where
  "initialize_pool_fields a pool_type activation_point =
     \<lparr>eip_pool = ipa_pool a, eip_config = ai_key (ipa_config a), eip_creator = ipa_creator a,
      eip_base_mint = ai_key (ipa_base_mint a), eip_pool_type = pool_type,
      eip_activation_point = activation_point\<rparr>"

definition initialize_with_spl_token_event :: "initialize_pool_accounts \<Rightarrow> u64 \<Rightarrow> event" where
  "initialize_with_spl_token_event a activation_point =
     EvtInitializePool (initialize_pool_fields a 0 activation_point)"

definition initialize_with_token2022_event :: "initialize_pool_accounts \<Rightarrow> u64 \<Rightarrow> event" where
  "initialize_with_token2022_event a activation_point =
     EvtInitializePool (initialize_pool_fields a 1 activation_point)"

definition initialize_with_transfer_hook_event :: "initialize_pool_accounts \<Rightarrow> u64 \<Rightarrow> event" where
  "initialize_with_transfer_hook_event a activation_point =
     EvtInitializePoolWithTransferHook (initialize_pool_fields a 1 activation_point)"

section \<open>Events of swaps\<close>

fun trade_direction_code :: "trade_direction \<Rightarrow> u8" where
  "trade_direction_code BaseToQuote = 0"
| "trade_direction_code QuoteToBase = 1"

text \<open>The owner of the account that receives the output is read from that account.\<close>

definition swap_events :: "(pubkey \<Rightarrow> pubkey) \<Rightarrow> swap_accounts \<Rightarrow> swap_event_data \<Rightarrow> event list" where
  "swap_events token_owner a ev =
     [EvtSwap \<lparr>esw_pool = ai_key (swa_pool a), esw_config = ai_key (swa_config a),
        esw_trade_direction = trade_direction_code (ev_trade_direction ev),
        esw_has_referral = ev_has_referral ev, esw_params = ev_swap_in_parameters ev,
        esw_swap_result = get_swap_result (ev_swap_result_2 ev),
        esw_amount_in = s2_included_fee_input_amount (ev_swap_result_2 ev),
        esw_current_timestamp = ev_current_timestamp ev, esw_is_virtual = ev_is_virtual ev,
        esw_payer = swa_payer a, esw_recipient = token_owner (swa_output_token_account a)\<rparr>,
      EvtSwap2 \<lparr>es2_pool = ai_key (swa_pool a), es2_config = ai_key (swa_config a),
        es2_trade_direction = trade_direction_code (ev_trade_direction ev),
        es2_has_referral = ev_has_referral ev, es2_swap_parameters = ev_swap_parameters ev,
        es2_swap_result = ev_swap_result_2 ev, es2_quote_reserve_amount = ev_quote_reserve_amount ev,
        es2_migration_threshold = ev_migration_threshold ev,
        es2_current_timestamp = ev_current_timestamp ev, es2_is_virtual = ev_is_virtual ev,
        es2_payer = swa_payer a, es2_recipient = token_owner (swa_output_token_account a)\<rparr>]
     @ (case ev_curve_complete ev of None \<Rightarrow> []
        | Some d \<Rightarrow> [EvtCurveComplete (ai_key (swa_pool a)) (ai_key (swa_config a))
            (cc_base_reserve d) (cc_quote_reserve d)])"

definition swap_with_transfer_hook_events ::
  "(pubkey \<Rightarrow> pubkey) \<Rightarrow> swap_accounts \<Rightarrow> swap_event_data \<Rightarrow> event list" where
  "swap_with_transfer_hook_events token_owner a ev =
     EvtSwap2WithTransferHook \<lparr>esh_pool = ai_key (swa_pool a), esh_config = ai_key (swa_config a),
        esh_trade_direction = trade_direction_code (ev_trade_direction ev),
        esh_has_referral = ev_has_referral ev, esh_swap_parameters = ev_swap_parameters ev,
        esh_swap_result = ev_swap_result_2 ev, esh_quote_reserve_amount = ev_quote_reserve_amount ev,
        esh_migration_threshold = ev_migration_threshold ev,
        esh_current_timestamp = ev_current_timestamp ev,
        esh_payer = swa_payer a, esh_recipient = token_owner (swa_output_token_account a)\<rparr>
     # (case ev_curve_complete ev of None \<Rightarrow> []
        | Some d \<Rightarrow> [EvtCurveCompleteWithTransferHook (ai_key (swa_pool a)) (ai_key (swa_config a))
            (cc_base_reserve d) (cc_quote_reserve d)])"

section \<open>Events of claims and payouts\<close>

definition claim_trading_fee_events :: "claim_accounts \<Rightarrow> u64 \<Rightarrow> u64 \<Rightarrow> event list" where
  "claim_trading_fee_events a base quote = [EvtClaimTradingFee (ai_key (cla_pool a)) base quote]"

definition claim_creator_trading_fee_events :: "claim_accounts \<Rightarrow> u64 \<Rightarrow> u64 \<Rightarrow> event list" where
  "claim_creator_trading_fee_events a base quote = [EvtClaimCreatorTradingFee (ai_key (cla_pool a)) base quote]"

definition claim_protocol_fee_events :: "claim_accounts \<Rightarrow> u64 \<Rightarrow> u64 \<Rightarrow> event list" where
  "claim_protocol_fee_events a base quote = [EvtClaimProtocolFee (ai_key (cla_pool a)) base quote]"

text \<open>A claim of nothing returns before the event.\<close>

definition claim_protocol_fee2_events :: "claim_accounts \<Rightarrow> pool_state \<Rightarrow> u64 \<Rightarrow> event list" where
  "claim_protocol_fee2_events a s amt =
     (if amt = 0 then []
      else
        let token_mint = (if ta_mint (cla_base_receiver a) = pool_base_mint s then cla_base_mint a
              else cla_quote_mint a) in
        [EvtClaimProtocolFee2 (ai_key (cla_pool a)) (ta_key (cla_base_receiver a)) (mint_key token_mint) amt])"

definition partner_withdraw_surplus_events :: "claim_accounts \<Rightarrow> u64 \<Rightarrow> event list" where
  "partner_withdraw_surplus_events a amt = [EvtPartnerWithdrawSurplus (ai_key (cla_pool a)) amt]"

definition creator_withdraw_surplus_events :: "claim_accounts \<Rightarrow> u64 \<Rightarrow> event list" where
  "creator_withdraw_surplus_events a amt = [EvtCreatorWithdrawSurplus (ai_key (cla_pool a)) amt]"

definition withdraw_leftover_events :: "claim_accounts \<Rightarrow> u64 \<Rightarrow> event list" where
  "withdraw_leftover_events a amt = [EvtWithdrawLeftover (ai_key (cla_pool a)) (cla_receiver a) amt]"

definition withdraw_migration_fee_events :: "claim_accounts \<Rightarrow> u8 \<Rightarrow> u64 \<Rightarrow> event list" where
  "withdraw_migration_fee_events a flag fee = [EvtWithdrawMigrationFee (ai_key (cla_pool a)) fee flag]"

definition claim_pool_creation_fee_events :: "claim_accounts \<Rightarrow> u64 \<Rightarrow> event list" where
  "claim_pool_creation_fee_events a fee = [EvtClaimPoolCreationFee (ai_key (cla_pool a)) (cla_receiver a) fee]"

definition partner_claim_pool_creation_fee_events :: "claim_accounts \<Rightarrow> u64 \<Rightarrow> event list" where
  "partner_claim_pool_creation_fee_events a fee =
     [EvtPartnerClaimPoolCreationFee (ai_key (cla_pool a)) (cla_signer a) fee (cla_receiver a)]"

definition transfer_pool_creator_events :: "claim_accounts \<Rightarrow> pubkey \<Rightarrow> event list" where
  "transfer_pool_creator_events a new_creator =
     [EvtUpdatePoolCreator (ai_key (cla_pool a)) (cla_signer a) new_creator]"

section \<open>Instructions with their events\<close>

definition log_swap :: "(swap_event_data \<Rightarrow> event list) \<Rightarrow> (pool_state \<times> swap_event_data \<times> 'r) result
    \<Rightarrow> (pool_state \<times> 'r \<times> event list) result" where
  "log_swap events m = and_then m (\<lambda>(s, ev, r). Ok (s, r, events ev))"

definition log_claim :: "(u64 \<Rightarrow> u64 \<Rightarrow> event list) \<Rightarrow> (u64 \<times> u64 \<times> pool_state \<times> 'r) result
    \<Rightarrow> (pool_state \<times> 'r \<times> event list) result" where
  "log_claim events m = and_then m (\<lambda>(x, y, s, r). Ok (s, r, events x y))"

definition log_payout :: "(u64 \<Rightarrow> event list) \<Rightarrow> (u64 \<times> pool_state \<times> 'r) result
    \<Rightarrow> (pool_state \<times> 'r \<times> event list) result" where
  "log_payout events m = and_then m (\<lambda>(x, s, r). Ok (s, r, events x))"

text \<open>Zaps, the vesting step and the migrations emit nothing.\<close>

fun execute_logged ::
  "'r runtime \<Rightarrow> (pubkey \<Rightarrow> pubkey) \<Rightarrow> clock \<Rightarrow> pool_config \<Rightarrow> 'r pool_instruction \<Rightarrow> pool_state \<Rightarrow> 'r
    \<Rightarrow> (pool_state \<times> 'r \<times> event list) result" where
  "execute_logged rt own clk cfg (Swap tx a p) s r =
     log_swap (swap_events own a) (swap_entry rt clk tx a cfg p s r)"
| "execute_logged rt own clk cfg (Swap2 tx a p) s r =
     log_swap (swap_events own a) (swap2_entry rt clk tx a cfg p s r)"
| "execute_logged rt own clk cfg (Swap2WithTransferHook tx a p slices) s r =
     log_swap (swap_with_transfer_hook_events own a)
       (handle_swap_with_transfer_hook_wrapper rt clk tx a cfg p slices s r)"
| "execute_logged rt own clk cfg (VirtualSwap2 tx a p) s r =
     log_swap (swap_events own a) (virtual_swap2_entry rt clk tx a cfg p s r)"
| "execute_logged rt own clk cfg (ClaimTradingFee a mb mq) s r =
     log_claim (claim_trading_fee_events a) (claim_trading_fee_entry rt a cfg mb mq s r)"
| "execute_logged rt own clk cfg (ClaimTradingFee2 a mb mq slices) s r =
     log_claim (claim_trading_fee_events a) (claim_trading_fee2_entry rt a cfg mb mq slices s r)"
| "execute_logged rt own clk cfg (ClaimCreatorTradingFee a mb mq) s r =
     log_claim (claim_creator_trading_fee_events a) (claim_creator_trading_fee_entry rt a mb mq s r)"
| "execute_logged rt own clk cfg (ClaimCreatorTradingFee2 a mb mq slices) s r =
     log_claim (claim_creator_trading_fee_events a) (claim_creator_trading_fee2_entry rt a mb mq slices s r)"
| "execute_logged rt own clk cfg (ClaimProtocolFees a op mb mq) s r =
     log_claim (claim_protocol_fee_events a) (claim_protocol_fee_entry rt a op cfg mb mq s r)"
| "execute_logged rt own clk cfg (ClaimProtocolFee2 a mx) s r =
     log_payout (claim_protocol_fee2_events a s) (handle_claim_protocol_fee2 rt a cfg mx s r)"
| "execute_logged rt own clk cfg (ZapProtocolFees z a op mx) s r =
     log_payout (\<lambda>_. []) (zap_protocol_fee_entry rt z a op cfg mx s r)"
| "execute_logged rt own clk cfg (PartnerWithdrawSurplus a) s r =
     log_payout (partner_withdraw_surplus_events a) (partner_withdraw_surplus_entry rt a cfg s r)"
| "execute_logged rt own clk cfg (CreatorWithdrawSurplus a) s r =
     log_payout (creator_withdraw_surplus_events a) (creator_withdraw_surplus_entry rt a cfg s r)"
| "execute_logged rt own clk cfg (WithdrawMigrationFee a flag) s r =
     log_payout (withdraw_migration_fee_events a flag) (handle_withdraw_migration_fee rt a cfg flag s r)"
| "execute_logged rt own clk cfg (ClaimPartnerPoolCreationFee a) s r =
     log_payout (partner_claim_pool_creation_fee_events a) (claim_partner_pool_creation_fee_entry rt a cfg s r)"
| "execute_logged rt own clk cfg (ClaimProtocolPoolCreationFee a op) s r =
     log_payout (claim_pool_creation_fee_events a) (claim_protocol_pool_creation_fee_entry rt a op cfg s r)"
| "execute_logged rt own clk cfg (TransferPoolCreator a m new) s r =
     and_then (transfer_pool_creator_entry rt a cfg m new s) (\<lambda>s. Ok (s, r, transfer_pool_creator_events a new))"
| "execute_logged rt own clk cfg (WithdrawLeftover a) s r =
     log_payout (withdraw_leftover_events a) (handle_withdraw_leftover rt a cfg s r)"
| "execute_logged rt own clk cfg (CreateLocker snapshot a) s r =
     and_then (handle_create_locker rt snapshot clk a cfg s r) (\<lambda>(s, r). Ok (s, r, []))"
| "execute_logged rt own clk cfg (MigrateMeteoraDamm snapshot a m) s r =
     and_then (handle_migrate_meteora_damm rt snapshot clk a cfg s m r) (\<lambda>(s, _, r). Ok (s, r, []))"
| "execute_logged rt own clk cfg (MigrationDammV2 snapshot read_pool damm_config a) s r =
     and_then (handle_migrate_damm_v2 rt snapshot read_pool damm_config clk a cfg s r) (\<lambda>(s, r). Ok (s, r, []))"

text \<open>The log of a list of instructions; a failing one leaves no trace.\<close>

fun execute_all_logged ::
  "'r runtime \<Rightarrow> (pubkey \<Rightarrow> pubkey) \<Rightarrow> pool_config \<Rightarrow> (clock \<times> 'r pool_instruction) list \<Rightarrow> pool_state \<times> 'r
    \<Rightarrow> (pool_state \<times> 'r) \<times> event list" where
  "execute_all_logged rt own cfg [] w = (w, [])"
| "execute_all_logged rt own cfg ((clk, i) # is) w =
     (case execute_logged rt own clk cfg i (fst w) (snd w) of
        Inl e \<Rightarrow> execute_all_logged rt own cfg is w
      | Inr (s, r, events) \<Rightarrow>
          let (w', later) = execute_all_logged rt own cfg is (s, r) in (w', events @ later))"

lemma log_forget:
  "and_then (log_swap f m) (\<lambda>(s, r, _). Inr (s, r)) = after_swap m"
  "and_then (log_claim g n) (\<lambda>(s, r, _). Inr (s, r)) = after_claim n"
  "and_then (log_payout h k) (\<lambda>(s, r, _). Inr (s, r)) = after_payout k"
  by (cases m; cases n; cases k;
      simp add: log_swap_def log_claim_def log_payout_def after_swap_def after_claim_def after_payout_def
      split: prod.splits)+

lemma execute_logged_forget:
  "and_then (execute_logged rt own clk cfg i s r) (\<lambda>(s, r, _). Inr (s, r)) = execute rt clk cfg i s r"
proof (cases i)
  case (TransferPoolCreator a m new)
  then show ?thesis by (cases "transfer_pool_creator_entry rt a cfg m new s") simp_all
next
  case (CreateLocker sn a)
  then show ?thesis by (cases "handle_create_locker rt sn clk a cfg s r") auto
next
  case (MigrateMeteoraDamm sn a m)
  then show ?thesis by (cases "handle_migrate_meteora_damm rt sn clk a cfg s m r") auto
next
  case (MigrationDammV2 sn rd dc a)
  then show ?thesis by (cases "handle_migrate_damm_v2 rt sn rd dc clk a cfg s r") auto
qed (simp_all add: log_forget)

lemma execute_all_logged_forget: "fst (execute_all_logged rt own cfg is w) = execute_all rt cfg is w"
proof (induction "is" arbitrary: w)
  case (Cons x "is")
  obtain clk i where x: "x = (clk, i)" by (cases x)
  note e = execute_logged_forget [of rt own clk cfg i "fst w" "snd w", symmetric]
  show ?case using Cons
    by (cases "execute_logged rt own clk cfg i (fst w) (snd w)") (auto simp: x e case_prod_unfold Let_def)
qed simp

section \<open>The books that the log tells\<close>

record books =
  bk_base :: u64
  bk_quote :: u64
  bk_virtual_quote :: u64
  bk_partner_base :: u64
  bk_partner_quote :: u64
  bk_creator_base :: u64
  bk_creator_quote :: u64

definition books_of :: "pool_state \<Rightarrow> books" where
  "books_of s = \<lparr>bk_base = pool_base_reserve s, bk_quote = pool_quote_reserve s,
     bk_virtual_quote = pool_virtual_quote_reserve s,
     bk_partner_base = pool_partner_base_fee s, bk_partner_quote = pool_partner_quote_fee s,
     bk_creator_base = pool_creator_base_fee s, bk_creator_quote = pool_creator_quote_fee s\<rparr>"

text \<open>
  A purchase: its input joins the real or the virtual reserve, its output leaves the
  base reserve, together with all fees when the configuration charges them on the
  output, and the trading fee is split between partner and creator.
\<close>

definition charges_output :: "pool_config \<Rightarrow> bool" where
  "charges_output cfg \<longleftrightarrow> collect_fee_mode_of (cfg_collect_fee_mode cfg) = Some OutputToken"

definition replay_reserves :: "pool_config \<Rightarrow> bool \<Rightarrow> swap_result2 \<Rightarrow> books \<Rightarrow> books" where
  "replay_reserves cfg virtual r b =
     (let paid = s2_excluded_fee_input_amount r;
          taken = (if charges_output cfg
            then s2_output_amount r + s2_trading_fee r + s2_protocol_fee r + s2_referral_fee r
            else s2_output_amount r);
          b = b\<lparr>bk_base := bk_base b - taken\<rparr> in
      if virtual then b\<lparr>bk_virtual_quote := bk_virtual_quote b + paid\<rparr> else b\<lparr>bk_quote := bk_quote b + paid\<rparr>)"

definition replay_fees :: "pool_config \<Rightarrow> bool \<Rightarrow> swap_result2 \<Rightarrow> books \<Rightarrow> books" where
  "replay_fees cfg virtual r b =
     (case split_partner_and_creator_fee cfg (s2_trading_fee r) of
        Inl e \<Rightarrow> b
      | Inr split \<Rightarrow>
          if charges_output cfg then
            b\<lparr>bk_partner_base := bk_partner_base b + split_partner_fee split,
              bk_creator_base := bk_creator_base b + split_creator_fee split\<rparr>
          else if \<not> virtual then
            b\<lparr>bk_partner_quote := bk_partner_quote b + split_partner_fee split,
              bk_creator_quote := bk_creator_quote b + split_creator_fee split\<rparr>
          else b)"

fun replay :: "pool_config \<Rightarrow> event \<Rightarrow> books \<Rightarrow> books" where
  "replay cfg (EvtSwap2 e) b =
     replay_reserves cfg (es2_is_virtual e) (es2_swap_result e)
       (replay_fees cfg (es2_is_virtual e) (es2_swap_result e) b)"
| "replay cfg (EvtSwap2WithTransferHook e) b =
     replay_reserves cfg False (esh_swap_result e) (replay_fees cfg False (esh_swap_result e) b)"
| "replay cfg (EvtClaimTradingFee pool x y) b =
     b\<lparr>bk_partner_base := bk_partner_base b - x, bk_partner_quote := bk_partner_quote b - y\<rparr>"
| "replay cfg (EvtClaimCreatorTradingFee pool x y) b =
     b\<lparr>bk_creator_base := bk_creator_base b - x, bk_creator_quote := bk_creator_quote b - y\<rparr>"
| "replay cfg e b = b"

section \<open>Swaps\<close>

lemma safe_results: "safe_add a v = Inr r \<Longrightarrow> r = a + v" "safe_sub a v = Inr r \<Longrightarrow> r = a - v"
  by (simp_all add: safe_add_def safe_sub_def split: if_splits)

lemma books_of_updates [simp]:
  "books_of (s\<lparr>pool_sqrt_price := p\<rparr>) = books_of s" "books_of (s\<lparr>pool_volatility_tracker := v\<rparr>) = books_of s"
  "books_of (s\<lparr>pool_has_swap := h\<rparr>) = books_of s" "books_of (s\<lparr>pool_migration_progress := n\<rparr>) = books_of s"
  "books_of (s\<lparr>pool_finish_curve_timestamp := t\<rparr>) = books_of s" "books_of (s\<lparr>pool_creator := c\<rparr>) = books_of s"
  by (simp_all add: books_of_def)

lemma collect_swap_fees_books:
  assumes "collect_swap_fees s cfg (get_swap_result r) mode virtual = Inr s'"
    and "fees_on_base_token mode \<longleftrightarrow> charges_output cfg"
  shows "books_of s' = replay_fees cfg virtual r (books_of s)"
proof -
  obtain split where split: "split_partner_and_creator_fee cfg (s2_trading_fee r) = Inr split"
    using assms(1) unfolding collect_swap_fees_def and_then_Ok_iff get_swap_result_sel by blast
  show ?thesis
    using assms(1) unfolding collect_swap_fees_def replay_fees_def get_swap_result_sel split and_then_simps assms(2)
    by (cases "charges_output cfg"; cases virtual)
      (auto simp: books_of_def simp del: safe_add_Ok dest!: safe_results)
qed

lemma apply_swap_books:
  assumes "apply_swap_result_internal s cfg (get_swap_result r) mode QuoteToBase now virtual = Inr s'"
    and "fees_on_base_token mode \<longleftrightarrow> charges_output cfg" "fees_on_input mode \<longleftrightarrow> \<not> charges_output cfg"
  shows "books_of s' = replay_reserves cfg virtual r (replay_fees cfg virtual r (books_of s))"
proof -
  obtain s1 out s2 s3 where a:
    "collect_swap_fees (s\<lparr>pool_sqrt_price := s2_next_sqrt_price r\<rparr>) cfg (get_swap_result r) mode virtual = Inr s1"
    "(if fees_on_input mode then Inr (s2_output_amount r)
      else and_then (safe_add (s2_output_amount r) (s2_trading_fee r)) (\<lambda>a.
        and_then (safe_add a (s2_protocol_fee r)) (\<lambda>b. safe_add b (s2_referral_fee r)))) = Inr out"
    "(if virtual then
        and_then (safe_add (pool_virtual_quote_reserve s1) (s2_excluded_fee_input_amount r)) (\<lambda>v.
        and_then (safe_sub (pool_base_reserve s1) out) (\<lambda>base.
        Inr (s1\<lparr>pool_virtual_quote_reserve := v, pool_base_reserve := base\<rparr>)))
      else
        and_then (safe_add (pool_quote_reserve s1) (s2_excluded_fee_input_amount r)) (\<lambda>quote.
        and_then (safe_sub (pool_base_reserve s1) out) (\<lambda>base.
        Inr (s1\<lparr>pool_quote_reserve := quote, pool_base_reserve := base\<rparr>)))) = Inr s2"
    "update_post_swap s2 cfg (pool_sqrt_price s) now = Inr s3"
    "s' = s3\<lparr>pool_has_swap := 1\<rparr>"
    using assms(1) unfolding apply_swap_result_internal_def Let_def and_then_Ok_iff get_swap_result_sel by auto
  have out: "out = (if charges_output cfg
      then s2_output_amount r + s2_trading_fee r + s2_protocol_fee r + s2_referral_fee r else s2_output_amount r)"
    using a(2) assms(3) by (auto simp del: safe_add_Ok dest!: safe_results)
  have "books_of s3 = books_of s2"
    using a(4) by (auto simp: update_post_swap_def Let_def split: if_splits)
  moreover have "books_of s2 = replay_reserves cfg virtual r (books_of s1)"
    using a(3) by (cases virtual)
      (auto simp: books_of_def replay_reserves_def Let_def out simp del: safe_add_Ok safe_sub_Ok dest!: safe_results)
  ultimately show ?thesis using collect_swap_fees_books [OF a(1) assms(2)] a(5) by simp
qed

lemma execute_swap_books:
  assumes "execute_swap s cfg m QuoteToBase c = Inr (s', mode, res)"
  shows "books_of s' = replay_reserves cfg (sc_is_virtual c) (psr_swap_result res)
    (replay_fees cfg (sc_is_virtual c) (psr_swap_result res) (books_of s))"
proof -
  obtain s1 where h: "update_pre_swap s cfg (sc_current_timestamp c) = Inr s1"
    "get_fee_mode (cfg_collect_fee_mode cfg) QuoteToBase (sc_has_referral c) = Inr mode"
    "apply_swap_result_internal s1 cfg (get_swap_result (psr_swap_result res)) mode QuoteToBase
      (sc_current_timestamp c) (sc_is_virtual c) = Inr s'"
    using assms by (cases "sc_is_virtual c")
      (auto simp: execute_swap_def Let_def apply_swap_result_def apply_virtual_swap_result_def)
  obtain k where "collect_fee_mode_of (cfg_collect_fee_mode cfg) = Some k"
    "mode = \<lparr>fees_on_input = fst (fee_side k QuoteToBase), fees_on_base_token = snd (fee_side k QuoteToBase),
       has_referral = sc_has_referral c\<rparr>"
    using h(2) by (auto simp: get_fee_mode_def case_prod_unfold Let_def)
  then have "fees_on_base_token mode \<longleftrightarrow> charges_output cfg" "fees_on_input mode \<longleftrightarrow> \<not> charges_output cfg"
    by (cases k; simp add: charges_output_def)+
  then have "books_of s' = replay_reserves cfg (sc_is_virtual c) (psr_swap_result res)
    (replay_fees cfg (sc_is_virtual c) (psr_swap_result res) (books_of s1))" by (rule apply_swap_books [OF h(3)])
  moreover have "books_of s1 = books_of s" using h(1) by (auto simp: update_pre_swap_def split: if_splits)
  ultimately show ?thesis by simp
qed

lemma complete_curve_books:
  assumes "complete_curve rt a loader cfg now s r = Inr (s', ev, r')"
  shows "books_of s' = books_of s"
  using complete_curve_complete [OF assms] complete_curve_open [of s cfg rt a loader now r] assms
  by (cases "is_curve_complete s (cfg_migration_quote_threshold cfg)") (auto simp: books_of_def)

lemma process_swap_virtual:
  assumes "process_swap rt clk tx loader a cfg params virtual slices s r = Inr (s', ev, r')"
  shows "ev_is_virtual ev = virtual"
  using assms unfolding process_swap_def Let_def and_then_Ok_iff by (auto split: prod.splits)

lemma process_swap_books:
  assumes "process_swap rt clk tx loader a cfg params virtual slices s r = Inr (s', ev, r')"
  shows "books_of s' = replay_reserves cfg virtual (ev_swap_result_2 ev)
    (replay_fees cfg virtual (ev_swap_result_2 ev) (books_of s))"
proof -
  obtain s1 mode res b1 point eligible and g :: swap_guards where p:
    "check_swap rt a s params virtual slices tx = Inr g"
    "execute_swap s cfg (sg_swap_mode g) (sg_trade_direction g)
       \<lparr>sc_params = params, sc_is_virtual = virtual,
        sc_has_referral = (\<not> virtual \<and> swa_referral_token_account a \<noteq> None),
        sc_current_point = point, sc_current_timestamp = clk_unix_timestamp clk,
        sc_eligible = eligible\<rparr> = Inr (s1, mode, res)"
    "complete_curve rt a loader cfg (clk_unix_timestamp clk) s1 b1 = Inr (s', ev_curve_complete ev, r')"
    "ev_swap_result_2 ev = psr_swap_result res"
    using process_swap_parts [OF assms] by blast
  note p(2) [unfolded check_swap_parts(4) [OF p(1)]]
  from execute_swap_books [OF this] show ?thesis using complete_curve_books [OF p(3)] p(4) by simp
qed

section \<open>The other instructions\<close>

text \<open>Claims of the protocol, payouts and changes of the stage keep these books.\<close>

lemma outside_books: "outside s' = outside s \<Longrightarrow> books_of s' = books_of s"
  by (simp add: outside_def books_of_def)

lemma stage_books [simp]:
  "books_of (migrated d x y s) = books_of s" "books_of (set_migration_progress (close_at_deadline d s) n) = books_of s"
  "books_of (update_withdraw_leftover s) = books_of s" "books_of (update_withdraw_migration_fee s fm) = books_of s"
  "books_of (update_partner_pool_creation_fee_claimed s) = books_of s"
  "books_of (update_protocol_pool_creation_fee_claimed s) = books_of s"
  "books_of (update_legacy_creation_fee_claimed s) = books_of s"
  "books_of (update_partner_withdraw_surplus s) = books_of s"
  "books_of (update_creator_withdraw_surplus s) = books_of s"
  by (simp_all add: books_of_def migrated_def set_migration_progress_def close_at_deadline_def
      update_after_create_pool_def save_protocol_liquidity_migration_fee_def update_withdraw_leftover_def
      update_withdraw_migration_fee_def update_partner_pool_creation_fee_claimed_def
      update_protocol_pool_creation_fee_claimed_def update_legacy_creation_fee_claimed_def
      update_partner_withdraw_surplus_def update_creator_withdraw_surplus_def)

lemma payout_books:
  "handle_withdraw_leftover rt a cfg s r = Inr (x, s', r') \<Longrightarrow> books_of s' = books_of s"
  "handle_withdraw_migration_fee rt a cfg flag s r = Inr (x, s', r') \<Longrightarrow> books_of s' = books_of s"
  "handle_claim_partner_pool_creation_fee rt a cfg s r = Inr (x, s', r') \<Longrightarrow> books_of s' = books_of s"
  "handle_claim_protocol_pool_creation_fee rt a cfg s r = Inr (x, s', r') \<Longrightarrow> books_of s' = books_of s"
  "handle_partner_withdraw_surplus rt a cfg s r = Inr (x, s', r') \<Longrightarrow> books_of s' = books_of s"
  "handle_creator_withdraw_surplus rt a cfg s r = Inr (x, s', r') \<Longrightarrow> books_of s' = books_of s"
  "handle_create_locker rt snapshot clk la cfg s r = Inr (s', r') \<Longrightarrow> books_of s' = books_of s"
  "handle_migrate_meteora_damm rt snapshot clk a1 cfg s m r = Inr (s', m', r') \<Longrightarrow> books_of s' = books_of s"
  "handle_migrate_damm_v2 rt snapshot read dc clk a2 cfg s r = Inr (s', r') \<Longrightarrow> books_of s' = books_of s"
  by (auto dest!: leftover_marks migration_fee_marks partner_creation_marks protocol_creation_updates
      partner_surplus_marks creator_surplus_marks handle_create_locker_parts damm_v1_parts damm_v2_parts)

lemma transfer_books: "handle_transfer_pool_creator rt a cfg m new s = Inr s' \<Longrightarrow> books_of s' = books_of s"
  unfolding handle_transfer_pool_creator_def and_then_Ok_iff by auto

lemma claim_books:
  "handle_claim_trading_fee rt a cfg mb mq sl s r = Inr (x, y, s', r') \<Longrightarrow>
     books_of s' = fold (replay cfg) (claim_trading_fee_events a x y) (books_of s)"
  "handle_claim_creator_trading_fee rt a mb mq sl s r = Inr (x, y, s', r') \<Longrightarrow>
     books_of s' = fold (replay cfg) (claim_creator_trading_fee_events a x y) (books_of s)"
proof -
  assume "handle_claim_trading_fee rt a cfg mb mq sl s r = Inr (x, y, s', r')"
  then have "claim_partner_trading_fee s mb mq = Inr (x, y, s')"
    unfolding handle_claim_trading_fee_def and_then_Ok_iff has_one_Ok_iff
      split_paired_Ex case_prod_conv Inr_inject Pair_inject by blast
  then show "books_of s' = fold (replay cfg) (claim_trading_fee_events a x y) (books_of s)"
    by (auto simp: claim_partner_trading_fee_def claim_trading_fee_events_def Let_def books_of_def simp del: safe_sub_Ok dest!: safe_results)
next
  assume "handle_claim_creator_trading_fee rt a mb mq sl s r = Inr (x, y, s', r')"
  then have "claim_creator_trading_fee s mb mq = Inr (x, y, s')"
    unfolding handle_claim_creator_trading_fee_def and_then_Ok_iff has_one_Ok_iff
      split_paired_Ex case_prod_conv Inr_inject Pair_inject by blast
  then show "books_of s' = fold (replay cfg) (claim_creator_trading_fee_events a x y) (books_of s)"
    by (auto simp: claim_creator_trading_fee_def claim_creator_trading_fee_events_def Let_def books_of_def simp del: safe_sub_Ok dest!: safe_results)
qed

section \<open>Replaying the log\<close>

lemma log_Ok:
  "log_swap f m = Inr (s, r, evs) \<longleftrightarrow> (\<exists>ev. m = Inr (s, ev, r) \<and> evs = f ev)"
  "log_claim g n = Inr (s, r, evs) \<longleftrightarrow> (\<exists>x y. n = Inr (x, y, s, r) \<and> evs = g x y)"
  "log_payout h k = Inr (s, r, evs) \<longleftrightarrow> (\<exists>x. k = Inr (x, s, r) \<and> evs = h x)"
  by (auto simp: log_swap_def log_claim_def log_payout_def)

lemma swap_events_replay:
  "fold (replay cfg) (swap_events own a ev) b
   = replay_reserves cfg (ev_is_virtual ev) (ev_swap_result_2 ev)
       (replay_fees cfg (ev_is_virtual ev) (ev_swap_result_2 ev) b)"
  "fold (replay cfg) (swap_with_transfer_hook_events own a ev) b
   = replay_reserves cfg False (ev_swap_result_2 ev) (replay_fees cfg False (ev_swap_result_2 ev) b)"
  by (simp_all add: swap_events_def swap_with_transfer_hook_events_def split: option.splits)

lemma wrapper_books:
  "handle_swap_wrapper rt clk tx a cfg p v s r = Inr (s', ev, r') \<Longrightarrow>
     books_of s' = fold (replay cfg) (swap_events own a ev) (books_of s)"
  "handle_swap_with_transfer_hook_wrapper rt clk tx a cfg p slices s r = Inr (s', ev, r') \<Longrightarrow>
     books_of s' = fold (replay cfg) (swap_with_transfer_hook_events own a ev) (books_of s)"
  unfolding swap_events_replay
  by (auto dest!: swap_wrappers_Ok simp: process_swap_virtual dest: process_swap_books)

text \<open>The events of all other instructions leave the books as they are.\<close>

lemma other_events_replay [simp]:
  "fold (replay cfg) (claim_protocol_fee_events a x y) b = b"
  "fold (replay cfg) (claim_protocol_fee2_events a s x) b = b"
  "fold (replay cfg) (partner_withdraw_surplus_events a x) b = b"
  "fold (replay cfg) (creator_withdraw_surplus_events a x) b = b"
  "fold (replay cfg) (withdraw_leftover_events a x) b = b"
  "fold (replay cfg) (withdraw_migration_fee_events a flag x) b = b"
  "fold (replay cfg) (claim_pool_creation_fee_events a x) b = b"
  "fold (replay cfg) (partner_claim_pool_creation_fee_events a x) b = b"
  "fold (replay cfg) (transfer_pool_creator_events a k) b = b"
  by (simp_all add: claim_protocol_fee_events_def claim_protocol_fee2_events_def Let_def
      partner_withdraw_surplus_events_def creator_withdraw_surplus_events_def withdraw_leftover_events_def
      withdraw_migration_fee_events_def claim_pool_creation_fee_events_def
      partner_claim_pool_creation_fee_events_def transfer_pool_creator_events_def)

lemma entry_books:
  "claim_trading_fee_entry rt a cfg mb mq s r = Inr (x, y, s', r') \<Longrightarrow>
     books_of s' = fold (replay cfg) (claim_trading_fee_events a x y) (books_of s)"
  "claim_trading_fee2_entry rt a cfg mb mq slices s r = Inr (x, y, s', r') \<Longrightarrow>
     books_of s' = fold (replay cfg) (claim_trading_fee_events a x y) (books_of s)"
  "claim_creator_trading_fee_entry rt a mb mq s r = Inr (x, y, s', r') \<Longrightarrow>
     books_of s' = fold (replay cfg) (claim_creator_trading_fee_events a x y) (books_of s)"
  "claim_creator_trading_fee2_entry rt a mb mq slices s r = Inr (x, y, s', r') \<Longrightarrow>
     books_of s' = fold (replay cfg) (claim_creator_trading_fee_events a x y) (books_of s)"
  "claim_protocol_fee_entry rt a op cfg mb mq s r = Inr (x, y, s', r') \<Longrightarrow> books_of s' = books_of s"
  "zap_protocol_fee_entry rt z za op cfg mx s r = Inr (x, s', r') \<Longrightarrow> books_of s' = books_of s"
  "partner_withdraw_surplus_entry rt a cfg s r = Inr (x, s', r') \<Longrightarrow> books_of s' = books_of s"
  "creator_withdraw_surplus_entry rt a cfg s r = Inr (x, s', r') \<Longrightarrow> books_of s' = books_of s"
  "claim_partner_pool_creation_fee_entry rt a cfg s r = Inr (x, s', r') \<Longrightarrow> books_of s' = books_of s"
  "claim_protocol_pool_creation_fee_entry rt a op cfg s r = Inr (x, s', r') \<Longrightarrow> books_of s' = books_of s"
  "transfer_pool_creator_entry rt a cfg m new s = Inr s' \<Longrightarrow> books_of s' = books_of s"
  unfolding claim_trading_fee_entry_def claim_trading_fee2_entry_def
    claim_creator_trading_fee_entry_def claim_creator_trading_fee2_entry_def zap_protocol_fee_entry_def
    partner_withdraw_surplus_entry_def creator_withdraw_surplus_entry_def
    claim_partner_pool_creation_fee_entry_def claim_protocol_pool_creation_fee_entry_def
    claim_protocol_fee_entry_def transfer_pool_creator_entry_def and_then_Ok_iff
  by (blast dest: payout_books transfer_books claim_books protocol_handlers_outside [THEN outside_books])+

lemma execute_logged_books:
  assumes "execute_logged rt own clk cfg i s r = Inr (s', r', events)"
  shows "books_of s' = fold (replay cfg) events (books_of s)"
proof (cases "swap_of i")
  case True
  with assms show ?thesis
    by (cases i) (auto simp: log_Ok swap_entry_def swap2_entry_def virtual_swap2_entry_def dest: wrapper_books)
next
  case False
  note h = assms [unfolded log_Ok]
  from assms False show ?thesis
    by (cases i) (auto simp: log_Ok dest: entry_books payout_books protocol_handlers_outside(2) [THEN outside_books])
qed

lemma execute_all_logged_books:
  "execute_all_logged rt own cfg is w = (w', evs) \<Longrightarrow> books_of (fst w') = fold (replay cfg) evs (books_of (fst w))"
proof (induction "is" arbitrary: w w' evs)
  case (Cons x "is")
  obtain clk i where x: "x = (clk, i)" by (cases x)
  show ?case
  proof (cases "execute_logged rt own clk cfg i (fst w) (snd w)")
    case (Inl e)
    then show ?thesis using Cons.prems Cons.IH [of w w' evs] by (simp add: x)
  next
    case (Inr y)
    obtain s r events where y: "y = (s, r, events)" by (cases y)
    obtain w1 rest where r: "execute_all_logged rt own cfg is (s, r) = (w1, rest)" by fastforce
    then have rest: "execute_all_logged rt own cfg is (s, r) = (w', rest)" "evs = events @ rest"
      using Cons.prems Inr by (simp_all add: x y)
    have "books_of s = fold (replay cfg) events (books_of (fst w))"
      by (rule execute_logged_books [OF Inr [unfolded y]])
    then show ?thesis using Cons.IH [OF rest(1)] rest(2) by simp
  qed
qed simp

definition opening_books :: "u64 \<Rightarrow> books" where
  "opening_books supply = \<lparr>bk_base = supply, bk_quote = 0, bk_virtual_quote = 0, bk_partner_base = 0,
     bk_partner_quote = 0, bk_creator_base = 0, bk_creator_quote = 0\<rparr>"

text \<open>
  C12: the log tells the books.  Execute any instructions after the launch of a pool,
  failing ones included, and collect the events they emit: the execution is the one
  without the log, and whoever replays the events from the initial supply of the
  configuration arrives at the exact reserves of the pool, real and virtual, and at
  the exact fees it owes to partner and creator.
\<close>

theorem log_tells_the_books:
  assumes "launched rt cfg s0 r0" "execute_all_logged rt own cfg is (s0, r0) = ((s, r), evs)"
  shows "execute_all rt cfg is (s0, r0) = (s, r) \<and> (\<exists>supply. get_initial_base_supply cfg = Inr supply
    \<and> books_of s = fold (replay cfg) evs (opening_books supply))"
proof -
  obtain minted where new: "get_initial_base_supply cfg = Inr minted" "new_pool cfg minted s0"
    using launched_state [OF assms(1)] by blast
  then have "books_of s0 = opening_books minted"
    by (simp add: books_of_def opening_books_def new_pool_simps [OF new(2)])
  then have "books_of s = fold (replay cfg) evs (opening_books minted)"
    using execute_all_logged_books [OF assms(2)] by simp
  moreover have "execute_all rt cfg is (s0, r0) = (s, r)"
    using execute_all_logged_forget [of rt own cfg "is" "(s0, r0)"] assms(2) by simp
  ultimately show ?thesis using new(1) by blast
qed

definition sample_trade :: "(clock \<times> (pubkey \<Rightarrow> u64) pool_instruction) list" where
  "sample_trade = [(sample_clock, Swap2 sample_transaction sample_accounts (sample_params 2100000 1))]"

lemma sample_trade_log:
  "\<exists>evs. execute_all_logged ledger_runtime id created_sample sample_trade (launched_pool, sample_balances(11 := 1972223))
     = ((closed_pool, closed_balances), evs)"
proof -
  have "swap_accounts_ok ledger_runtime sample_accounts"
    "load_pool_account ledger_runtime (swa_pool sample_accounts) = Inr sample_loader"
    "\<not> al_is_transfer_hook sample_loader"
    by (simp_all add: eval and_then_def require_def Let_def instruction_sample_defs load_pool_account_def)
  moreover obtain ev where "process_swap ledger_runtime sample_clock sample_transaction sample_loader sample_accounts
     created_sample (sample_params 2100000 1) False [] launched_pool (sample_balances(11 := 1972223))
   = Inr (closed_pool, ev, closed_balances)" using last_buy by blast
  ultimately have "swap2_entry ledger_runtime sample_clock sample_transaction sample_accounts
     created_sample (sample_params 2100000 1) launched_pool (sample_balances(11 := 1972223))
   = Inr (closed_pool, ev, closed_balances)"
    by (simp add: swap2_entry_def handle_swap_wrapper_def has_one_def require_def)
  then show ?thesis by (simp add: sample_trade_def log_swap_def)
qed

theorem log_tells_the_books_witness:
  "\<exists>evs. execute_all_logged ledger_runtime id created_sample sample_trade (launched_pool, sample_balances(11 := 1972223))
     = ((closed_pool, closed_balances), evs)
   \<and> fold (replay created_sample) evs (opening_books 972223) = books_of closed_pool"
proof -
  obtain evs where "execute_all_logged ledger_runtime id created_sample sample_trade
      (launched_pool, sample_balances(11 := 1972223)) = ((closed_pool, closed_balances), evs)"
    using sample_trade_log by blast
  then show ?thesis using log_tells_the_books [OF sample_is_launched] sample_supply by fastforce
qed

end
