(* ===== verification/Early_Surplus.thy ===== *)
theory Early_Surplus
  imports One_Time
begin

text \<open>
  A surplus withdrawn early.  A configuration may cap the quote amount that migrates
  below the threshold of its sale.  The partner's withdrawal asks only for reserves
  above the cap, so it succeeds while the sale is still open; the mark it leaves then
  refuses the withdrawal of everything the rest of the sale brings in above the cap.
\<close>

declare of_nat_unat [simp del]

definition capped_parameters :: config_parameters where
  "capped_parameters = sample_config_parameters\<lparr>cp_migration_quote_amount_cap := 50000\<rparr>"

definition capped_config :: pool_config where
  "capped_config = created_sample\<lparr>cfg_migration_quote_amount_cap := 50000, cfg_migration_base_threshold := 5556\<rparr>"

lemma capped_amounts:
  "concentrated_included_amounts_1 55340232221128654848 50000 0 = Inr (5556, 50000)"
  by (simp add: eval and_then_def ok_or_def Let_def)

lemma capped_stored:
  "pool_config_init zero_pool_config 1 2 3 capped_parameters 0 666667 5556
     55340232221128654848 0 0 0 = Inr capped_config"
  by (simp add: pool_config_init_def store_curve_eq zero_pool_config_def sample_config_parameters_def
      created_sample_def sample_defs MAX_CURVE_POINT_CONFIG_def to_pool_fees_config_def
      to_base_fee_config_def default_dynamic_fee_config_def to_liquidity_vesting_info_def
      vesting_info_is_zero_def default_liquidity_vesting_info_params_def
      zero_liquidity_vesting_info_def default_locked_vesting_def capped_parameters_def capped_config_def)

lemma capped_locked: "get_total_liquidity_locked_bps_at_n_seconds capped_config SECONDS_PER_DAY = Inr 3000"
  by (simp add: eval and_then_def Let_def created_sample_def sample_defs capped_config_def)

lemma capped_process:
  "process_create_config ledger_runtime zero_pool_config capped_parameters sample_quote_mint 2 3
    = Inr capped_config"
proof -
  have p: "cp_migration_quote_threshold capped_parameters = 2000000"
    "cp_sqrt_start_price capped_parameters = 18446744073709551616"
    "cp_curve capped_parameters = sample_curve" "cp_migration_option capped_parameters = 1"
    "mpf_collect_fee_mode (cp_migrated_pool_fee capped_parameters) = 0"
    "cp_migration_quote_amount_cap capped_parameters = 50000"
    "mfp_fee_percentage (cp_migration_fee capped_parameters) = 0"
    "cp_token_supply capped_parameters = None" "mint_key sample_quote_mint = 1"
    "get_token_program_flags ledger_runtime sample_quote_mint = TokenProgram"
    by (simp_all add: sample_config_parameters_def sample_quote_mint_def get_token_program_flags_def
        ledger_runtime_def capped_parameters_def)
  show ?thesis
    by (simp add: process_create_config_def p sample_amounts capped_amounts capped_stored capped_locked
        get_migration_handler_def get_effective_migration_quote_amount_cap_def token_supply_of_def
        MIN_LOCKED_LIQUIDITY_BPS_def Let_def del: try_cast_Some)
qed

lemma capped_validated:
  "config_parameters_validate ledger_runtime (\<lambda>_. None) 0 capped_parameters sample_quote_mint 10 False
    = Inr ()"
  by (simp add: eval and_then_def ok_or_def require_def Let_def sample_config_parameters_def
      sample_quote_mint_def ledger_runtime_def sample_curve_def has_mint_authority_def capped_parameters_def)

lemma capped_is_created: "created ledger_runtime capped_config"
proof -
  have "handle_create_config ledger_runtime (\<lambda>_. None) 0 sample_clock sample_quote_mint 2 3
      capped_parameters = Inr capped_config"
    using capped_validated capped_process by (simp add: handle_create_config_def sample_clock_def)
  then show ?thesis by (rule created.plain)
qed

text \<open>
  The pool of the sample has sold for 99000 quote tokens of a sale of 2000000: the
  partner gets 49000 now, and nothing of the other 1901000 later.
\<close>

lemma surplus_before_the_sale_is_over:
  "created ledger_runtime capped_config"
  "\<not> is_sale_complete launched_and_bought (cfg_migration_quote_threshold capped_config) 10"
  "handle_partner_withdraw_surplus ledger_runtime sample_claim capped_config launched_and_bought
     (sample_balances(12 := 100000))
   = Inr (49000, update_partner_withdraw_surplus launched_and_bought,
       sample_balances(12 := 51000, 42 := 49000))"
  "\<not> is_ok (handle_partner_withdraw_surplus rt a cfg
     ((update_partner_withdraw_surplus launched_and_bought)\<lparr>pool_quote_reserve := n\<rparr>) b)"
proof -
  show "created ledger_runtime capped_config" by (rule capped_is_created)
  show "\<not> is_sale_complete launched_and_bought (cfg_migration_quote_threshold capped_config) 10"
    by (simp add: is_sale_complete_def is_curve_complete_def is_deadline_reached_def total_quote_reserve_def
        saturating_add_def launched_sample_defs launched_and_bought_def capped_config_def)
  show "handle_partner_withdraw_surplus ledger_runtime sample_claim capped_config launched_and_bought
     (sample_balances(12 := 100000))
   = Inr (49000, update_partner_withdraw_surplus launched_and_bought, sample_balances(12 := 51000, 42 := 49000))"
    by (simp add: eval and_then_def has_one_def require_def launched_sample_defs sample_claim_def
        launched_and_bought_def capped_config_def safe_sub_def Let_def has_real_quote_surplus_def
        get_total_surplus_def get_partner_surplus_def get_partner_and_creator_surplus_def fun_eq_iff)
  show "\<not> is_ok (handle_partner_withdraw_surplus rt a cfg
     ((update_partner_withdraw_surplus launched_and_bought)\<lparr>pool_quote_reserve := n\<rparr>) b)"
    by (auto simp: is_ok_iff update_partner_withdraw_surplus_def dest!: partner_surplus_marks)
qed

end
