(* ===== verification/Stranded.thy ===== *)
theory Stranded
  imports Pool_Life
begin

text \<open>
  A pool that its deadline strands.  Its curve sells most of its base tokens on a deep
  first segment and has a thin second one, so that at the end of the first segment the
  migration at the pool's price needs far more base tokens than the curve still holds.
  When the deadline passes at that moment the pool can neither trade nor migrate.
\<close>

declare of_nat_unat [simp del]

section \<open>The configuration\<close>

definition thin_curve :: "liquidity_point list" where
  "thin_curve = [\<lparr>lp_sqrt_price = 36893488147419103232, lp_liquidity = 18446744073709551616000000\<rparr>,
     \<lparr>lp_sqrt_price = 368934881474191032320, lp_liquidity = 184467440737095516160000\<rparr>]"

definition thin_parameters :: config_parameters where
  "thin_parameters = sample_config_parameters\<lparr>cp_migration_quote_threshold := 1170000, cp_curve := thin_curve\<rparr>"

definition thin_config :: pool_config where
  "thin_config = created_sample\<lparr>cfg_swap_base_amount := 504474, cfg_migration_quote_threshold := 1170000,
     cfg_migration_base_threshold := 3241, cfg_migration_sqrt_price := 350488137400481480704,
     cfg_curve := thin_curve @ replicate 18 \<lparr>lp_sqrt_price = 0, lp_liquidity = 0\<rparr>\<rparr>"

lemma thin_amounts:
  "get_migration_threshold_price 1170000 18446744073709551616 thin_curve = Inr 350488137400481480704"
  "get_base_token_for_swap 18446744073709551616 350488137400481480704 thin_curve = Inr 504474"
  "concentrated_included_amounts_1 350488137400481480704 1170000 0 = Inr (3241, 1170000)"
  "(try_cast (504474 :: u256) :: u64 option) = Some 504474"
  "(350488137400481480704 < MAX_SQRT_PRICE) = True"
  by (simp_all add: eval and_then_def ok_or_def Let_def thin_curve_def)

lemma thin_stored:
  "pool_config_init zero_pool_config 1 2 3 thin_parameters 0 504474 3241 350488137400481480704 0 0 0 = Inr thin_config"
  by (simp add: pool_config_init_def store_curve_eq zero_pool_config_def sample_config_parameters_def
      created_sample_def sample_defs MAX_CURVE_POINT_CONFIG_def to_pool_fees_config_def
      to_base_fee_config_def default_dynamic_fee_config_def to_liquidity_vesting_info_def
      vesting_info_is_zero_def default_liquidity_vesting_info_params_def
      zero_liquidity_vesting_info_def default_locked_vesting_def thin_parameters_def thin_config_def thin_curve_def)

lemma thin_locked: "get_total_liquidity_locked_bps_at_n_seconds thin_config SECONDS_PER_DAY = Inr 3000"
  by (simp add: eval and_then_def Let_def created_sample_def sample_defs thin_config_def)

lemma thin_process:
  "process_create_config ledger_runtime zero_pool_config thin_parameters sample_quote_mint 2 3 = Inr thin_config"
proof -
  have p: "cp_migration_quote_threshold thin_parameters = 1170000"
    "cp_sqrt_start_price thin_parameters = 18446744073709551616"
    "cp_curve thin_parameters = thin_curve" "cp_migration_option thin_parameters = 1"
    "mpf_collect_fee_mode (cp_migrated_pool_fee thin_parameters) = 0"
    "cp_migration_quote_amount_cap thin_parameters = 0"
    "mfp_fee_percentage (cp_migration_fee thin_parameters) = 0"
    "cp_token_supply thin_parameters = None" "mint_key sample_quote_mint = 1"
    "get_token_program_flags ledger_runtime sample_quote_mint = TokenProgram"
    by (simp_all add: thin_parameters_def sample_config_parameters_def sample_quote_mint_def
        get_token_program_flags_def ledger_runtime_def)
  show ?thesis
    by (simp add: process_create_config_def p thin_amounts sample_amounts thin_stored thin_locked
        get_migration_handler_def get_effective_migration_quote_amount_cap_def token_supply_of_def
        MIN_LOCKED_LIQUIDITY_BPS_def Let_def del: try_cast_Some)
qed

lemma thin_validated:
  "config_parameters_validate ledger_runtime (\<lambda>_. None) 0 thin_parameters sample_quote_mint 10 False = Inr ()"
  by (simp add: eval and_then_def ok_or_def require_def Let_def sample_config_parameters_def
      sample_quote_mint_def ledger_runtime_def thin_curve_def thin_parameters_def has_mint_authority_def)

lemma thin_is_created: "created ledger_runtime thin_config"
proof -
  have "handle_create_config ledger_runtime (\<lambda>_. None) 0 sample_clock sample_quote_mint 2 3 thin_parameters
      = Inr thin_config"
    using thin_validated thin_process by (simp add: handle_create_config_def sample_clock_def)
  then show ?thesis by (rule created.plain)
qed

lemma thin_supply: "get_initial_base_supply thin_config = Inr 507741"
proof -
  have "used_curve_points thin_config = thin_curve"
    by (simp add: used_curve_points_def thin_config_def thin_curve_def takeWhile_replicate)
  moreover have "get_swap_amount_with_buffer 504474 18446744073709551616 thin_curve = Inr 504500"
    by (simp add: get_swap_amount_with_buffer_def eval and_then_def ok_or_def Let_def thin_curve_def)
  moreover have "cfg_swap_base_amount thin_config = 504474" "\<not> is_fixed_token_supply thin_config"
    "cfg_sqrt_start_price thin_config = 18446744073709551616"
    "cfg_migration_base_threshold thin_config = 3241"
    "locked_vesting_total_amount (cfg_locked_vesting_config thin_config) = Inr 0"
    by (simp_all add: thin_config_def created_sample_def sample_config_def is_fixed_token_supply_def eval)
  ultimately show ?thesis
    by (simp add: get_initial_base_supply_def get_total_token_supply_def)
qed

section \<open>The pool\<close>

definition thin_launch :: initialize_pool_parameters where
  "thin_launch = sample_parameters\<lparr>ipp_deadline_timestamp := 1000\<rparr>"

definition empty_vaults :: "pubkey \<Rightarrow> u64" where
  "empty_vaults = sample_balances(11 := 0)"

definition thin_launched :: pool_state where
  "thin_launched = pool_initialize default_pool_state default_volatility_tracker 20 40 5 11 12
     18446744073709551616 0 10 507741 PROTOCOL_LIQUIDITY_MIGRATION_FEE_BPS 1000"

lemma thin_check_launch: "check_launch thin_config = Inr ()"
  by (simp add: eval and_then_def ok_or_def require_def Let_def thin_config_def created_sample_def sample_defs
      zero_liquidity_vesting_info_def)

lemma thin_is_launched: "launched ledger_runtime thin_config thin_launched (empty_vaults(11 := 507741))"
proof (rule launched.spl)
  let ?snap = "\<lambda>_ _. \<lparr>snap_lamports = 0, snap_owner = 0, snap_data_len = 0\<rparr>"
  have config: "get_token_authority thin_config = Inr Immutable"
    "token_type_of (cfg_token_type thin_config) = Some SplToken"
    "get_current_point sample_clock (cfg_activation_type thin_config) = Inr 10"
    "cfg_pool_creation_fee thin_config = 0" "cfg_quote_mint thin_config = 1"
    "cfg_sqrt_start_price thin_config = 18446744073709551616" "\<not> has_mint_authority Immutable"
    by (simp_all add: eval thin_config_def created_sample_def sample_config_def sample_clock_def)
  have accounts: "launch_accounts_ok ledger_runtime AccountPoolConfig sample_launch_accounts thin_config"
    by (simp add: launch_accounts_ok_def sample_launch_accounts_def runtime_sample_defs config)
  have metadata: "cpi_with_account_lamport_and_owner_checking
      (process_create_token_metadata ledger_runtime sample_launch_accounts thin_launch Immutable k)
      (?snap q) empty_vaults = Inr empty_vaults" for k q
    by (simp add: cpi_with_account_lamport_and_owner_checking_def process_create_token_metadata_def Let_def
        require_def invoke_def ledger_runtime_def ledger_invoke_def)
  have calls: "invoke ledger_runtime (MintTo p m 11 k 507741) empty_vaults = Inr (empty_vaults(11 := 507741))"
    "invoke ledger_runtime (SetAuthority p m k t x) r = Inr r" for p m k t x r
    by (simp_all add: ledger_runtime_def ledger_invoke_def empty_vaults_def)
  have vault: "ipa_base_vault sample_launch_accounts = 11" by (simp add: sample_launch_accounts_def)
  have clock: "clk_unix_timestamp sample_clock = 10" by (simp add: sample_clock_def)
  have param: "initialize_pool_parameters_validate thin_launch 10 = Inr ()"
    by (simp add: initialize_pool_parameters_validate_def thin_launch_def require_def)
  show "handle_initialize_virtual_pool_with_spl_token ledger_runtime ?snap sample_clock sample_launch_accounts
      thin_config thin_launch empty_vaults = Inr (thin_launched, empty_vaults(11 := 507741))"
    using accounts by (simp add: handle_initialize_virtual_pool_with_spl_token_def thin_check_launch
        thin_supply config metadata calls charge_pool_creation_fee_def has_one_def require_def clock param vault)
      (simp add: sample_launch_accounts_def sample_parameters_def thin_launch_def thin_launched_def
        sample_config_account_def ledger_runtime_def)
qed

section \<open>The purchase\<close>

definition thin_pool :: pool_state where
  "thin_pool = thin_launched\<lparr>pool_base_reserve := 7741, pool_quote_reserve := 1000000,
     pool_protocol_quote_fee := 2020, pool_partner_quote_fee := 8082,
     pool_sqrt_price := 36893488147419103232, pool_has_swap := 1,
     pool_metrics_of := \<lparr>pm_total_protocol_base_fee = 0, pm_total_protocol_quote_fee = 2020,
       pm_total_trading_base_fee = 0, pm_total_trading_quote_fee = 8082\<rparr>\<rparr>"

definition thin_balances :: "pubkey \<Rightarrow> u64" where
  "thin_balances = empty_vaults(11 := 7741, 12 := 1010102, 31 := 3989898, 32 := 500000)"

definition thin_result :: swap_result2 where
  "thin_result = \<lparr>s2_included_fee_input_amount = 1010102, s2_excluded_fee_input_amount = 1000000,
     s2_amount_left = 0, s2_output_amount = 500000, s2_next_sqrt_price = 36893488147419103232,
     s2_trading_fee = 8082, s2_protocol_fee = 2020, s2_referral_fee = 0\<rparr>"

lemmas thin_defs = thin_launched_def pool_initialize_def thin_config_def thin_curve_def created_sample_def
  pool_sample_defs instruction_sample_defs

lemma thin_buy_check:
  "check_swap ledger_runtime sample_accounts thin_launched (sample_params 1010102 1) False [] sample_transaction
   = Inr \<lparr>sg_swap_mode = PartialFill, sg_trade_direction = QuoteToBase,
          sg_extra_remaining_account_count = 0, sg_sysvar = None\<rparr>"
  by (simp add: eval and_then_def ok_or_def has_one_def require_def Let_def thin_defs)

lemma thin_buy_execution:
  "execute_swap thin_launched thin_config PartialFill QuoteToBase
     \<lparr>sc_params = sample_params 1010102 1, sc_is_virtual = False, sc_has_referral = False,
      sc_current_point = 10, sc_current_timestamp = 10, sc_eligible = False\<rparr>
   = Inr (thin_pool, \<lparr>fees_on_input = True, fees_on_base_token = False, has_referral = False\<rparr>,
       \<lparr>psr_swap_result = thin_result,
        psr_swap_in_parameters = \<lparr>sp_amount_in = 1010102, sp_minimum_amount_out = 500000\<rparr>\<rparr>)"
  by (simp add: eval and_then_def ok_or_def Let_def thin_defs thin_pool_def thin_result_def)

lemma thin_buy_guards:
  "get_current_point sample_clock (cfg_activation_type thin_config) = Inr 10"
  "check_single_swap rt thin_config s k p d v = Inr ()"
  "check_first_swap_with_min_fee rt thin_config s k b v = Inr False"
  "\<not> is_sale_complete thin_launched (cfg_migration_quote_threshold thin_config) 10"
  by (simp_all add: eval and_then_def ok_or_def Let_def thin_defs
      is_sale_complete_def is_curve_complete_def is_deadline_reached_def total_quote_reserve_def)

lemma thin_buy_transfers:
  "transfer_swap_tokens ledger_runtime sample_accounts []
     \<lparr>sg_swap_mode = PartialFill, sg_trade_direction = QuoteToBase,
      sg_extra_remaining_account_count = 0, sg_sysvar = None\<rparr>
     False mode thin_result (empty_vaults(11 := 507741))
   = Inr thin_balances"
  by (simp add: eval and_then_def require_def thin_result_def instruction_sample_defs fun_eq_iff
      thin_balances_def empty_vaults_def)

lemma thin_open: "\<not> is_curve_complete thin_pool (cfg_migration_quote_threshold thin_config)"
  by (simp add: is_curve_complete_def total_quote_reserve_def thin_pool_def thin_defs saturating_add_def)

lemma thin_buy:
  "\<exists>ev. process_swap ledger_runtime sample_clock sample_transaction sample_loader sample_accounts
     thin_config (sample_params 1010102 1) False [] thin_launched (empty_vaults(11 := 507741))
   = Inr (thin_pool, ev, thin_balances)"
  unfolding process_swap_def thin_buy_check and_then_simps Let_def thin_buy_guards
  using thin_buy_guards(4)
  by (simp add: thin_buy_execution thin_buy_transfers complete_curve_open [OF thin_open])

lemma thin_life: "lives ledger_runtime thin_config (thin_pool, thin_balances, 1000)"
proof -
  have "pool_base_vault thin_launched = 11" "pool_quote_vault thin_launched = 12"
    by (simp_all add: thin_launched_def pool_initialize_def)
  moreover have "locker_law ledger_runtime v" for v
    by (simp add: locker_law_def ledger_runtime_def ledger_invoke_def)
  ultimately have law: "vaults_lawful ledger_runtime thin_launched"
    using ledger_law by (simp add: vaults_lawful_def lawful_def)
  have payer: "clk_unix_timestamp sample_clock = 10" "swa_payer sample_accounts \<noteq> rt_pool_authority ledger_runtime"
    by (simp_all add: sample_clock_def sample_accounts_def ledger_runtime_def)
  have "pool_step ledger_runtime thin_config (thin_launched, empty_vaults(11 := 507741), 10) (thin_pool, thin_balances, 10)"
    using thin_buy pool_step.trade [OF _ payer] by blast
  moreover have "pool_step ledger_runtime thin_config (thin_pool, thin_balances, 10) (thin_pool, thin_balances, 1000)"
    by (rule pool_step.wait) simp_all
  ultimately have "(pool_step ledger_runtime thin_config)\<^sup>*\<^sup>* (thin_launched, empty_vaults(11 := 507741), 10)
      (thin_pool, thin_balances, 1000)"
    by (rule converse_rtranclp_into_rtranclp [OF _ r_into_rtranclp])
  then show ?thesis using thin_is_launched law unfolding lives_def by blast
qed

section \<open>No way out\<close>

text \<open>The part of a state that decides: the sale's result, the progress, the vaults and the deadline.\<close>

definition stuck :: "pool_state \<Rightarrow> bool" where
  "stuck s \<longleftrightarrow> core s = core thin_pool"

lemma stuck_reads:
  assumes "stuck s"
  shows "pool_quote_reserve s = 1000000" "pool_virtual_quote_reserve s = 0"
    "pool_sqrt_price s = 36893488147419103232" "pool_migration_progress s = 0"
    "pool_base_vault s = 11" "pool_deadline_timestamp s = 1000"
  using assms by (simp_all add: stuck_def core_def thin_pool_def thin_launched_def pool_initialize_def
      default_pool_state_def)

lemma thin_config_reads:
  "\<not> has_vesting (cfg_locked_vesting_config thin_config)"
  "get_migration_quote_amount_cap thin_config = 1170000"
  "cfg_migration_fee_percentage thin_config = 0" "cfg_migration_quote_threshold thin_config = 1170000"
  "cfg_migrated_collect_fee_mode thin_config = 0"
  by (simp_all add: eval thin_config_def created_sample_def sample_config_def default_locked_vesting_def)

text \<open>The base tokens that a pool at the stuck price takes for the quote amount.\<close>

lemma stuck_amounts:
  "get_included_protocol_fee_migration_amounts_1 (ConcentratedLiquidity 36893488147419103232) 1000000 0
   = Inr (250000, 1000000)"
  "get_included_protocol_fee_migration_amounts_1 (CompoundingLiquidity 36893488147419103232) 1000000 0
   = Inr (250000, 1000000)"
  by (simp_all add: eval and_then_def ok_or_def Let_def)

text \<open>Neither the migration nor the vesting step nor a swap gets past its guards.\<close>

lemma stuck_amounts_refused:
  assumes "stuck s" "rt_token_amount rt 11 b \<le> 249999"
    and "get_migration_amounts h thin_config (close_at_deadline d s) (rt_token_amount rt 11 b) f = Inr g"
    and "h = ConcentratedLiquidity (pool_sqrt_price s) \<or> h = CompoundingLiquidity (pool_sqrt_price s)"
  shows False
proof -
  have amounts: "get_included_protocol_fee_migration_amounts_1 h 1000000 0 = Inr (250000, 1000000)"
    using assms(4) stuck_amounts by (auto simp: stuck_reads [OF assms(1)])
  have "effective_migration_quote_threshold (close_at_deadline d s) 1170000 = 1000000"
    by (simp add: effective_migration_quote_threshold_def stuck_reads [OF assms(1)])
  then obtain rest where r: "safe_sub (rt_token_amount rt 11 b) f = Inr rest" "250000 \<le> rest"
    using assms(3) unfolding get_migration_amounts_def thin_config_reads Let_def and_then_Ok_iff require_Ok_iff
      split_paired_Ex case_prod_conv amounts by (auto simp: amounts)
  then have "unat rest \<le> unat (rt_token_amount rt 11 b)" using safe_sub_sum [OF r(1)] by simp
  then show False using r(2) assms(2) by (simp add: word_le_nat_alt)
qed

lemma stuck_handlers:
  "get_migration_handler opt mode p = ConcentratedLiquidity p \<or> get_migration_handler opt mode p = CompoundingLiquidity p"
  by (simp add: get_migration_handler_def)

lemma stuck_no_damm_v2:
  assumes "stuck s" "rt_token_amount rt 11 b \<le> 249999"
  shows "handle_migrate_damm_v2 rt snapshot read dc clk a thin_config s b \<noteq> Inr w"
proof
  assume h: "handle_migrate_damm_v2 rt snapshot read dc clk a thin_config s b = Inr w"
  obtain s1 f mode and g :: migration_amounts where v: "pool_base_vault s = ta_key (d2a_base_vault a)"
    and s1: "admit_migration thin_config DammV2 (clk_unix_timestamp clk) s = Inr s1"
    and g: "get_migration_amounts (get_migration_handler DammV2 mode (pool_sqrt_price s1)) thin_config s1
      (rt_token_amount rt (ta_key (d2a_base_vault a)) b) f = Inr g"
    using h unfolding handle_migrate_damm_v2_def Let_def and_then_Ok_iff has_one_Ok_iff
      split_paired_Ex case_prod_conv Inr_inject by blast
  obtain d where d: "s1 = close_at_deadline d s" using admit_migration_Ok [OF s1] by blast
  have v: "ta_key (d2a_base_vault a) = 11" using v stuck_reads(5) [OF assms(1)] by simp
  show False
    by (rule stuck_amounts_refused [OF assms g [unfolded d v close_at_deadline_simps] stuck_handlers])
qed

lemma stuck_no_damm_v1:
  assumes "stuck s"
  shows "handle_migrate_meteora_damm rt snapshot clk a thin_config s m b \<noteq> Inr w"
proof
  assume h: "handle_migrate_meteora_damm rt snapshot clk a thin_config s m b = Inr w"
  then have "\<exists>s1. admit_migration thin_config MeteoraDamm (clk_unix_timestamp clk) s = Inr s1"
    unfolding handle_migrate_meteora_damm_def Let_def and_then_Ok_iff has_one_Ok_iff by blast
  moreover have "migration_option_of (cfg_migration_option thin_config) = Some DammV2"
    by (simp add: eval thin_config_def created_sample_def sample_config_def)
  ultimately show False
    unfolding admit_migration_def Let_def and_then_Ok_iff require_Ok_iff ok_or_Ok_iff by auto
qed

lemma stuck_no_locker:
  assumes "stuck s"
  shows "handle_create_locker rt snapshot clk a thin_config s b \<noteq> Inr (s', b')"
  using handle_create_locker_parts [of rt snapshot clk a thin_config s b s' b'] thin_config_reads(1)
  by (auto simp: eval get_migration_progress_def stuck_reads [OF assms])

lemma stuck_no_swap:
  assumes "stuck s" "1000 \<le> clk_unix_timestamp clk"
  shows "process_swap rt clk tx loader a thin_config params virtual slices s b \<noteq> Inr (s', ev, b')"
  using process_swap_parts [of rt clk tx loader a thin_config params virtual slices s b s' ev b'] assms(2)
  by (auto simp: is_sale_complete_def is_deadline_reached_def stuck_reads [OF assms(1)])

text \<open>So nothing but claims, the passing of time and a donation to the vault can happen to the pool.\<close>

lemma stuck_step:
  assumes "pool_step rt thin_config (s, b, t) (s', b', t')" "stuck s" "1000 \<le> t"
    and "rt_token_amount rt 11 b \<le> 249999" "lawful rt s"
  shows "stuck s' \<and> lawful rt s' \<and> t \<le> t'"
proof -
  have shares: "cfg_creator_trading_fee_percentage thin_config = 0" "cfg_migration_fee_percentage thin_config = 0"
    by (simp_all add: thin_config_def created_sample_def sample_config_def)
  have kept: "core s' = core s \<Longrightarrow> stuck s' \<and> lawful rt s'"
    using assms(2,5) by (auto simp: stuck_def lawful_def core_def)
  have balanced: "balanced thin_config rt s b s' b' \<Longrightarrow> stuck s' \<and> lawful rt s'"
    using kept by (simp add: balanced_def)
  from assms(1) show ?thesis
  proof cases
    case (trade clk tx loader a params virtual slices ev)
    have c: "1000 \<le> clk_unix_timestamp clk" using trade(3) assms(3) by simp
    show ?thesis by (rule notE [OF stuck_no_swap [OF assms(2) c] trade(2)])
  next
    case (locker snapshot clk la)
    show ?thesis by (rule notE [OF stuck_no_locker [OF assms(2)] locker(2)])
  next
    case (damm_v1 snapshot clk a1 m m')
    show ?thesis by (rule notE [OF stuck_no_damm_v1 [OF assms(2)] damm_v1(2)])
  next
    case (damm_v2 snapshot read dc clk a2)
    show ?thesis by (rule notE [OF stuck_no_damm_v2 [OF assms(2,4)] damm_v2(2)])
  next
    case wait
    then show ?thesis using assms(2,5) by simp
  next
    case (leftover ca x)
    then show ?thesis using leftover_leaves_fees [OF leftover(2) assms(5) leftover(3)] kept by simp
  next
    case (creator_fee ca mb mq opt x y)
    then show ?thesis using balanced [OF pays_balanced [OF creator_fee_pays [OF creator_fee(2) assms(5)]]] by simp
  next
    case (partner_fee ca mb mq opt x y)
    then show ?thesis using balanced [OF pays_balanced [OF partner_fee_pays [OF partner_fee(2) assms(5)]]] by simp
  next
    case (protocol_fee ca op mb mq x y)
    then show ?thesis using balanced [OF pays_balanced [OF protocol_fee_pays [OF protocol_fee(2) assms(5)]]] by simp
  next
    case (protocol_fee2 ca mx x)
    then show ?thesis using balanced [OF pays_balanced [OF protocol_fee2_pays [OF protocol_fee2(2) assms(5)]]] by simp
  next
    case (zap z za mx x)
    then show ?thesis using balanced [OF pays_balanced [OF zap_pays [OF zap(2) assms(5)]]] by simp
  next
    case (creator_surplus ca x)
    then show ?thesis
      using balanced [OF conjunct1 [OF creator_surplus_balanced [OF creator_surplus(2) assms(5) shares(1)]]] by simp
  next
    case (partner_surplus ca x)
    then show ?thesis
      using balanced [OF conjunct1 [OF partner_surplus_balanced [OF partner_surplus(2) assms(5) shares(1)]]] by simp
  next
    case (migration_fee ca flag x)
    then show ?thesis
      using balanced [OF conjunct1 [OF migration_fee_balanced [OF migration_fee(2) assms(5) shares(2)]]] by simp
  next
    case (partner_creation_fee ca x)
    then show ?thesis
      using balanced [OF partner_creation_fee_balanced [OF partner_creation_fee(2) assms(5)]] by simp
  next
    case (protocol_creation_fee ca x)
    then show ?thesis
      using balanced [OF protocol_creation_fee_balanced [OF protocol_creation_fee(2) assms(5)]] by simp
  next
    case (transfer_creator ca md key)
    then show ?thesis using balanced [unfolded transfer_creator(1), OF transfer_creator_balanced [OF transfer_creator(3)]] by simp
  qed
qed

text \<open>A step after which the base vault still holds less than the migration takes.\<close>

definition undonated_step :: "'r runtime \<Rightarrow> 'r world \<Rightarrow> 'r world \<Rightarrow> bool" where
  "undonated_step rt w w' \<longleftrightarrow> pool_step rt thin_config w w' \<and> rt_token_amount rt 11 (fst (snd w')) \<le> 249999"

lemma stuck_forever:
  assumes "(undonated_step rt)\<^sup>*\<^sup>* w w'" "stuck (fst w)" "lawful rt (fst w)" "1000 \<le> snd (snd w)"
    and "rt_token_amount rt 11 (fst (snd w)) \<le> 249999"
  shows "stuck (fst w') \<and> lawful rt (fst w') \<and> 1000 \<le> snd (snd w')
    \<and> rt_token_amount rt 11 (fst (snd w')) \<le> 249999"
  using assms(1)
proof (induction rule: rtranclp_induct)
  case base
  show ?case using assms(2-5) by simp
next
  case (step w1 w2)
  then show ?case using stuck_step [of rt "fst w1" "fst (snd w1)" "snd (snd w1)" "fst w2" "fst (snd w2)" "snd (snd w2)"]
    by (auto simp: undonated_step_def)
qed

lemma deadline_can_strand_pool:
  "created ledger_runtime thin_config"
  "lives ledger_runtime thin_config (thin_pool, thin_balances, 1000)"
  "(undonated_step ledger_runtime)\<^sup>*\<^sup>* (thin_pool, thin_balances, 1000) (s, b, t) \<Longrightarrow>
     pool_migration_progress s = 0 \<and> pool_quote_reserve s = 1000000
     \<and> is_deadline_reached s t"
proof -
  assume run: "(undonated_step ledger_runtime)\<^sup>*\<^sup>* (thin_pool, thin_balances, 1000) (s, b, t)"
  have "lawful ledger_runtime thin_pool"
    using ledger_law by (simp add: lawful_def thin_pool_def thin_launched_def pool_initialize_def)
  moreover have "thin_balances 11 \<le> 249999" by (simp add: thin_balances_def)
  ultimately have "stuck s \<and> 1000 \<le> t"
    using stuck_forever [OF run] by (simp add: stuck_def ledger_reads)
  then show "pool_migration_progress s = 0 \<and> pool_quote_reserve s = 1000000 \<and> is_deadline_reached s t"
    by (simp add: stuck_reads is_deadline_reached_def)
qed (rule thin_is_created thin_life)+

end
