(* ===== verification/Migration_Progress.thy ===== *)
theory Migration_Progress
  imports One_Time
begin

text \<open>
  A sale that has reached its price can migrate.  The lemmas follow the migration to
  DAMM v1 (\<open>migrate_meteora_damm_initialize_pool.rs\<close>) and show of each of its steps
  that it cannot fail any more: the amounts can be computed and the vault holds them,
  the leftover can be burned, and the new LP tokens can be distributed.  What remains
  is that the called programs accept their calls.
\<close>

declare of_nat_unat [simp del]

section \<open>The amounts\<close>

lemma constant_product_Ok:
  "get_constant_product_base_from_quote q p = Inr x \<longleftrightarrow>
     0 < unat p \<and> unat x = ceil_div (unat q * 2 ^ 128) (unat p * unat p)"
proof -
  have "unat p * unat p < 2 ^ LENGTH(256)" by (rule prod_lt_2p [where m = 128 and n = 128]) simp_all
  then obtain P :: u256 where P: "unat P = unat p * unat p" by (rule word_witness)
  have mul: "safe_mul (ucast p :: u256) (ucast p) = Inr P" by (simp add: P)
  obtain s :: u256 where s: "safe_shl_big (ucast q) 128 = Inr s" "unat s = unat q * 2 ^ 128"
    using shl_amount_128 by blast
  show ?thesis
  proof (cases "P = 0")
    case True
    then have "unat p * unat p = 0" using P by simp
    then have "unat p = 0" by simp
    then show ?thesis
      unfolding get_constant_product_base_from_quote_def Let_def mul s(1) and_then_simps by (simp add: True)
  next
    case False
    then have pos: "0 < unat P" by (simp add: word_unat_eq_iff)
    then have p: "0 < unat p" using P by (cases "unat p") auto
    obtain r :: u256 where r: "(if s mod P \<noteq> 0 then safe_add (s div P) 1 else Inr (s div P)) = Inr r"
      "unat r = ceil_div (unat s) (unat P)"
    proof -
      have "big_div_ceil s P = Inr (word_div_ceil s P)" using False by (simp add: big_div_ceil_def)
      then have c: "unat (word_div_ceil s P) = ceil_div (unat s) (unat P)" by (simp only: big_div_ceil_Ok)
      have "safe_add (s div P) 1 = Inr (word_div_ceil s P)" if "s mod P \<noteq> 0"
        using that c ceil_div_alt [OF pos, of "unat s"]
        by (simp add: word_unat_eq_iff unat_mod unat_div word_div_ceil_def)
      then have "(if s mod P \<noteq> 0 then safe_add (s div P) 1 else Inr (s div P)) = Inr (word_div_ceil s P)"
        by (simp add: word_div_ceil_def)
      then show thesis using c by (rule that)
    qed
    show ?thesis
      unfolding get_constant_product_base_from_quote_def Let_def mul s(1) and_then_simps
      using False r p by (simp add: P s(2))
  qed
qed

text \<open>At a higher price, and for less of the quote token, less of the base token is needed.\<close>

lemma constant_product_mono:
  assumes "get_constant_product_base_from_quote Q P = Inr X" "q \<le> Q" "P \<le> p" "0 < q"
  shows "\<exists>x. get_constant_product_base_from_quote q p = Inr x \<and> 0 < x \<and> x \<le> X"
proof -
  have X: "0 < unat P" "unat X = ceil_div (unat Q * 2 ^ 128) (unat P * unat P)"
    using assms(1) unfolding constant_product_Ok by blast+
  have le: "unat q \<le> unat Q" "unat P \<le> unat p" "0 < unat q"
    using assms(2-4) by (simp_all add: word_le_nat_alt word_less_nat_alt)
  let ?n = "ceil_div (unat q * 2 ^ 128) (unat p * unat p)"
  have p: "0 < unat p * unat p" "unat P * unat P \<le> unat p * unat p"
    using X(1) le(2) by (simp_all add: mult_le_mono)
  have "unat q * 2 ^ 128 \<le> unat Q * 2 ^ 128" using le(1) by simp
  also have "\<dots> \<le> unat P * unat P * unat X" unfolding X(2) using X(1) by (intro ceil_div_ge) simp
  also have "\<dots> \<le> unat p * unat p * unat X" using p(2) by (rule mult_le_mono1)
  finally have n: "?n \<le> unat X" using p(1) by (intro ceil_div_le)
  then have "?n < 2 ^ LENGTH(64)" using unat_lt_2p [of X] by linarith
  then obtain x :: u64 where x: "unat x = ?n" by (rule word_witness)
  have "0 < ?n" using p(1) le(3) by (intro ceil_div_pos) simp_all
  then have "0 < x \<and> x \<le> X" using n x by (simp add: word_le_nat_alt word_less_nat_alt)
  moreover have "get_constant_product_base_from_quote q p = Inr x"
    unfolding constant_product_Ok using x X(1) le(2) by simp
  ultimately show ?thesis by blast
qed

lemma no_fee_amount:
  "calculate_post_fee_migration_quote_amount t 0 = Inr m \<Longrightarrow> ma_quote_amount m = t"
  using post_fee_amount_ex [of 0 t] by (auto simp: word_unat_eq_iff ceil_div_def)

lemma created_compounding:
  assumes "created rt cfg" "migration_option_of (cfg_migration_option cfg) = Some MeteoraDamm"
  shows "get_constant_product_base_from_quote (get_migration_quote_amount_cap cfg) (cfg_migration_sqrt_price cfg)
      = Inr (cfg_migration_base_threshold cfg)"
    and "\<exists>n. get_max_burnable_amount_post_migration cfg = Inr n"
proof -
  obtain cp ext nm mint now hook fc lr where v: "config_parameters_validate rt ext nm cp mint now hook = Inr ()"
    "process_create_config rt zero_pool_config cp mint fc lr = Inr cfg"
    using created_parts [OF assms(1)] by blast
  obtain mp f option mode base quote flag pre post swap where
    i: "pool_config_init zero_pool_config (mint_key mint) fc lr cp f swap base mp flag pre post = Inr cfg"
    and o: "migration_option_of (cp_migration_option cp) = Some option"
    and a: "get_included_protocol_fee_migration_amounts_1 (get_migration_handler option mode mp)
        (get_effective_migration_quote_amount_cap (cp_migration_quote_threshold cp)
          (cp_migration_quote_amount_cap cp)) (mfp_fee_percentage (cp_migration_fee cp)) = Inr (base, quote)"
    and tok: "token_supply_of cp lr swap base = Inr (flag, pre, post)"
    using process_create_config_parts [OF v(2)] by blast
  note fields = pool_config_init_fields [OF i]
  have "cfg_migration_option cfg = cp_migration_option cp" using i by (auto simp: pool_config_init_def)
  then have "option = MeteoraDamm" using o assms(2) by simp
  moreover have "get_effective_migration_quote_amount_cap (cp_migration_quote_threshold cp)
      (cp_migration_quote_amount_cap cp) = get_migration_quote_amount_cap cfg"
    by (simp add: get_migration_quote_amount_cap_def fields(4,14))
  ultimately have "compounding_included_amounts_1 mp (get_migration_quote_amount_cap cfg) 0 = Inr (base, quote)"
    using a config_parameters_validate_parts [OF v(1)] by (simp add: get_migration_handler_def)
  then show "get_constant_product_base_from_quote (get_migration_quote_amount_cap cfg) (cfg_migration_sqrt_price cfg)
      = Inr (cfg_migration_base_threshold cfg)"
    unfolding compounding_included_amounts_1_def fields(3,6) by (auto dest: no_fee_amount)
  have "flag = 1 \<longrightarrow> post \<le> pre"
    using tok by (auto simp: token_supply_of_def split: option.splits)
  then show "\<exists>n. get_max_burnable_amount_post_migration cfg = Inr n"
    by (simp add: get_max_burnable_amount_post_migration_def is_fixed_token_supply_def fields(7-9) safe_sub_def)
qed

text \<open>The amounts of a migration at the configured price or above it.\<close>

lemma migration_amounts_exist:
  assumes "created rt cfg" "migration_option_of (cfg_migration_option cfg) = Some MeteoraDamm"
    and "cfg_migration_sqrt_price cfg \<le> p" "0 < pool_quote_reserve s"
    and "unat (pool_protocol_liquidity_migration_fee_bps s) < 10000"
    and "unat (cfg_migration_base_threshold cfg) + unat f \<le> unat v"
  shows "\<exists>g. get_migration_amounts (CompoundingLiquidity p) cfg s v f = Inr g
    \<and> unat (mga_base_amount g) + unat (mga_protocol_base_fee g) \<le> unat (cfg_migration_base_threshold cfg)
    \<and> mga_quote_amount g \<le> effective_migration_quote_threshold s (get_migration_quote_amount_cap cfg)
    \<and> 0 < mga_base_amount g \<and> 0 < mga_quote_amount g"
proof -
  note shares = created_shares [OF assms(1)]
  let ?q = "effective_migration_quote_threshold s (get_migration_quote_amount_cap cfg)"
  note base = created_compounding(1) [OF assms(1,2)]
  have "0 < unat (cfg_migration_quote_threshold cfg)" using shares by (simp add: word_less_nat_alt)
  then have "0 < get_migration_quote_amount_cap cfg"
    by (auto simp: get_migration_quote_amount_cap_def get_effective_migration_quote_amount_cap_def word_less_nat_alt)
  then have q: "?q \<le> get_migration_quote_amount_cap cfg" "0 < ?q"
    using assms(4) by (simp_all add: effective_migration_quote_threshold_def)
  obtain x where x: "get_constant_product_base_from_quote ?q p = Inr x" "0 < x"
    "x \<le> cfg_migration_base_threshold cfg"
    using constant_product_mono [OF base q(1) assms(3) q(2)] by blast
  obtain m where m: "calculate_post_fee_migration_quote_amount ?q 0 = Inr m" "ma_quote_amount m = ?q"
    using post_fee_amount_ex [of 0 ?q] no_fee_amount by (metis unat_0 zero_le)
  have inc: "get_included_protocol_fee_migration_amounts_1 (CompoundingLiquidity p) ?q
      (cfg_migration_fee_percentage cfg) = Inr (x, ?q)"
    using shares m x(1) by (simp add: compounding_included_amounts_1_def)
  let ?bps = "pool_protocol_liquidity_migration_fee_bps s"
  obtain fb fq :: u64 where f: "safe_mul_div_cast_u64 x (ucast ?bps) BASIS_POINT_MAX Down = Inr fb"
    "safe_mul_div_cast_u64 ?q (ucast ?bps) BASIS_POINT_MAX Down = Inr fq" "unat fb < unat x" "unat fq < unat ?q"
  proof -
    have "\<exists>n :: u64. safe_mul_div_cast_u64 y (ucast ?bps) BASIS_POINT_MAX Down = Inr n \<and> unat n < unat y"
      if y: "0 < y" for y
    proof -
      have "unat y * unat ?bps < unat y * 10000" using y assms(5) by (simp add: word_less_nat_alt)
      then have le: "unat y * unat ?bps div 10000 < unat y" by (rule less_mult_imp_div_less)
      then have "unat y * unat ?bps div 10000 < 2 ^ LENGTH(64)" using unat_lt_2p [of y] by linarith
      then obtain n :: u64 where "unat n = unat y * unat ?bps div 10000" by (rule word_witness)
      then show ?thesis using le by (intro exI [of _ n]) simp
    qed
    then show thesis using that x(2) q(2) by meson
  qed
  have fees: "get_migration_protocol_fees (CompoundingLiquidity p) x ?q ?bps = Inr (fb, fq)"
    using f(1,2) by (simp add: compounding_migration_protocol_fees_def)
  have x': "unat x \<le> unat (cfg_migration_base_threshold cfg)" using x(3) by (simp add: word_le_nat_alt)
  have rest: "safe_sub v f = Inr (v - f)" "x \<le> v - f"
    using assms(6) x' by (simp_all add: unat_sub_le word_le_nat_alt)
  have subs: "safe_sub x fb = Inr (x - fb)" "safe_sub ?q fq = Inr (?q - fq)"
    "unat (x - fb) = unat x - unat fb" "?q - fq \<le> ?q" "0 < x - fb" "0 < ?q - fq"
    using f(3,4) by (simp_all add: unat_sub_le word_le_nat_alt word_less_nat_alt)
  have "get_migration_amounts (CompoundingLiquidity p) cfg s v f
      = Inr \<lparr>mga_protocol_base_fee = fb, mga_protocol_quote_fee = fq, mga_base_amount = x - fb, mga_quote_amount = ?q - fq\<rparr>"
    unfolding get_migration_amounts_def Let_def inc rest(1) fees subs(1,2) and_then_simps prod.case
    using q(2) rest(2) x(2) by (simp add: require_def)
  then show ?thesis using subs(3-) f(3) x' by simp
qed

section \<open>The calls\<close>

text \<open>
  What the migration asks of the programs it calls: DAMM v1 creates the pool from any
  amounts that the vaults hold and takes exactly the base amount out of the base vault,
  rent that it has taken from the pool authority can be paid back, and the token program
  burns what the vault holds.
\<close>

definition account_kept :: "account_snapshot \<Rightarrow> account_snapshot \<Rightarrow> bool" where
  "account_kept x y \<longleftrightarrow> snap_owner x = snap_owner y \<and> snap_data_len x = snap_data_len y"

definition damm_v1_willing ::
  "'r runtime \<Rightarrow> (pubkey \<Rightarrow> 'r \<Rightarrow> account_snapshot) \<Rightarrow> damm_v1_accounts \<Rightarrow> 'r \<Rightarrow> bool" where
  "damm_v1_willing rt snapshot a b \<longleftrightarrow>
     (let authority = d1a_pool_authority a; vault = d1a_base_vault a in
     (\<forall>r. snap_lamports (snapshot authority r) = rt_lamports rt authority r) \<and>
     (\<forall>n k. 0 < n \<and> n \<le> rt_token_amount rt vault b \<and> 0 < k \<and> k \<le> rt_token_amount rt (d1a_quote_vault a) b \<longrightarrow>
       (\<exists>b1. rt_invoke rt (DammV1InitializePool (d1a_pool a) (d1_key (d1a_damm_config a)) vault
              (d1a_quote_vault a) (d1a_virtual_pool_lp a) n k) b = Some b1
          \<and> rt_token_amount rt vault b1 = rt_token_amount rt vault b - n
          \<and> account_kept (snapshot authority b) (snapshot authority b1)
          \<and> (rt_lamports rt authority b1 < rt_lamports rt authority b \<longrightarrow>
             (\<exists>b2. rt_invoke rt (SystemTransfer (d1a_payer a) authority
                   (rt_lamports rt authority b - rt_lamports rt authority b1)) b1 = Some b2
                \<and> rt_lamports rt authority b2 = rt_lamports rt authority b
                \<and> rt_token_amount rt vault b2 = rt_token_amount rt vault b1
                \<and> account_kept (snapshot authority b) (snapshot authority b2))))) \<and>
     (\<forall>r n. n \<le> rt_token_amount rt vault r \<longrightarrow>
       (\<exists>r'. rt_invoke rt (Burn (d1a_token_program a) (d1a_token_a_mint a) vault (rt_pool_authority rt) n) r
          = Some r')))"

lemma damm_v1_pool_created:
  assumes "damm_v1_willing rt snapshot a b" "0 < n" "n \<le> rt_token_amount rt (d1a_base_vault a) b"
    and "0 < k" "k \<le> rt_token_amount rt (d1a_quote_vault a) b"
  shows "\<exists>b2. damm_v1_create_pool rt snapshot a n k b = Inr b2
    \<and> rt_token_amount rt (d1a_base_vault a) b2 = rt_token_amount rt (d1a_base_vault a) b - n"
proof -
  let ?k = "d1a_pool_authority a"
  have lam: "snap_lamports (snapshot ?k r) = rt_lamports rt ?k r" for r
    using assms(1) unfolding damm_v1_willing_def Let_def by blast
  obtain b1 where b1: "rt_invoke rt (DammV1InitializePool (d1a_pool a) (d1_key (d1a_damm_config a)) (d1a_base_vault a)
        (d1a_quote_vault a) (d1a_virtual_pool_lp a) n k) b = Some b1"
    "rt_token_amount rt (d1a_base_vault a) b1 = rt_token_amount rt (d1a_base_vault a) b - n"
    "account_kept (snapshot ?k b) (snapshot ?k b1)"
    "rt_lamports rt ?k b1 < rt_lamports rt ?k b \<longrightarrow>
       (\<exists>b2. rt_invoke rt (SystemTransfer (d1a_payer a) ?k (rt_lamports rt ?k b - rt_lamports rt ?k b1)) b1 = Some b2
          \<and> rt_lamports rt ?k b2 = rt_lamports rt ?k b
          \<and> rt_token_amount rt (d1a_base_vault a) b2 = rt_token_amount rt (d1a_base_vault a) b1
          \<and> account_kept (snapshot ?k b) (snapshot ?k b2))"
    using assms unfolding damm_v1_willing_def Let_def by blast
  have call: "invoke rt (DammV1InitializePool (d1a_pool a) (d1_key (d1a_damm_config a)) (d1a_base_vault a)
        (d1a_quote_vault a) (d1a_virtual_pool_lp a) n k) b = Inr b1" using b1(1) by simp
  show ?thesis
  proof (cases "rt_lamports rt ?k b1 < rt_lamports rt ?k b")
    case False
    then have "flash_rent rt ?k (d1a_payer a) (invoke rt (DammV1InitializePool (d1a_pool a)
        (d1_key (d1a_damm_config a)) (d1a_base_vault a) (d1a_quote_vault a) (d1a_virtual_pool_lp a) n k)) b = Inr b1"
      unfolding flash_rent_def Let_def call and_then_simps by (simp add: saturating_sub_def not_less)
    then show ?thesis using b1(2,3) False
      by (simp add: damm_v1_create_pool_def cpi_with_account_lamport_and_owner_checking_def Let_def require_def
          lam account_kept_def not_less)
  next
    case True
    then obtain b2 where b2: "rt_invoke rt (SystemTransfer (d1a_payer a) ?k (rt_lamports rt ?k b - rt_lamports rt ?k b1)) b1 = Some b2"
      "rt_lamports rt ?k b2 = rt_lamports rt ?k b"
      "rt_token_amount rt (d1a_base_vault a) b2 = rt_token_amount rt (d1a_base_vault a) b1"
      "account_kept (snapshot ?k b) (snapshot ?k b2)" using b1(4) by blast
    have n: "saturating_sub (rt_lamports rt ?k b) (rt_lamports rt ?k b1) = rt_lamports rt ?k b - rt_lamports rt ?k b1"
      "0 < rt_lamports rt ?k b - rt_lamports rt ?k b1"
      using True by (simp_all add: saturating_sub_def word_less_nat_alt word_le_nat_alt unat_sub_if')
    have "flash_rent rt ?k (d1a_payer a) (invoke rt (DammV1InitializePool (d1a_pool a)
        (d1_key (d1a_damm_config a)) (d1a_base_vault a) (d1a_quote_vault a) (d1a_virtual_pool_lp a) n k)) b = Inr b2"
      unfolding flash_rent_def Let_def call and_then_simps n(1) using n(2) b2(1) by simp
    then show ?thesis using b1(2) b2(2-)
      by (simp add: damm_v1_create_pool_def cpi_with_account_lamport_and_owner_checking_def Let_def require_def
          lam account_kept_def)
  qed
qed

lemma leftover_burnt:
  assumes "created rt' cfg" "migration_option_of (cfg_migration_option cfg) = Some MeteoraDamm"
    and "damm_v1_willing rt snapshot a b" "n \<le> rt_token_amount rt (d1a_base_vault a) r"
  shows "\<exists>r'. burn_leftover rt (d1a_token_program a) (d1a_token_a_mint a) (d1a_base_vault a) cfg n r = Inr r'"
proof -
  let ?left = "rt_token_amount rt (d1a_base_vault a) r - n"
  obtain m where m: "get_max_burnable_amount_post_migration cfg = Inr m"
    using created_compounding(2) [OF assms(1,2)] by blast
  have "safe_sub (rt_token_amount rt (d1a_base_vault a) r) n = Inr ?left"
    using assms(4) by (simp add: unat_sub_le word_le_nat_alt)
  then have "burn_leftover rt (d1a_token_program a) (d1a_token_a_mint a) (d1a_base_vault a) cfg n r
      = (if min m ?left > 0 then invoke rt (Burn (d1a_token_program a) (d1a_token_a_mint a) (d1a_base_vault a)
          (rt_pool_authority rt) (min m ?left)) r else Inr r)"
    unfolding burn_leftover_def get_burnable_amount_post_migration_def m by (simp only: and_then_simps)
  moreover have "?left \<le> rt_token_amount rt (d1a_base_vault a) r"
    using assms(4) by (simp add: unat_sub_le word_le_nat_alt)
  then have "min m ?left \<le> rt_token_amount rt (d1a_base_vault a) r" by (rule min.coboundedI2)
  then obtain r' where "rt_invoke rt (Burn (d1a_token_program a) (d1a_token_a_mint a) (d1a_base_vault a)
          (rt_pool_authority rt) (min m ?left)) r = Some r'"
    using assms(3) unfolding damm_v1_willing_def Let_def by blast
  then have "invoke rt (Burn (d1a_token_program a) (d1a_token_a_mint a) (d1a_base_vault a)
          (rt_pool_authority rt) (min m ?left)) r = Inr r'" by simp
  ultimately show ?thesis by (cases "min m ?left > 0") simp_all
qed

lemma lp_tokens_distributed:
  assumes "created rt cfg"
  shows "\<exists>d d1. get_liquidity_distribution cfg (ucast (lp :: u64)) = Inr d \<and> to_liquidity_distribution_damm_v1 d = Inr d1"
proof -
  obtain d where d: "get_liquidity_distribution cfg (ucast lp) = Inr d"
    "unat (li_unlocked_liquidity (ld_partner d)) + unat (li_permanent_locked_liquidity (ld_partner d))
      + unat (li_vested_liquidity (ld_partner d)) + unat (li_unlocked_liquidity (ld_creator d))
      + unat (li_permanent_locked_liquidity (ld_creator d)) + unat (li_vested_liquidity (ld_creator d)) = unat lp"
    using liquidity_distribution_total [of cfg "ucast lp"] created_facts [OF assms] by auto
  have cast: "\<exists>y :: u64. safe_cast x = Inr y" if "unat x \<le> unat lp" for x :: u128
  proof -
    have "unat x < 2 ^ LENGTH(64)" using that unat_lt_2p [of lp] by linarith
    then obtain y :: u64 where "unat y = unat x" by (rule word_witness)
    then show ?thesis by (intro exI [of _ y]) simp
  qed
  obtain w x y z :: u64 where c: "safe_cast (li_permanent_locked_liquidity (ld_partner d)) = Inr w"
    "safe_cast (li_unlocked_liquidity (ld_partner d)) = Inr x"
    "safe_cast (li_permanent_locked_liquidity (ld_creator d)) = Inr y"
    "safe_cast (li_unlocked_liquidity (ld_creator d)) = Inr z"
    using d(2) cast by (metis (no_types, lifting) add.commute add_leD1 le_add1 trans_le_add2)
  then have "to_liquidity_distribution_damm_v1 d = Inr \<lparr>l1_partner_locked_liquidity = w, l1_partner_liquidity = x,
      l1_creator_locked_liquidity = y, l1_creator_liquidity = z\<rparr>"
    unfolding to_liquidity_distribution_damm_v1_def by (simp only: and_then_simps)
  then show ?thesis using d(1) by blast
qed

lemma migration_fee_fixed:
  assumes "lives rt cfg (s, b, t)" "created rt' cfg"
  shows "unat (pool_protocol_liquidity_migration_fee_bps s) < 10000"
proof -
  obtain s0 b0 t0 where l: "launched rt cfg s0 b0" "vaults_lawful rt s0" "(pool_step rt cfg)\<^sup>*\<^sup>* (s0, b0, t0) (s, b, t)"
    using assms(1) unfolding lives_def by blast
  then have "lives rt cfg (s0, b0, t0)" unfolding lives_def by blast
  then have "marks s0 s" using run_marks [OF l(3) _ assms(2)] by simp
  moreover obtain minted where "new_pool cfg minted s0" using launched_state [OF l(1)] by blast
  ultimately show ?thesis
    by (auto simp: marks_def new_pool_def pool_initialize_def PROTOCOL_LIQUIDITY_MIGRATION_FEE_BPS_def)
qed

lemma base_fee_total:
  assumes "base_fees s \<le> unat (v :: u64)"
  shows "\<exists>f. get_protocol_and_trading_base_fee s = Inr f \<and> unat f \<le> base_fees s"
proof -
  let ?ab = "unat (pool_partner_base_fee s) + unat (pool_protocol_base_fee s)"
  have le: "?ab + unat (pool_creator_base_fee s) \<le> base_fees s" by (simp add: base_fees_def)
  have "?ab < 2 ^ LENGTH(64)" "?ab + unat (pool_creator_base_fee s) < 2 ^ LENGTH(64)"
    using le assms unat_lt_2p [of v] by linarith+
  then obtain x f :: u64 where "unat x = ?ab" "unat f = ?ab + unat (pool_creator_base_fee s)"
    using word_witness by metis
  then have "safe_add (pool_partner_base_fee s) (pool_protocol_base_fee s) = Inr x"
    "safe_add x (pool_creator_base_fee s) = Inr f" "unat f \<le> base_fees s" using le by simp_all
  then show ?thesis unfolding get_protocol_and_trading_base_fee_def by (simp only: and_then_simps) blast
qed

text \<open>A pool that has passed the vesting step is admitted, and its vaults hold what the migration needs.\<close>

lemma migration_ready:
  assumes "lives rt cfg (s, b, t)" "created rt' cfg"
    and "migration_option_of (cfg_migration_option cfg) = Some MeteoraDamm"
    and "get_migration_progress s = Inr LockedVesting"
  shows "admit_migration cfg MeteoraDamm t s = Inr s
    \<and> (\<exists>f. get_protocol_and_trading_base_fee s = Inr f
        \<and> unat (cfg_migration_base_threshold cfg) + unat f \<le> held rt (pool_base_vault s) b)
    \<and> quote_kept cfg s \<le> held rt (pool_quote_vault s) b"
proof -
  obtain k where acc: "accounted rt cfg k (s, b, t)" using lives_accounted [OF assms(1,2)] by blast
  then have "pool_migration_progress s = 2"
    using assms(4) by (auto simp: get_migration_progress_def accounted_def eval)
  then have books: "unat (cfg_migration_base_threshold cfg) + base_fees s \<le> held rt (pool_base_vault s) b"
    "quote_kept cfg s + quote_fees s \<le> held rt (pool_quote_vault s) b"
    "is_sale_complete s (cfg_migration_quote_threshold cfg) t"
    using acc by (simp_all add: accounted_def)
  then have "base_fees s \<le> unat (rt_token_amount rt (pool_base_vault s) b)" by linarith
  then obtain f where "get_protocol_and_trading_base_fee s = Inr f" "unat f \<le> base_fees s"
    using base_fee_total by blast
  moreover have "admit_migration cfg MeteoraDamm t s = Inr s"
    using assms(3,4) books(3)
    by (simp add: admit_migration_def Let_def require_def is_sale_complete_def close_at_deadline_def)
  ultimately show ?thesis using books(1,2) by fastforce
qed

section \<open>The migration\<close>

text \<open>
  C8: a sale that has reached its price can migrate.  Take any pool that has been
  launched for a created configuration and has passed the vesting step, at the
  migration price or above it.  Then the migration to DAMM v1 succeeds as soon as the
  other programs accept their calls: no check, no arithmetic and no balance of this
  program stands in its way, and the pool reaches its last stage.
\<close>

theorem reached_sale_migrates:
  assumes "lives rt cfg (s, b, t)" "created rt' cfg"
    and "migration_option_of (cfg_migration_option cfg) = Some MeteoraDamm"
    and "get_migration_progress s = Inr LockedVesting" "cfg_migration_sqrt_price cfg \<le> pool_sqrt_price s"
    and "0 < pool_quote_reserve s" "clk_unix_timestamp clk = t" "damm_v1_accounts_ok rt a s m"
    and "damm_v1_validate_config_key (d1a_damm_config a) (d1a_pool_authority a) (cfg_migration_fee_option cfg) = Inr ()"
    and "damm_v1_willing rt snapshot a b"
  shows "\<exists>s' m' b'. handle_migrate_meteora_damm rt snapshot clk a cfg s m b = Inr (s', m', b')
    \<and> get_migration_progress s' = Inr CreatedPool"
proof -
  let ?v = "rt_token_amount rt (d1a_base_vault a) b"
  have vaults: "pool_base_vault s = d1a_base_vault a" "pool_quote_vault s = d1a_quote_vault a"
    using assms(8) by (simp_all add: damm_v1_accounts_ok_def)
  obtain f where f: "admit_migration cfg MeteoraDamm (clk_unix_timestamp clk) s = Inr s"
    "get_protocol_and_trading_base_fee s = Inr f" "unat (cfg_migration_base_threshold cfg) + unat f \<le> unat ?v"
    "quote_kept cfg s \<le> unat (rt_token_amount rt (d1a_quote_vault a) b)"
    using migration_ready [OF assms(1-4)] assms(7) unfolding vaults by blast
  obtain g where g: "get_migration_amounts (CompoundingLiquidity (pool_sqrt_price s)) cfg s ?v f = Inr g"
    "unat (mga_base_amount g) + unat (mga_protocol_base_fee g) \<le> unat (cfg_migration_base_threshold cfg)"
    "mga_quote_amount g \<le> effective_migration_quote_threshold s (get_migration_quote_amount_cap cfg)"
    "0 < mga_base_amount g" "0 < mga_quote_amount g"
    using migration_amounts_exist [OF assms(2,3,5,6) migration_fee_fixed [OF assms(1,2)] f(3)] by blast
  have base: "mga_base_amount g \<le> ?v" using g(2) f(3) by (simp add: word_le_nat_alt)
  have quote: "mga_quote_amount g \<le> rt_token_amount rt (d1a_quote_vault a) b"
    using g(3) f(4) unfolding effective_migration_quote_threshold_def quote_kept_def word_le_nat_alt unat_min
    by (simp split: if_splits)
  obtain b2 where b2: "damm_v1_create_pool rt snapshot a (mga_base_amount g) (mga_quote_amount g) b = Inr b2"
    "rt_token_amount rt (d1a_base_vault a) b2 = ?v - mga_base_amount g"
    using damm_v1_pool_created [OF assms(10) g(4) base g(5) quote] by blast
  have kept: "unat f + unat (mga_protocol_base_fee g) \<le> unat (rt_token_amount rt (d1a_base_vault a) b2)"
    using g(2) f(3) base unfolding b2(2) by (simp add: unat_sub)
  then have "unat f + unat (mga_protocol_base_fee g) < 2 ^ LENGTH(64)"
    using unat_lt_2p [of "rt_token_amount rt (d1a_base_vault a) b2"] by linarith
  then obtain n :: u64 where n: "unat n = unat f + unat (mga_protocol_base_fee g)" by (rule word_witness)
  then have "n \<le> rt_token_amount rt (d1a_base_vault a) b2" using kept by (simp add: word_le_nat_alt)
  then obtain b3 where b3: "burn_leftover rt (d1a_token_program a) (d1a_token_a_mint a) (d1a_base_vault a) cfg n b2 = Inr b3"
    using leftover_burnt [OF assms(2,3,10)] by blast
  obtain d d1 where d: "get_liquidity_distribution cfg (ucast (rt_token_amount rt (d1a_virtual_pool_lp a) b3)) = Inr d"
    "to_liquidity_distribution_damm_v1 d = Inr d1"
    using lp_tokens_distributed [OF assms(2)] by blast
  let ?s2 = "update_after_create_pool (save_protocol_liquidity_migration_fee s (mga_protocol_base_fee g) (mga_protocol_quote_fee g))"
  have f2: "get_protocol_and_trading_base_fee ?s2 = Inr f" using f(2) by simp
  have add: "safe_add f (mga_protocol_base_fee g) = Inr n" using n by simp
  have "handle_migrate_meteora_damm rt snapshot clk a cfg s m b
      = Inr (set_migration_progress ?s2 (migration_progress_code CreatedPool), set_liquidity_token_minted m (d1a_lp_mint a) d1, b3)"
    unfolding handle_migrate_meteora_damm_def Let_def has_one_def f(1,2) assms(9) and_then_simps g(1) b2(1) f2 add
      b3 d using assms(8) by simp
  moreover have "get_migration_progress (set_migration_progress ?s2 (migration_progress_code CreatedPool)) = Inr CreatedPool"
    by (simp add: get_migration_progress_def set_migration_progress_def eval)
  ultimately show ?thesis by blast
qed

section \<open>A sample\<close>

text \<open>The sample configuration, with DAMM v1 as the destination.\<close>

definition damm_parameters :: config_parameters where
  "damm_parameters = sample_config_parameters\<lparr>cp_migration_option := 0\<rparr>"

definition damm_sample :: pool_config where
  "damm_sample = created_sample\<lparr>cfg_migration_option := 0\<rparr>"

lemma damm_amounts:
  "compounding_included_amounts_1 55340232221128654848 2000000 0 = Inr (222223, 2000000)"
  "migration_option_of 0 = Some MeteoraDamm"
  by (simp_all add: eval and_then_def ok_or_def Let_def)

lemma damm_stored:
  "pool_config_init zero_pool_config 1 2 3 damm_parameters 0 666667 222223
     55340232221128654848 0 0 0 = Inr damm_sample"
  by (simp add: pool_config_init_def store_curve_eq zero_pool_config_def sample_config_parameters_def
      created_sample_def sample_defs MAX_CURVE_POINT_CONFIG_def to_pool_fees_config_def
      to_base_fee_config_def default_dynamic_fee_config_def to_liquidity_vesting_info_def
      vesting_info_is_zero_def default_liquidity_vesting_info_params_def
      zero_liquidity_vesting_info_def default_locked_vesting_def damm_parameters_def damm_sample_def)

lemma damm_locked: "get_total_liquidity_locked_bps_at_n_seconds damm_sample SECONDS_PER_DAY = Inr 3000"
  by (simp add: eval and_then_def Let_def created_sample_def sample_defs damm_sample_def)

lemma damm_process:
  "process_create_config ledger_runtime zero_pool_config damm_parameters sample_quote_mint 2 3 = Inr damm_sample"
proof -
  have p: "cp_migration_quote_threshold damm_parameters = 2000000"
    "cp_sqrt_start_price damm_parameters = 18446744073709551616"
    "cp_curve damm_parameters = sample_curve" "cp_migration_option damm_parameters = 0"
    "mpf_collect_fee_mode (cp_migrated_pool_fee damm_parameters) = 0"
    "cp_migration_quote_amount_cap damm_parameters = 0"
    "mfp_fee_percentage (cp_migration_fee damm_parameters) = 0"
    "cp_token_supply damm_parameters = None" "mint_key sample_quote_mint = 1"
    "get_token_program_flags ledger_runtime sample_quote_mint = TokenProgram"
    by (simp_all add: damm_parameters_def sample_config_parameters_def sample_quote_mint_def
        get_token_program_flags_def ledger_runtime_def)
  show ?thesis
    by (simp add: process_create_config_def p sample_amounts damm_amounts damm_stored damm_locked
        get_migration_handler_def get_effective_migration_quote_amount_cap_def token_supply_of_def
        MIN_LOCKED_LIQUIDITY_BPS_def Let_def del: try_cast_Some)
qed

lemma damm_validated:
  "config_parameters_validate ledger_runtime (\<lambda>_. None) 0 damm_parameters sample_quote_mint 10 False = Inr ()"
  by (simp add: eval and_then_def ok_or_def require_def Let_def sample_config_parameters_def
      sample_quote_mint_def ledger_runtime_def sample_curve_def has_mint_authority_def damm_parameters_def)

lemma damm_is_created: "created ledger_runtime damm_sample"
proof -
  have "handle_create_config ledger_runtime (\<lambda>_. None) 0 sample_clock sample_quote_mint 2 3 damm_parameters
      = Inr damm_sample"
    using damm_validated damm_process by (simp add: handle_create_config_def sample_clock_def)
  then show ?thesis by (rule created.plain)
qed

text \<open>
  Launch and last purchase read nothing of the configuration that differs from the
  sample's.
\<close>

lemma damm_reads:
  "check_launch damm_sample = Inr ()"
  "get_initial_base_supply damm_sample = Inr 972223"
  "get_token_authority damm_sample = Inr Immutable"
  "token_type_of (cfg_token_type damm_sample) = Some SplToken"
  "get_current_point sample_clock (cfg_activation_type damm_sample) = Inr 10"
  "cfg_pool_creation_fee damm_sample = 0" "cfg_quote_mint damm_sample = 1"
  "cfg_sqrt_start_price damm_sample = 18446744073709551616"
proof -
  show "check_launch damm_sample = Inr ()"
    by (simp add: eval and_then_def ok_or_def require_def Let_def damm_sample_def created_sample_def sample_defs
        zero_liquidity_vesting_info_def)
  have "get_initial_base_supply damm_sample = get_initial_base_supply created_sample"
    by (simp add: get_initial_base_supply_def get_total_token_supply_def used_curve_points_def
        is_fixed_token_supply_def damm_sample_def)
  then show "get_initial_base_supply damm_sample = Inr 972223" using sample_supply by simp
qed (simp_all add: eval damm_sample_def created_sample_def sample_config_def sample_clock_def)

lemma damm_is_launched: "launched ledger_runtime damm_sample launched_pool (sample_balances(11 := 1972223))"
proof (rule launched.spl)
  let ?snap = "\<lambda>_ _. \<lparr>snap_lamports = 0, snap_owner = 0, snap_data_len = 0\<rparr>"
  have accounts: "launch_accounts_ok ledger_runtime AccountPoolConfig sample_launch_accounts damm_sample"
    by (simp add: launch_accounts_ok_def sample_launch_accounts_def runtime_sample_defs damm_reads)
  have metadata: "cpi_with_account_lamport_and_owner_checking
      (process_create_token_metadata ledger_runtime sample_launch_accounts sample_parameters Immutable k)
      (?snap q) sample_balances = Inr sample_balances" for k q
    by (simp add: cpi_with_account_lamport_and_owner_checking_def process_create_token_metadata_def Let_def
        require_def invoke_def ledger_runtime_def ledger_invoke_def)
  have calls: "invoke ledger_runtime (MintTo p m 11 k 972223) sample_balances
      = Inr (sample_balances(11 := 1972223))"
    "invoke ledger_runtime (SetAuthority p m k t x) r = Inr r" for p m k t x r
    by (simp_all add: ledger_runtime_def ledger_invoke_def sample_balances_def)
  have vault: "ipa_base_vault sample_launch_accounts = 11" "\<not> has_mint_authority Immutable"
    by (simp_all add: sample_launch_accounts_def eval)
  show "handle_initialize_virtual_pool_with_spl_token ledger_runtime ?snap sample_clock sample_launch_accounts
      damm_sample sample_parameters sample_balances = Inr (launched_pool, sample_balances(11 := 1972223))"
    using accounts by (simp add: handle_initialize_virtual_pool_with_spl_token_def damm_reads
        metadata calls charge_pool_creation_fee_def has_one_def require_def
        initialize_pool_parameters_validate_def vault)
      (simp add: sample_launch_accounts_def sample_parameters_def launched_pool_def
        sample_config_account_def ledger_runtime_def)
qed

lemma damm_buy_execution:
  "execute_swap launched_pool damm_sample PartialFill QuoteToBase
     \<lparr>sc_params = sample_params 2100000 1, sc_is_virtual = False, sc_has_referral = False,
      sc_current_point = 10, sc_current_timestamp = 10, sc_eligible = False\<rparr>
   = Inr (sold_pool, \<lparr>fees_on_input = True, fees_on_base_token = False, has_referral = False\<rparr>,
       \<lparr>psr_swap_result = sample_swap_result,
        psr_swap_in_parameters = \<lparr>sp_amount_in = 2020203, sp_minimum_amount_out = 666666\<rparr>\<rparr>)"
  by (simp add: eval and_then_def ok_or_def Let_def launched_sample_defs sold_pool_def
      sample_swap_result_def damm_sample_def)

lemma damm_buy_guards:
  "check_single_swap rt damm_sample s k p d v = Inr ()"
  "check_first_swap_with_min_fee rt damm_sample s k b v = Inr False"
  "\<not> is_sale_complete launched_pool (cfg_migration_quote_threshold damm_sample) 10"
  by (simp_all add: eval and_then_def ok_or_def Let_def launched_sample_defs damm_sample_def
      is_sale_complete_def is_curve_complete_def is_deadline_reached_def total_quote_reserve_def)

lemma damm_buy_completion:
  "complete_curve ledger_runtime sample_accounts sample_loader damm_sample 10 sold_pool closed_balances
   = Inr (closed_pool, Some \<lparr>cc_base_reserve = 305557, cc_quote_reserve = 2000000\<rparr>, closed_balances)"
  by (simp add: eval and_then_def require_def Let_def launched_sample_defs sold_pool_def closed_balances_def
      closed_pool_def is_curve_complete_def total_quote_reserve_def damm_sample_def
      set_migration_progress_def get_protocol_and_trading_base_fee_def saturating_add_def
      sample_config_def)

lemma damm_buy:
  "\<exists>ev. process_swap ledger_runtime sample_clock sample_transaction sample_loader sample_accounts
     damm_sample (sample_params 2100000 1) False [] launched_pool (sample_balances(11 := 1972223))
   = Inr (closed_pool, ev, closed_balances)"
  unfolding process_swap_def last_buy_check and_then_simps Let_def damm_buy_guards damm_reads
  using damm_buy_guards(3)
  by (simp add: damm_buy_execution last_buy_transfers damm_buy_completion)

lemma damm_life: "lives ledger_runtime damm_sample (closed_pool, closed_balances, 10)"
proof -
  have "pool_base_vault launched_pool = 11" "pool_quote_vault launched_pool = 12"
    by (simp_all add: launched_pool_def pool_initialize_def)
  moreover have "locker_law ledger_runtime v" for v
    by (simp add: locker_law_def ledger_runtime_def ledger_invoke_def)
  ultimately have law: "vaults_lawful ledger_runtime launched_pool"
    using ledger_law by (simp add: vaults_lawful_def lawful_def)
  have payer: "clk_unix_timestamp sample_clock = 10" "swa_payer sample_accounts \<noteq> rt_pool_authority ledger_runtime"
    by (simp_all add: sample_clock_def sample_accounts_def ledger_runtime_def)
  have "pool_step ledger_runtime damm_sample (launched_pool, sample_balances(11 := 1972223), 10)
      (closed_pool, closed_balances, 10)"
    using damm_buy pool_step.trade [OF _ payer] by blast
  then show ?thesis using damm_is_launched law unfolding lives_def by blast
qed

definition damm_accounts :: damm_v1_accounts where
  "damm_accounts = \<lparr>d1a_virtual_pool = sample_pool_account,
     d1a_migration_metadata = \<lparr>ai_key = 60, ai_owner = program_id, ai_data_len = 0, ai_discriminator = 12\<rparr>,
     d1a_config = sample_config_account, d1a_pool_authority = 104, d1a_pool = 61,
     d1a_damm_config = \<lparr>d1_key = 62, d1_trade_fee_numerator = 25, d1_trade_fee_denominator = 10000,
       d1_pool_creator_authority = 104, d1_activation_duration = 0, d1_partner_fee_numerator = 0,
       d1_vault_config_key = 0\<rparr>,
     d1a_lp_mint = 63, d1a_token_a_mint = 5, d1a_base_vault = 11, d1a_quote_vault = 12,
     d1a_virtual_pool_lp = 64, d1a_payer = 30, d1a_token_program = 101\<rparr>"

definition damm_metadata :: migration_metadata where
  "damm_metadata = \<lparr>mm_virtual_pool = 10, mm_partner = 2, mm_lp_mint = 0,
     mm_partner_locked_liquidity = 0, mm_partner_liquidity = 0, mm_creator_locked_liquidity = 0,
     mm_creator_liquidity = 0, mm_creator_locked_status = 0, mm_partner_locked_status = 0,
     mm_creator_claim_status = 0, mm_partner_claim_status = 0\<rparr>"

definition idle_snapshot :: "pubkey \<Rightarrow> (pubkey \<Rightarrow> u64) \<Rightarrow> account_snapshot" where
  "idle_snapshot k r = \<lparr>snap_lamports = 1000000, snap_owner = 0, snap_data_len = 0\<rparr>"

lemma damm_willing: "damm_v1_willing ledger_runtime idle_snapshot damm_accounts b"
  by (simp add: damm_v1_willing_def Let_def account_kept_def idle_snapshot_def ledger_runtime_def
      ledger_invoke_def damm_accounts_def)

theorem reached_sale_migrates_witness:
  "\<exists>s' m' b'. handle_migrate_meteora_damm ledger_runtime idle_snapshot sample_clock damm_accounts damm_sample
      closed_pool damm_metadata closed_balances = Inr (s', m', b') \<and> get_migration_progress s' = Inr CreatedPool"
proof (rule reached_sale_migrates [OF damm_life damm_is_created])
  show "damm_v1_accounts_ok ledger_runtime damm_accounts closed_pool damm_metadata"
    by (simp add: damm_v1_accounts_ok_def damm_accounts_def damm_metadata_def sample_pool_account_def
        sample_config_account_def ledger_runtime_def closed_pool_def sold_pool_def launched_pool_def pool_initialize_def)
  show "damm_v1_validate_config_key (d1a_damm_config damm_accounts) (d1a_pool_authority damm_accounts)
      (cfg_migration_fee_option damm_sample) = Inr ()"
    by (simp add: eval and_then_def ok_or_def require_def damm_v1_validate_config_key_def validate_base_fee_def
        to_bps_def damm_accounts_def damm_sample_def created_sample_def sample_config_def)
  show "damm_v1_willing ledger_runtime idle_snapshot damm_accounts closed_balances" by (rule damm_willing)
qed (simp_all add: damm_amounts damm_sample_def created_sample_def sample_config_def sample_clock_def eval
    get_migration_progress_def closed_pool_def sold_pool_def)

end
