(* ===== verification/Sdk_Quotes.thy ===== *)
theory Sdk_Quotes
  imports Swap_Guards
begin

text \<open>
  The quotes of the client library (\<open>dynamic-bonding-curve-sdk/src/quote_*.rs\<close>), and
  their agreement with the program: what a quote promises is what the swap
  instruction then does.
\<close>

section \<open>Quotes\<close>

text \<open>The refusals of the library itself, and errors of the program's functions.\<close>

datatype quote_error = VirtualPoolIsCompleted | QuoteAmountIsZero | QuoteInvalidActivationType
  | FromProgram prog_error

type_synonym 'a quoted = "quote_error + 'a"

definition from_program :: "'a result \<Rightarrow> 'a quoted" where
  "from_program r = (case r of Inl e \<Rightarrow> Inl (FromProgram e) | Inr x \<Rightarrow> Inr x)"

definition quote_current_point :: "activation_type \<Rightarrow> u64 \<Rightarrow> u64 \<Rightarrow> u64" where
  "quote_current_point activation_type current_timestamp current_slot =
     (case activation_type of Slot \<Rightarrow> current_slot | Timestamp \<Rightarrow> current_timestamp)"

definition quote_exact_in ::
  "pool_state \<Rightarrow> pool_config \<Rightarrow> bool \<Rightarrow> u64 \<Rightarrow> u64 \<Rightarrow> u64 \<Rightarrow> bool \<Rightarrow> bool \<Rightarrow> swap_result2 quoted" where
  "quote_exact_in pool config swap_base_for_quote current_timestamp current_slot in_amount has_ref eligible =
     (if is_sale_complete pool (cfg_migration_quote_threshold config) current_timestamp
      then Inl VirtualPoolIsCompleted
      else if \<not> in_amount > 0 then Inl QuoteAmountIsZero
      else case activation_type_of (cfg_activation_type config) of
        None \<Rightarrow> Inl QuoteInvalidActivationType
      | Some activation_type \<Rightarrow>
          let current_point = quote_current_point activation_type current_timestamp current_slot;
              trade_direction = (if swap_base_for_quote then BaseToQuote else QuoteToBase) in
          from_program
            (and_then (get_fee_mode (cfg_collect_fee_mode config) trade_direction has_ref) (\<lambda>fee_mode.
             get_swap_result_from_exact_input pool config in_amount fee_mode trade_direction current_point
               eligible)))"

definition quote_partial_fill ::
  "pool_state \<Rightarrow> pool_config \<Rightarrow> bool \<Rightarrow> u64 \<Rightarrow> u64 \<Rightarrow> u64 \<Rightarrow> bool \<Rightarrow> bool \<Rightarrow> swap_result2 quoted" where
  "quote_partial_fill pool config swap_base_for_quote current_timestamp current_slot in_amount has_ref eligible =
     (if is_sale_complete pool (cfg_migration_quote_threshold config) current_timestamp
      then Inl VirtualPoolIsCompleted
      else if \<not> in_amount > 0 then Inl QuoteAmountIsZero
      else case activation_type_of (cfg_activation_type config) of
        None \<Rightarrow> Inl QuoteInvalidActivationType
      | Some activation_type \<Rightarrow>
          let current_point = quote_current_point activation_type current_timestamp current_slot;
              trade_direction = (if swap_base_for_quote then BaseToQuote else QuoteToBase) in
          from_program
            (and_then (get_fee_mode (cfg_collect_fee_mode config) trade_direction has_ref) (\<lambda>fee_mode.
             get_swap_result_from_partial_input pool config in_amount fee_mode trade_direction current_point
               eligible)))"

definition quote_exact_out ::
  "pool_state \<Rightarrow> pool_config \<Rightarrow> bool \<Rightarrow> u64 \<Rightarrow> u64 \<Rightarrow> u64 \<Rightarrow> bool \<Rightarrow> swap_result2 quoted" where
  "quote_exact_out pool config swap_base_for_quote current_timestamp current_slot out_amount eligible =
     (if is_sale_complete pool (cfg_migration_quote_threshold config) current_timestamp
      then Inl VirtualPoolIsCompleted
      else if \<not> out_amount > 0 then Inl QuoteAmountIsZero
      else case activation_type_of (cfg_activation_type config) of
        None \<Rightarrow> Inl QuoteInvalidActivationType
      | Some activation_type \<Rightarrow>
          let current_point = quote_current_point activation_type current_timestamp current_slot;
              trade_direction = (if swap_base_for_quote then BaseToQuote else QuoteToBase) in
          from_program
            (and_then (get_fee_mode (cfg_collect_fee_mode config) trade_direction False) (\<lambda>fee_mode.
             get_swap_result_from_exact_output pool config out_amount fee_mode trade_direction current_point
               eligible)))"

lemma from_program_Ok [simp]: "from_program r = Inr x \<longleftrightarrow> r = Inr x"
  by (simp add: from_program_def split: sum.splits)

section \<open>The tracker before a swap\<close>

text \<open>
  The instruction updates the references of the volatility tracker first, the quote
  does not; the fee depends on the accumulator only.
\<close>

lemma total_fee_accumulator:
  assumes "vt_volatility_accumulator vt' = vt_volatility_accumulator vt"
  shows "get_total_fee_numerator_from_included_fee_amount f vt' = get_total_fee_numerator_from_included_fee_amount f vt"
    and "get_total_fee_numerator_from_excluded_fee_amount f vt' = get_total_fee_numerator_from_excluded_fee_amount f vt"
  using assms
  by (auto simp: fun_eq_iff get_total_fee_numerator_from_included_fee_amount_def
      get_total_fee_numerator_from_excluded_fee_amount_def get_total_fee_numerator_def get_variable_fee_numerator_def)

lemma fee_numerator_tracker:
  assumes "vt_volatility_accumulator vt = vt_volatility_accumulator (pool_volatility_tracker s)"
  shows "fee_numerator_included (s\<lparr>pool_volatility_tracker := vt\<rparr>) = fee_numerator_included s"
    and "fee_numerator_excluded (s\<lparr>pool_volatility_tracker := vt\<rparr>) = fee_numerator_excluded s"
    and "include_fee (s\<lparr>pool_volatility_tracker := vt\<rparr>) = include_fee s"
  using total_fee_accumulator [OF assms]
  by (auto simp: fun_eq_iff fee_numerator_included_def fee_numerator_excluded_def include_fee_def)

lemma swap_result_tracker:
  assumes "vt_volatility_accumulator vt = vt_volatility_accumulator (pool_volatility_tracker s)"
  shows "get_swap_result_from_exact_input (s\<lparr>pool_volatility_tracker := vt\<rparr>) cfg n m dir pt e
      = get_swap_result_from_exact_input s cfg n m dir pt e"
    and "get_swap_result_from_partial_input (s\<lparr>pool_volatility_tracker := vt\<rparr>) cfg n m dir pt e
      = get_swap_result_from_partial_input s cfg n m dir pt e"
    and "get_swap_result_from_exact_output (s\<lparr>pool_volatility_tracker := vt\<rparr>) cfg n m dir pt e
      = get_swap_result_from_exact_output s cfg n m dir pt e"
proof -
  let ?s = "s\<lparr>pool_volatility_tracker := vt\<rparr>"
  have swap: "swap_from_input ?s = swap_from_input s"
    "calculate_base_to_quote_from_amount_out ?s = calculate_base_to_quote_from_amount_out s"
    "calculate_quote_to_base_from_amount_out ?s = calculate_quote_to_base_from_amount_out s"
    by (auto simp: fun_eq_iff swap_from_input_def calculate_base_to_quote_from_amount_in_def
        calculate_quote_to_base_from_amount_in_def calculate_base_to_quote_from_amount_out_def
        calculate_quote_to_base_from_amount_out_def split: trade_direction.splits list.splits)
  show "get_swap_result_from_exact_input ?s cfg n m dir pt e = get_swap_result_from_exact_input s cfg n m dir pt e"
    unfolding get_swap_result_from_exact_input_def swap fee_numerator_tracker [OF assms] ..
  show "get_swap_result_from_partial_input ?s cfg n m dir pt e = get_swap_result_from_partial_input s cfg n m dir pt e"
    unfolding get_swap_result_from_partial_input_def swap fee_numerator_tracker [OF assms] ..
  show "get_swap_result_from_exact_output ?s cfg n m dir pt e = get_swap_result_from_exact_output s cfg n m dir pt e"
    unfolding get_swap_result_from_exact_output_def swap fee_numerator_tracker [OF assms] ..
qed

lemma update_pre_swap_tracker:
  assumes "update_pre_swap s cfg now = Inr s1"
  shows "\<exists>vt. s1 = s\<lparr>pool_volatility_tracker := vt\<rparr>
    \<and> vt_volatility_accumulator vt = vt_volatility_accumulator (pool_volatility_tracker s)"
proof (cases "is_dynamic_fee_enable (pf_dynamic_fee (cfg_pool_fees cfg))")
  case True
  then obtain vt where vt: "update_references (pool_volatility_tracker s) (pf_dynamic_fee (cfg_pool_fees cfg))
      (pool_sqrt_price s) now = Inr vt" "s1 = s\<lparr>pool_volatility_tracker := vt\<rparr>"
    using assms by (auto simp: update_pre_swap_def)
  then show ?thesis using update_references_accumulator [OF vt(1)] by blast
next
  case False
  then have "s1 = s\<lparr>pool_volatility_tracker := pool_volatility_tracker s\<rparr>"
    using assms by (simp add: update_pre_swap_def)
  then show ?thesis by blast
qed

section \<open>Agreement\<close>

text \<open>The quote of a swap mode.\<close>

definition quote_of :: "swap_mode \<Rightarrow> pool_state \<Rightarrow> pool_config \<Rightarrow> bool \<Rightarrow> u64 \<Rightarrow> u64 \<Rightarrow> u64 \<Rightarrow> bool \<Rightarrow> bool
    \<Rightarrow> swap_result2 quoted" where
  "quote_of m pool config selling now slot n ref eligible =
     (case m of ExactIn \<Rightarrow> quote_exact_in pool config selling now slot n ref eligible
      | PartialFill \<Rightarrow> quote_partial_fill pool config selling now slot n ref eligible
      | ExactOut \<Rightarrow> quote_exact_out pool config selling now slot n eligible)"

lemma execute_swap_quoted:
  assumes "execute_swap s cfg m QuoteToBase c = Inr (s', mode, res)"
    and "\<not> is_sale_complete s (cfg_migration_quote_threshold cfg) now" "0 < sp2_amount_0 (sc_params c)"
    and "get_current_point clk (cfg_activation_type cfg) = Inr (sc_current_point c)"
    and "clk_unix_timestamp clk = now" "m \<noteq> ExactOut \<or> \<not> sc_has_referral c"
  shows "quote_of m s cfg False now (clk_slot clk) (sp2_amount_0 (sc_params c)) (sc_has_referral c) (sc_eligible c)
    = Inr (psr_swap_result res)"
proof -
  obtain s1 where e: "update_pre_swap s cfg (sc_current_timestamp c) = Inr s1"
    "get_fee_mode (cfg_collect_fee_mode cfg) QuoteToBase (sc_has_referral c) = Inr mode"
    "process_swap_by_mode m \<lparr>psp_pool = s1, psp_config = cfg, psp_fee_mode = mode, psp_trade_direction = QuoteToBase,
         psp_current_point = sc_current_point c, psp_amount_0 = sp2_amount_0 (sc_params c),
         psp_amount_1 = sp2_amount_1 (sc_params c),
         psp_eligible_for_first_swap_with_min_fee = sc_eligible c\<rparr> = Inr res"
    using assms(1) by (auto simp: execute_swap_def Let_def)
  obtain vt where vt: "s1 = s\<lparr>pool_volatility_tracker := vt\<rparr>"
    "vt_volatility_accumulator vt = vt_volatility_accumulator (pool_volatility_tracker s)"
    using update_pre_swap_tracker [OF e(1)] by blast
  obtain a where a: "activation_type_of (cfg_activation_type cfg) = Some a"
    "quote_current_point a now (clk_slot clk) = sc_current_point c"
    using assms(4,5) by (auto simp: get_current_point_def quote_current_point_def)
  show ?thesis
  proof (cases m)
    case ExactIn
    then show ?thesis using e(2,3) assms(2,3) a swap_result_tracker(1) [OF vt(2)] unfolding vt(1)
      by (auto simp: quote_of_def quote_exact_in_def process_swap_by_mode_def process_swap_exact_in_def)
  next
    case PartialFill
    then show ?thesis using e(2,3) assms(2,3) a swap_result_tracker(2) [OF vt(2)] unfolding vt(1)
      by (auto simp: quote_of_def quote_partial_fill_def process_swap_by_mode_def process_swap_partial_fill_def)
  next
    case ExactOut
    then show ?thesis using e(2,3) assms(2,3,6) a swap_result_tracker(3) [OF vt(2)] unfolding vt(1)
      by (auto simp: quote_of_def quote_exact_out_def process_swap_by_mode_def process_swap_exact_out_def)
  qed
qed



end
