(* ===== verification/Spec2Isabelle.thy ===== *)
theory Spec2Isabelle
  imports Events Early_Surplus Stranded Migration_Progress Sdk_Quotes
begin

text \<open>
  The dynamic bonding curve program: a verification library.

  The program (\<open>programs/dynamic-bonding-curve/src\<close>, file names below are relative to
  it) sells a new token, the base token, along a price curve against a quote token.
  A partner creates a configuration; anybody launches a pool for it, whose vaults hold
  the tokens; traders buy; once the quote reserve reaches a threshold, or a deadline
  has passed, the pool migrates to a constant product pool of another program, and
  partner, creator and protocol take fees, surplus and leftover.

  \<^bold>\<open>Modelling conventions.\<close>
  Integers are words of the width the source gives them (\<open>u64\<close>, \<open>u128\<close>, \<open>u256\<close>
  and so on, abbreviations of \<open>word\<close> types).  Fallible code returns \<open>'a result\<close>, a sum
  of \<open>prog_error\<close> (a \<open>PoolError\<close>, a violated account constraint, a failed
  call, a panic) and a value; \<open>and_then\<close> is the question mark
  operator, \<open>require\<close> the macro of that name.  Arithmetic is written with the operator
  the source uses: the checked operations of \<open>safe_math.rs\<close> are \<open>None\<close> or an error on
  overflow, native operators panic on overflow because the release profile checks it,
  the raw operators of the big integer crate wrap, and its division by zero panics.
  Accounts are records; an instruction gets the ones it names, with owner, length and
  discriminator where a loader looks at them, and returns the changed state.

  The chain is a parameter.  A value of type \<open>'r runtime\<close> gives the effect of a call to
  another program on a chain state of an arbitrary type \<open>'r\<close>, or its refusal, and the
  balances, rents, addresses and discriminators that the code reads.  What is assumed
  of it is named where it is used: \<open>vault_law\<close> (a transfer moves what it says, and only
  the pool authority debits a vault), \<open>locker_law\<close> (an escrow takes what it locks),
  \<open>transfers_succeed\<close> (a transfer that can be made is made), \<open>damm_v1_willing\<close> (DAMM v1
  creates a pool from amounts that the vaults hold).  \<open>Sample_Runtime\<close> defines a
  runtime of token balances, \<open>ledger_runtime\<close>, that satisfies all of them; the witnesses
  run on it.

  \<^bold>\<open>The theories, in the order of the code.\<close>
  \<^item> \<open>Prelude\<close>, \<open>Errors\<close>, \<open>Constants\<close>: results, word and division lemmas shared by all
    (collections \<open>word_nat\<close>, \<open>guard\<close>, \<open>eval\<close>); \<open>error.rs\<close>; \<open>constants.rs\<close>.
  \<^item> \<open>Safe_Math\<close>, \<open>Utils_Math\<close>, \<open>Sqrt\<close>, \<open>Fee_Math\<close>: \<open>math/\<close>.  Each operation is characterised
    by the exact natural number it computes and by when it succeeds; the square root is
    total and exact; the power ladder is square and multiply.
  \<^item> \<open>Curve\<close>: \<open>curve.rs\<close>.  Amounts between two prices and the price after an amount,
    against the exact real values, with every rounding in favour of the pool.
  \<^item> \<open>Modes\<close>, \<open>Fee_Amount\<close>, \<open>Base_Fee\<close>, \<open>Rate_Limiter\<close>, \<open>Pool_Fees\<close>: the enumerations,
    \<open>base_fee/\<close>, and the fee parts of \<open>state/fee.rs\<close>, \<open>state/config.rs\<close> and
    \<open>params/fee_parameters.rs\<close>.  \<open>Fee_Handlers\<close> states the contract of the trait
    \<open>BaseFeeHandler\<close> as the locale \<open>fee_handler\<close>, with the scheduler, the rate limiter and
    their dispatch as its interpretations.
  \<^item> \<open>Config\<close>, \<open>Distribution\<close>, \<open>Vesting\<close>, \<open>Locked_Vesting\<close>: \<open>state/config.rs\<close>,
    \<open>params/liquidity_distribution.rs\<close> and the vesting part of \<open>utils/damm_v2_utils.rs\<close>.
  \<^item> \<open>Pool_State\<close>, \<open>Pool_Swap\<close>, \<open>Pool_Ops\<close>: \<open>state/virtual_pool.rs\<close>: the pool, the four
    loops over the curve, the swap results and their effect, claims, surplus, flags.
  \<^item> \<open>Curve_Value\<close>, \<open>Swap_Loops\<close>, \<open>Swap_Fair\<close>, \<open>Trading\<close>: the abstract curve, with values as
    real numbers and no rounding, and the proof that every loop trades at or below it.
    \<open>Trading\<close> holds the locale \<open>bonding_curve\<close> - what a curve with values must satisfy so
    that nobody makes money by trading - and its interpretation on the program's curves.
  \<^item> \<open>Accounts\<close>, \<open>Swap_Process\<close>, \<open>Swap_Instruction\<close>, \<open>Swap_Guards\<close>: account loaders, access
    control and transfers (\<open>utils/\<close>, \<open>access_control.rs\<close>), and \<open>instructions/swap\<close>: modes,
    guards, transfers, completion of the curve.
  \<^item> \<open>Damm_V2_Fees\<close>, \<open>Migration_Handler\<close>, \<open>Create_Config\<close>, \<open>Created_Config\<close>: the creation of
    a configuration and what a created one guarantees; \<open>migration_handler/\<close>, with the
    locale \<open>migration\<close> for the trait and its interpretation on the two kinds of pools.
  \<^item> \<open>Initialize_Pool\<close>, \<open>Pool_Launch\<close>, \<open>Vaults\<close>: \<open>instructions/initialize_pool\<close>, the
    state of a launched pool, and its vaults against its books.
  \<^item> \<open>Claims\<close>, \<open>Lp_Tokens\<close>, \<open>Create_Locker\<close>, \<open>Damm_V1_Migration\<close>, \<open>Damm_V2_Migration\<close>:
    the other instructions of creator, partner and operator, and \<open>instructions/migration\<close>.
  \<^item> \<open>Metadata\<close>: descriptive accounts and operator accounts.
  \<^item> \<open>Payouts\<close>, \<open>Lifecycle\<close>, \<open>Pool_Life\<close>, \<open>One_Time\<close>: the step relation \<open>pool_step\<close> with one
    rule for each instruction that changes a pool and one for the passing of time,
    during which others may pay into the vaults; its invariant \<open>accounted\<close>, kept by every
    step; and the consequences for every state of a pool's life (\<open>lives\<close>).
  \<^item> \<open>Migration_Progress\<close>: the migration to DAMM v1 step by step for a sale that has reached
    its price, with what it asks of the other programs (\<open>damm_v1_willing\<close>).
  \<^item> \<open>Instructions\<close>, \<open>Authority\<close>: \<open>lib.rs\<close>, the instructions as one type, their execution,
    its simulation by \<open>pool_step\<close>, and who must have signed what.
  \<^item> \<open>Events\<close>: \<open>event.rs\<close> and the places that emit: instructions executed with their log,
    and the replay of the log.
  \<^item> \<open>Sdk_Quotes\<close>: the quotes of the client library (\<open>dynamic-bonding-curve-sdk\<close>) and their
    agreement with the swaps.
  \<^item> \<open>Sample\<close>, \<open>Sample_Runtime\<close>, \<open>Stranded\<close>, \<open>Early_Surplus\<close>: concrete configurations,
    pools and runtimes.  The last two hold histories the program allows and its
    documentation does not expect: a pool that its deadline leaves unable to trade or
    to migrate, and a surplus withdrawn before the sale is over, which makes the rest of
    it unclaimable.

  \<^bold>\<open>What the lemmas show.\<close>
  Arithmetic is exact and rounds for the pool; fees conserve the amount they are taken
  from, stay within their bounds and never panic for validated parameters; a swap
  never trades above the curve, so sequences of swaps make no money and keep the pool
  solvent; the guards of the swap instruction mean what they say; a created
  configuration pays for its curve and a launched pool holds what it will need; the
  vaults cover the books through the whole life of a pool; the completing swap is
  never refused for want of base tokens; payouts happen once, to the party that
  signed, and the partner can always claim; migration happens once, distributes its
  liquidity without loss and, to DAMM v1, cannot fail in this program once the sale has
  reached its price; the log of events tells the reserves of a pool and what it owes
  to partner and creator.

  \<^bold>\<open>Loops and bounds.\<close>
  Every loop of the program runs over a list (the points of a curve, the instructions
  of a transaction, slices of accounts), so its model is structurally recursive and
  total, but for the square root, which shifts an even bit below \<open>2 ^ 256\<close> down by two
  places each round and so ends after at most 128; there is no fuel.  The ladder of
  \<open>pow\<close> has the 19 rounds the source unrolls.  Reals only occur in statements and proofs.

  \<^bold>\<open>Not modelled.\<close>
  The delivery of an event, a call of the program to itself; the derivation of addresses
  (\<open>const_pda.rs\<close>), whose results are parameters, and the macros for their seeds; the
  creation and closing of accounts by the framework, with their rent; the
  serialisation of accounts beyond discriminator and length; the branches under the
  feature \<open>local\<close> of test builds; the deprecated metadata of DAMM v2, whose
  instruction is empty; the interface crates under \<open>libs\<close>, which are generated; tests,
  scripts and runbooks.  The inspection of a zap and its list of excluded mints belong
  to another crate and are a parameter (\<open>zap_rules\<close>).
\<close>

end
